(* ===== verification/Kube_Prelude.thy ===== *)
theory Kube_Prelude
  imports Main "HOL-Library.State_Monad" "HOL-Library.AList" "HOL-Library.Word"
begin

text \<open>
  The prelude of the development: Go maps, Go error values, the state monad in which the
  stateful code is written, and the generic lemmas that the component theories share.

  \<^item> A Go map with string keys is an association list (\<open>gomap\<close>). Ranging over a map visits
    its entries in list order; Go leaves the order open, so a statement for every list is a
    statement for every iteration order. A nil map and an empty map are both \<open>[]\<close>, and so
    are a nil slice and an empty slice.
  \<^item> A nil-able pointer is an \<open>option\<close>.
  \<^item> An operation \<open>func(...) (T, error)\<close> returns a sum: \<open>Inl\<close> the error, \<open>Inr\<close> the value.
    One that talks to the API server has the type \<open>('w, 'a) op\<close>: a state transformer on a
    world \<open>'w\<close> about which the model assumes nothing.
\<close>

named_theorems run_simps "unfolding of one call of the state monad"
named_theorems getter_simps "the field getters of the policy kinds"
named_theorems go_simps "Go maps and strings"

section \<open>Go maps and slices\<close>

type_synonym 'a gomap = "(string \<times> 'a) list"

definition goget :: "'a gomap \<Rightarrow> string \<Rightarrow> 'a option" where
  "goget m k = map_of m k"

definition goput :: "string \<Rightarrow> 'a \<Rightarrow> 'a gomap \<Rightarrow> 'a gomap" where
  "goput k v m = AList.update k v m"

definition godel :: "string \<Rightarrow> 'a gomap \<Rightarrow> 'a gomap" where
  "godel k m = AList.delete k m"

text \<open>Indexing a \<open>map[string]string\<close> (or \<open>[]byte\<close>) at a missing key gives the zero value.\<close>

definition gostr :: "string gomap \<Rightarrow> string \<Rightarrow> string" where
  "gostr m k = (case goget m k of None \<Rightarrow> '''' | Some v \<Rightarrow> v)"

definition wf_gomap :: "'a gomap \<Rightarrow> bool" where
  "wf_gomap m \<longleftrightarrow> distinct (map fst m)"

lemma goget_goput [simp, go_simps]:
  "goget (goput k v m) k' = (if k' = k then Some v else goget m k')"
  by (simp add: goget_def goput_def update_conv')

lemma goget_godel [simp, go_simps]:
  "goget (godel k m) k' = (if k' = k then None else goget m k')"
  by (simp add: goget_def godel_def delete_conv')

lemma goget_Nil [simp, go_simps]: "goget [] k = None"
  by (simp add: goget_def)

lemma goget_Cons [simp, go_simps]:
  "goget ((k, v) # m) k' = (if k' = k then Some v else goget m k')"
  by (simp add: goget_def)

lemma wf_gomap_goput [simp, intro]: "wf_gomap m \<Longrightarrow> wf_gomap (goput k v m)"
  by (simp add: wf_gomap_def goput_def distinct_update)

lemma wf_gomap_Nil [simp]: "wf_gomap []"
  by (simp add: wf_gomap_def)

lemma find_SomeD: "find P xs = Some x \<Longrightarrow> x \<in> set xs \<and> P x"
  by (induction xs) (auto split: if_splits)

lemma find_append_none: "\<forall>x\<in>set xs. \<not> P x \<Longrightarrow> find P (xs @ ys) = find P ys"
  by (induction xs) auto

text \<open>A map filled by a loop over a list: the last element with a key is the one that stays.\<close>

lemma wf_gomap_foldl_goput:
  "wf_gomap m \<Longrightarrow> wf_gomap (foldl (\<lambda>m x. goput (key x) (val x) m) m xs)"
  by (induction xs arbitrary: m) auto

lemma goget_foldl_goput:
  "goget (foldl (\<lambda>m x. goput (key x) (val x) m) m xs) k =
     (case find (\<lambda>x. key x = k) (rev xs) of Some x \<Rightarrow> Some (val x) | None \<Rightarrow> goget m k)"
proof (induction xs rule: rev_induct)
  case Nil
  then show ?case by simp
next
  case (snoc x xs)
  then show ?case by (cases "key x = k") auto
qed

lemma goget_foldl_distinct:
  assumes "distinct (map key xs)" "x \<in> set xs"
  shows "goget (foldl (\<lambda>m x. goput (key x) (val x) m) m xs) (key x) = Some (val x)"
proof -
  have "find (\<lambda>y. key y = key x) (rev xs) \<noteq> None"
    using assms(2) by (auto simp: find_None_iff)
  then obtain y where y: "find (\<lambda>y. key y = key x) (rev xs) = Some y" by auto
  then have "y \<in> set xs" "key y = key x" using find_SomeD [OF y] by simp_all
  with assms have "y = x" by (auto simp: distinct_map dest: inj_onD)
  with y show ?thesis by (simp add: goget_foldl_goput)
qed

lemma goget_mem: "goget m k = Some v \<Longrightarrow> (k, v) \<in> set m"
  by (simp add: goget_def map_of_SomeD)

lemma mem_goget: "wf_gomap m \<Longrightarrow> (k, v) \<in> set m \<longleftrightarrow> goget m k = Some v"
  by (simp add: goget_def wf_gomap_def)

lemma goget_map_snd: "goget (map (\<lambda>(k, v). (k, f v)) m) k = map_option f (goget m k)"
  by (induction m) auto

lemma set_foldl_goput:
  assumes "distinct (map key xs)"
  shows "set (foldl (\<lambda>m x. goput (key x) (val x) m) [] xs) = (\<lambda>x. (key x, val x)) ` set xs"
proof -
  let ?m = "foldl (\<lambda>m x. goput (key x) (val x) m) [] xs"
  have wf: "wf_gomap ?m" by (rule wf_gomap_foldl_goput) simp
  have "(k, v) \<in> set ?m \<longleftrightarrow> (\<exists>x\<in>set xs. k = key x \<and> v = val x)" for k v
  proof
    assume "(k, v) \<in> set ?m"
    then show "\<exists>x\<in>set xs. k = key x \<and> v = val x"
      using mem_goget [OF wf] goget_foldl_goput [of key val "[]" xs k]
      by (auto split: option.splits dest!: find_SomeD)
  next
    assume "\<exists>x\<in>set xs. k = key x \<and> v = val x"
    then show "(k, v) \<in> set ?m"
      using mem_goget [OF wf] goget_foldl_distinct [OF assms] by auto
  qed
  then show ?thesis by auto
qed

lemma goget_filter_None: "goget m k = None \<Longrightarrow> goget (filter P m) k = None"
  by (induction m) (auto split: if_splits)

section \<open>Errors\<close>

text \<open>
  An error of the API server carries its status reason; \<open>fmt.Errorf\<close> with \<open>%w\<close> wraps an
  error and \<open>errors.Join\<close> collects several. The predicates of
  \<open>k8s.io/apimachinery/pkg/api/errors\<close> look through wrapping. \<open>Aborted\<close> is not an error value:
  the goroutine panicked or the process left with \<open>os.Exit\<close>. It is used where every caller returns
  at once on an error, so that nothing happens after it.
\<close>

datatype api_reason = NotFound | Conflict | OtherReason string

datatype go_error =
    ApiError api_reason
  | NewError string
  | Wrap string go_error
  | Joined "go_error list"
  | Aborted string

fun reason_is :: "api_reason \<Rightarrow> go_error \<Rightarrow> bool" where
  "reason_is r (ApiError r') = (r' = r)"
| "reason_is r (NewError _) = False"
| "reason_is r (Wrap _ e) = reason_is r e"
| "reason_is r (Joined es) = list_ex (reason_is r) es"
| "reason_is r (Aborted _) = False"

abbreviation IsNotFound :: "go_error \<Rightarrow> bool" where
  "IsNotFound \<equiv> reason_is NotFound"

abbreviation IsConflict :: "go_error \<Rightarrow> bool" where
  "IsConflict \<equiv> reason_is Conflict"

text \<open>\<open>client.IgnoreNotFound\<close>: a not-found error becomes nil (\<open>None\<close>).\<close>

definition IgnoreNotFound :: "go_error \<Rightarrow> go_error option" where
  "IgnoreNotFound e = (if IsNotFound e then None else Some e)"

definition errors_Join :: "string \<Rightarrow> go_error \<Rightarrow> go_error" where
  "errors_Join msg e = Joined [NewError msg, e]"

lemma IsNotFound_errors_Join [simp]: "IsNotFound (errors_Join msg e) = IsNotFound e"
  by (simp add: errors_Join_def)

section \<open>Operations on a world\<close>

type_synonym ('w, 'a) op = "('w, go_error + 'a) state"

abbreviation ret :: "'a \<Rightarrow> ('w, 'a) state" where
  "ret \<equiv> State_Monad.return"

definition ok :: "'a \<Rightarrow> ('w, 'a) op" where
  "ok x = ret (Inr x)"

definition fail :: "go_error \<Rightarrow> ('w, 'a) op" where
  "fail e = ret (Inl e)"

text \<open>
  \<open>andThen m h f\<close> is Go's \<open>x, err := m; if err != nil { return h(err) }; ...f(x)\<close>.
\<close>

definition andThen ::
  "('w, 'a) op \<Rightarrow> (go_error \<Rightarrow> ('w, 'b) state) \<Rightarrow> ('a \<Rightarrow> ('w, 'b) state) \<Rightarrow> ('w, 'b) state" where
  "andThen m h f = State_Monad.bind m (\<lambda>r. case r of Inl e \<Rightarrow> h e | Inr x \<Rightarrow> f x)"

text \<open>The common form \<open>if err != nil { return fmt.Errorf("...: %w", err) }\<close>.\<close>

definition orWrap :: "('w, 'a) op \<Rightarrow> string \<Rightarrow> ('a \<Rightarrow> ('w, 'b) op) \<Rightarrow> ('w, 'b) op" where
  "orWrap m msg f = andThen m (\<lambda>e. fail (Wrap msg e)) f"

lemma run_ok [simp, run_simps]: "run_state (ok x) w = (Inr x, w)"
  by (simp add: ok_def)

lemma run_fail [simp, run_simps]: "run_state (fail e) w = (Inl e, w)"
  by (simp add: fail_def)

lemma run_andThen [run_simps]:
  "run_state (andThen m h f) w =
     (case run_state m w of (r, w') \<Rightarrow>
       (case r of Inl e \<Rightarrow> run_state (h e) w' | Inr x \<Rightarrow> run_state (f x) w'))"
  by (auto simp: andThen_def split: prod.splits sum.splits)

lemma run_orWrap [run_simps]:
  "run_state (orWrap m msg f) w =
     (case run_state m w of (r, w') \<Rightarrow>
       (case r of Inl e \<Rightarrow> (Inl (Wrap msg e), w') | Inr x \<Rightarrow> run_state (f x) w'))"
  by (simp add: orWrap_def run_andThen split: prod.split sum.split)

lemma run_andThen_err:
  "run_state m w = (Inl e, w') \<Longrightarrow> run_state (andThen m h f) w = run_state (h e) w'"
  by (simp add: run_andThen)

lemma run_andThen_ok:
  "run_state m w = (Inr x, w') \<Longrightarrow> run_state (andThen m h f) w = run_state (f x) w'"
  by (simp add: run_andThen)

text \<open>A loop \<open>for _, x := range xs { if err := f(x); err != nil { return err } }\<close>.\<close>

fun forEach :: "'a list \<Rightarrow> ('a \<Rightarrow> ('w, unit) op) \<Rightarrow> ('w, unit) op" where
  "forEach [] f = ok ()"
| "forEach (x # xs) f = andThen (f x) fail (\<lambda>_. forEach xs f)"

lemma run_forEach_Cons [run_simps]:
  "run_state (forEach (x # xs) f) w =
     (case run_state (f x) w of (r, w') \<Rightarrow>
       (case r of Inl e \<Rightarrow> (Inl e, w') | Inr _ \<Rightarrow> run_state (forEach xs f) w'))"
  by (simp add: run_andThen split: prod.split sum.split)

text \<open>An invariant of every round is an invariant of the loop, and of the state it ends in.\<close>

lemma forEach_invariant:
  assumes step: "\<And>x w r w'. x \<in> set xs \<Longrightarrow> I w \<Longrightarrow> run_state (f x) w = (r, w') \<Longrightarrow> I w'"
    and run: "run_state (forEach xs f) w = (r, w')" and init: "I w"
  shows "I w'"
  using step run init
proof (induction xs arbitrary: w)
  case Nil
  then show ?case by simp
next
  case (Cons x xs)
  obtain r1 w1 where 1: "run_state (f x) w = (r1, w1)" by fastforce
  with Cons.prems have I1: "I w1" by auto
  show ?case
  proof (cases r1)
    case (Inl e)
    with Cons.prems 1 I1 show ?thesis
      by (simp add: run_forEach_Cons del: forEach.simps)
  next
    case (Inr u)
    with Cons.prems(2) 1 have "run_state (forEach xs f) w1 = (r, w')"
      by (simp add: run_forEach_Cons del: forEach.simps)
    moreover have "\<And>y w r w'. y \<in> set xs \<Longrightarrow> I w \<Longrightarrow> run_state (f y) w = (r, w') \<Longrightarrow> I w'"
      using Cons.prems(1) by (meson list.set_intros(2))
    ultimately show ?thesis using Cons.IH I1 by blast
  qed
qed

section \<open>Lists\<close>

lemma foldl_append_concat:
  "foldl (\<lambda>acc x. acc @ f x) acc xs = acc @ concat (map f xs)"
  by (induction xs arbitrary: acc) auto

lemma concat_map_Nil_iff: "concat (map f xs) = [] \<longleftrightarrow> (\<forall>x\<in>set xs. f x = [])"
  by auto

text \<open>
  \<open>indexed xs\<close> is the sequence of \<open>(i, x)\<close> that Go's \<open>for i, x := range xs\<close> visits.
\<close>

fun indexed_from :: "nat \<Rightarrow> 'a list \<Rightarrow> (nat \<times> 'a) list" where
  "indexed_from n [] = []"
| "indexed_from n (x # xs) = (n, x) # indexed_from (Suc n) xs"

definition indexed :: "'a list \<Rightarrow> (nat \<times> 'a) list" where
  "indexed xs = indexed_from 0 xs"

lemma set_indexed_from:
  "(i, x) \<in> set (indexed_from n xs) \<longleftrightarrow> n \<le> i \<and> i < n + length xs \<and> xs ! (i - n) = x"
proof (induction xs arbitrary: n)
  case Nil
  then show ?case by simp
next
  case (Cons y ys)
  show ?case
  proof (cases "i = n")
    case True
    then show ?thesis using Cons.IH [of "Suc n"] by auto
  next
    case False
    then have "i - n = Suc (i - Suc n)" if "n \<le> i" using that by arith
    with False show ?thesis using Cons.IH [of "Suc n"] by auto
  qed
qed

lemma set_indexed: "(i, x) \<in> set (indexed xs) \<longleftrightarrow> i < length xs \<and> xs ! i = x"
  by (simp add: indexed_def set_indexed_from)

lemma map_snd_indexed_from [simp]: "map snd (indexed_from n xs) = xs"
  by (induction xs arbitrary: n) auto

lemma snd_set_indexed_from: "snd ` set (indexed_from n xs) = set xs"
  by (metis list.set_map map_snd_indexed_from)

lemma snd_set_indexed [simp]: "snd ` set (indexed xs) = set xs"
  by (simp add: indexed_def snd_set_indexed_from)

lemma ball_indexed: "(\<forall>p\<in>set (indexed xs). P (snd p)) \<longleftrightarrow> (\<forall>x\<in>set xs. P x)"
  by (metis (no_types, lifting) imageE imageI snd_set_indexed)

text \<open>A loop that reports an error for every bad element reports none when there is none.\<close>

lemma report_indexed_Nil:
  "concat (map (\<lambda>(i, x). if P x then [g i x] else []) (indexed xs)) = [] \<longleftrightarrow> (\<forall>x\<in>set xs. \<not> P x)"
proof -
  have "concat (map (\<lambda>(i, x). if P x then [g i x] else []) (indexed xs)) = [] \<longleftrightarrow>
      (\<forall>p\<in>set (indexed xs). \<not> P (snd p))"
    by (fastforce split: if_splits)
  also have "\<dots> \<longleftrightarrow> (\<forall>x\<in>set xs. \<not> P x)" by (rule ball_indexed)
  finally show ?thesis .
qed

end
