(* ===== verification/Constants.thy ===== *)
theory Constants
  imports Kube_Prelude
begin

text \<open>
  The constants of \<open>internal/constants/constants.go\<close>. A \<open>time.Duration\<close> is a number of
  seconds (\<open>int\<close>).
\<close>

named_theorems const_defs "the constants of the controller"

definition DefaultPolicyServer :: string where [const_defs]:
  "DefaultPolicyServer = ''default''"

definition PolicyServerEnableMetricsEnvVar :: string where [const_defs]:
  "PolicyServerEnableMetricsEnvVar = ''KUBEWARDEN_ENABLE_METRICS''"

definition PolicyServerDeploymentConfigVersionAnnotation :: string where [const_defs]:
  "PolicyServerDeploymentConfigVersionAnnotation = ''kubewarden/config-version''"

definition PolicyServerDeploymentPodSpecConfigVersionLabel :: string where [const_defs]:
  "PolicyServerDeploymentPodSpecConfigVersionLabel = ''kubewarden/config-version''"

definition PolicyServerPort :: int where [const_defs]:
  "PolicyServerPort = 8443"

definition PolicyServerMetricsPortEnvVar :: string where [const_defs]:
  "PolicyServerMetricsPortEnvVar = ''KUBEWARDEN_POLICY_SERVER_SERVICES_METRICS_PORT''"

definition PolicyServerMetricsPort :: int where [const_defs]:
  "PolicyServerMetricsPort = 8080"

definition PolicyServerReadinessProbePort :: int where [const_defs]:
  "PolicyServerReadinessProbePort = 8081"

definition PolicyServerReadinessProbe :: string where [const_defs]:
  "PolicyServerReadinessProbe = ''/readiness''"

definition PolicyServerLogFmtEnvVar :: string where [const_defs]:
  "PolicyServerLogFmtEnvVar = ''KUBEWARDEN_LOG_FMT''"

definition PolicyServerConfigPoliciesEntry :: string where [const_defs]:
  "PolicyServerConfigPoliciesEntry = ''policies.yml''"

definition PolicyServerDeploymentRestartAnnotation :: string where [const_defs]:
  "PolicyServerDeploymentRestartAnnotation = ''kubectl.kubernetes.io/restartedAt''"

definition PolicyServerConfigSourcesEntry :: string where [const_defs]:
  "PolicyServerConfigSourcesEntry = ''sources.yml''"

definition PolicyServerSourcesConfigContainerPath :: string where [const_defs]:
  "PolicyServerSourcesConfigContainerPath = ''/sources''"

definition PolicyServerVerificationConfigEntry :: string where [const_defs]:
  "PolicyServerVerificationConfigEntry = ''verification-config''"

definition PolicyServerVerificationConfigContainerPath :: string where [const_defs]:
  "PolicyServerVerificationConfigContainerPath = ''/verification''"

definition AppLabelKey :: string where [const_defs]:
  "AppLabelKey = ''app''"

definition PolicyServerLabelKey :: string where [const_defs]:
  "PolicyServerLabelKey = ''kubewarden/policy-server''"

definition PartOfLabelKey :: string where [const_defs]:
  "PartOfLabelKey = ''app.kubernetes.io/part-of''"

definition PartOfLabelValue :: string where [const_defs]:
  "PartOfLabelValue = ''kubewarden''"

definition ComponentLabelKey :: string where [const_defs]:
  "ComponentLabelKey = ''app.kubernetes.io/component''"

definition ComponentPolicyServerLabelValue :: string where [const_defs]:
  "ComponentPolicyServerLabelValue = ''policy-server''"

definition PolicyServerIndexKey :: string where [const_defs]:
  "PolicyServerIndexKey = ''.spec.policyServer''"

definition KubewardenFinalizerPre114 :: string where [const_defs]:
  "KubewardenFinalizerPre114 = ''kubewarden''"

definition KubewardenFinalizer :: string where [const_defs]:
  "KubewardenFinalizer = ''kubewarden.io/finalizer''"

definition KubernetesRevisionAnnotation :: string where [const_defs]:
  "KubernetesRevisionAnnotation = ''deployment.kubernetes.io/revision''"

definition OptelInjectAnnotation :: string where [const_defs]:
  "OptelInjectAnnotation = ''sidecar.opentelemetry.io/inject''"

definition WebhookConfigurationPolicyNameAnnotationKey :: string where [const_defs]:
  "WebhookConfigurationPolicyNameAnnotationKey = ''kubewardenPolicyName''"

definition WebhookConfigurationPolicyNamespaceAnnotationKey :: string where [const_defs]:
  "WebhookConfigurationPolicyNamespaceAnnotationKey = ''kubewardenPolicyNamespace''"

definition NamespacePolicyScope :: string where [const_defs]:
  "NamespacePolicyScope = ''namespace''"

definition ClusterPolicyScope :: string where [const_defs]:
  "ClusterPolicyScope = ''cluster''"

definition TimeToRequeuePolicyReconciliation :: int where [const_defs]:
  "TimeToRequeuePolicyReconciliation = 2"

definition MetricsShutdownTimeout :: int where [const_defs]:
  "MetricsShutdownTimeout = 5"

definition WebhookServerCertSecretName :: string where [const_defs]:
  "WebhookServerCertSecretName = ''kubewarden-webhook-server-cert''"

definition ServerCert :: string where [const_defs]:
  "ServerCert = ''tls.crt''"

definition ServerPrivateKey :: string where [const_defs]:
  "ServerPrivateKey = ''tls.key''"

definition CARootSecretName :: string where [const_defs]:
  "CARootSecretName = ''kubewarden-ca''"

definition CARootCert :: string where [const_defs]:
  "CARootCert = ''ca.crt''"

definition CARootPrivateKey :: string where [const_defs]:
  "CARootPrivateKey = ''ca.key''"

definition OldCARootCert :: string where [const_defs]:
  "OldCARootCert = ''old-ca.crt''"

definition ClientCACert :: string where [const_defs]:
  "ClientCACert = ''client-ca.crt''"

definition CertExpirationYears :: int where [const_defs]:
  "CertExpirationYears = 10"

definition CACertExpiration :: int where [const_defs]:
  "CACertExpiration = 10 * 365 * 24 * 3600"

definition ServerCertExpiration :: int where [const_defs]:
  "ServerCertExpiration = 1 * 365 * 24 * 3600"

definition CertLookahead :: int where [const_defs]:
  "CertLookahead = 60 * 24 * 3600"

end
