(* ===== verification/Go_Json.thy ===== *)
theory Go_Json
  imports Kube_Prelude
begin

text \<open>
  The part of Go's \<open>encoding/json\<close> that the controllers use: the text that \<open>json.Marshal\<close>
  produces for a JSON tree (HTML-safe string escaping, no white space) and the parser behind
  \<open>json.Unmarshal\<close>. Strings are UTF-8 byte sequences; a number keeps its literal.
  The result is the round trip \<open>json_parse_render\<close>, packaged as the interface \<open>json_codec\<close>
  that the ConfigMap component relies on.
\<close>

datatype json =
    JNull
  | JBool bool
  | JNum string
  | JStr string
  | JArr "json list"
  | JObj "(string \<times> json) list"

section \<open>Strings\<close>

abbreviation bs :: char where "bs \<equiv> CHR 0x5C"
abbreviation dq :: char where "dq \<equiv> CHR 0x22"

abbreviation code :: "char \<Rightarrow> nat" where "code c \<equiv> of_char c"

definition hex_char :: "nat \<Rightarrow> char" where
  "hex_char n = (if n < 10 then char_of (48 + n) else char_of (87 + n))"

definition hex_val :: "char \<Rightarrow> nat option" where
  "hex_val c =
     (if 48 \<le> code c \<and> code c \<le> 57 then Some (code c - 48)
      else if 97 \<le> code c \<and> code c \<le> 102 then Some (code c - 87)
      else if 65 \<le> code c \<and> code c \<le> 70 then Some (code c - 55)
      else None)"

definition hex4 :: "char \<Rightarrow> char \<Rightarrow> char \<Rightarrow> char \<Rightarrow> nat option" where
  "hex4 a b c d =
     (case (hex_val a, hex_val b, hex_val c, hex_val d) of
        (Some w, Some x, Some y, Some z) \<Rightarrow> Some (((w * 16 + x) * 16 + y) * 16 + z)
      | _ \<Rightarrow> None)"

text \<open>UTF-8 encoding of a code point; a surrogate half is replaced by U+FFFD.\<close>

definition utf8 :: "nat \<Rightarrow> string" where
  "utf8 n =
     (if n < 128 then [char_of n]
      else if n < 2048 then [char_of (192 + n div 64), char_of (128 + n mod 64)]
      else if 55296 \<le> n \<and> n < 57344 then [CHR 0xEF, CHR 0xBF, CHR 0xBD]
      else if n < 65536 then
        [char_of (224 + n div 4096), char_of (128 + n div 64 mod 64), char_of (128 + n mod 64)]
      else
        [char_of (240 + n div 262144), char_of (128 + n div 4096 mod 64),
         char_of (128 + n div 64 mod 64), char_of (128 + n mod 64)])"

definition esc_char :: "char \<Rightarrow> string" where
  "esc_char c =
     (if c = dq then [bs, dq]
      else if c = bs then [bs, bs]
      else if c = CHR 0x08 then [bs, CHR ''b'']
      else if c = CHR 0x0C then [bs, CHR ''f'']
      else if c = CHR 0x0A then [bs, CHR ''n'']
      else if c = CHR 0x0D then [bs, CHR ''r'']
      else if c = CHR 0x09 then [bs, CHR ''t'']
      else if code c < 32 \<or> c = CHR ''<'' \<or> c = CHR ''>'' \<or> c = CHR ''&'' then
        [bs, CHR ''u'', CHR ''0'', CHR ''0'', hex_char (code c div 16), hex_char (code c mod 16)]
      else [c])"

text \<open>U+2028 and U+2029 are escaped as well (they are line terminators in JavaScript).\<close>

fun json_escape :: "string \<Rightarrow> string" where
  "json_escape [] = []"
| "json_escape (c # s) =
     (if c = CHR 0xE2 \<and> take 2 s = [CHR 0x80, CHR 0xA8] then [bs] @ ''u2028'' @ json_escape (drop 2 s)
      else if c = CHR 0xE2 \<and> take 2 s = [CHR 0x80, CHR 0xA9] then [bs] @ ''u2029'' @ json_escape (drop 2 s)
      else esc_char c @ json_escape s)"

definition simple_escape :: "char \<Rightarrow> char option" where
  "simple_escape c =
     (if c = dq \<or> c = bs \<or> c = CHR 0x2F then Some c
      else if c = CHR ''b'' then Some (CHR 0x08)
      else if c = CHR ''f'' then Some (CHR 0x0C)
      else if c = CHR ''n'' then Some (CHR 0x0A)
      else if c = CHR ''r'' then Some (CHR 0x0D)
      else if c = CHR ''t'' then Some (CHR 0x09)
      else None)"

text \<open>A low surrogate escape at the head of the input, with what follows it.\<close>

fun low_surrogate :: "string \<Rightarrow> (nat \<times> string) option" where
  "low_surrogate (x # y # a # b # c # d # s) =
     (if x = bs \<and> y = CHR ''u'' then
        (case hex4 a b c d of
           Some n \<Rightarrow> if 56320 \<le> n \<and> n < 57344 then Some (n, s) else None
         | None \<Rightarrow> None)
      else None)"
| "low_surrogate _ = None"

lemma low_surrogate_length: "low_surrogate s = Some (n, r) \<Longrightarrow> length r < length s"
  by (induction s rule: low_surrogate.induct) (auto split: if_splits option.splits)

abbreviation push :: "string \<Rightarrow> (string \<times> string) option \<Rightarrow> (string \<times> string) option" where
  "push u \<equiv> map_option (\<lambda>(x, r). (u @ x, r))"

text \<open>The rest of a string literal after its opening quote: its value, and what follows it.\<close>

function parse_str :: "string \<Rightarrow> (string \<times> string) option" where
  "parse_str s =
     (case s of
        [] \<Rightarrow> None
      | c # t \<Rightarrow>
          if c = dq then Some ([], t)
          else if c = bs then
            (case t of
               [] \<Rightarrow> None
             | e # t1 \<Rightarrow>
                 if e = CHR ''u'' then
                   (case t1 of
                      h1 # h2 # h3 # h4 # t2 \<Rightarrow>
                        (case hex4 h1 h2 h3 h4 of
                           None \<Rightarrow> None
                         | Some n \<Rightarrow>
                             if 55296 \<le> n \<and> n < 56320 then
                               (case low_surrogate t2 of
                                  Some (m, t3) \<Rightarrow>
                                    push (utf8 (65536 + (n - 55296) * 1024 + (m - 56320))) (parse_str t3)
                                | None \<Rightarrow> push (utf8 n) (parse_str t2))
                             else push (utf8 n) (parse_str t2))
                    | _ \<Rightarrow> None)
                 else (case simple_escape e of
                         None \<Rightarrow> None
                       | Some x \<Rightarrow> push [x] (parse_str t1)))
          else if code c < 32 then None
          else push [c] (parse_str t))"
  by pat_completeness auto
termination
  by (relation "measure length") (auto dest: low_surrogate_length)

declare parse_str.simps [simp del]

lemma parse_str_end [simp]: "parse_str (dq # r) = Some ([], r)"
  by (simp add: parse_str.simps)

lemma parse_str_plain:
  "c \<noteq> dq \<Longrightarrow> c \<noteq> bs \<Longrightarrow> \<not> code c < 32 \<Longrightarrow> parse_str (c # s) = push [c] (parse_str s)"
  by (simp add: parse_str.simps [of "c # s"])

lemma parse_str_simple:
  "e \<noteq> CHR ''u'' \<Longrightarrow> simple_escape e = Some x \<Longrightarrow> parse_str (bs # e # s) = push [x] (parse_str s)"
  by (simp add: parse_str.simps [of "bs # e # s"])

lemma parse_str_unicode:
  "hex4 a b c d = Some n \<Longrightarrow> \<not> (55296 \<le> n \<and> n < 56320) \<Longrightarrow>
   parse_str (bs # CHR ''u'' # a # b # c # d # s) = push (utf8 n) (parse_str s)"
  by (subst parse_str.simps) auto

lemma hex_val_hex_char: "n < 16 \<Longrightarrow> hex_val (hex_char n) = Some n"
  by (auto simp: hex_val_def hex_char_def)

lemma hex_val_zero: "hex_val (CHR ''0'') = Some 0"
  by (simp add: hex_val_def)

lemma code_less_256: "code c < 256"
  by (simp)

lemma hex4_byte:
  assumes "n < 256"
  shows "hex4 (CHR ''0'') (CHR ''0'') (hex_char (n div 16)) (hex_char (n mod 16)) = Some n"
proof -
  have "n div 16 < 16" using assms by simp
  then show ?thesis
    by (simp add: hex4_def hex_val_hex_char hex_val_zero)
qed

lemma parse_str_esc_hex:
  assumes "code c < 128"
  shows "parse_str (bs # CHR ''u'' # CHR ''0'' # CHR ''0'' # hex_char (code c div 16)
           # hex_char (code c mod 16) # s) = push [c] (parse_str s)"
proof -
  have "hex4 (CHR ''0'') (CHR ''0'') (hex_char (code c div 16)) (hex_char (code c mod 16))
      = Some (code c)"
    by (rule hex4_byte) (use assms in simp)
  then show ?thesis
    using assms by (simp add: parse_str_unicode utf8_def)
qed

lemma parse_str_esc_char: "parse_str (esc_char c @ s) = push [c] (parse_str s)"
proof (cases "c \<in> {dq, bs, CHR 0x08, CHR 0x0C, CHR 0x0A, CHR 0x0D, CHR 0x09}")
  case True
  then show ?thesis
    by (auto simp: esc_char_def parse_str_simple simple_escape_def)
next
  case simple: False
  show ?thesis
  proof (cases "code c < 32 \<or> c = CHR ''<'' \<or> c = CHR ''>'' \<or> c = CHR ''&''")
    case True
    then have "code c < 128" by (elim disjE) simp_all
    moreover from simple True have "esc_char c = [bs, CHR ''u'', CHR ''0'', CHR ''0'',
        hex_char (code c div 16), hex_char (code c mod 16)]"
      by (auto simp: esc_char_def)
    ultimately show ?thesis by (simp add: parse_str_esc_hex)
  next
    case False
    with simple show ?thesis
      by (auto simp: esc_char_def parse_str_plain)
  qed
qed

lemma hex4_2028: "hex4 (CHR ''2'') (CHR ''0'') (CHR ''2'') (CHR ''8'') = Some 8232"
  and hex4_2029: "hex4 (CHR ''2'') (CHR ''0'') (CHR ''2'') (CHR ''9'') = Some 8233"
  by (simp_all add: hex4_def hex_val_def)

lemma char_of_separators:
  "char_of (226::nat) = CHR 0xE2" "char_of (128::nat) = CHR 0x80"
  "char_of (168::nat) = CHR 0xA8" "char_of (169::nat) = CHR 0xA9"
  by code_simp+

lemma utf8_2028: "utf8 8232 = [CHR 0xE2, CHR 0x80, CHR 0xA8]"
  and utf8_2029: "utf8 8233 = [CHR 0xE2, CHR 0x80, CHR 0xA9]"
  by (simp_all add: utf8_def char_of_separators)

lemma take_two: "take 2 s = [a, b] \<Longrightarrow> s = a # b # drop 2 s"
  by (metis append_Cons append_Nil append_take_drop_id)

theorem parse_str_escape: "parse_str (json_escape s @ dq # rest) = Some (s, rest)"
proof (induction s rule: json_escape.induct)
  case 1
  then show ?case by simp
next
  case (2 c s)
  consider (a8) "c = CHR 0xE2 \<and> take 2 s = [CHR 0x80, CHR 0xA8]"
    | (a9) "c = CHR 0xE2 \<and> take 2 s = [CHR 0x80, CHR 0xA9]"
    | (other) "\<not> (c = CHR 0xE2 \<and> take 2 s = [CHR 0x80, CHR 0xA8])"
        "\<not> (c = CHR 0xE2 \<and> take 2 s = [CHR 0x80, CHR 0xA9])"
    by blast
  then show ?case
  proof cases
    case a8
    with 2(1) have "parse_str (json_escape (drop 2 s) @ dq # rest) = Some (drop 2 s, rest)" by blast
    moreover from a8 have "s = CHR 0x80 # CHR 0xA8 # drop 2 s" by (simp add: take_two)
    ultimately show ?thesis
      using a8 by (simp add: parse_str_unicode hex4_2028 utf8_2028)
  next
    case a9
    with 2(2) have "parse_str (json_escape (drop 2 s) @ dq # rest) = Some (drop 2 s, rest)" by auto
    moreover from a9 have "s = CHR 0x80 # CHR 0xA9 # drop 2 s" by (simp add: take_two)
    ultimately show ?thesis
      using a9 by (simp add: parse_str_unicode hex4_2029 utf8_2029)
  next
    case other
    with 2(3) have "parse_str (json_escape s @ dq # rest) = Some (s, rest)" by auto
    with other show ?thesis by (auto simp: parse_str_esc_char)
  qed
qed

section \<open>Values\<close>

definition is_ws :: "char \<Rightarrow> bool" where
  "is_ws c \<longleftrightarrow> c = CHR '' '' \<or> c = CHR 0x09 \<or> c = CHR 0x0A \<or> c = CHR 0x0D"

definition skip_ws :: "string \<Rightarrow> string" where
  "skip_ws s = dropWhile is_ws s"

definition is_digit :: "char \<Rightarrow> bool" where
  "is_digit c \<longleftrightarrow> 48 \<le> code c \<and> code c \<le> 57"

definition num_char :: "char \<Rightarrow> bool" where
  "num_char c \<longleftrightarrow> is_digit c \<or> c \<in> {CHR ''-'', CHR ''+'', CHR ''.'', CHR ''e'', CHR ''E''}"

text \<open>
  The grammar of a JSON number: an optional minus sign, an integer without leading zeros, an
  optional fraction, an optional exponent. Each stage returns what it leaves.
\<close>

definition num_int :: "string \<Rightarrow> string option" where
  "num_int s =
     (case s of
        [] \<Rightarrow> None
      | c # t \<Rightarrow> if c = CHR ''0'' then Some t else if is_digit c then Some (dropWhile is_digit t) else None)"

definition num_digits :: "string \<Rightarrow> string option" where
  "num_digits s = (case s of [] \<Rightarrow> None | c # t \<Rightarrow> if is_digit c then Some (dropWhile is_digit t) else None)"

definition num_frac :: "string \<Rightarrow> string option" where
  "num_frac s = (case s of [] \<Rightarrow> Some [] | c # t \<Rightarrow> if c = CHR ''.'' then num_digits t else Some s)"

definition num_exp :: "string \<Rightarrow> string option" where
  "num_exp s =
     (case s of
        [] \<Rightarrow> Some []
      | c # t \<Rightarrow>
          if c = CHR ''e'' \<or> c = CHR ''E'' then
            (case t of
               [] \<Rightarrow> None
             | d # u \<Rightarrow> if d = CHR ''+'' \<or> d = CHR ''-'' then num_digits u else num_digits t)
          else Some s)"

definition valid_number :: "string \<Rightarrow> bool" where
  "valid_number s =
     (let t = (case s of [] \<Rightarrow> [] | c # u \<Rightarrow> if c = CHR ''-'' then u else s)
      in case num_int t of
           None \<Rightarrow> False
         | Some u \<Rightarrow> (case num_frac u of None \<Rightarrow> False | Some v \<Rightarrow> num_exp v = Some []))"

fun sep_by_comma :: "string list \<Rightarrow> string" where
  "sep_by_comma [] = []"
| "sep_by_comma [x] = x"
| "sep_by_comma (x # y # ys) = x @ CHR '','' # sep_by_comma (y # ys)"

primrec json_render :: "json \<Rightarrow> string" where
  "json_render JNull = ''null''"
| "json_render (JBool b) = (if b then ''true'' else ''false'')"
| "json_render (JNum s) = s"
| "json_render (JStr s) = dq # json_escape s @ [dq]"
| "json_render (JArr xs) = CHR ''['' # sep_by_comma (map json_render xs) @ '']''"
| "json_render (JObj kvs) =
     CHR ''{'' # sep_by_comma (map (\<lambda>(k, t). dq # json_escape k @ dq # CHR '':'' # t)
                               (map (map_prod id json_render) kvs)) @ ''}''"

definition strip_prefix :: "string \<Rightarrow> string \<Rightarrow> string option" where
  "strip_prefix p s = (if take (length p) s = p then Some (drop (length p) s) else None)"

text \<open>
  Recursive descent. The fuel bounds the nesting of calls; every call consumes a character
  of the input or returns, so the length of the input is enough (\<open>json_parse\<close>).
\<close>

fun parse_value :: "nat \<Rightarrow> string \<Rightarrow> (json \<times> string) option"
  and parse_elems :: "nat \<Rightarrow> string \<Rightarrow> (json list \<times> string) option"
  and parse_members :: "nat \<Rightarrow> string \<Rightarrow> ((string \<times> json) list \<times> string) option"
where
  "parse_value 0 s = None"
| "parse_value (Suc n) s =
     (case skip_ws s of
        [] \<Rightarrow> None
      | c # t \<Rightarrow>
          if c = dq then map_option (\<lambda>(x, r). (JStr x, r)) (parse_str t)
          else if c = CHR ''['' then
            (case skip_ws t of
               [] \<Rightarrow> None
             | d # u \<Rightarrow> if d = CHR '']'' then Some (JArr [], u)
                        else map_option (\<lambda>(xs, r). (JArr xs, r)) (parse_elems n t))
          else if c = CHR ''{'' then
            (case skip_ws t of
               [] \<Rightarrow> None
             | d # u \<Rightarrow> if d = CHR ''}'' then Some (JObj [], u)
                        else map_option (\<lambda>(kvs, r). (JObj kvs, r)) (parse_members n t))
          else if c = CHR ''n'' then map_option (\<lambda>r. (JNull, r)) (strip_prefix ''null'' (c # t))
          else if c = CHR ''t'' then map_option (\<lambda>r. (JBool True, r)) (strip_prefix ''true'' (c # t))
          else if c = CHR ''f'' then map_option (\<lambda>r. (JBool False, r)) (strip_prefix ''false'' (c # t))
          else if valid_number (takeWhile num_char (c # t))
            then Some (JNum (takeWhile num_char (c # t)), dropWhile num_char (c # t))
          else None)"
| "parse_elems 0 s = None"
| "parse_elems (Suc n) s =
     (case parse_value n s of
        None \<Rightarrow> None
      | Some (x, t) \<Rightarrow>
          (case skip_ws t of
             [] \<Rightarrow> None
           | c # u \<Rightarrow> if c = CHR '']'' then Some ([x], u)
                      else if c = CHR '','' then map_option (\<lambda>(xs, r). (x # xs, r)) (parse_elems n u)
                      else None))"
| "parse_members 0 s = None"
| "parse_members (Suc n) s =
     (case skip_ws s of
        [] \<Rightarrow> None
      | q # t \<Rightarrow>
          if q \<noteq> dq then None
          else (case parse_str t of
                  None \<Rightarrow> None
                | Some (k, t1) \<Rightarrow>
                    (case skip_ws t1 of
                       [] \<Rightarrow> None
                     | c # t2 \<Rightarrow>
                         if c \<noteq> CHR '':'' then None
                         else (case parse_value n t2 of
                                 None \<Rightarrow> None
                               | Some (x, t3) \<Rightarrow>
                                   (case skip_ws t3 of
                                      [] \<Rightarrow> None
                                    | d # t4 \<Rightarrow>
                                        if d = CHR ''}'' then Some ([(k, x)], t4)
                                        else if d = CHR '','' then
                                          map_option (\<lambda>(kvs, r). ((k, x) # kvs, r)) (parse_members n t4)
                                        else None)))))"

definition json_parse :: "string \<Rightarrow> json option" where
  "json_parse s =
     (case parse_value (Suc (length s)) s of
        Some (j, r) \<Rightarrow> if skip_ws r = [] then Some j else None
      | None \<Rightarrow> None)"

text \<open>A tree is well formed when its number literals are numbers.\<close>

primrec json_wf :: "json \<Rightarrow> bool" where
  "json_wf JNull = True"
| "json_wf (JBool b) = True"
| "json_wf (JNum s) = (valid_number s \<and> list_all num_char s)"
| "json_wf (JStr s) = True"
| "json_wf (JArr xs) = list_all id (map json_wf xs)"
| "json_wf (JObj kvs) = list_all snd (map (map_prod id json_wf) kvs)"

section \<open>The round trip\<close>

text \<open>What may follow a value: nothing that could extend a number literal.\<close>

definition stops :: "string \<Rightarrow> bool" where
  "stops s \<longleftrightarrow> (case s of [] \<Rightarrow> True | c # _ \<Rightarrow> \<not> num_char c)"

definition starts_value :: "string \<Rightarrow> bool" where
  "starts_value s \<longleftrightarrow>
     (case s of [] \<Rightarrow> False | c # _ \<Rightarrow> \<not> is_ws c \<and> c \<noteq> CHR '']'' \<and> c \<noteq> CHR ''}'')"

lemma valid_number_head:
  assumes "valid_number s"
  obtains c t where "s = c # t" and "c = CHR ''-'' \<or> is_digit c"
proof (cases s)
  case Nil
  with assms show ?thesis by (simp add: valid_number_def num_int_def)
next
  case (Cons c t)
  have "c = CHR ''-'' \<or> is_digit c"
  proof (rule ccontr)
    assume no: "\<not> ?thesis"
    then have "c \<noteq> CHR ''0''" by (auto simp: is_digit_def)
    with no Cons have "num_int s = None" by (simp add: num_int_def)
    with no Cons assms show False by (simp add: valid_number_def)
  qed
  with Cons that show ?thesis by blast
qed

lemma number_first_char:
  assumes "c = CHR ''-'' \<or> is_digit c"
  shows "\<not> is_ws c" "c \<notin> {dq, CHR ''['', CHR ''{'', CHR ''n'', CHR ''t'', CHR ''f'', CHR '']'', CHR ''}''}"
  using assms by (auto simp: is_ws_def is_digit_def)

lemma starts_value_render: "json_wf j \<Longrightarrow> starts_value (json_render j)"
proof (cases j)
  case (JNum s)
  assume "json_wf j"
  with JNum have "valid_number s" by simp
  then obtain c t where "s = c # t" "c = CHR ''-'' \<or> is_digit c" by (rule valid_number_head)
  with JNum number_first_char [of c] show ?thesis by (simp add: starts_value_def)
qed (auto simp: starts_value_def is_ws_def)

lemma starts_value_append: "starts_value s \<Longrightarrow> starts_value (s @ t)"
  by (cases s) (simp_all add: starts_value_def)

lemma skip_ws_starts: "starts_value s \<Longrightarrow> skip_ws s = s"
  by (cases s) (simp_all add: starts_value_def skip_ws_def)

lemma skip_ws_punct [simp]:
  "skip_ws (CHR '']'' # s) = CHR '']'' # s" "skip_ws (CHR ''}'' # s) = CHR ''}'' # s"
  "skip_ws (CHR '','' # s) = CHR '','' # s" "skip_ws (CHR '':'' # s) = CHR '':'' # s"
  "skip_ws (CHR ''['' # s) = CHR ''['' # s" "skip_ws (CHR ''{'' # s) = CHR ''{'' # s"
  "skip_ws (dq # s) = dq # s"
  by (simp_all add: skip_ws_def is_ws_def)

lemma stops_punct [simp]:
  "stops []" "stops (CHR '']'' # s)" "stops (CHR ''}'' # s)" "stops (CHR '','' # s)"
  by (simp_all add: stops_def num_char_def is_digit_def)

lemma takeWhile_number:
  assumes "list_all num_char s" and "stops r"
  shows "takeWhile num_char (s @ r) = s" and "dropWhile num_char (s @ r) = r"
proof -
  have "takeWhile num_char r = []" "dropWhile num_char r = r"
    using assms(2) by (cases r; simp add: stops_def)+
  with assms(1) show "takeWhile num_char (s @ r) = s" "dropWhile num_char (s @ r) = r"
    by (simp_all add: list_all_iff takeWhile_append dropWhile_append)
qed

lemma parse_value_number:
  assumes "valid_number s" "list_all num_char s" "stops r"
  shows "parse_value (Suc n) (s @ r) = Some (JNum s, r)"
proof -
  from assms(1) obtain c t where s: "s = c # t" and c: "c = CHR ''-'' \<or> is_digit c"
    by (rule valid_number_head)
  have ws: "skip_ws (s @ r) = c # (t @ r)"
    using number_first_char(1) [OF c] s by (simp add: skip_ws_def)
  have "takeWhile num_char (c # (t @ r)) = s" "dropWhile num_char (c # (t @ r)) = r"
    using takeWhile_number [OF assms(2,3)] s by simp_all
  with ws number_first_char(2) [OF c] assms(1) show ?thesis by simp
qed

definition parses :: "json \<Rightarrow> bool" where
  "parses j \<longleftrightarrow> (\<forall>r n. stops r \<longrightarrow> length (json_render j) < n \<longrightarrow>
                       parse_value n (json_render j @ r) = Some (j, r))"

lemma parsesD:
  "parses j \<Longrightarrow> stops r \<Longrightarrow> length (json_render j) < n \<Longrightarrow>
   parse_value n (json_render j @ r) = Some (j, r)"
  by (simp add: parses_def)

lemma render_nonempty: "json_wf j \<Longrightarrow> 0 < length (json_render j)"
  using starts_value_render [of j] by (cases "json_render j") (auto simp: starts_value_def)

lemma parse_elems_render:
  assumes "xs \<noteq> []" "\<forall>x\<in>set xs. parses x \<and> json_wf x"
    and "length (sep_by_comma (map json_render xs)) + 1 < n"
  shows "parse_elems n (sep_by_comma (map json_render xs) @ CHR '']'' # r) = Some (xs, r)"
  using assms
proof (induction xs arbitrary: n)
  case Nil
  then show ?case by simp
next
  case (Cons x xs)
  from Cons.prems(3) obtain m where n: "n = Suc m" by (cases n) auto
  show ?case
  proof (cases xs)
    case Nil
    with Cons.prems n parsesD [of x "CHR '']'' # r" m] show ?thesis by simp
  next
    case (Cons y ys)
    let ?tail = "sep_by_comma (map json_render xs)"
    have tail: "sep_by_comma (map json_render (x # xs)) = json_render x @ CHR '','' # ?tail"
      using Cons by simp
    have "0 < length (json_render x)"
      using Cons.prems(2) render_nonempty by simp
    with Cons.prems(3) n tail have len: "length ?tail + 1 < m" "length (json_render x) < m"
      by simp_all
    then have "parse_elems m (?tail @ CHR '']'' # r) = Some (xs, r)"
      using Cons.IH Cons.prems(2) \<open>xs = y # ys\<close> by simp
    moreover have "parse_value m (json_render x @ CHR '','' # ?tail @ CHR '']'' # r)
        = Some (x, CHR '','' # ?tail @ CHR '']'' # r)"
      using Cons.prems(2) len by (intro parsesD) simp_all
    ultimately show ?thesis by (simp only: n tail) simp
  qed
qed

abbreviation render_member :: "string \<times> json \<Rightarrow> string" where
  "render_member kv \<equiv> dq # json_escape (fst kv) @ dq # CHR '':'' # json_render (snd kv)"

lemma render_JObj:
  "json_render (JObj kvs) = CHR ''{'' # sep_by_comma (map render_member kvs) @ ''}''"
  by (simp add: comp_def case_prod_beta)

lemma parse_members_render:
  assumes "kvs \<noteq> []" "\<forall>kv\<in>set kvs. parses (snd kv) \<and> json_wf (snd kv)"
    and "length (sep_by_comma (map render_member kvs)) + 1 < n"
  shows "parse_members n (sep_by_comma (map render_member kvs) @ CHR ''}'' # r) = Some (kvs, r)"
  using assms
proof (induction kvs arbitrary: n)
  case Nil
  then show ?case by simp
next
  case (Cons kv kvs)
  obtain k x where kv: "kv = (k, x)" by fastforce
  from Cons.prems(3) obtain m where n: "n = Suc m" by (cases n) auto
  show ?case
  proof (cases kvs)
    case Nil
    with Cons.prems n kv parsesD [of x "CHR ''}'' # r" m] show ?thesis
      by (simp add: parse_str_escape)
  next
    case (Cons y ys)
    let ?tail = "sep_by_comma (map render_member kvs)"
    have tail: "sep_by_comma (map render_member (kv # kvs)) = render_member kv @ CHR '','' # ?tail"
      using Cons by simp
    from Cons.prems(3) n tail kv have len: "length ?tail + 1 < m" "length (json_render x) < m"
      by simp_all
    then have "parse_members m (?tail @ CHR ''}'' # r) = Some (kvs, r)"
      using Cons.IH Cons.prems(2) \<open>kvs = y # ys\<close> by simp
    moreover have "parse_value m (json_render x @ CHR '','' # ?tail @ CHR ''}'' # r)
        = Some (x, CHR '','' # ?tail @ CHR ''}'' # r)"
      using Cons.prems(2) kv len by (intro parsesD) simp_all
    ultimately show ?thesis unfolding n tail by (simp add: kv parse_str_escape)
  qed
qed

lemma starts_value_sep:
  "xs \<noteq> [] \<Longrightarrow> starts_value (hd xs) \<Longrightarrow> starts_value (sep_by_comma xs @ r)"
  by (cases xs rule: sep_by_comma.cases) (simp_all add: starts_value_append)

lemma parses_JArr:
  assumes "\<forall>x\<in>set xs. parses x \<and> json_wf x"
  shows "parses (JArr xs)"
proof (cases "xs = []")
  case True
  show ?thesis
    unfolding parses_def
  proof (intro allI impI)
    fix r n
    assume "length (json_render (JArr xs)) < n"
    then obtain m where "n = Suc m" by (cases n) auto
    with True show "parse_value n (json_render (JArr xs) @ r) = Some (JArr xs, r)" by simp
  qed
next
  case False
  show ?thesis
    unfolding parses_def
  proof (intro allI impI)
    fix r n
    assume len: "length (json_render (JArr xs)) < n"
    let ?t = "sep_by_comma (map json_render xs)"
    from len obtain m where n: "n = Suc m" and m: "length ?t + 1 < m" by (cases n) auto
    have sv: "starts_value (?t @ CHR '']'' # r)"
      using False assms starts_value_render by (intro starts_value_sep) (auto simp: hd_map)
    have "parse_elems m (?t @ CHR '']'' # r) = Some (xs, r)"
      using parse_elems_render [OF False assms m] by simp
    with sv n show "parse_value n (json_render (JArr xs) @ r) = Some (JArr xs, r)"
      by (cases "?t @ CHR '']'' # r") (auto simp: skip_ws_starts starts_value_def)
  qed
qed

lemma parses_JObj:
  assumes "\<forall>kv\<in>set kvs. parses (snd kv) \<and> json_wf (snd kv)"
  shows "parses (JObj kvs)"
proof (cases "kvs = []")
  case True
  show ?thesis
    unfolding parses_def
  proof (intro allI impI)
    fix r n
    assume "length (json_render (JObj kvs)) < n"
    then obtain m where "n = Suc m" by (cases n) auto
    with True show "parse_value n (json_render (JObj kvs) @ r) = Some (JObj kvs, r)" by simp
  qed
next
  case False
  show ?thesis
    unfolding parses_def
  proof (intro allI impI)
    fix r n
    assume len: "length (json_render (JObj kvs)) < n"
    let ?t = "sep_by_comma (map render_member kvs)"
    from len obtain m where n: "n = Suc m" and m: "length ?t + 1 < m"
      unfolding render_JObj by (cases n) auto
    have sv: "starts_value (?t @ CHR ''}'' # r)"
      using False by (intro starts_value_sep) (auto simp: hd_map starts_value_def is_ws_def)
    have "parse_members m (?t @ CHR ''}'' # r) = Some (kvs, r)"
      using parse_members_render [OF False assms m] by simp
    with sv n show "parse_value n (json_render (JObj kvs) @ r) = Some (JObj kvs, r)"
      unfolding render_JObj
      by (cases "?t @ CHR ''}'' # r") (auto simp: skip_ws_starts starts_value_def)
  qed
qed

lemma parses_atom:
  assumes "\<And>n r. stops r \<Longrightarrow> parse_value (Suc n) (json_render j @ r) = Some (j, r)"
  shows "parses j"
  unfolding parses_def
proof (intro allI impI)
  fix r :: string and n
  assume "stops r" "length (json_render j) < n"
  then show "parse_value n (json_render j @ r) = Some (j, r)"
    using assms by (cases n) auto
qed

lemma json_wf_parses: "json_wf j \<Longrightarrow> parses j"
proof (induction j)
  case JNull
  show ?case by (rule parses_atom) (simp add: skip_ws_def is_ws_def strip_prefix_def)
next
  case (JBool b)
  show ?case by (rule parses_atom) (cases b; simp add: skip_ws_def is_ws_def strip_prefix_def)
next
  case (JNum s)
  then show ?case by (intro parses_atom) (simp add: parse_value_number del: parse_value.simps)
next
  case (JStr s)
  show ?case by (rule parses_atom) (simp add: parse_str_escape)
next
  case (JArr xs)
  then show ?case by (intro parses_JArr) (auto simp: list_all_iff)
next
  case (JObj kvs)
  then show ?case by (intro parses_JObj) (fastforce simp: list_all_iff)
qed

theorem json_parse_render: "json_wf j \<Longrightarrow> json_parse (json_render j) = Some j"
  using parsesD [OF json_wf_parses, of j "[]" "Suc (length (json_render j))"]
  by (simp add: json_parse_def skip_ws_def del: parse_value.simps)

text \<open>
  The interface that the users of JSON rely on: a text written for a well-formed tree is
  read back as that tree.
\<close>

locale json_codec =
  fixes enc :: "'j \<Rightarrow> 't" and dec :: "'t \<Rightarrow> 'j option" and wf :: "'j \<Rightarrow> bool"
  assumes dec_enc: "wf j \<Longrightarrow> dec (enc j) = Some j"
begin

lemma enc_inject: "wf i \<Longrightarrow> wf j \<Longrightarrow> enc i = enc j \<Longrightarrow> i = j"
  using dec_enc by (metis option.inject)

end

interpretation go_json: json_codec json_render json_parse json_wf
  by unfold_locales (rule json_parse_render)

end
