(* ===== verification/Go_Std.thy ===== *)
theory Go_Std
  imports Kube_Prelude "HOL-Library.Sublist"
begin

text \<open>
  What the program uses of Go's \<open>strings\<close>, \<open>path/filepath\<close> (on a Unix system), \<open>strconv\<close>
  and \<open>regexp\<close>. Strings are UTF-8 byte sequences.
\<close>

section \<open>strings\<close>

abbreviation HasPrefix :: "string \<Rightarrow> string \<Rightarrow> bool" where
  "HasPrefix s p \<equiv> prefix p s"

text \<open>The UTF-8 encodings of the code points with the Unicode property White\_Space.\<close>

definition unicode_spaces :: "string list" where
  "unicode_spaces =
     [[CHR 0x09], [CHR 0x0A], [CHR 0x0B], [CHR 0x0C], [CHR 0x0D], [CHR 0x20],
      [CHR 0xC2, CHR 0x85], [CHR 0xC2, CHR 0xA0], [CHR 0xE1, CHR 0x9A, CHR 0x80],
      [CHR 0xE2, CHR 0x80, CHR 0x80], [CHR 0xE2, CHR 0x80, CHR 0x81], [CHR 0xE2, CHR 0x80, CHR 0x82],
      [CHR 0xE2, CHR 0x80, CHR 0x83], [CHR 0xE2, CHR 0x80, CHR 0x84], [CHR 0xE2, CHR 0x80, CHR 0x85],
      [CHR 0xE2, CHR 0x80, CHR 0x86], [CHR 0xE2, CHR 0x80, CHR 0x87], [CHR 0xE2, CHR 0x80, CHR 0x88],
      [CHR 0xE2, CHR 0x80, CHR 0x89], [CHR 0xE2, CHR 0x80, CHR 0x8A], [CHR 0xE2, CHR 0x80, CHR 0xA8],
      [CHR 0xE2, CHR 0x80, CHR 0xA9], [CHR 0xE2, CHR 0x80, CHR 0xAF], [CHR 0xE2, CHR 0x81, CHR 0x9F],
      [CHR 0xE3, CHR 0x80, CHR 0x80]]"

definition leading_space :: "string list \<Rightarrow> string \<Rightarrow> string option" where
  "leading_space sps s = find (\<lambda>p. prefix p s) sps"

lemma leading_space_SomeD:
  "leading_space sps s = Some p \<Longrightarrow> p \<in> set sps \<and> prefix p s"
  by (auto simp: leading_space_def find_Some_iff)

text \<open>Remove code points of \<open>sps\<close> (none of them empty) from the front, as long as there is one.\<close>

function trim_front :: "string list \<Rightarrow> string \<Rightarrow> string" where
  "trim_front sps s =
     (case leading_space sps s of
        None \<Rightarrow> s
      | Some p \<Rightarrow> if p = [] then s else trim_front sps (drop (length p) s))"
  by pat_completeness auto
termination
  by (relation "measure (\<lambda>(sps, s). length s)")
    (auto dest!: leading_space_SomeD simp: prefix_def)

declare trim_front.simps [simp del]

text \<open>
  The end is trimmed on the reversed text. UTF-8 is self-synchronising: a suffix of bytes
  that encodes a white-space code point is that code point.
\<close>

definition TrimSpace :: "string \<Rightarrow> string" where
  "TrimSpace s = rev (trim_front (map rev unicode_spaces) (rev (trim_front unicode_spaces s)))"

lemma trim_front_no_space: "leading_space sps s = None \<Longrightarrow> trim_front sps s = s"
  by (simp add: trim_front.simps)

lemma trim_front_suffix: "suffix (trim_front sps s) s"
proof (induction sps s rule: trim_front.induct)
  case (1 sps s)
  show ?case
  proof (cases "leading_space sps s")
    case None
    then show ?thesis by (simp add: trim_front.simps)
  next
    case (Some p)
    show ?thesis
    proof (cases "p = []")
      case True
      with Some show ?thesis by (simp add: trim_front.simps)
    next
      case False
      with 1 Some have "suffix (trim_front sps (drop (length p) s)) (drop (length p) s)" by blast
      then have "suffix (trim_front sps (drop (length p) s)) s"
        by (meson suffix_drop suffix_order.trans)
      with Some False show ?thesis by (simp add: trim_front.simps [of sps s])
    qed
  qed
qed

lemma trim_front_none:
  "[] \<notin> set sps \<Longrightarrow> leading_space sps (trim_front sps s) = None"
proof (induction sps s rule: trim_front.induct)
  case (1 sps s)
  show ?case
  proof (cases "leading_space sps s")
    case None
    then show ?thesis by (simp add: trim_front.simps)
  next
    case (Some p)
    with 1(2) have "p \<noteq> []" using leading_space_SomeD by blast
    with 1 Some show ?thesis by (simp add: trim_front.simps [of sps s])
  qed
qed

lemma unicode_spaces_nonempty: "[] \<notin> set unicode_spaces" "[] \<notin> set (map rev unicode_spaces)"
  by (simp_all add: unicode_spaces_def)

text \<open>What \<open>TrimSpace\<close> returns ends with no white space.\<close>

lemma TrimSpace_no_trailing: "leading_space (map rev unicode_spaces) (rev (TrimSpace s)) = None"
  unfolding TrimSpace_def by (simp add: trim_front_none unicode_spaces_nonempty del: set_map)

section \<open>path/filepath\<close>

text \<open>The elements between the slashes, empty ones included.\<close>

fun split_slash :: "string \<Rightarrow> string list" where
  "split_slash [] = [[]]"
| "split_slash (c # s) =
     (if c = CHR ''/'' then [] # split_slash s
      else (case split_slash s of [] \<Rightarrow> [[c]] | x # xs \<Rightarrow> (c # x) # xs))"

fun join_slash :: "string list \<Rightarrow> string" where
  "join_slash [] = []"
| "join_slash [x] = x"
| "join_slash (x # y # ys) = x @ CHR ''/'' # join_slash (y # ys)"

text \<open>
  The loop of \<open>filepath.Clean\<close>: \<open>out\<close> holds the elements kept so far, last one first. A
  \<open>..\<close> removes the element before it; at the root it is dropped.
\<close>

fun clean_elems :: "bool \<Rightarrow> string list \<Rightarrow> string list \<Rightarrow> string list" where
  "clean_elems rooted out [] = rev out"
| "clean_elems rooted out (x # xs) =
     (if x = [] \<or> x = ''.'' then clean_elems rooted out xs
      else if x = ''..'' then
        (case out of
           [] \<Rightarrow> if rooted then clean_elems rooted [] xs else clean_elems rooted [''..''] xs
         | y # ys \<Rightarrow> if y = ''..'' then clean_elems rooted (''..'' # out) xs
                     else clean_elems rooted ys xs)
      else clean_elems rooted (x # out) xs)"

definition filepath_Clean :: "string \<Rightarrow> string" where
  "filepath_Clean s =
     (if s = [] then ''.''
      else
        let rooted = (hd s = CHR ''/'');
            body = join_slash (clean_elems rooted [] (split_slash s))
        in if rooted then CHR ''/'' # body else if body = [] then ''.'' else body)"

definition filepath_Join :: "string list \<Rightarrow> string" where
  "filepath_Join elems =
     (case filter (\<lambda>e. e \<noteq> []) elems of [] \<Rightarrow> [] | es \<Rightarrow> filepath_Clean (join_slash es))"

text \<open>\<open>filepath.Dir\<close>: all but the last element, cleaned.\<close>

definition filepath_Dir :: "string \<Rightarrow> string" where
  "filepath_Dir s = filepath_Clean (rev (dropWhile (\<lambda>c. c \<noteq> CHR ''/'') (rev s)))"

lemma split_slash_plain: "CHR ''/'' \<notin> set s \<Longrightarrow> split_slash s = [s]"
  by (induction s) auto

lemma split_slash_append:
  "CHR ''/'' \<notin> set a \<Longrightarrow> split_slash (a @ CHR ''/'' # b) = a # split_slash b"
  by (induction a) auto

text \<open>
  Joining a rooted directory of one element with a plain name: no element is dropped when
  the name has no slash and is neither empty nor a dot element.
\<close>

lemma filepath_Join_plain:
  assumes "CHR ''/'' \<notin> set d" "d \<noteq> []" "d \<noteq> ''.''" "d \<noteq> ''..''"
    and "CHR ''/'' \<notin> set n" "n \<noteq> []" "n \<noteq> ''.''" "n \<noteq> ''..''"
  shows "filepath_Join [CHR ''/'' # d, n] = CHR ''/'' # d @ CHR ''/'' # n"
proof -
  have "split_slash (CHR ''/'' # d @ CHR ''/'' # n) = [[], d, n]"
    using assms by (simp add: split_slash_append split_slash_plain)
  with assms show ?thesis
    by (simp add: filepath_Join_def filepath_Clean_def)
qed

section \<open>strconv\<close>

fun digits :: "nat \<Rightarrow> string" where
  "digits n = (if n < 10 then [char_of (48 + n)] else digits (n div 10) @ [char_of (48 + n mod 10)])"

declare digits.simps [simp del]

definition Itoa :: "int \<Rightarrow> string" where
  "Itoa i = (if i < 0 then CHR ''-'' # digits (nat (- i)) else digits (nat i))"

definition digit_val :: "char \<Rightarrow> nat option" where
  "digit_val c = (if 48 \<le> (of_char c :: nat) \<and> (of_char c :: nat) \<le> 57 then Some (of_char c - 48) else None)"

fun parse_digits :: "int \<Rightarrow> string \<Rightarrow> int option" where
  "parse_digits acc [] = Some acc"
| "parse_digits acc (c # s) =
     (case digit_val c of None \<Rightarrow> None | Some d \<Rightarrow> parse_digits (acc * 10 + int d) s)"

text \<open>
  \<open>strconv.ParseInt(s, 10, 32)\<close>: an optional sign and at least one digit; \<open>None\<close> is a
  syntax or a range error.
\<close>

definition ParseInt32 :: "string \<Rightarrow> int option" where
  "ParseInt32 s =
     (let (neg, t) = (case s of
            [] \<Rightarrow> (False, [])
          | c # u \<Rightarrow> if c = CHR ''-'' then (True, u) else if c = CHR ''+'' then (False, u) else (False, s))
      in if t = [] then None
         else (case parse_digits 0 t of
                 None \<Rightarrow> None
               | Some n \<Rightarrow>
                   let v = (if neg then - n else n)
                   in if - (2 ^ 31) \<le> v \<and> v < 2 ^ 31 then Some v else None))"

lemma ParseInt32_range: "ParseInt32 s = Some v \<Longrightarrow> - (2 ^ 31) \<le> v \<and> v < 2 ^ 31"
  by (auto simp: ParseInt32_def Let_def split: prod.splits option.splits if_splits)

section \<open>regexp\<close>

definition is_letter :: "char \<Rightarrow> bool" where
  "is_letter c \<longleftrightarrow>
     (65 \<le> (of_char c :: nat) \<and> (of_char c :: nat) \<le> 90) \<or> (97 \<le> (of_char c :: nat) \<and> (of_char c :: nat) \<le> 122)"

definition iden_start :: "char \<Rightarrow> bool" where
  "iden_start c \<longleftrightarrow> c = CHR ''_'' \<or> is_letter c"

definition iden_char :: "char \<Rightarrow> bool" where
  "iden_char c \<longleftrightarrow> iden_start c \<or> digit_val c \<noteq> None"

end
