(* ===== verification/K8s_Types.thy ===== *)
theory K8s_Types
  imports Constants Go_Json Go_Std
begin

text \<open>
  The Kubernetes API objects that the controller reads and writes, reduced to the fields it
  touches. They are data of \<open>k8s.io/api\<close>: the records have the names of the Go structs and
  their fields the name of the Go field with a short prefix.
\<close>

type_synonym int32 = "32 word"

text \<open>A \<open>types.NamespacedName\<close>: namespace and name; the namespace of a cluster-wide object is empty.\<close>

type_synonym nsname = "string \<times> string"

section \<open>Metadata\<close>

record ObjectMeta =
  om_Name :: string
  om_Namespace :: string
  om_Labels :: "string gomap"
  om_Annotations :: "string gomap"
  om_Finalizers :: "string list"
  om_DeletionTimestamp :: "int option"
  om_ResourceVersion :: string
  om_OwnerReferences :: "nsname list"

definition emptyMeta :: ObjectMeta where
  "emptyMeta = \<lparr>om_Name = '''', om_Namespace = '''', om_Labels = [], om_Annotations = [],
     om_Finalizers = [], om_DeletionTimestamp = None, om_ResourceVersion = '''',
     om_OwnerReferences = []\<rparr>"

definition namedMeta :: "string \<Rightarrow> string \<Rightarrow> ObjectMeta" where
  "namedMeta ns n = emptyMeta\<lparr>om_Namespace := ns, om_Name := n\<rparr>"

record Condition =
  cond_Type :: string
  cond_Status :: string
  cond_Reason :: string
  cond_Message :: string

abbreviation ConditionTrue :: string where "ConditionTrue \<equiv> ''True''"
abbreviation ConditionFalse :: string where "ConditionFalse \<equiv> ''False''"

section \<open>Selectors and rules\<close>

record LabelSelectorRequirement =
  lsr_Key :: string
  lsr_Operator :: string
  lsr_Values :: "string list"

record LabelSelector =
  ls_MatchLabels :: "string gomap"
  ls_MatchExpressions :: "LabelSelectorRequirement list"

record RuleWithOperations =
  rule_Operations :: "string list"
  rule_APIGroups :: "string list"
  rule_APIVersions :: "string list"
  rule_Resources :: "string list"
  rule_Scope :: "string option"

abbreviation NamespacedScope :: string where "NamespacedScope \<equiv> ''Namespaced''"

record MatchCondition =
  mc_Name :: string
  mc_Expression :: string

text \<open>\<open>runtime.RawExtension\<close>: the raw JSON of a free-form field, or nothing.\<close>

type_synonym RawExtension = "json option"

section \<open>Webhook configurations\<close>

record ServiceReference =
  sr_Namespace :: string
  sr_Name :: string
  sr_Path :: "string option"
  sr_Port :: "int32 option"

record WebhookClientConfig =
  wcc_Service :: "ServiceReference option"
  wcc_CABundle :: string

text \<open>
  A \<open>ValidatingWebhook\<close> and a \<open>MutatingWebhook\<close> have the same fields, but for the
  re-invocation policy of the latter, which the controller never sets.
\<close>

record Webhook =
  wh_Name :: string
  wh_ClientConfig :: WebhookClientConfig
  wh_Rules :: "RuleWithOperations list"
  wh_FailurePolicy :: "string option"
  wh_MatchPolicy :: "string option"
  wh_NamespaceSelector :: "LabelSelector option"
  wh_ObjectSelector :: "LabelSelector option"
  wh_SideEffects :: "string option"
  wh_TimeoutSeconds :: "int32 option"
  wh_AdmissionReviewVersions :: "string list"
  wh_MatchConditions :: "MatchCondition list"

record WebhookConfiguration =
  wc_Meta :: ObjectMeta
  wc_Webhooks :: "Webhook list"

type_synonym ValidatingWebhookConfiguration = WebhookConfiguration
type_synonym MutatingWebhookConfiguration = WebhookConfiguration

section \<open>Core objects\<close>

record Secret =
  sec_Meta :: ObjectMeta
  sec_Type :: string
  sec_Data :: "string gomap"
  sec_StringData :: "string gomap"

record ConfigMap =
  cm_Meta :: ObjectMeta
  cm_Data :: "string gomap"

record PodCondition =
  pc_Type :: string
  pc_Status :: string

record Pod =
  pod_Meta :: ObjectMeta
  pod_Conditions :: "PodCondition list"

record ReplicaSet =
  rs_Meta :: ObjectMeta

abbreviation DefaultDeploymentUniqueLabelKey :: string where
  "DefaultDeploymentUniqueLabelKey \<equiv> ''pod-template-hash''"

datatype IntOrString = IntVal int32 | StrVal string

record PodDisruptionBudget =
  pdb_Meta :: ObjectMeta
  pdb_Selector :: "LabelSelector option"
  pdb_MinAvailable :: "IntOrString option"
  pdb_MaxUnavailable :: "IntOrString option"

record ServicePort =
  sp_Name :: string
  sp_Port :: int32
  sp_TargetPort :: "IntOrString option"
  sp_Protocol :: string

record Service =
  svc_Meta :: ObjectMeta
  svc_Ports :: "ServicePort list"
  svc_Selector :: "string gomap"

section \<open>Pods and Deployments\<close>

text \<open>
  Of a pod template the model keeps what the controller builds. \<open>PodSecurityContext\<close>,
  \<open>SecurityContext\<close>, \<open>Affinity\<close> and \<open>Toleration\<close> values pass through unread; the
  model identifies them by their JSON.
\<close>

record EnvVar =
  ev_Name :: string
  ev_Value :: string

record VolumeMount =
  vm_Name :: string
  vm_ReadOnly :: bool
  vm_MountPath :: string

record KeyToPath =
  ktp_Key :: string
  ktp_Path :: string

datatype VolumeSource =
    EmptyDir
  | SecretVolume string "KeyToPath list" "int32 option"
  | ConfigMapVolume string "KeyToPath list"

record Volume =
  vol_Name :: string
  vol_Source :: VolumeSource

type_synonym Quantity = string
type_synonym ResourceList = "Quantity gomap"

record Container =
  ct_Name :: string
  ct_Image :: string
  ct_VolumeMounts :: "VolumeMount list"
  ct_Env :: "EnvVar list"
  ct_ReadinessProbePath :: string
  ct_ReadinessProbePort :: int
  ct_ReadinessProbeScheme :: string
  ct_Requests :: ResourceList
  ct_Limits :: ResourceList
  ct_SecurityContext :: "json option"

record PodSpec =
  pspec_SecurityContext :: "json option"
  pspec_Containers :: "Container list"
  pspec_ServiceAccountName :: string
  pspec_Tolerations :: "json list"
  pspec_Affinity :: json
  pspec_Volumes :: "Volume list"

record DeploymentSpec =
  dspec_Replicas :: int32
  dspec_Selector :: "string gomap"
  dspec_StrategyType :: string
  dspec_TemplateLabels :: "string gomap"
  dspec_TemplateAnnotations :: "string gomap"
  dspec_TemplateSpec :: PodSpec

record Deployment =
  dep_Meta :: ObjectMeta
  dep_Spec :: "DeploymentSpec option"

section \<open>Requests and results of a reconciler\<close>

text \<open>A \<open>reconcile.Request\<close> names an object; a \<open>ctrl.Result\<close> says when to come back.\<close>

type_synonym Request = nsname

record Result =
  Requeue :: bool
  RequeueAfter :: int

definition emptyResult :: Result where
  "emptyResult = \<lparr>Requeue = False, RequeueAfter = 0\<rparr>"

end
