(* ===== verification/Policy_Types.thy ===== *)
theory Policy_Types
  imports K8s_Types
begin

text \<open>
  The policy resources of \<open>api/policies/v1\<close>: \<open>AdmissionPolicy\<close>, \<open>ClusterAdmissionPolicy\<close>,
  \<open>AdmissionPolicyGroup\<close> and \<open>ClusterAdmissionPolicyGroup\<close>, each a record with the methods of
  its Go type (\<open>AdmissionPolicy_GetRules\<close> is \<open>(*AdmissionPolicy).GetRules\<close>), and the Go
  interfaces \<open>Policy\<close> and \<open>PolicyGroup\<close> as a datatype with one constructor per implementing type.
  A method with a pointer receiver that assigns a field returns the updated record.
\<close>

section \<open>Status\<close>

definition PolicyStatusUnscheduled :: string where [const_defs]:
  "PolicyStatusUnscheduled = ''unscheduled''"

definition PolicyStatusScheduled :: string where [const_defs]:
  "PolicyStatusScheduled = ''scheduled''"

definition PolicyStatusPending :: string where [const_defs]:
  "PolicyStatusPending = ''pending''"

definition PolicyStatusActive :: string where [const_defs]:
  "PolicyStatusActive = ''active''"

definition PolicyModeStatusProtect :: string where [const_defs]:
  "PolicyModeStatusProtect = ''protect''"

definition PolicyModeStatusMonitor :: string where [const_defs]:
  "PolicyModeStatusMonitor = ''monitor''"

definition PolicyModeStatusUnknown :: string where [const_defs]:
  "PolicyModeStatusUnknown = ''unknown''"

definition PolicyActive :: string where [const_defs]:
  "PolicyActive = ''PolicyActive''"

definition PolicyServerConfigurationUpToDate :: string where [const_defs]:
  "PolicyServerConfigurationUpToDate = ''PolicyServerConfigurationUpToDate''"

definition PolicyUniquelyReachable :: string where [const_defs]:
  "PolicyUniquelyReachable = ''PolicyUniquelyReachable''"

definition AnnotationSeverity :: string where [const_defs]:
  "AnnotationSeverity = ''io.kubewarden.policy.severity''"

definition AnnotationCategory :: string where [const_defs]:
  "AnnotationCategory = ''io.kubewarden.policy.category''"

definition AnnotationTitle :: string where [const_defs]:
  "AnnotationTitle = ''io.artifacthub.displayName''"

definition AnnotationDescription :: string where [const_defs]:
  "AnnotationDescription = ''io.kubewarden.policy.description''"

text \<open>
  \<open>PolicyStatusEnum\<close>, \<open>PolicyModeStatus\<close> and \<open>PolicyMode\<close> are Go string types: the zero
  value is the empty string and a conversion from \<open>string\<close> accepts any text.
\<close>

record PolicyStatus =
  st_PolicyStatus :: string
  st_PolicyMode :: string
  st_Conditions :: "Condition list"

section \<open>Specs\<close>

record ContextAwareResource =
  car_APIVersion :: string
  car_Kind :: string

record PolicySpec =
  spec_PolicyServer :: string
  spec_Mode :: string
  spec_Module :: string
  spec_Settings :: RawExtension
  spec_Rules :: "RuleWithOperations list"
  spec_FailurePolicy :: "string option"
  spec_Mutating :: bool
  spec_BackgroundAudit :: bool
  spec_MatchPolicy :: "string option"
  spec_MatchConditions :: "MatchCondition list"
  spec_ObjectSelector :: "LabelSelector option"
  spec_SideEffects :: "string option"
  spec_TimeoutSeconds :: "int32 option"

record PolicyGroupMember =
  pgm_Module :: string
  pgm_Settings :: RawExtension

record PolicyGroupMemberWithContext =
  pgmc_Member :: PolicyGroupMember
  pgmc_ContextAwareResources :: "ContextAwareResource list"

type_synonym PolicyGroupMembersWithContext = "PolicyGroupMemberWithContext gomap"

record GroupSpec =
  gspec_PolicyServer :: string
  gspec_Mode :: string
  gspec_Rules :: "RuleWithOperations list"
  gspec_FailurePolicy :: "string option"
  gspec_BackgroundAudit :: bool
  gspec_MatchPolicy :: "string option"
  gspec_MatchConditions :: "MatchCondition list"
  gspec_ObjectSelector :: "LabelSelector option"
  gspec_SideEffects :: "string option"
  gspec_TimeoutSeconds :: "int32 option"
  gspec_Expression :: string
  gspec_Message :: string

record PolicyGroupSpec =
  pgs_GroupSpec :: GroupSpec
  pgs_Policies :: "PolicyGroupMember gomap"

record ClusterPolicyGroupSpec =
  cpgs_GroupSpec :: GroupSpec
  cpgs_Policies :: PolicyGroupMembersWithContext

record AdmissionPolicySpec =
  aps_PolicySpec :: PolicySpec

record ClusterAdmissionPolicySpec =
  caps_PolicySpec :: PolicySpec
  caps_NamespaceSelector :: "LabelSelector option"
  caps_ContextAwareResources :: "ContextAwareResource list"

record AdmissionPolicyGroupSpec =
  apgs_PolicyGroupSpec :: PolicyGroupSpec

record ClusterAdmissionPolicyGroupSpec =
  capgs_ClusterPolicyGroupSpec :: ClusterPolicyGroupSpec
  capgs_NamespaceSelector :: "LabelSelector option"

record AdmissionPolicy =
  ap_Meta :: ObjectMeta
  ap_Spec :: AdmissionPolicySpec
  ap_Status :: PolicyStatus

record ClusterAdmissionPolicy =
  cap_Meta :: ObjectMeta
  cap_Spec :: ClusterAdmissionPolicySpec
  cap_Status :: PolicyStatus

record AdmissionPolicyGroup =
  apg_Meta :: ObjectMeta
  apg_Spec :: AdmissionPolicyGroupSpec
  apg_Status :: PolicyStatus

record ClusterAdmissionPolicyGroup =
  capg_Meta :: ObjectMeta
  capg_Spec :: ClusterAdmissionPolicyGroupSpec
  capg_Status :: PolicyStatus

text \<open>
  \<open>GetRules\<close> of the namespaced kinds copies every rule with the scope \<open>Namespaced\<close>, and
  their namespace selector is the label that Kubernetes sets to the name of a namespace.
\<close>

definition namespacedRules :: "RuleWithOperations list \<Rightarrow> RuleWithOperations list" where
  "namespacedRules rules = map (\<lambda>rule. rule\<lparr>rule_Scope := Some NamespacedScope\<rparr>) rules"

definition namespaceNameSelector :: "string \<Rightarrow> LabelSelector" where
  "namespaceNameSelector ns =
     \<lparr>ls_MatchLabels = [(''kubernetes.io/metadata.name'', ns)], ls_MatchExpressions = []\<rparr>"


section \<open>AdmissionPolicy\<close>

definition AdmissionPolicy_SetStatus :: "string \<Rightarrow> AdmissionPolicy \<Rightarrow> AdmissionPolicy" where [getter_simps]:
  "AdmissionPolicy_SetStatus status r = r\<lparr>ap_Status := (ap_Status r)\<lparr>st_PolicyStatus := status\<rparr>\<rparr>"

definition AdmissionPolicy_GetPolicyMode :: "AdmissionPolicy \<Rightarrow> string" where [getter_simps]:
  "AdmissionPolicy_GetPolicyMode r = spec_Mode (aps_PolicySpec (ap_Spec r))"

definition AdmissionPolicy_SetPolicyModeStatus :: "string \<Rightarrow> AdmissionPolicy \<Rightarrow> AdmissionPolicy" where [getter_simps]:
  "AdmissionPolicy_SetPolicyModeStatus policyMode r = r\<lparr>ap_Status := (ap_Status r)\<lparr>st_PolicyMode := policyMode\<rparr>\<rparr>"

definition AdmissionPolicy_GetModule :: "AdmissionPolicy \<Rightarrow> string" where [getter_simps]:
  "AdmissionPolicy_GetModule r = spec_Module (aps_PolicySpec (ap_Spec r))"

definition AdmissionPolicy_IsMutating :: "AdmissionPolicy \<Rightarrow> bool" where [getter_simps]:
  "AdmissionPolicy_IsMutating r = spec_Mutating (aps_PolicySpec (ap_Spec r))"

definition AdmissionPolicy_IsContextAware :: "AdmissionPolicy \<Rightarrow> bool" where [getter_simps]:
  "AdmissionPolicy_IsContextAware r = False"

definition AdmissionPolicy_GetSettings :: "AdmissionPolicy \<Rightarrow> RawExtension" where [getter_simps]:
  "AdmissionPolicy_GetSettings r = spec_Settings (aps_PolicySpec (ap_Spec r))"

definition AdmissionPolicy_GetStatus :: "AdmissionPolicy \<Rightarrow> PolicyStatus" where [getter_simps]:
  "AdmissionPolicy_GetStatus r = ap_Status r"

definition AdmissionPolicy_GetSideEffects :: "AdmissionPolicy \<Rightarrow> string option" where [getter_simps]:
  "AdmissionPolicy_GetSideEffects r = spec_SideEffects (aps_PolicySpec (ap_Spec r))"

definition AdmissionPolicy_GetRules :: "AdmissionPolicy \<Rightarrow> RuleWithOperations list" where [getter_simps]:
  "AdmissionPolicy_GetRules r = namespacedRules (spec_Rules (aps_PolicySpec (ap_Spec r)))"

definition AdmissionPolicy_GetFailurePolicy :: "AdmissionPolicy \<Rightarrow> string option" where [getter_simps]:
  "AdmissionPolicy_GetFailurePolicy r = spec_FailurePolicy (aps_PolicySpec (ap_Spec r))"

definition AdmissionPolicy_GetMatchPolicy :: "AdmissionPolicy \<Rightarrow> string option" where [getter_simps]:
  "AdmissionPolicy_GetMatchPolicy r = spec_MatchPolicy (aps_PolicySpec (ap_Spec r))"

definition AdmissionPolicy_GetMatchConditions :: "AdmissionPolicy \<Rightarrow> MatchCondition list" where [getter_simps]:
  "AdmissionPolicy_GetMatchConditions r = spec_MatchConditions (aps_PolicySpec (ap_Spec r))"

definition AdmissionPolicy_GetNamespaceSelector :: "AdmissionPolicy \<Rightarrow> LabelSelector option" where [getter_simps]:
  "AdmissionPolicy_GetNamespaceSelector r = Some (namespaceNameSelector (om_Namespace (ap_Meta r)))"

definition AdmissionPolicy_GetObjectSelector :: "AdmissionPolicy \<Rightarrow> LabelSelector option" where [getter_simps]:
  "AdmissionPolicy_GetObjectSelector r = spec_ObjectSelector (aps_PolicySpec (ap_Spec r))"

definition AdmissionPolicy_GetTimeoutSeconds :: "AdmissionPolicy \<Rightarrow> int32 option" where [getter_simps]:
  "AdmissionPolicy_GetTimeoutSeconds r = spec_TimeoutSeconds (aps_PolicySpec (ap_Spec r))"

definition AdmissionPolicy_GetObjectMeta :: "AdmissionPolicy \<Rightarrow> ObjectMeta" where [getter_simps]:
  "AdmissionPolicy_GetObjectMeta r = ap_Meta r"

definition AdmissionPolicy_GetPolicyServer :: "AdmissionPolicy \<Rightarrow> string" where [getter_simps]:
  "AdmissionPolicy_GetPolicyServer r = spec_PolicyServer (aps_PolicySpec (ap_Spec r))"

definition AdmissionPolicy_GetUniqueName :: "AdmissionPolicy \<Rightarrow> string" where [getter_simps]:
  "AdmissionPolicy_GetUniqueName r = ''namespaced-'' @ om_Namespace (ap_Meta r) @ ''-'' @ om_Name (ap_Meta r)"

definition AdmissionPolicy_GetContextAwareResources :: "AdmissionPolicy \<Rightarrow> ContextAwareResource list" where [getter_simps]:
  "AdmissionPolicy_GetContextAwareResources r = []"

definition AdmissionPolicy_GetBackgroundAudit :: "AdmissionPolicy \<Rightarrow> bool" where [getter_simps]:
  "AdmissionPolicy_GetBackgroundAudit r = spec_BackgroundAudit (aps_PolicySpec (ap_Spec r))"

definition AdmissionPolicy_GetSeverity :: "AdmissionPolicy \<Rightarrow> string option" where [getter_simps]:
  "AdmissionPolicy_GetSeverity r = goget (om_Annotations (ap_Meta r)) AnnotationSeverity"

definition AdmissionPolicy_GetCategory :: "AdmissionPolicy \<Rightarrow> string option" where [getter_simps]:
  "AdmissionPolicy_GetCategory r = goget (om_Annotations (ap_Meta r)) AnnotationCategory"

definition AdmissionPolicy_GetTitle :: "AdmissionPolicy \<Rightarrow> string option" where [getter_simps]:
  "AdmissionPolicy_GetTitle r = goget (om_Annotations (ap_Meta r)) AnnotationTitle"

definition AdmissionPolicy_GetDescription :: "AdmissionPolicy \<Rightarrow> string option" where [getter_simps]:
  "AdmissionPolicy_GetDescription r = goget (om_Annotations (ap_Meta r)) AnnotationDescription"

section \<open>ClusterAdmissionPolicy\<close>

definition ClusterAdmissionPolicy_SetStatus :: "string \<Rightarrow> ClusterAdmissionPolicy \<Rightarrow> ClusterAdmissionPolicy" where [getter_simps]:
  "ClusterAdmissionPolicy_SetStatus status r = r\<lparr>cap_Status := (cap_Status r)\<lparr>st_PolicyStatus := status\<rparr>\<rparr>"

definition ClusterAdmissionPolicy_GetPolicyMode :: "ClusterAdmissionPolicy \<Rightarrow> string" where [getter_simps]:
  "ClusterAdmissionPolicy_GetPolicyMode r = spec_Mode (caps_PolicySpec (cap_Spec r))"

definition ClusterAdmissionPolicy_SetPolicyModeStatus :: "string \<Rightarrow> ClusterAdmissionPolicy \<Rightarrow> ClusterAdmissionPolicy" where [getter_simps]:
  "ClusterAdmissionPolicy_SetPolicyModeStatus policyMode r = r\<lparr>cap_Status := (cap_Status r)\<lparr>st_PolicyMode := policyMode\<rparr>\<rparr>"

definition ClusterAdmissionPolicy_GetModule :: "ClusterAdmissionPolicy \<Rightarrow> string" where [getter_simps]:
  "ClusterAdmissionPolicy_GetModule r = spec_Module (caps_PolicySpec (cap_Spec r))"

definition ClusterAdmissionPolicy_IsMutating :: "ClusterAdmissionPolicy \<Rightarrow> bool" where [getter_simps]:
  "ClusterAdmissionPolicy_IsMutating r = spec_Mutating (caps_PolicySpec (cap_Spec r))"

definition ClusterAdmissionPolicy_IsContextAware :: "ClusterAdmissionPolicy \<Rightarrow> bool" where [getter_simps]:
  "ClusterAdmissionPolicy_IsContextAware r = (caps_ContextAwareResources (cap_Spec r) \<noteq> [])"

definition ClusterAdmissionPolicy_GetSettings :: "ClusterAdmissionPolicy \<Rightarrow> RawExtension" where [getter_simps]:
  "ClusterAdmissionPolicy_GetSettings r = spec_Settings (caps_PolicySpec (cap_Spec r))"

definition ClusterAdmissionPolicy_GetStatus :: "ClusterAdmissionPolicy \<Rightarrow> PolicyStatus" where [getter_simps]:
  "ClusterAdmissionPolicy_GetStatus r = cap_Status r"

definition ClusterAdmissionPolicy_GetSideEffects :: "ClusterAdmissionPolicy \<Rightarrow> string option" where [getter_simps]:
  "ClusterAdmissionPolicy_GetSideEffects r = spec_SideEffects (caps_PolicySpec (cap_Spec r))"

definition ClusterAdmissionPolicy_GetRules :: "ClusterAdmissionPolicy \<Rightarrow> RuleWithOperations list" where [getter_simps]:
  "ClusterAdmissionPolicy_GetRules r = spec_Rules (caps_PolicySpec (cap_Spec r))"

definition ClusterAdmissionPolicy_GetFailurePolicy :: "ClusterAdmissionPolicy \<Rightarrow> string option" where [getter_simps]:
  "ClusterAdmissionPolicy_GetFailurePolicy r = spec_FailurePolicy (caps_PolicySpec (cap_Spec r))"

definition ClusterAdmissionPolicy_GetMatchPolicy :: "ClusterAdmissionPolicy \<Rightarrow> string option" where [getter_simps]:
  "ClusterAdmissionPolicy_GetMatchPolicy r = spec_MatchPolicy (caps_PolicySpec (cap_Spec r))"

definition ClusterAdmissionPolicy_GetMatchConditions :: "ClusterAdmissionPolicy \<Rightarrow> MatchCondition list" where [getter_simps]:
  "ClusterAdmissionPolicy_GetMatchConditions r = spec_MatchConditions (caps_PolicySpec (cap_Spec r))"

definition ClusterAdmissionPolicy_GetNamespaceSelector :: "ClusterAdmissionPolicy \<Rightarrow> LabelSelector option" where [getter_simps]:
  "ClusterAdmissionPolicy_GetNamespaceSelector r = caps_NamespaceSelector (cap_Spec r)"

definition ClusterAdmissionPolicy_GetObjectSelector :: "ClusterAdmissionPolicy \<Rightarrow> LabelSelector option" where [getter_simps]:
  "ClusterAdmissionPolicy_GetObjectSelector r = spec_ObjectSelector (caps_PolicySpec (cap_Spec r))"

definition ClusterAdmissionPolicy_GetTimeoutSeconds :: "ClusterAdmissionPolicy \<Rightarrow> int32 option" where [getter_simps]:
  "ClusterAdmissionPolicy_GetTimeoutSeconds r = spec_TimeoutSeconds (caps_PolicySpec (cap_Spec r))"

definition ClusterAdmissionPolicy_GetObjectMeta :: "ClusterAdmissionPolicy \<Rightarrow> ObjectMeta" where [getter_simps]:
  "ClusterAdmissionPolicy_GetObjectMeta r = cap_Meta r"

definition ClusterAdmissionPolicy_GetPolicyServer :: "ClusterAdmissionPolicy \<Rightarrow> string" where [getter_simps]:
  "ClusterAdmissionPolicy_GetPolicyServer r = spec_PolicyServer (caps_PolicySpec (cap_Spec r))"

definition ClusterAdmissionPolicy_GetUniqueName :: "ClusterAdmissionPolicy \<Rightarrow> string" where [getter_simps]:
  "ClusterAdmissionPolicy_GetUniqueName r = ''clusterwide-'' @ om_Name (cap_Meta r)"

definition ClusterAdmissionPolicy_GetContextAwareResources :: "ClusterAdmissionPolicy \<Rightarrow> ContextAwareResource list" where [getter_simps]:
  "ClusterAdmissionPolicy_GetContextAwareResources r = caps_ContextAwareResources (cap_Spec r)"

definition ClusterAdmissionPolicy_GetBackgroundAudit :: "ClusterAdmissionPolicy \<Rightarrow> bool" where [getter_simps]:
  "ClusterAdmissionPolicy_GetBackgroundAudit r = spec_BackgroundAudit (caps_PolicySpec (cap_Spec r))"

definition ClusterAdmissionPolicy_GetSeverity :: "ClusterAdmissionPolicy \<Rightarrow> string option" where [getter_simps]:
  "ClusterAdmissionPolicy_GetSeverity r = goget (om_Annotations (cap_Meta r)) AnnotationSeverity"

definition ClusterAdmissionPolicy_GetCategory :: "ClusterAdmissionPolicy \<Rightarrow> string option" where [getter_simps]:
  "ClusterAdmissionPolicy_GetCategory r = goget (om_Annotations (cap_Meta r)) AnnotationCategory"

definition ClusterAdmissionPolicy_GetTitle :: "ClusterAdmissionPolicy \<Rightarrow> string option" where [getter_simps]:
  "ClusterAdmissionPolicy_GetTitle r = goget (om_Annotations (cap_Meta r)) AnnotationTitle"

definition ClusterAdmissionPolicy_GetDescription :: "ClusterAdmissionPolicy \<Rightarrow> string option" where [getter_simps]:
  "ClusterAdmissionPolicy_GetDescription r = goget (om_Annotations (cap_Meta r)) AnnotationDescription"

section \<open>AdmissionPolicyGroup\<close>

definition AdmissionPolicyGroup_SetStatus :: "string \<Rightarrow> AdmissionPolicyGroup \<Rightarrow> AdmissionPolicyGroup" where [getter_simps]:
  "AdmissionPolicyGroup_SetStatus status r = r\<lparr>apg_Status := (apg_Status r)\<lparr>st_PolicyStatus := status\<rparr>\<rparr>"

definition AdmissionPolicyGroup_GetPolicyMode :: "AdmissionPolicyGroup \<Rightarrow> string" where [getter_simps]:
  "AdmissionPolicyGroup_GetPolicyMode r = gspec_Mode (pgs_GroupSpec (apgs_PolicyGroupSpec (apg_Spec r)))"

definition AdmissionPolicyGroup_SetPolicyModeStatus :: "string \<Rightarrow> AdmissionPolicyGroup \<Rightarrow> AdmissionPolicyGroup" where [getter_simps]:
  "AdmissionPolicyGroup_SetPolicyModeStatus policyMode r = r\<lparr>apg_Status := (apg_Status r)\<lparr>st_PolicyMode := policyMode\<rparr>\<rparr>"

definition AdmissionPolicyGroup_GetModule :: "AdmissionPolicyGroup \<Rightarrow> string" where [getter_simps]:
  "AdmissionPolicyGroup_GetModule r = ''''"

definition AdmissionPolicyGroup_IsMutating :: "AdmissionPolicyGroup \<Rightarrow> bool" where [getter_simps]:
  "AdmissionPolicyGroup_IsMutating r = False"

definition AdmissionPolicyGroup_IsContextAware :: "AdmissionPolicyGroup \<Rightarrow> bool" where [getter_simps]:
  "AdmissionPolicyGroup_IsContextAware r = False"

definition AdmissionPolicyGroup_GetSettings :: "AdmissionPolicyGroup \<Rightarrow> RawExtension" where [getter_simps]:
  "AdmissionPolicyGroup_GetSettings r = None"

definition AdmissionPolicyGroup_GetStatus :: "AdmissionPolicyGroup \<Rightarrow> PolicyStatus" where [getter_simps]:
  "AdmissionPolicyGroup_GetStatus r = apg_Status r"

definition AdmissionPolicyGroup_GetSideEffects :: "AdmissionPolicyGroup \<Rightarrow> string option" where [getter_simps]:
  "AdmissionPolicyGroup_GetSideEffects r = gspec_SideEffects (pgs_GroupSpec (apgs_PolicyGroupSpec (apg_Spec r)))"

definition AdmissionPolicyGroup_GetRules :: "AdmissionPolicyGroup \<Rightarrow> RuleWithOperations list" where [getter_simps]:
  "AdmissionPolicyGroup_GetRules r = namespacedRules (gspec_Rules (pgs_GroupSpec (apgs_PolicyGroupSpec (apg_Spec r))))"

definition AdmissionPolicyGroup_GetFailurePolicy :: "AdmissionPolicyGroup \<Rightarrow> string option" where [getter_simps]:
  "AdmissionPolicyGroup_GetFailurePolicy r = gspec_FailurePolicy (pgs_GroupSpec (apgs_PolicyGroupSpec (apg_Spec r)))"

definition AdmissionPolicyGroup_GetMatchPolicy :: "AdmissionPolicyGroup \<Rightarrow> string option" where [getter_simps]:
  "AdmissionPolicyGroup_GetMatchPolicy r = gspec_MatchPolicy (pgs_GroupSpec (apgs_PolicyGroupSpec (apg_Spec r)))"

definition AdmissionPolicyGroup_GetMatchConditions :: "AdmissionPolicyGroup \<Rightarrow> MatchCondition list" where [getter_simps]:
  "AdmissionPolicyGroup_GetMatchConditions r = gspec_MatchConditions (pgs_GroupSpec (apgs_PolicyGroupSpec (apg_Spec r)))"

definition AdmissionPolicyGroup_GetNamespaceSelector :: "AdmissionPolicyGroup \<Rightarrow> LabelSelector option" where [getter_simps]:
  "AdmissionPolicyGroup_GetNamespaceSelector r = Some (namespaceNameSelector (om_Namespace (apg_Meta r)))"

definition AdmissionPolicyGroup_GetObjectSelector :: "AdmissionPolicyGroup \<Rightarrow> LabelSelector option" where [getter_simps]:
  "AdmissionPolicyGroup_GetObjectSelector r = gspec_ObjectSelector (pgs_GroupSpec (apgs_PolicyGroupSpec (apg_Spec r)))"

definition AdmissionPolicyGroup_GetTimeoutSeconds :: "AdmissionPolicyGroup \<Rightarrow> int32 option" where [getter_simps]:
  "AdmissionPolicyGroup_GetTimeoutSeconds r = gspec_TimeoutSeconds (pgs_GroupSpec (apgs_PolicyGroupSpec (apg_Spec r)))"

definition AdmissionPolicyGroup_GetObjectMeta :: "AdmissionPolicyGroup \<Rightarrow> ObjectMeta" where [getter_simps]:
  "AdmissionPolicyGroup_GetObjectMeta r = apg_Meta r"

definition AdmissionPolicyGroup_GetPolicyServer :: "AdmissionPolicyGroup \<Rightarrow> string" where [getter_simps]:
  "AdmissionPolicyGroup_GetPolicyServer r = gspec_PolicyServer (pgs_GroupSpec (apgs_PolicyGroupSpec (apg_Spec r)))"

definition AdmissionPolicyGroup_GetUniqueName :: "AdmissionPolicyGroup \<Rightarrow> string" where [getter_simps]:
  "AdmissionPolicyGroup_GetUniqueName r = ''namespaced-group-'' @ om_Namespace (apg_Meta r) @ ''-'' @ om_Name (apg_Meta r)"

definition AdmissionPolicyGroup_GetContextAwareResources :: "AdmissionPolicyGroup \<Rightarrow> ContextAwareResource list" where [getter_simps]:
  "AdmissionPolicyGroup_GetContextAwareResources r = []"

definition AdmissionPolicyGroup_GetBackgroundAudit :: "AdmissionPolicyGroup \<Rightarrow> bool" where [getter_simps]:
  "AdmissionPolicyGroup_GetBackgroundAudit r = gspec_BackgroundAudit (pgs_GroupSpec (apgs_PolicyGroupSpec (apg_Spec r)))"

definition AdmissionPolicyGroup_GetSeverity :: "AdmissionPolicyGroup \<Rightarrow> string option" where [getter_simps]:
  "AdmissionPolicyGroup_GetSeverity r = goget (om_Annotations (apg_Meta r)) AnnotationSeverity"

definition AdmissionPolicyGroup_GetCategory :: "AdmissionPolicyGroup \<Rightarrow> string option" where [getter_simps]:
  "AdmissionPolicyGroup_GetCategory r = goget (om_Annotations (apg_Meta r)) AnnotationCategory"

definition AdmissionPolicyGroup_GetTitle :: "AdmissionPolicyGroup \<Rightarrow> string option" where [getter_simps]:
  "AdmissionPolicyGroup_GetTitle r = goget (om_Annotations (apg_Meta r)) AnnotationTitle"

definition AdmissionPolicyGroup_GetDescription :: "AdmissionPolicyGroup \<Rightarrow> string option" where [getter_simps]:
  "AdmissionPolicyGroup_GetDescription r = goget (om_Annotations (apg_Meta r)) AnnotationDescription"

definition AdmissionPolicyGroup_GetPolicyGroupMembersWithContext :: "AdmissionPolicyGroup \<Rightarrow> PolicyGroupMembersWithContext" where [getter_simps]:
  "AdmissionPolicyGroup_GetPolicyGroupMembersWithContext r = map (\<lambda>(name, policy). (name, \<lparr>pgmc_Member = policy, pgmc_ContextAwareResources = []\<rparr>))
      (pgs_Policies (apgs_PolicyGroupSpec (apg_Spec r)))"

definition AdmissionPolicyGroup_GetExpression :: "AdmissionPolicyGroup \<Rightarrow> string" where [getter_simps]:
  "AdmissionPolicyGroup_GetExpression r = gspec_Expression (pgs_GroupSpec (apgs_PolicyGroupSpec (apg_Spec r)))"

definition AdmissionPolicyGroup_GetMessage :: "AdmissionPolicyGroup \<Rightarrow> string" where [getter_simps]:
  "AdmissionPolicyGroup_GetMessage r = gspec_Message (pgs_GroupSpec (apgs_PolicyGroupSpec (apg_Spec r)))"

section \<open>ClusterAdmissionPolicyGroup\<close>

definition ClusterAdmissionPolicyGroup_SetStatus :: "string \<Rightarrow> ClusterAdmissionPolicyGroup \<Rightarrow> ClusterAdmissionPolicyGroup" where [getter_simps]:
  "ClusterAdmissionPolicyGroup_SetStatus status r = r\<lparr>capg_Status := (capg_Status r)\<lparr>st_PolicyStatus := status\<rparr>\<rparr>"

definition ClusterAdmissionPolicyGroup_GetPolicyMode :: "ClusterAdmissionPolicyGroup \<Rightarrow> string" where [getter_simps]:
  "ClusterAdmissionPolicyGroup_GetPolicyMode r = gspec_Mode (cpgs_GroupSpec (capgs_ClusterPolicyGroupSpec (capg_Spec r)))"

definition ClusterAdmissionPolicyGroup_SetPolicyModeStatus :: "string \<Rightarrow> ClusterAdmissionPolicyGroup \<Rightarrow> ClusterAdmissionPolicyGroup" where [getter_simps]:
  "ClusterAdmissionPolicyGroup_SetPolicyModeStatus policyMode r = r\<lparr>capg_Status := (capg_Status r)\<lparr>st_PolicyMode := policyMode\<rparr>\<rparr>"

definition ClusterAdmissionPolicyGroup_GetModule :: "ClusterAdmissionPolicyGroup \<Rightarrow> string" where [getter_simps]:
  "ClusterAdmissionPolicyGroup_GetModule r = ''''"

definition ClusterAdmissionPolicyGroup_IsMutating :: "ClusterAdmissionPolicyGroup \<Rightarrow> bool" where [getter_simps]:
  "ClusterAdmissionPolicyGroup_IsMutating r = False"

definition ClusterAdmissionPolicyGroup_IsContextAware :: "ClusterAdmissionPolicyGroup \<Rightarrow> bool" where [getter_simps]:
  "ClusterAdmissionPolicyGroup_IsContextAware r = list_ex (\<lambda>(name, policy). pgmc_ContextAwareResources policy \<noteq> [])
      (cpgs_Policies (capgs_ClusterPolicyGroupSpec (capg_Spec r)))"

definition ClusterAdmissionPolicyGroup_GetSettings :: "ClusterAdmissionPolicyGroup \<Rightarrow> RawExtension" where [getter_simps]:
  "ClusterAdmissionPolicyGroup_GetSettings r = None"

definition ClusterAdmissionPolicyGroup_GetStatus :: "ClusterAdmissionPolicyGroup \<Rightarrow> PolicyStatus" where [getter_simps]:
  "ClusterAdmissionPolicyGroup_GetStatus r = capg_Status r"

definition ClusterAdmissionPolicyGroup_GetSideEffects :: "ClusterAdmissionPolicyGroup \<Rightarrow> string option" where [getter_simps]:
  "ClusterAdmissionPolicyGroup_GetSideEffects r = gspec_SideEffects (cpgs_GroupSpec (capgs_ClusterPolicyGroupSpec (capg_Spec r)))"

definition ClusterAdmissionPolicyGroup_GetRules :: "ClusterAdmissionPolicyGroup \<Rightarrow> RuleWithOperations list" where [getter_simps]:
  "ClusterAdmissionPolicyGroup_GetRules r = gspec_Rules (cpgs_GroupSpec (capgs_ClusterPolicyGroupSpec (capg_Spec r)))"

definition ClusterAdmissionPolicyGroup_GetFailurePolicy :: "ClusterAdmissionPolicyGroup \<Rightarrow> string option" where [getter_simps]:
  "ClusterAdmissionPolicyGroup_GetFailurePolicy r = gspec_FailurePolicy (cpgs_GroupSpec (capgs_ClusterPolicyGroupSpec (capg_Spec r)))"

definition ClusterAdmissionPolicyGroup_GetMatchPolicy :: "ClusterAdmissionPolicyGroup \<Rightarrow> string option" where [getter_simps]:
  "ClusterAdmissionPolicyGroup_GetMatchPolicy r = gspec_MatchPolicy (cpgs_GroupSpec (capgs_ClusterPolicyGroupSpec (capg_Spec r)))"

definition ClusterAdmissionPolicyGroup_GetMatchConditions :: "ClusterAdmissionPolicyGroup \<Rightarrow> MatchCondition list" where [getter_simps]:
  "ClusterAdmissionPolicyGroup_GetMatchConditions r = gspec_MatchConditions (cpgs_GroupSpec (capgs_ClusterPolicyGroupSpec (capg_Spec r)))"

definition ClusterAdmissionPolicyGroup_GetNamespaceSelector :: "ClusterAdmissionPolicyGroup \<Rightarrow> LabelSelector option" where [getter_simps]:
  "ClusterAdmissionPolicyGroup_GetNamespaceSelector r = capgs_NamespaceSelector (capg_Spec r)"

definition ClusterAdmissionPolicyGroup_GetObjectSelector :: "ClusterAdmissionPolicyGroup \<Rightarrow> LabelSelector option" where [getter_simps]:
  "ClusterAdmissionPolicyGroup_GetObjectSelector r = gspec_ObjectSelector (cpgs_GroupSpec (capgs_ClusterPolicyGroupSpec (capg_Spec r)))"

definition ClusterAdmissionPolicyGroup_GetTimeoutSeconds :: "ClusterAdmissionPolicyGroup \<Rightarrow> int32 option" where [getter_simps]:
  "ClusterAdmissionPolicyGroup_GetTimeoutSeconds r = gspec_TimeoutSeconds (cpgs_GroupSpec (capgs_ClusterPolicyGroupSpec (capg_Spec r)))"

definition ClusterAdmissionPolicyGroup_GetObjectMeta :: "ClusterAdmissionPolicyGroup \<Rightarrow> ObjectMeta" where [getter_simps]:
  "ClusterAdmissionPolicyGroup_GetObjectMeta r = capg_Meta r"

definition ClusterAdmissionPolicyGroup_GetPolicyServer :: "ClusterAdmissionPolicyGroup \<Rightarrow> string" where [getter_simps]:
  "ClusterAdmissionPolicyGroup_GetPolicyServer r = gspec_PolicyServer (cpgs_GroupSpec (capgs_ClusterPolicyGroupSpec (capg_Spec r)))"

definition ClusterAdmissionPolicyGroup_GetUniqueName :: "ClusterAdmissionPolicyGroup \<Rightarrow> string" where [getter_simps]:
  "ClusterAdmissionPolicyGroup_GetUniqueName r = ''clusterwide-group-'' @ om_Name (capg_Meta r)"

definition ClusterAdmissionPolicyGroup_GetContextAwareResources :: "ClusterAdmissionPolicyGroup \<Rightarrow> ContextAwareResource list" where [getter_simps]:
  "ClusterAdmissionPolicyGroup_GetContextAwareResources r = []"

definition ClusterAdmissionPolicyGroup_GetBackgroundAudit :: "ClusterAdmissionPolicyGroup \<Rightarrow> bool" where [getter_simps]:
  "ClusterAdmissionPolicyGroup_GetBackgroundAudit r = gspec_BackgroundAudit (cpgs_GroupSpec (capgs_ClusterPolicyGroupSpec (capg_Spec r)))"

definition ClusterAdmissionPolicyGroup_GetSeverity :: "ClusterAdmissionPolicyGroup \<Rightarrow> string option" where [getter_simps]:
  "ClusterAdmissionPolicyGroup_GetSeverity r = goget (om_Annotations (capg_Meta r)) AnnotationSeverity"

definition ClusterAdmissionPolicyGroup_GetCategory :: "ClusterAdmissionPolicyGroup \<Rightarrow> string option" where [getter_simps]:
  "ClusterAdmissionPolicyGroup_GetCategory r = goget (om_Annotations (capg_Meta r)) AnnotationCategory"

definition ClusterAdmissionPolicyGroup_GetTitle :: "ClusterAdmissionPolicyGroup \<Rightarrow> string option" where [getter_simps]:
  "ClusterAdmissionPolicyGroup_GetTitle r = goget (om_Annotations (capg_Meta r)) AnnotationTitle"

definition ClusterAdmissionPolicyGroup_GetDescription :: "ClusterAdmissionPolicyGroup \<Rightarrow> string option" where [getter_simps]:
  "ClusterAdmissionPolicyGroup_GetDescription r = goget (om_Annotations (capg_Meta r)) AnnotationDescription"

definition ClusterAdmissionPolicyGroup_GetPolicyGroupMembersWithContext :: "ClusterAdmissionPolicyGroup \<Rightarrow> PolicyGroupMembersWithContext" where [getter_simps]:
  "ClusterAdmissionPolicyGroup_GetPolicyGroupMembersWithContext r = cpgs_Policies (capgs_ClusterPolicyGroupSpec (capg_Spec r))"

definition ClusterAdmissionPolicyGroup_GetExpression :: "ClusterAdmissionPolicyGroup \<Rightarrow> string" where [getter_simps]:
  "ClusterAdmissionPolicyGroup_GetExpression r = gspec_Expression (cpgs_GroupSpec (capgs_ClusterPolicyGroupSpec (capg_Spec r)))"

definition ClusterAdmissionPolicyGroup_GetMessage :: "ClusterAdmissionPolicyGroup \<Rightarrow> string" where [getter_simps]:
  "ClusterAdmissionPolicyGroup_GetMessage r = gspec_Message (cpgs_GroupSpec (capgs_ClusterPolicyGroupSpec (capg_Spec r)))"

section \<open>The interfaces Policy and PolicyGroup\<close>

datatype Policy =
    AP AdmissionPolicy
  | CAP ClusterAdmissionPolicy
  | APG AdmissionPolicyGroup
  | CAPG ClusterAdmissionPolicyGroup

text \<open>A call of an interface method is dispatched on the type of the value.\<close>

primrec GetPolicyMode :: "Policy \<Rightarrow> string" where
  "GetPolicyMode (AP r) = AdmissionPolicy_GetPolicyMode r"
| "GetPolicyMode (CAP r) = ClusterAdmissionPolicy_GetPolicyMode r"
| "GetPolicyMode (APG r) = AdmissionPolicyGroup_GetPolicyMode r"
| "GetPolicyMode (CAPG r) = ClusterAdmissionPolicyGroup_GetPolicyMode r"

primrec GetModule :: "Policy \<Rightarrow> string" where
  "GetModule (AP r) = AdmissionPolicy_GetModule r"
| "GetModule (CAP r) = ClusterAdmissionPolicy_GetModule r"
| "GetModule (APG r) = AdmissionPolicyGroup_GetModule r"
| "GetModule (CAPG r) = ClusterAdmissionPolicyGroup_GetModule r"

primrec IsMutating :: "Policy \<Rightarrow> bool" where
  "IsMutating (AP r) = AdmissionPolicy_IsMutating r"
| "IsMutating (CAP r) = ClusterAdmissionPolicy_IsMutating r"
| "IsMutating (APG r) = AdmissionPolicyGroup_IsMutating r"
| "IsMutating (CAPG r) = ClusterAdmissionPolicyGroup_IsMutating r"

primrec IsContextAware :: "Policy \<Rightarrow> bool" where
  "IsContextAware (AP r) = AdmissionPolicy_IsContextAware r"
| "IsContextAware (CAP r) = ClusterAdmissionPolicy_IsContextAware r"
| "IsContextAware (APG r) = AdmissionPolicyGroup_IsContextAware r"
| "IsContextAware (CAPG r) = ClusterAdmissionPolicyGroup_IsContextAware r"

primrec GetSettings :: "Policy \<Rightarrow> RawExtension" where
  "GetSettings (AP r) = AdmissionPolicy_GetSettings r"
| "GetSettings (CAP r) = ClusterAdmissionPolicy_GetSettings r"
| "GetSettings (APG r) = AdmissionPolicyGroup_GetSettings r"
| "GetSettings (CAPG r) = ClusterAdmissionPolicyGroup_GetSettings r"

primrec GetStatus :: "Policy \<Rightarrow> PolicyStatus" where
  "GetStatus (AP r) = AdmissionPolicy_GetStatus r"
| "GetStatus (CAP r) = ClusterAdmissionPolicy_GetStatus r"
| "GetStatus (APG r) = AdmissionPolicyGroup_GetStatus r"
| "GetStatus (CAPG r) = ClusterAdmissionPolicyGroup_GetStatus r"

primrec GetSideEffects :: "Policy \<Rightarrow> string option" where
  "GetSideEffects (AP r) = AdmissionPolicy_GetSideEffects r"
| "GetSideEffects (CAP r) = ClusterAdmissionPolicy_GetSideEffects r"
| "GetSideEffects (APG r) = AdmissionPolicyGroup_GetSideEffects r"
| "GetSideEffects (CAPG r) = ClusterAdmissionPolicyGroup_GetSideEffects r"

primrec GetRules :: "Policy \<Rightarrow> RuleWithOperations list" where
  "GetRules (AP r) = AdmissionPolicy_GetRules r"
| "GetRules (CAP r) = ClusterAdmissionPolicy_GetRules r"
| "GetRules (APG r) = AdmissionPolicyGroup_GetRules r"
| "GetRules (CAPG r) = ClusterAdmissionPolicyGroup_GetRules r"

primrec GetFailurePolicy :: "Policy \<Rightarrow> string option" where
  "GetFailurePolicy (AP r) = AdmissionPolicy_GetFailurePolicy r"
| "GetFailurePolicy (CAP r) = ClusterAdmissionPolicy_GetFailurePolicy r"
| "GetFailurePolicy (APG r) = AdmissionPolicyGroup_GetFailurePolicy r"
| "GetFailurePolicy (CAPG r) = ClusterAdmissionPolicyGroup_GetFailurePolicy r"

primrec GetMatchPolicy :: "Policy \<Rightarrow> string option" where
  "GetMatchPolicy (AP r) = AdmissionPolicy_GetMatchPolicy r"
| "GetMatchPolicy (CAP r) = ClusterAdmissionPolicy_GetMatchPolicy r"
| "GetMatchPolicy (APG r) = AdmissionPolicyGroup_GetMatchPolicy r"
| "GetMatchPolicy (CAPG r) = ClusterAdmissionPolicyGroup_GetMatchPolicy r"

primrec GetMatchConditions :: "Policy \<Rightarrow> MatchCondition list" where
  "GetMatchConditions (AP r) = AdmissionPolicy_GetMatchConditions r"
| "GetMatchConditions (CAP r) = ClusterAdmissionPolicy_GetMatchConditions r"
| "GetMatchConditions (APG r) = AdmissionPolicyGroup_GetMatchConditions r"
| "GetMatchConditions (CAPG r) = ClusterAdmissionPolicyGroup_GetMatchConditions r"

primrec GetNamespaceSelector :: "Policy \<Rightarrow> LabelSelector option" where
  "GetNamespaceSelector (AP r) = AdmissionPolicy_GetNamespaceSelector r"
| "GetNamespaceSelector (CAP r) = ClusterAdmissionPolicy_GetNamespaceSelector r"
| "GetNamespaceSelector (APG r) = AdmissionPolicyGroup_GetNamespaceSelector r"
| "GetNamespaceSelector (CAPG r) = ClusterAdmissionPolicyGroup_GetNamespaceSelector r"

primrec GetObjectSelector :: "Policy \<Rightarrow> LabelSelector option" where
  "GetObjectSelector (AP r) = AdmissionPolicy_GetObjectSelector r"
| "GetObjectSelector (CAP r) = ClusterAdmissionPolicy_GetObjectSelector r"
| "GetObjectSelector (APG r) = AdmissionPolicyGroup_GetObjectSelector r"
| "GetObjectSelector (CAPG r) = ClusterAdmissionPolicyGroup_GetObjectSelector r"

primrec GetTimeoutSeconds :: "Policy \<Rightarrow> int32 option" where
  "GetTimeoutSeconds (AP r) = AdmissionPolicy_GetTimeoutSeconds r"
| "GetTimeoutSeconds (CAP r) = ClusterAdmissionPolicy_GetTimeoutSeconds r"
| "GetTimeoutSeconds (APG r) = AdmissionPolicyGroup_GetTimeoutSeconds r"
| "GetTimeoutSeconds (CAPG r) = ClusterAdmissionPolicyGroup_GetTimeoutSeconds r"

primrec GetObjectMeta :: "Policy \<Rightarrow> ObjectMeta" where
  "GetObjectMeta (AP r) = AdmissionPolicy_GetObjectMeta r"
| "GetObjectMeta (CAP r) = ClusterAdmissionPolicy_GetObjectMeta r"
| "GetObjectMeta (APG r) = AdmissionPolicyGroup_GetObjectMeta r"
| "GetObjectMeta (CAPG r) = ClusterAdmissionPolicyGroup_GetObjectMeta r"

primrec GetPolicyServer :: "Policy \<Rightarrow> string" where
  "GetPolicyServer (AP r) = AdmissionPolicy_GetPolicyServer r"
| "GetPolicyServer (CAP r) = ClusterAdmissionPolicy_GetPolicyServer r"
| "GetPolicyServer (APG r) = AdmissionPolicyGroup_GetPolicyServer r"
| "GetPolicyServer (CAPG r) = ClusterAdmissionPolicyGroup_GetPolicyServer r"

primrec GetUniqueName :: "Policy \<Rightarrow> string" where
  "GetUniqueName (AP r) = AdmissionPolicy_GetUniqueName r"
| "GetUniqueName (CAP r) = ClusterAdmissionPolicy_GetUniqueName r"
| "GetUniqueName (APG r) = AdmissionPolicyGroup_GetUniqueName r"
| "GetUniqueName (CAPG r) = ClusterAdmissionPolicyGroup_GetUniqueName r"

primrec GetContextAwareResources :: "Policy \<Rightarrow> ContextAwareResource list" where
  "GetContextAwareResources (AP r) = AdmissionPolicy_GetContextAwareResources r"
| "GetContextAwareResources (CAP r) = ClusterAdmissionPolicy_GetContextAwareResources r"
| "GetContextAwareResources (APG r) = AdmissionPolicyGroup_GetContextAwareResources r"
| "GetContextAwareResources (CAPG r) = ClusterAdmissionPolicyGroup_GetContextAwareResources r"

primrec GetBackgroundAudit :: "Policy \<Rightarrow> bool" where
  "GetBackgroundAudit (AP r) = AdmissionPolicy_GetBackgroundAudit r"
| "GetBackgroundAudit (CAP r) = ClusterAdmissionPolicy_GetBackgroundAudit r"
| "GetBackgroundAudit (APG r) = AdmissionPolicyGroup_GetBackgroundAudit r"
| "GetBackgroundAudit (CAPG r) = ClusterAdmissionPolicyGroup_GetBackgroundAudit r"

primrec GetSeverity :: "Policy \<Rightarrow> string option" where
  "GetSeverity (AP r) = AdmissionPolicy_GetSeverity r"
| "GetSeverity (CAP r) = ClusterAdmissionPolicy_GetSeverity r"
| "GetSeverity (APG r) = AdmissionPolicyGroup_GetSeverity r"
| "GetSeverity (CAPG r) = ClusterAdmissionPolicyGroup_GetSeverity r"

primrec GetCategory :: "Policy \<Rightarrow> string option" where
  "GetCategory (AP r) = AdmissionPolicy_GetCategory r"
| "GetCategory (CAP r) = ClusterAdmissionPolicy_GetCategory r"
| "GetCategory (APG r) = AdmissionPolicyGroup_GetCategory r"
| "GetCategory (CAPG r) = ClusterAdmissionPolicyGroup_GetCategory r"

primrec GetTitle :: "Policy \<Rightarrow> string option" where
  "GetTitle (AP r) = AdmissionPolicy_GetTitle r"
| "GetTitle (CAP r) = ClusterAdmissionPolicy_GetTitle r"
| "GetTitle (APG r) = AdmissionPolicyGroup_GetTitle r"
| "GetTitle (CAPG r) = ClusterAdmissionPolicyGroup_GetTitle r"

primrec GetDescription :: "Policy \<Rightarrow> string option" where
  "GetDescription (AP r) = AdmissionPolicy_GetDescription r"
| "GetDescription (CAP r) = ClusterAdmissionPolicy_GetDescription r"
| "GetDescription (APG r) = AdmissionPolicyGroup_GetDescription r"
| "GetDescription (CAPG r) = ClusterAdmissionPolicyGroup_GetDescription r"

primrec SetStatus :: "string \<Rightarrow> Policy \<Rightarrow> Policy" where
  "SetStatus status (AP r) = AP (AdmissionPolicy_SetStatus status r)"
| "SetStatus status (CAP r) = CAP (ClusterAdmissionPolicy_SetStatus status r)"
| "SetStatus status (APG r) = APG (AdmissionPolicyGroup_SetStatus status r)"
| "SetStatus status (CAPG r) = CAPG (ClusterAdmissionPolicyGroup_SetStatus status r)"

primrec SetPolicyModeStatus :: "string \<Rightarrow> Policy \<Rightarrow> Policy" where
  "SetPolicyModeStatus policyMode (AP r) = AP (AdmissionPolicy_SetPolicyModeStatus policyMode r)"
| "SetPolicyModeStatus policyMode (CAP r) = CAP (ClusterAdmissionPolicy_SetPolicyModeStatus policyMode r)"
| "SetPolicyModeStatus policyMode (APG r) = APG (AdmissionPolicyGroup_SetPolicyModeStatus policyMode r)"
| "SetPolicyModeStatus policyMode (CAPG r) = CAPG (ClusterAdmissionPolicyGroup_SetPolicyModeStatus policyMode r)"

text \<open>
  Assignments through the pointers that \<open>GetStatus()\<close> and \<open>GetObjectMeta()\<close> return.
\<close>

primrec mapConditions :: "(Condition list \<Rightarrow> Condition list) \<Rightarrow> Policy \<Rightarrow> Policy" where
  "mapConditions f (AP r) = AP (r\<lparr>ap_Status := (ap_Status r)\<lparr>st_Conditions := f (st_Conditions (ap_Status r))\<rparr>\<rparr>)"
| "mapConditions f (CAP r) = CAP (r\<lparr>cap_Status := (cap_Status r)\<lparr>st_Conditions := f (st_Conditions (cap_Status r))\<rparr>\<rparr>)"
| "mapConditions f (APG r) = APG (r\<lparr>apg_Status := (apg_Status r)\<lparr>st_Conditions := f (st_Conditions (apg_Status r))\<rparr>\<rparr>)"
| "mapConditions f (CAPG r) = CAPG (r\<lparr>capg_Status := (capg_Status r)\<lparr>st_Conditions := f (st_Conditions (capg_Status r))\<rparr>\<rparr>)"

primrec mapMeta :: "(ObjectMeta \<Rightarrow> ObjectMeta) \<Rightarrow> Policy \<Rightarrow> Policy" where
  "mapMeta f (AP r) = AP (r\<lparr>ap_Meta := f (ap_Meta r)\<rparr>)"
| "mapMeta f (CAP r) = CAP (r\<lparr>cap_Meta := f (cap_Meta r)\<rparr>)"
| "mapMeta f (APG r) = APG (r\<lparr>apg_Meta := f (apg_Meta r)\<rparr>)"
| "mapMeta f (CAPG r) = CAPG (r\<lparr>capg_Meta := f (capg_Meta r)\<rparr>)"

abbreviation GetName :: "Policy \<Rightarrow> string" where
  "GetName p \<equiv> om_Name (GetObjectMeta p)"

abbreviation GetNamespace :: "Policy \<Rightarrow> string" where
  "GetNamespace p \<equiv> om_Namespace (GetObjectMeta p)"

abbreviation GetDeletionTimestamp :: "Policy \<Rightarrow> int option" where
  "GetDeletionTimestamp p \<equiv> om_DeletionTimestamp (GetObjectMeta p)"

text \<open>
  The assertion \<open>policy.(PolicyGroup)\<close>: the two group kinds have the three more methods.
\<close>

fun asPolicyGroup :: "Policy \<Rightarrow> (PolicyGroupMembersWithContext \<times> string \<times> string) option" where
  "asPolicyGroup (APG r) = Some (AdmissionPolicyGroup_GetPolicyGroupMembersWithContext r,
     AdmissionPolicyGroup_GetExpression r, AdmissionPolicyGroup_GetMessage r)"
| "asPolicyGroup (CAPG r) = Some (ClusterAdmissionPolicyGroup_GetPolicyGroupMembersWithContext r,
     ClusterAdmissionPolicyGroup_GetExpression r, ClusterAdmissionPolicyGroup_GetMessage r)"
| "asPolicyGroup (AP r) = None"
| "asPolicyGroup (CAP r) = None"


section \<open>What the setters change\<close>

lemma GetStatus_SetStatus [simp]: "GetStatus (SetStatus s p) = (GetStatus p)\<lparr>st_PolicyStatus := s\<rparr>"
  and GetStatus_SetPolicyModeStatus [simp]:
    "GetStatus (SetPolicyModeStatus m p) = (GetStatus p)\<lparr>st_PolicyMode := m\<rparr>"
  and GetStatus_mapConditions [simp]:
    "GetStatus (mapConditions f p) = (GetStatus p)\<lparr>st_Conditions := f (st_Conditions (GetStatus p))\<rparr>"
  and GetStatus_mapMeta [simp]: "GetStatus (mapMeta g p) = GetStatus p"
  and GetObjectMeta_mapMeta [simp]: "GetObjectMeta (mapMeta g p) = g (GetObjectMeta p)"
  by (cases p; simp add: getter_simps)+

text \<open>
  The status of a policy is not part of what the reconciler acts on: two policies with the
  same frame differ in their status only.
\<close>

primrec policyFrame :: "Policy \<Rightarrow> Policy" where
  "policyFrame (AP r) = AP (r\<lparr>ap_Status := \<lparr>st_PolicyStatus = '''', st_PolicyMode = '''', st_Conditions = []\<rparr>\<rparr>)"
| "policyFrame (CAP r) = CAP (r\<lparr>cap_Status := \<lparr>st_PolicyStatus = '''', st_PolicyMode = '''', st_Conditions = []\<rparr>\<rparr>)"
| "policyFrame (APG r) = APG (r\<lparr>apg_Status := \<lparr>st_PolicyStatus = '''', st_PolicyMode = '''', st_Conditions = []\<rparr>\<rparr>)"
| "policyFrame (CAPG r) = CAPG (r\<lparr>capg_Status := \<lparr>st_PolicyStatus = '''', st_PolicyMode = '''', st_Conditions = []\<rparr>\<rparr>)"

lemma policyFrame_setters [simp]:
  "policyFrame (SetStatus s p) = policyFrame p"
  "policyFrame (SetPolicyModeStatus m p) = policyFrame p"
  "policyFrame (mapConditions f p) = policyFrame p"
  by (cases p; simp add: getter_simps)+

lemma getters_policyFrame [simp]:
  "GetPolicyServer (policyFrame p) = GetPolicyServer p"
  "GetUniqueName (policyFrame p) = GetUniqueName p"
  "IsMutating (policyFrame p) = IsMutating p"
  "GetObjectMeta (policyFrame p) = GetObjectMeta p"
  "GetRules (policyFrame p) = GetRules p"
  "GetSideEffects (policyFrame p) = GetSideEffects p"
  "GetFailurePolicy (policyFrame p) = GetFailurePolicy p"
  "GetMatchPolicy (policyFrame p) = GetMatchPolicy p"
  "GetMatchConditions (policyFrame p) = GetMatchConditions p"
  "GetNamespaceSelector (policyFrame p) = GetNamespaceSelector p"
  "GetObjectSelector (policyFrame p) = GetObjectSelector p"
  "GetTimeoutSeconds (policyFrame p) = GetTimeoutSeconds p"
  by (cases p; simp add: getter_simps)+

lemma getters_frame_eq:
  assumes "policyFrame p = policyFrame q"
  shows "GetPolicyServer p = GetPolicyServer q" "GetUniqueName p = GetUniqueName q"
    "IsMutating p = IsMutating q" "GetObjectMeta p = GetObjectMeta q" "GetRules p = GetRules q"
    "GetMatchConditions p = GetMatchConditions q"
  using assms getters_policyFrame by metis+

end
