(* ===== verification/Policy_Validation.thy ===== *)
theory Policy_Validation
  imports Policy_Types
begin

text \<open>
  \<open>api/policies/v1/policy_validation.go\<close> and \<open>policygroup_validation.go\<close>: the checks that the
  admission webhooks of the controller run on the policies submitted to the cluster.
  The CEL compiler and \<open>validation.IsQualifiedName\<close> are third-party code, hence the fields of
  a parameter of type \<open>validation_lib\<close>; nothing is assumed about them.
\<close>

section \<open>Field errors\<close>

datatype path_elem = PChild string | PIndex nat

type_synonym field_path = "path_elem list"

definition Child :: "field_path \<Rightarrow> string \<Rightarrow> field_path" where
  "Child p n = p @ [PChild n]"

definition Index :: "field_path \<Rightarrow> nat \<Rightarrow> field_path" where
  "Index p i = p @ [PIndex i]"

definition NewPath :: "string list \<Rightarrow> field_path" where
  "NewPath ns = map PChild ns"

datatype FieldError =
    Required field_path string
  | Invalid field_path string string
  | Forbidden field_path string
  | Duplicate field_path string
  | TooMany field_path nat nat
  | InternalError field_path string

type_synonym ErrorList = "FieldError list"

section \<open>Third-party functions\<close>

datatype cel_error_type = ErrorTypeRequired | ErrorTypeInvalid | ErrorTypeInternal | ErrorTypeOther

datatype compile_error = CelError cel_error_type string | OtherError string

record validation_lib =
  lib_CompileCELExpression :: "string \<Rightarrow> compile_error option"
  lib_IsQualifiedName :: "string \<Rightarrow> string list"
  lib_stdlibFunctions :: "string list"
  lib_NewCustomEnv :: "string list \<Rightarrow> string list \<Rightarrow> string option"
  lib_Compile :: "string list \<Rightarrow> string list \<Rightarrow> string \<Rightarrow> string + string"

text \<open>
  \<open>lib_NewCustomEnv fns ops\<close> is the error, if any, of building a CEL environment with the
  functions \<open>fns\<close> (no argument, a boolean result) and the operators \<open>ops\<close>;
  \<open>lib_Compile fns ops e\<close> compiles \<open>e\<close> there: \<open>Inl\<close> the issues, \<open>Inr\<close> the output type.
\<close>

section \<open>Sensitive resources\<close>

definition maxMatchConditionsCount :: nat where
  "maxMatchConditionsCount = 64"

record sensitiveResource =
  sens_APIGroup :: string
  sens_Resource :: string

definition sensitiveResource_String :: "sensitiveResource \<Rightarrow> string" where
  "sensitiveResource_String sr = ''APIGroup: '' @ sens_APIGroup sr @ '', Resource: '' @ sens_Resource sr"

definition MatchesRules :: "sensitiveResource \<Rightarrow> string list \<Rightarrow> string list \<Rightarrow> bool" where
  "MatchesRules sr apiGroups resource \<longleftrightarrow>
     (let apiGroupMatches = list_ex (\<lambda>apiGroup. apiGroup = sens_APIGroup sr \<or> apiGroup = ''*'') apiGroups;
          resourceMatches = list_ex (\<lambda>res. res = sens_Resource sr \<or> res = ''*'' \<or> res = ''*/*''
                                          \<or> HasPrefix res (sens_Resource sr @ ''/'')) resource
      in apiGroupMatches \<and> resourceMatches)"

definition defaultSensitiveResources :: "sensitiveResource list" where
  "defaultSensitiveResources = [\<lparr>sens_APIGroup = ''wgpolicyk8s.io'', sens_Resource = ''policyreports''\<rparr>]"

section \<open>Rules\<close>

definition checkOperationsArrayForEmptyString :: "string list \<Rightarrow> field_path \<Rightarrow> ErrorList" where
  "checkOperationsArrayForEmptyString operationsArray rulesField =
     concat (map (\<lambda>(i, operation). if operation = '''' then
         [Required (Index (Child rulesField ''operations'') i) ''must be non-empty''] else [])
       (indexed operationsArray))"

definition checkRulesArrayForEmptyString :: "string list \<Rightarrow> field_path \<Rightarrow> ErrorList" where
  "checkRulesArrayForEmptyString rulesArray rulesField =
     concat (map (\<lambda>(i, apiVersion). if apiVersion = '''' then
         [Required (Index rulesField i) ''must be non-empty''] else [])
       (indexed rulesArray))"

text \<open>The index of the first match: a loop with \<open>break\<close>.\<close>

definition firstIndex :: "('a \<Rightarrow> bool) \<Rightarrow> 'a list \<Rightarrow> nat option" where
  "firstIndex P xs = map_option fst (find (\<lambda>(i, x). P x) (indexed xs))"

definition checkRulesArrayForWildcardUsage ::
  "string list \<Rightarrow> string list \<Rightarrow> field_path \<Rightarrow> ErrorList" where
  "checkRulesArrayForWildcardUsage rulesAPIGroups rulesResources rulesField =
     (case (firstIndex (\<lambda>apiGroup. apiGroup = ''*'') rulesAPIGroups,
            firstIndex (\<lambda>resource. resource = ''*'' \<or> resource = ''*/*'') rulesResources) of
        (Some apiGroupWildcardIndex, Some resourceWildcardIndex) \<Rightarrow>
          [Forbidden (Index (Child rulesField ''apiGroups'') apiGroupWildcardIndex)
             ''apiGroups cannot use wildcards when using AdmissionPolicy or AdmissionPolicyGroup'',
           Forbidden (Index (Child rulesField ''resources'') resourceWildcardIndex)
             ''resources cannot use wildcards when using AdmissionPolicy or AdmissionPolicyGroup'']
      | _ \<Rightarrow> [])"

definition checkRulesArrayForSensitiveResourcesBeingTargeted ::
  "string list \<Rightarrow> string list \<Rightarrow> field_path \<Rightarrow> ErrorList" where
  "checkRulesArrayForSensitiveResourcesBeingTargeted rulesAPIGroups rulesResources rulesField =
     concat (map (\<lambda>sr. if MatchesRules sr rulesAPIGroups rulesResources then
         [Forbidden rulesField (''{'' @ sensitiveResource_String sr
            @ ''} resources cannot be targeted by AdmissionPolicy or AdmissionPolicyGroup'')] else [])
       defaultSensitiveResources)"

fun isNamespacedKind :: "Policy \<Rightarrow> bool" where
  "isNamespacedKind (AP _) = True"
| "isNamespacedKind (APG _) = True"
| "isNamespacedKind (CAP _) = False"
| "isNamespacedKind (CAPG _) = False"

text \<open>
  One round of the loop of \<open>validateRulesField\<close>. The source hands the API versions of the
  rule to both checks of the namespaced kinds, whose first parameter is named
  \<open>rulesAPIGroups\<close>; the model does the same.
\<close>

definition validateRule :: "bool \<Rightarrow> RuleWithOperations \<Rightarrow> ErrorList" where
  "validateRule namespaced rule =
     (let rulesField = NewPath [''spec'', ''rules''] in
      if rule_Operations rule = [] then
        [Required (Child rulesField ''operations'') ''a value must be specified'']
      else if rule_APIVersions rule = [] \<or> rule_Resources rule = [] then
        [Required rulesField ''apiVersions and resources must have specified values'']
      else
        checkOperationsArrayForEmptyString (rule_Operations rule) rulesField
        @ checkRulesArrayForEmptyString (rule_APIVersions rule) (Child rulesField ''rule.apiVersions'')
        @ checkRulesArrayForEmptyString (rule_Resources rule) (Child rulesField ''rule.resources'')
        @ (if namespaced then
             checkRulesArrayForWildcardUsage (rule_APIVersions rule) (rule_Resources rule) rulesField
             @ checkRulesArrayForSensitiveResourcesBeingTargeted (rule_APIVersions rule) (rule_Resources rule) rulesField
           else []))"

definition validateRulesField :: "Policy \<Rightarrow> ErrorList" where
  "validateRulesField policy =
     (if GetRules policy = [] then
        [Required (NewPath [''spec'', ''rules'']) ''a value must be specified'']
      else concat (map (validateRule (isNamespacedKind policy)) (GetRules policy)))"

section \<open>Match conditions\<close>

definition convertCELErrorToValidationError :: "field_path \<Rightarrow> string \<Rightarrow> compile_error \<Rightarrow> FieldError" where
  "convertCELErrorToValidationError fldPath expression err =
     (case err of
        CelError ErrorTypeRequired detail \<Rightarrow> Required fldPath detail
      | CelError ErrorTypeInvalid detail \<Rightarrow> Invalid fldPath expression detail
      | CelError ErrorTypeInternal detail \<Rightarrow> InternalError fldPath detail
      | CelError ErrorTypeOther detail \<Rightarrow> InternalError fldPath (''unsupported error type: '' @ detail)
      | OtherError detail \<Rightarrow> InternalError fldPath (''unsupported error type: '' @ detail))"

definition validateMatchConditionsExpression ::
  "validation_lib \<Rightarrow> string \<Rightarrow> field_path \<Rightarrow> ErrorList" where
  "validateMatchConditionsExpression lib expressionStr fldPath =
     (case lib_CompileCELExpression lib expressionStr of
        None \<Rightarrow> []
      | Some err \<Rightarrow> [convertCELErrorToValidationError fldPath expressionStr err])"

definition validateMatchCondition ::
  "validation_lib \<Rightarrow> MatchCondition \<Rightarrow> field_path \<Rightarrow> ErrorList" where
  "validateMatchCondition lib v fldPath =
     (let trimmedExpression = TrimSpace (mc_Expression v) in
      (if trimmedExpression = [] then [Required (Child fldPath ''expression'') '''']
       else validateMatchConditionsExpression lib trimmedExpression (Child fldPath ''expression''))
      @ (if mc_Name v = [] then [Required (Child fldPath ''name'') '''']
         else map (Invalid fldPath (mc_Name v)) (lib_IsQualifiedName lib (mc_Name v))))"

text \<open>The loop of \<open>validateMatchConditions\<close>, with the set of names seen so far.\<close>

fun validateMatchConditions_loop ::
  "validation_lib \<Rightarrow> field_path \<Rightarrow> nat \<Rightarrow> string list \<Rightarrow> MatchCondition list \<Rightarrow> ErrorList" where
  "validateMatchConditions_loop lib fldPath i conditionNames [] = []"
| "validateMatchConditions_loop lib fldPath i conditionNames (matchCondition # ms) =
     validateMatchCondition lib matchCondition (Index fldPath i)
     @ (if mc_Name matchCondition \<noteq> [] then
          (if mc_Name matchCondition \<in> set conditionNames then
             Duplicate (Child (Index fldPath i) ''name'') (mc_Name matchCondition)
               # validateMatchConditions_loop lib fldPath (Suc i) conditionNames ms
           else validateMatchConditions_loop lib fldPath (Suc i) (mc_Name matchCondition # conditionNames) ms)
        else validateMatchConditions_loop lib fldPath (Suc i) conditionNames ms)"

definition validateMatchConditions ::
  "validation_lib \<Rightarrow> MatchCondition list \<Rightarrow> field_path \<Rightarrow> ErrorList" where
  "validateMatchConditions lib m fldPath =
     (if length m > maxMatchConditionsCount then [TooMany fldPath (length m) maxMatchConditionsCount] else [])
     @ validateMatchConditions_loop lib fldPath 0 [] m"

section \<open>Create and update\<close>

definition validatePolicyServerField :: "Policy \<Rightarrow> Policy \<Rightarrow> FieldError option" where
  "validatePolicyServerField oldPolicy newPolicy =
     (if GetPolicyServer oldPolicy \<noteq> GetPolicyServer newPolicy then
        Some (Forbidden (Child (NewPath [''spec'']) ''policyServer'') ''the field is immutable'')
      else None)"

definition validatePolicyModeField :: "Policy \<Rightarrow> Policy \<Rightarrow> FieldError option" where
  "validatePolicyModeField oldPolicy newPolicy =
     (if GetPolicyMode oldPolicy = ''protect'' \<and> GetPolicyMode newPolicy = ''monitor'' then
        Some (Forbidden (Child (NewPath [''spec'']) ''mode'')
          ''field cannot transition from protect to monitor. Recreate instead.'')
      else None)"

definition errorToList :: "FieldError option \<Rightarrow> ErrorList" where
  "errorToList e = (case e of None \<Rightarrow> [] | Some x \<Rightarrow> [x])"

definition validatePolicyCreate :: "validation_lib \<Rightarrow> Policy \<Rightarrow> ErrorList" where
  "validatePolicyCreate lib policy =
     validateRulesField policy
     @ validateMatchConditions lib (GetMatchConditions policy) (Child (NewPath [''spec'']) ''matchConditions'')"

definition validatePolicyUpdate :: "validation_lib \<Rightarrow> Policy \<Rightarrow> Policy \<Rightarrow> ErrorList" where
  "validatePolicyUpdate lib oldPolicy newPolicy =
     validateRulesField newPolicy
     @ validateMatchConditions lib (GetMatchConditions newPolicy) (Child (NewPath [''spec'']) ''matchConditions'')
     @ errorToList (validatePolicyServerField oldPolicy newPolicy)
     @ errorToList (validatePolicyModeField oldPolicy newPolicy)"

section \<open>Policy groups\<close>

definition idenRegex_MatchString :: "string \<Rightarrow> bool" where
  "idenRegex_MatchString s = (case s of [] \<Rightarrow> False | c # t \<Rightarrow> iden_start c \<and> list_all iden_char t)"

definition celReservedSymbols :: "string list" where
  "celReservedSymbols =
     [''true'', ''false'', ''null'', ''in'', ''as'', ''break'', ''const'', ''continue'', ''else'',
      ''for'', ''function'', ''if'', ''import'', ''let'', ''loop'', ''package'', ''namespace'',
      ''return'', ''var'', ''void'', ''while'']"

text \<open>The methods that a value of type \<open>PolicyGroup\<close> has beyond those of a \<open>Policy\<close>.\<close>

definition groupMembers :: "Policy \<Rightarrow> PolicyGroupMembersWithContext" where
  "groupMembers p = (case asPolicyGroup p of Some (ms, _, _) \<Rightarrow> ms | None \<Rightarrow> [])"

definition groupExpression :: "Policy \<Rightarrow> string" where
  "groupExpression p = (case asPolicyGroup p of Some (_, e, _) \<Rightarrow> e | None \<Rightarrow> '''')"

definition validatePolicyGroupMembers :: "Policy \<Rightarrow> ErrorList" where
  "validatePolicyGroupMembers policyGroup =
     (let policies = Child (NewPath [''spec'']) ''policies'' in
      (if groupMembers policyGroup = [] then
         [Required policies ''policy groups must have at least one policy member''] else [])
      @ concat (map (\<lambda>(memberName, _).
          if memberName = [] \<or> memberName \<in> set celReservedSymbols \<or> \<not> idenRegex_MatchString memberName
          then [Invalid policies memberName ''policy group member name is invalid''] else [])
        (groupMembers policyGroup)))"

text \<open>The names in \<open>github.com/google/cel-go/common/operators\<close> of the operators that are allowed.\<close>

definition allowedOperators :: "string list" where
  "allowedOperators = [''_==_'', ''_!=_'', ''_||_'', ''_&&_'', ''!_'']"

definition validatePolicyGroupExpressionField :: "validation_lib \<Rightarrow> Policy \<Rightarrow> FieldError option" where
  "validatePolicyGroupExpressionField lib policyGroup =
     (let expressionField = Child (NewPath [''spec'']) ''expression'';
          expression = groupExpression policyGroup in
      if expression = '''' then Some (Required expressionField ''must be non-empty'')
      else
        let fns = map fst (groupMembers policyGroup);
            ops = filter (\<lambda>fn. fn \<in> set allowedOperators) (lib_stdlibFunctions lib) in
        case lib_NewCustomEnv lib fns ops of
          Some err \<Rightarrow> Some (InternalError expressionField (''error creating CEL environment: '' @ err))
        | None \<Rightarrow>
            (case lib_Compile lib fns ops expression of
               Inl issues \<Rightarrow> Some (Invalid expressionField expression (''compilation failed: '' @ issues))
             | Inr outputType \<Rightarrow>
                 if outputType \<noteq> ''bool'' then Some (Invalid expressionField expression ''must evaluate to bool'')
                 else None))"

definition validatePolicyGroupCreate :: "validation_lib \<Rightarrow> Policy \<Rightarrow> ErrorList" where
  "validatePolicyGroupCreate lib policyGroup =
     validatePolicyCreate lib policyGroup
     @ validatePolicyGroupMembers policyGroup
     @ errorToList (validatePolicyGroupExpressionField lib policyGroup)"

definition validatePolicyGroupUpdate :: "validation_lib \<Rightarrow> Policy \<Rightarrow> Policy \<Rightarrow> ErrorList" where
  "validatePolicyGroupUpdate lib oldPolicyGroup newPolicyGroup =
     validatePolicyUpdate lib oldPolicyGroup newPolicyGroup
     @ validatePolicyGroupMembers newPolicyGroup
     @ errorToList (validatePolicyGroupExpressionField lib newPolicyGroup)"

section \<open>What the checks accept\<close>

lemma checkOperationsArrayForEmptyString_Nil:
  "checkOperationsArrayForEmptyString ops f = [] \<longleftrightarrow> '''' \<notin> set ops"
  by (auto simp: checkOperationsArrayForEmptyString_def report_indexed_Nil simp del: concat_eq_Nil_conv)

lemma checkRulesArrayForEmptyString_Nil:
  "checkRulesArrayForEmptyString xs f = [] \<longleftrightarrow> '''' \<notin> set xs"
  by (auto simp: checkRulesArrayForEmptyString_def report_indexed_Nil simp del: concat_eq_Nil_conv)

lemma firstIndex_None: "firstIndex P xs = None \<longleftrightarrow> (\<forall>x\<in>set xs. \<not> P x)"
  using ball_indexed [of xs "\<lambda>x. \<not> P x"] by (auto simp: firstIndex_def find_None_iff)

lemma find_indexed_from:
  "find (\<lambda>(i, x). P x) (indexed_from n xs) = Some (i, x) \<Longrightarrow>
   n \<le> i \<and> i < n + length xs \<and> xs ! (i - n) = x \<and> P x \<and> (\<forall>j < i - n. \<not> P (xs ! j))"
proof (induction xs arbitrary: n)
  case Nil
  then show ?case by simp
next
  case (Cons y ys)
  show ?case
  proof (cases "P y")
    case True
    with Cons.prems show ?thesis by simp
  next
    case False
    with Cons.prems Cons.IH [of "Suc n"] have
      ih: "Suc n \<le> i" "i < Suc n + length ys" "ys ! (i - Suc n) = x" "P x" "\<forall>j < i - Suc n. \<not> P (ys ! j)"
      by simp_all
    then have i: "i - n = Suc (i - Suc n)" by arith
    have "\<not> P ((y # ys) ! j)" if "j < i - n" for j
      using that False ih(5) i by (cases j) simp_all
    with ih i show ?thesis by simp
  qed
qed

text \<open>The index that a loop with \<open>break\<close> records is the first one.\<close>

lemma firstIndex_Some:
  "firstIndex P xs = Some i \<longleftrightarrow> i < length xs \<and> P (xs ! i) \<and> (\<forall>j < i. \<not> P (xs ! j))"
  (is "?l \<longleftrightarrow> ?r")
proof
  assume ?l
  then obtain x where "find (\<lambda>(i, x). P x) (indexed_from 0 xs) = Some (i, x)"
    by (auto simp: firstIndex_def indexed_def)
  from find_indexed_from [OF this] show ?r by auto
next
  assume r: ?r
  then have "firstIndex P xs \<noteq> None" by (auto simp: firstIndex_None)
  then obtain k where k: "firstIndex P xs = Some k" by auto
  then obtain x where "find (\<lambda>(i, x). P x) (indexed_from 0 xs) = Some (k, x)"
    by (auto simp: firstIndex_def indexed_def)
  from find_indexed_from [OF this] r have "k = i"
    by (auto intro: linorder_cases [of k i])
  with k show ?l by simp
qed

lemma checkRulesArrayForWildcardUsage_Nil:
  "checkRulesArrayForWildcardUsage gs rs f = [] \<longleftrightarrow>
     \<not> (''*'' \<in> set gs \<and> (''*'' \<in> set rs \<or> ''*/*'' \<in> set rs))"
  using firstIndex_None [of "\<lambda>g. g = ''*''" gs] firstIndex_None [of "\<lambda>r. r = ''*'' \<or> r = ''*/*''" rs]
  by (auto simp: checkRulesArrayForWildcardUsage_def split: option.split)

text \<open>A rule reaches a resource: by name, by a subresource of it, or by a wildcard.\<close>

definition reaches_resource :: "string \<Rightarrow> string list \<Rightarrow> bool" where
  "reaches_resource r resources \<longleftrightarrow>
     r \<in> set resources \<or> ''*'' \<in> set resources \<or> ''*/*'' \<in> set resources \<or>
     (\<exists>sub\<in>set resources. HasPrefix sub (r @ ''/''))"

lemma MatchesRules_iff:
  "MatchesRules sr groups resources \<longleftrightarrow>
     (sens_APIGroup sr \<in> set groups \<or> ''*'' \<in> set groups) \<and> reaches_resource (sens_Resource sr) resources"
  by (auto simp: MatchesRules_def reaches_resource_def list_ex_iff Let_def)

lemma checkRulesArrayForSensitiveResourcesBeingTargeted_Nil:
  "checkRulesArrayForSensitiveResourcesBeingTargeted groups resources f = [] \<longleftrightarrow>
     \<not> ((''wgpolicyk8s.io'' \<in> set groups \<or> ''*'' \<in> set groups) \<and> reaches_resource ''policyreports'' resources)"
  by (simp add: checkRulesArrayForSensitiveResourcesBeingTargeted_def defaultSensitiveResources_def MatchesRules_iff)

text \<open>The rules that the webhook accepts, for a cluster-wide and for a namespaced kind.\<close>

definition rule_ok :: "bool \<Rightarrow> RuleWithOperations \<Rightarrow> bool" where
  "rule_ok namespaced rule \<longleftrightarrow>
     rule_Operations rule \<noteq> [] \<and> '''' \<notin> set (rule_Operations rule) \<and>
     rule_APIVersions rule \<noteq> [] \<and> '''' \<notin> set (rule_APIVersions rule) \<and>
     rule_Resources rule \<noteq> [] \<and> '''' \<notin> set (rule_Resources rule) \<and>
     (namespaced \<longrightarrow>
        \<not> (''*'' \<in> set (rule_APIVersions rule) \<and>
           (''*'' \<in> set (rule_Resources rule) \<or> ''*/*'' \<in> set (rule_Resources rule))) \<and>
        \<not> ((''wgpolicyk8s.io'' \<in> set (rule_APIVersions rule) \<or> ''*'' \<in> set (rule_APIVersions rule)) \<and>
           reaches_resource ''policyreports'' (rule_Resources rule)))"

lemma validateRule_Nil: "validateRule namespaced rule = [] \<longleftrightarrow> rule_ok namespaced rule"
  by (auto simp: validateRule_def rule_ok_def Let_def checkOperationsArrayForEmptyString_Nil
      checkRulesArrayForEmptyString_Nil checkRulesArrayForWildcardUsage_Nil
      checkRulesArrayForSensitiveResourcesBeingTargeted_Nil)

lemma validateRulesField_Nil:
  "validateRulesField p = [] \<longleftrightarrow> GetRules p \<noteq> [] \<and> (\<forall>rule\<in>set (GetRules p). rule_ok (isNamespacedKind p) rule)"
  by (auto simp: validateRulesField_def validateRule_Nil)

definition match_condition_ok :: "validation_lib \<Rightarrow> MatchCondition \<Rightarrow> bool" where
  "match_condition_ok lib m \<longleftrightarrow>
     TrimSpace (mc_Expression m) \<noteq> [] \<and> lib_CompileCELExpression lib (TrimSpace (mc_Expression m)) = None \<and>
     mc_Name m \<noteq> [] \<and> lib_IsQualifiedName lib (mc_Name m) = []"

lemma validateMatchCondition_Nil: "validateMatchCondition lib m f = [] \<longleftrightarrow> match_condition_ok lib m"
  by (auto simp: validateMatchCondition_def match_condition_ok_def validateMatchConditionsExpression_def Let_def
      split: option.splits)

lemma validateMatchConditions_loop_Nil:
  "validateMatchConditions_loop lib f i seen ms = [] \<longleftrightarrow>
     (\<forall>m\<in>set ms. match_condition_ok lib m) \<and> distinct (map mc_Name ms) \<and>
     set (map mc_Name ms) \<inter> set seen = {}"
proof (induction ms arbitrary: i seen)
  case Nil
  then show ?case by simp
next
  case (Cons m ms)
  then show ?case
    by (cases "match_condition_ok lib m"; cases "mc_Name m = []"; cases "mc_Name m \<in> set seen")
      (auto simp: validateMatchCondition_Nil match_condition_ok_def)
qed

definition match_conditions_ok :: "validation_lib \<Rightarrow> MatchCondition list \<Rightarrow> bool" where
  "match_conditions_ok lib ms \<longleftrightarrow>
     length ms \<le> 64 \<and> (\<forall>m\<in>set ms. match_condition_ok lib m) \<and> distinct (map mc_Name ms)"

lemma validateMatchConditions_Nil: "validateMatchConditions lib ms f = [] \<longleftrightarrow> match_conditions_ok lib ms"
  by (auto simp: validateMatchConditions_def validateMatchConditions_loop_Nil match_conditions_ok_def
      maxMatchConditionsCount_def)

lemma errorToList_Nil: "errorToList e = [] \<longleftrightarrow> e = None"
  by (simp add: errorToList_def split: option.split)

lemmas validation_Nil = validateRulesField_Nil validateMatchConditions_Nil errorToList_Nil

definition member_name_ok :: "string \<Rightarrow> bool" where
  "member_name_ok n \<longleftrightarrow> idenRegex_MatchString n \<and> n \<notin> set celReservedSymbols"

lemma validatePolicyGroupMembers_Nil:
  "validatePolicyGroupMembers p = [] \<longleftrightarrow>
     groupMembers p \<noteq> [] \<and> (\<forall>n\<in>fst ` set (groupMembers p). member_name_ok n)"
proof -
  have "idenRegex_MatchString n \<Longrightarrow> n \<noteq> []" for n by (auto simp: idenRegex_MatchString_def)
  then show ?thesis
    by (fastforce simp: validatePolicyGroupMembers_def Let_def member_name_ok_def split: if_splits)
qed

text \<open>The CEL environment of a group: a function for every member, and the five operators.\<close>

definition groupFunctions :: "Policy \<Rightarrow> string list" where
  "groupFunctions p = map fst (groupMembers p)"

definition groupOperators :: "validation_lib \<Rightarrow> string list" where
  "groupOperators lib = filter (\<lambda>fn. fn \<in> {''_==_'', ''_!=_'', ''_||_'', ''_&&_'', ''!_''}) (lib_stdlibFunctions lib)"

lemma validatePolicyGroupExpressionField_None:
  "validatePolicyGroupExpressionField lib p = None \<longleftrightarrow>
     groupExpression p \<noteq> '''' \<and> lib_NewCustomEnv lib (groupFunctions p) (groupOperators lib) = None \<and>
     lib_Compile lib (groupFunctions p) (groupOperators lib) (groupExpression p) = Inr ''bool''"
  by (simp add: validatePolicyGroupExpressionField_def Let_def groupFunctions_def groupOperators_def
      allowedOperators_def split: option.split sum.split)

section \<open>Properties\<close>

definition acceptAll_lib :: validation_lib where
  "acceptAll_lib = \<lparr>lib_CompileCELExpression = (\<lambda>_. None), lib_IsQualifiedName = (\<lambda>_. []),
     lib_stdlibFunctions = [''_&&_'', ''_+_''], lib_NewCustomEnv = (\<lambda>_ _. None),
     lib_Compile = (\<lambda>fns ops e. if e \<in> set (map (\<lambda>f. f @ ''()'') fns) then Inr ''bool'' else Inl ''undeclared'')\<rparr>"

definition sampleRule :: RuleWithOperations where
  "sampleRule = \<lparr>rule_Operations = [''CREATE''], rule_APIGroups = [''''], rule_APIVersions = [''v1''],
     rule_Resources = [''pods''], rule_Scope = None\<rparr>"

definition samplePolicySpec :: PolicySpec where
  "samplePolicySpec = \<lparr>spec_PolicyServer = ''default'', spec_Mode = ''protect'',
     spec_Module = ''registry://ghcr.io/p:v1'', spec_Settings = None, spec_Rules = [sampleRule],
     spec_FailurePolicy = None, spec_Mutating = False, spec_BackgroundAudit = True,
     spec_MatchPolicy = None, spec_MatchConditions = [\<lparr>mc_Name = ''c'', mc_Expression = '' true ''\<rparr>],
     spec_ObjectSelector = None, spec_SideEffects = None, spec_TimeoutSeconds = None\<rparr>"

definition emptyPolicyStatus :: PolicyStatus where
  "emptyPolicyStatus = \<lparr>st_PolicyStatus = '''', st_PolicyMode = '''', st_Conditions = []\<rparr>"

definition sampleAP :: "string \<Rightarrow> string \<Rightarrow> AdmissionPolicy" where
  "sampleAP ns n = \<lparr>ap_Meta = namedMeta ns n, ap_Spec = \<lparr>aps_PolicySpec = samplePolicySpec\<rparr>,
     ap_Status = emptyPolicyStatus\<rparr>"

definition sampleCAP :: "string \<Rightarrow> ClusterAdmissionPolicy" where
  "sampleCAP n = \<lparr>cap_Meta = namedMeta '''' n,
     cap_Spec = \<lparr>caps_PolicySpec = samplePolicySpec, caps_NamespaceSelector = None,
       caps_ContextAwareResources = []\<rparr>,
     cap_Status = emptyPolicyStatus\<rparr>"

definition sampleGroupSpec :: GroupSpec where
  "sampleGroupSpec = \<lparr>gspec_PolicyServer = ''default'', gspec_Mode = ''protect'', gspec_Rules = [sampleRule],
     gspec_FailurePolicy = None, gspec_BackgroundAudit = True, gspec_MatchPolicy = None,
     gspec_MatchConditions = [], gspec_ObjectSelector = None, gspec_SideEffects = None,
     gspec_TimeoutSeconds = None, gspec_Expression = ''pod()'', gspec_Message = ''denied''\<rparr>"

definition sampleAPG :: "string \<Rightarrow> string \<Rightarrow> AdmissionPolicyGroup" where
  "sampleAPG ns n = \<lparr>apg_Meta = namedMeta ns n,
     apg_Spec = \<lparr>apgs_PolicyGroupSpec = \<lparr>pgs_GroupSpec = sampleGroupSpec,
       pgs_Policies = [(''pod'', \<lparr>pgm_Module = ''registry://ghcr.io/p:v1'', pgm_Settings = None\<rparr>)]\<rparr>\<rparr>,
     apg_Status = emptyPolicyStatus\<rparr>"

definition sampleCAPG :: "string \<Rightarrow> ClusterAdmissionPolicyGroup" where
  "sampleCAPG n = \<lparr>capg_Meta = namedMeta '''' n,
     capg_Spec = \<lparr>capgs_ClusterPolicyGroupSpec = \<lparr>cpgs_GroupSpec = sampleGroupSpec,
       cpgs_Policies = [(''pod'', \<lparr>pgmc_Member = \<lparr>pgm_Module = ''registry://ghcr.io/p:v1'', pgm_Settings = None\<rparr>,
         pgmc_ContextAwareResources = [\<lparr>car_APIVersion = ''v1'', car_Kind = ''Namespace''\<rparr>]\<rparr>)]\<rparr>,
       capgs_NamespaceSelector = None\<rparr>,
     capg_Status = emptyPolicyStatus\<rparr>"

lemmas sample_defs = acceptAll_lib_def sampleRule_def samplePolicySpec_def emptyPolicyStatus_def
  sampleAP_def sampleCAP_def sampleGroupSpec_def sampleAPG_def sampleCAPG_def namedMeta_def emptyMeta_def


lemma TrimSpace_sample: "TrimSpace '' true '' = ''true''"
  by code_simp


text \<open>
  The wildcard check reports both lists or none, at the first wildcard of each.\<close>

theorem wildcard_indices:
  assumes "checkRulesArrayForWildcardUsage gs rs f \<noteq> []"
  shows "\<exists>i j m n. checkRulesArrayForWildcardUsage gs rs f =
       [Forbidden (f @ [PChild ''apiGroups'', PIndex i]) m, Forbidden (f @ [PChild ''resources'', PIndex j]) n] \<and>
     i < length gs \<and> gs ! i = ''*'' \<and> ''*'' \<notin> set (take i gs) \<and>
     j < length rs \<and> rs ! j \<in> {''*'', ''*/*''} \<and> set (take j rs) \<inter> {''*'', ''*/*''} = {}"
proof -
  obtain i j where
    i: "firstIndex (\<lambda>g. g = ''*'') gs = Some i" and
    j: "firstIndex (\<lambda>r. r = ''*'' \<or> r = ''*/*'') rs = Some j"
    using assms by (auto simp: checkRulesArrayForWildcardUsage_def split: option.splits)
  have "''*'' \<notin> set (take i gs)" "set (take j rs) \<inter> {''*'', ''*/*''} = {}"
    using i j by (auto simp: firstIndex_Some in_set_conv_nth)
  moreover have "i < length gs \<and> gs ! i = ''*''" "j < length rs \<and> rs ! j \<in> {''*'', ''*/*''}"
    using i j by (auto simp: firstIndex_Some)
  moreover have "\<exists>m n. checkRulesArrayForWildcardUsage gs rs f =
      [Forbidden (f @ [PChild ''apiGroups'', PIndex i]) m, Forbidden (f @ [PChild ''resources'', PIndex j]) n]"
    using i j by (simp add: checkRulesArrayForWildcardUsage_def Index_def Child_def)
  ultimately show ?thesis by blast
qed

theorem wildcard_indices_witness:
  "checkRulesArrayForWildcardUsage [''v1'', ''*''] [''*/*''] [] \<noteq> [] \<and>
   (\<exists>i j. i < length [''v1'', ''*''] \<and> [''v1'', ''*''] ! i = ''*'' \<and> j < length [''*/*''])"
proof -
  have "checkRulesArrayForWildcardUsage [''v1'', ''*''] [''*/*''] [] \<noteq> []" by code_simp
  with wildcard_indices [OF this] show ?thesis by blast
qed

text \<open>C36.
  The two checks of the namespaced kinds look at the API versions of a rule and never at its API
  groups: for any groups whatever, a rule on every resource, or on the policy reports, is
  accepted when its versions are, say, \<open>v1\<close>. The parameter of both checks is named
  \<open>rulesAPIGroups\<close> and the messages speak about \<open>apiGroups\<close>.\<close>

theorem sensitive_groups_unchecked:
  "validateRule True \<lparr>rule_Operations = [''CREATE''], rule_APIGroups = groups, rule_APIVersions = [''v1''],
       rule_Resources = [r], rule_Scope = scope\<rparr> = [] \<longleftrightarrow> r \<noteq> ''''"
  by (simp add: validateRule_Nil rule_ok_def) metis

text \<open>C24.
  A policy group passes the checks at creation exactly when it passes those of a policy, has a
  member, every member name is a CEL identifier that is not reserved, and its expression is
  non-empty and compiles to a boolean in the environment of its members, with the standard
  operators \<open>==\<close>, \<open>!=\<close>, \<open>||\<close>, \<open>&&\<close> and \<open>!\<close> only.\<close>

theorem validatePolicyGroupCreate_iff:
  "validatePolicyGroupCreate lib p = [] \<longleftrightarrow>
     validatePolicyCreate lib p = [] \<and>
     groupMembers p \<noteq> [] \<and> (\<forall>n\<in>fst ` set (groupMembers p). member_name_ok n) \<and>
     groupExpression p \<noteq> '''' \<and> lib_NewCustomEnv lib (groupFunctions p) (groupOperators lib) = None \<and>
     lib_Compile lib (groupFunctions p) (groupOperators lib) (groupExpression p) = Inr ''bool''"
  by (auto simp: validatePolicyGroupCreate_def validatePolicyGroupMembers_Nil errorToList_Nil
      validatePolicyGroupExpressionField_None)

theorem validatePolicyGroupCreate_iff_witness:
  "member_name_ok ''pod'' \<and> validatePolicyGroupCreate acceptAll_lib (APG (sampleAPG ''ns'' ''g'')) = []"
proof -
  have ok: "member_name_ok ''pod''"
    by (simp add: member_name_ok_def idenRegex_MatchString_def celReservedSymbols_def) code_simp
  have "validatePolicyCreate acceptAll_lib (APG (sampleAPG ''ns'' ''g'')) = []"
    by (simp add: validatePolicyCreate_def validation_Nil sample_defs getter_simps namespacedRules_def rule_ok_def
        reaches_resource_def match_conditions_ok_def)
  with ok show ?thesis
    unfolding validatePolicyGroupCreate_iff
    by (simp add: groupMembers_def groupExpression_def groupFunctions_def sampleAPG_def sampleGroupSpec_def
        getter_simps acceptAll_lib_def)
qed

end
