(* ===== verification/PolicyServer_Types.thy ===== *)
theory PolicyServer_Types
  imports Policy_Types
begin

text \<open>
  The \<open>PolicyServer\<close> resource of \<open>api/policies/v1/policyserver_types.go\<close>. The security
  contexts, the affinity and the tolerations of a policy server are passed to its Deployment
  unread; they are represented by their JSON.
\<close>

record PolicyServerSecurity =
  pssec_Container :: "json option"
  pssec_Pod :: "json option"

record PolicyServerSpec =
  pss_Image :: string
  pss_Replicas :: int32
  pss_MinAvailable :: "IntOrString option"
  pss_MaxUnavailable :: "IntOrString option"
  pss_Annotations :: "string gomap"
  pss_Env :: "EnvVar list"
  pss_ServiceAccountName :: string
  pss_ImagePullSecret :: string
  pss_InsecureSources :: "string list"
  pss_SourceAuthorities :: "(string list) gomap"
  pss_VerificationConfig :: string
  pss_SecurityContexts :: PolicyServerSecurity
  pss_Affinity :: json
  pss_Limits :: ResourceList
  pss_Requests :: ResourceList
  pss_Tolerations :: "json list"

definition ReconciliationFailed :: string where [const_defs]:
  "ReconciliationFailed = ''ReconciliationFailed''"

definition ReconciliationSucceeded :: string where [const_defs]:
  "ReconciliationSucceeded = ''ReconciliationSucceeded''"

definition PolicyServerCertSecretReconciled :: string where [const_defs]:
  "PolicyServerCertSecretReconciled = ''CertSecretReconciled''"

definition CARootSecretReconciled :: string where [const_defs]:
  "CARootSecretReconciled = ''CARootSecretReconciled''"

definition PolicyServerConfigMapReconciled :: string where [const_defs]:
  "PolicyServerConfigMapReconciled = ''ConfigMapReconciled''"

definition PolicyServerDeploymentReconciled :: string where [const_defs]:
  "PolicyServerDeploymentReconciled = ''DeploymentReconciled''"

definition PolicyServerServiceReconciled :: string where [const_defs]:
  "PolicyServerServiceReconciled = ''ServiceReconciled''"

definition PolicyServerPodDisruptionBudgetReconciled :: string where [const_defs]:
  "PolicyServerPodDisruptionBudgetReconciled = ''PodDisruptionBudgetReconciled''"

record PolicyServerStatus =
  psst_Conditions :: "Condition list"

record PolicyServer =
  ps_Meta :: ObjectMeta
  ps_Spec :: PolicyServerSpec
  ps_Status :: PolicyServerStatus

abbreviation ps_Name :: "PolicyServer \<Rightarrow> string" where
  "ps_Name ps \<equiv> om_Name (ps_Meta ps)"

definition NameWithPrefix :: "PolicyServer \<Rightarrow> string" where
  "NameWithPrefix ps = ''policy-server-'' @ ps_Name ps"

definition AppLabel :: "PolicyServer \<Rightarrow> string" where
  "AppLabel ps = ''kubewarden-'' @ NameWithPrefix ps"

lemma NameWithPrefix_inject: "NameWithPrefix a = NameWithPrefix b \<longleftrightarrow> ps_Name a = ps_Name b"
  by (simp add: NameWithPrefix_def)

lemma AppLabel_inject: "AppLabel a = AppLabel b \<longleftrightarrow> ps_Name a = ps_Name b"
  by (simp add: AppLabel_def NameWithPrefix_def)

end
