(* ===== verification/Kube_Client.thy ===== *)
theory Kube_Client
  imports PolicyServer_Types
begin

text \<open>
  The environment of the controllers: the client of the API server
  (\<open>sigs.k8s.io/controller-runtime/pkg/client\<close>), the helpers of \<open>controllerutil\<close> and of
  \<open>k8s.io/apimachinery\<close>. None of it is code of this repository, so each is a parameter of the
  model: the record \<open>client\<close> over an arbitrary world \<open>'w\<close> and the record \<open>kube_lib\<close>. A call of
  the client is a state transformer of the world with an arbitrary outcome, so that a world can
  also hold what other actors do to the cluster between two calls. What the code relies on is
  stated by locales, whose predicates are the named hypotheses of the theorems.
\<close>

section \<open>The client\<close>

record list_options =
  lo_Namespace :: "string option"
  lo_MatchingLabels :: "string gomap"
  lo_MatchingFields :: "string gomap"

definition matchingLabels :: "string gomap \<Rightarrow> list_options" where
  "matchingLabels ls = \<lparr>lo_Namespace = None, lo_MatchingLabels = ls, lo_MatchingFields = []\<rparr>"

definition matchingFields :: "string gomap \<Rightarrow> list_options" where
  "matchingFields fs = \<lparr>lo_Namespace = None, lo_MatchingLabels = [], lo_MatchingFields = fs\<rparr>"

text \<open>
  The calls for one kind of object. \<open>r_Patch original modified\<close> is
  \<open>Patch(ctx, modified, client.MergeFrom(original))\<close>; \<open>r_CreateOrPatch obj f\<close> is
  \<open>controllerutil.CreateOrPatch\<close>, whose callback \<open>f\<close> changes the object in place.
\<close>

record ('w, 'o) resource =
  r_Get :: "nsname \<Rightarrow> ('w, 'o) op"
  r_List :: "list_options \<Rightarrow> ('w, 'o list) op"
  r_Delete :: "'o \<Rightarrow> ('w, unit) op"
  r_Update :: "'o \<Rightarrow> ('w, 'o) op"
  r_StatusUpdate :: "'o \<Rightarrow> ('w, 'o) op"
  r_Patch :: "'o \<Rightarrow> 'o \<Rightarrow> ('w, 'o) op"
  r_CreateOrPatch :: "'o \<Rightarrow> ('o \<Rightarrow> ('w, 'o) op) \<Rightarrow> ('w, 'o) op"

record 'w client =
  cl_PolicyServers :: "('w, PolicyServer) resource"
  cl_AdmissionPolicies :: "('w, AdmissionPolicy) resource"
  cl_ClusterAdmissionPolicies :: "('w, ClusterAdmissionPolicy) resource"
  cl_AdmissionPolicyGroups :: "('w, AdmissionPolicyGroup) resource"
  cl_ClusterAdmissionPolicyGroups :: "('w, ClusterAdmissionPolicyGroup) resource"
  cl_Deployments :: "('w, Deployment) resource"
  cl_ReplicaSets :: "('w, ReplicaSet) resource"
  cl_Pods :: "('w, Pod) resource"
  cl_ConfigMaps :: "('w, ConfigMap) resource"
  cl_Secrets :: "('w, Secret) resource"
  cl_Services :: "('w, Service) resource"
  cl_PodDisruptionBudgets :: "('w, PodDisruptionBudget) resource"
  cl_ValidatingWebhooks :: "('w, ValidatingWebhookConfiguration) resource"
  cl_MutatingWebhooks :: "('w, MutatingWebhookConfiguration) resource"

text \<open>
  \<open>r.Update(ctx, policy)\<close>, \<open>r.Status().Update(ctx, policy)\<close> and \<open>r.Delete(ctx, policy)\<close> on
  a value of the interface \<open>Policy\<close>: the client goes by the type of the object.
\<close>

definition mapOp :: "('a \<Rightarrow> 'b) \<Rightarrow> ('w, 'a) op \<Rightarrow> ('w, 'b) op" where
  "mapOp f m = andThen m fail (\<lambda>x. ok (f x))"

primrec policyUpdate :: "'w client \<Rightarrow> Policy \<Rightarrow> ('w, Policy) op" where
  "policyUpdate c (AP r) = mapOp AP (r_Update (cl_AdmissionPolicies c) r)"
| "policyUpdate c (CAP r) = mapOp CAP (r_Update (cl_ClusterAdmissionPolicies c) r)"
| "policyUpdate c (APG r) = mapOp APG (r_Update (cl_AdmissionPolicyGroups c) r)"
| "policyUpdate c (CAPG r) = mapOp CAPG (r_Update (cl_ClusterAdmissionPolicyGroups c) r)"

primrec policyStatusUpdate :: "'w client \<Rightarrow> Policy \<Rightarrow> ('w, Policy) op" where
  "policyStatusUpdate c (AP r) = mapOp AP (r_StatusUpdate (cl_AdmissionPolicies c) r)"
| "policyStatusUpdate c (CAP r) = mapOp CAP (r_StatusUpdate (cl_ClusterAdmissionPolicies c) r)"
| "policyStatusUpdate c (APG r) = mapOp APG (r_StatusUpdate (cl_AdmissionPolicyGroups c) r)"
| "policyStatusUpdate c (CAPG r) = mapOp CAPG (r_StatusUpdate (cl_ClusterAdmissionPolicyGroups c) r)"

primrec policyDelete :: "'w client \<Rightarrow> Policy \<Rightarrow> ('w, unit) op" where
  "policyDelete c (AP r) = r_Delete (cl_AdmissionPolicies c) r"
| "policyDelete c (CAP r) = r_Delete (cl_ClusterAdmissionPolicies c) r"
| "policyDelete c (APG r) = r_Delete (cl_AdmissionPolicyGroups c) r"
| "policyDelete c (CAPG r) = r_Delete (cl_ClusterAdmissionPolicyGroups c) r"

lemma run_mapOp [run_simps]:
  "run_state (mapOp f m) w =
     (case run_state m w of (r, w') \<Rightarrow> (case r of Inl e \<Rightarrow> (Inl e, w') | Inr x \<Rightarrow> (Inr (f x), w')))"
  by (simp add: mapOp_def run_andThen split: prod.split sum.split)

section \<open>Helper functions of the libraries\<close>

record kube_lib =
  lib_SetStatusCondition :: "Condition list \<Rightarrow> Condition \<Rightarrow> Condition list"
  lib_AddFinalizer :: "string list \<Rightarrow> string \<Rightarrow> string list"
  lib_RemoveFinalizer :: "string list \<Rightarrow> string \<Rightarrow> string list"
  lib_SetOwnerReference :: "ObjectMeta \<Rightarrow> ObjectMeta \<Rightarrow> go_error + ObjectMeta"

subsection \<open>Status conditions\<close>

text \<open>
  \<open>apimeta.SetStatusCondition\<close>: sets the condition of the given type to the new one, appends it
  when there is none, and leaves the conditions of every other type as they are.
\<close>

definition findCondition :: "string \<Rightarrow> Condition list \<Rightarrow> Condition option" where
  "findCondition t cs = find (\<lambda>c. cond_Type c = t) cs"

locale status_conditions =
  fixes setc :: "Condition list \<Rightarrow> Condition \<Rightarrow> Condition list"
  assumes find_same: "findCondition (cond_Type c) (setc cs c) = Some c"
    and find_other: "t \<noteq> cond_Type c \<Longrightarrow> findCondition t (setc cs c) = findCondition t cs"
begin

lemma find_setc:
  "findCondition t (setc cs c) = (if t = cond_Type c then Some c else findCondition t cs)"
  by (simp add: find_same find_other)

text \<open>Setting one type does not disturb another: the order of two updates is not seen.\<close>

lemma find_setc_commute:
  "cond_Type c \<noteq> cond_Type d \<Longrightarrow>
   findCondition t (setc (setc cs c) d) = findCondition t (setc (setc cs d) c)"
  by (simp add: find_setc)

end

subsection \<open>Finalizers\<close>

text \<open>
  \<open>controllerutil.AddFinalizer\<close> adds the finalizer if it is not present;
  \<open>controllerutil.RemoveFinalizer\<close> removes it if it is.
\<close>

locale finalizer_ops =
  fixes add :: "string list \<Rightarrow> string \<Rightarrow> string list"
    and rem :: "string list \<Rightarrow> string \<Rightarrow> string list"
  assumes set_add: "set (add fs f) = insert f (set fs)"
    and add_present: "f \<in> set fs \<Longrightarrow> add fs f = fs"
    and set_rem: "set (rem fs f) = set fs - {f}"
begin

lemma add_idem: "add (add fs f) f = add fs f"
  by (simp add: add_present set_add)

lemma rem_add: "set (rem (add fs f) f) = set fs - {f}"
  by (auto simp: set_add set_rem)

end

subsection \<open>Owner references\<close>

text \<open>
  \<open>controllerutil.SetOwnerReference\<close> adds the owner to the owner references of the object or
  fails; it changes nothing else of the metadata.
\<close>

locale owner_references =
  fixes setOwner :: "ObjectMeta \<Rightarrow> ObjectMeta \<Rightarrow> go_error + ObjectMeta"
  assumes owner_only: "setOwner owner m = Inr m' \<Longrightarrow> \<exists>os. m' = m\<lparr>om_OwnerReferences := os\<rparr>"
begin

lemma keeps:
  assumes "setOwner owner m = Inr m'"
  shows "om_Name m' = om_Name m" "om_Namespace m' = om_Namespace m" "om_Labels m' = om_Labels m"
    "om_Annotations m' = om_Annotations m"
  using owner_only [OF assms] by auto

end

subsection \<open>Stored objects\<close>

text \<open>
  What a reconciler relies on when it reads and writes one kind of object: \<open>view w\<close> is what is
  stored in the world \<open>w\<close>, by namespace and name. A stored object is what was written up to
  the fields that the API server manages, which \<open>payload\<close> forgets. The laws speak about the
  calls that succeed and about the answer "not found"; any other error may leave anything.
\<close>

definition metaKey :: "ObjectMeta \<Rightarrow> nsname" where
  "metaKey m = (om_Namespace m, om_Name m)"

locale resource_store =
  fixes res :: "('w, 'o) resource"
    and meta :: "'o \<Rightarrow> ObjectMeta"
    and payload :: "'o \<Rightarrow> 'p"
    and view :: "'w \<Rightarrow> nsname \<Rightarrow> 'o option"
  assumes view_key: "view w k = Some x \<Longrightarrow> metaKey (meta x) = k"
    and get_ok: "run_state (r_Get res k) w = (Inr x, w') \<Longrightarrow> view w k = Some x"
    and get_frame: "run_state (r_Get res k) w = (r, w') \<Longrightarrow> view w' = view w"
    and get_not_found: "run_state (r_Get res k) w = (Inl e, w') \<Longrightarrow> IsNotFound e \<Longrightarrow> view w k = None"
    and delete_ok: "run_state (r_Delete res x) w = (Inr u, w') \<Longrightarrow>
      \<exists>y. view w (metaKey (meta x)) = Some y \<and>
      (if om_Finalizers (meta y) = [] then view w' = (view w)(metaKey (meta x) := None)
       else \<exists>z. om_DeletionTimestamp (meta z) \<noteq> None \<and> view w' = (view w)(metaKey (meta x) \<mapsto> z))"
    and delete_not_found: "run_state (r_Delete res x) w = (Inl e, w') \<Longrightarrow> IsNotFound e \<Longrightarrow>
      view w (metaKey (meta x)) = None \<and> view w' = view w"
    and patch_run: "run_state (r_CreateOrPatch res x f) w = (Inr y, w') \<Longrightarrow>
      \<exists>b y' z w0 w1. (b = x \<or> view w (metaKey (meta x)) = Some b) \<and> view w0 = view w \<and>
        run_state (f b) w0 = (Inr y', w1) \<and> payload z = payload y' \<and>
        view w' = (view w1)(metaKey (meta y') \<mapsto> z)"
begin

text \<open>A callback that only computes: the rest of the store is as it was.\<close>

lemma patch_ok:
  assumes "run_state (r_CreateOrPatch res x (\<lambda>b. ok (f b))) w = (Inr y, w')"
  shows "\<exists>b z. (b = x \<or> view w (metaKey (meta x)) = Some b) \<and> payload z = payload (f b) \<and>
    view w' = (view w)(metaKey (meta (f b)) \<mapsto> z)"
  using patch_run [OF assms] by force

text \<open>Nothing is stored under the key, or what is stored is being deleted.\<close>

definition gone :: "'w \<Rightarrow> nsname \<Rightarrow> bool" where
  "gone w k \<longleftrightarrow> (case view w k of None \<Rightarrow> True | Some x \<Rightarrow> om_DeletionTimestamp (meta x) \<noteq> None)"

text \<open>An object that was deleted, or that was not there to delete, is gone; no other object is touched.\<close>

lemma delete_gone:
  assumes "run_state (r_Delete res x) w = (Inr u, w')"
  shows "gone w' (metaKey (meta x)) \<and> (\<forall>k. k \<noteq> metaKey (meta x) \<longrightarrow> view w' k = view w k)"
  using delete_ok [OF assms] by (auto simp: gone_def split: if_splits)

text \<open>Get an object and delete it: it is gone, and no other object is touched.\<close>

lemma get_delete_gone:
  assumes get: "run_state (r_Get res k) w = (Inr x, w1)"
    and del: "run_state (r_Delete res x) w1 = (Inr u, w2)"
  shows "gone w2 k \<and> (\<forall>k'. k' \<noteq> k \<longrightarrow> view w2 k' = view w k')"
  using delete_gone [OF del] get_ok [OF get] get_frame [OF get] view_key by auto

lemma get_delete_not_found:
  assumes get: "run_state (r_Get res k) w = (Inr x, w1)"
    and del: "run_state (r_Delete res x) w1 = (Inl e, w2)" "IsNotFound e"
  shows "gone w2 k \<and> (\<forall>k'. k' \<noteq> k \<longrightarrow> view w2 k' = view w k')"
proof -
  have "metaKey (meta x) = k" "view w1 = view w"
    using get_ok [OF get] get_frame [OF get] view_key by simp_all
  with delete_not_found [OF del] show ?thesis by (simp add: gone_def)
qed

lemma get_not_found_gone:
  assumes get: "run_state (r_Get res k) w = (Inl e, w1)" "IsNotFound e"
  shows "gone w1 k \<and> (\<forall>k'. k' \<noteq> k \<longrightarrow> view w1 k' = view w k')"
  using get_not_found [OF get] get_frame [OF get(1)] by (simp add: gone_def)

text \<open>
  When the callback keeps the key and sets every field that \<open>payload\<close> keeps, the result does
  not depend on what was stored before.
\<close>

lemma patch_determined:
  assumes run: "run_state (r_CreateOrPatch res x (\<lambda>b. ok (f b))) w = (Inr y, w')"
    and f: "\<And>b. metaKey (meta b) = metaKey (meta x) \<Longrightarrow>
      metaKey (meta (f b)) = metaKey (meta x) \<and> payload (f b) = p"
  shows "\<exists>z. view w' = (view w)(metaKey (meta x) \<mapsto> z) \<and> payload z = p"
proof -
  obtain b z where b: "b = x \<or> view w (metaKey (meta x)) = Some b"
    and z: "payload z = payload (f b)" "view w' = (view w)(metaKey (meta (f b)) \<mapsto> z)"
    using patch_ok [OF run] by blast
  from b have "metaKey (meta b) = metaKey (meta x)"
    using view_key [of w "metaKey (meta x)" b] by auto
  with f z show ?thesis by auto
qed

end

subsection \<open>Listed and patched objects\<close>

text \<open>
  A store whose objects can be listed by label and patched: a list has every stored object with
  the labels once, as it is stored; a patch that succeeds on an object that is stored as it
  was read stores the modified object; one that fails stores nothing.
\<close>

definition hasLabels :: "string gomap \<Rightarrow> ObjectMeta \<Rightarrow> bool" where
  "hasLabels ls m \<longleftrightarrow> list_all (\<lambda>(l, v). goget (om_Labels m) l = Some v) ls"

locale patch_store = resource_store res meta payload view
  for res :: "('w, 'o) resource" and meta :: "'o \<Rightarrow> ObjectMeta" and payload :: "'o \<Rightarrow> 'p"
    and view :: "'w \<Rightarrow> nsname \<Rightarrow> 'o option" +
  assumes list_frame: "run_state (r_List res opts) w = (r, w') \<Longrightarrow> view w' = view w"
    and list_distinct: "run_state (r_List res opts) w = (Inr xs, w') \<Longrightarrow> distinct (map (\<lambda>x. metaKey (meta x)) xs)"
    and list_iff: "run_state (r_List res (matchingLabels ls)) w = (Inr xs, w') \<Longrightarrow>
      x \<in> set xs \<longleftrightarrow> view w (metaKey (meta x)) = Some x \<and> hasLabels ls (meta x)"
    and patch_stored: "run_state (r_Patch res x y) w = (Inr u, w') \<Longrightarrow> view w (metaKey (meta x)) = Some x \<Longrightarrow>
      metaKey (meta y) = metaKey (meta x) \<Longrightarrow> \<exists>z. payload z = payload y \<and> view w' = (view w)(metaKey (meta x) \<mapsto> z)"
    and patch_error: "run_state (r_Patch res x y) w = (Inl e, w') \<Longrightarrow> view w' = view w"

text \<open>
  \<open>retry.RetryOnConflict\<close> of client-go: the function is run, and run again as long as it fails with a
  conflict and the back-off allows it; the outcome is that of the last run.
\<close>

inductive attempts :: "('w, 'a) op \<Rightarrow> 'w \<Rightarrow> go_error + 'a \<Rightarrow> 'w \<Rightarrow> bool" for m :: "('w, 'a) op" where
  last: "run_state m w = (res, w') \<Longrightarrow> attempts m w res w'"
| again: "run_state m w = (Inl e, w1) \<Longrightarrow> IsConflict e \<Longrightarrow> attempts m w1 res w' \<Longrightarrow> attempts m w res w'"

locale conflict_retry =
  fixes retry :: "('w, unit) op \<Rightarrow> ('w, unit) op"
  assumes retry_attempts: "run_state (retry m) w = (res, w') \<Longrightarrow> attempts m w res w'"
begin

lemma retry_ok:
  assumes run: "run_state (retry m) w = (Inr (), w')"
    and frame: "\<And>w e w'. run_state m w = (Inl e, w') \<Longrightarrow> v w' = v w"
  shows "\<exists>w0. v w0 = v w \<and> run_state m w0 = (Inr (), w')"
proof -
  have "attempts m w res w' \<Longrightarrow> res = Inr () \<Longrightarrow> \<exists>w0. v w0 = v w \<and> run_state m w0 = (Inr (), w')" for res w
  proof (induction rule: attempts.induct)
    case (last w res w')
    then show ?case by blast
  next
    case (again w e w1 res w')
    then show ?case using frame [OF again(1)] by simp
  qed
  then show ?thesis using retry_attempts [OF run] by blast
qed

lemma retry_keeps:
  assumes run: "run_state (retry m) w = (res, w')"
    and frame: "\<And>w r w'. run_state m w = (r, w') \<Longrightarrow> v w' = v w"
  shows "v w' = v w"
  using retry_attempts [OF run]
proof (induction rule: attempts.induct)
  case (last w res w')
  then show ?case by (rule frame)
next
  case (again w e w1 res w')
  then show ?case using frame [OF again(1)] by simp
qed

end

context patch_store
begin

text \<open>A loop that patches every object of a list: each ends up as it was modified, and no other object changes.\<close>

lemma patch_all:
  assumes retry: "conflict_retry retry" and f: "\<And>x. metaKey (meta (f x)) = metaKey (meta x)"
    and run: "run_state (forEach xs (\<lambda>x. orWrap (retry (mapOp (\<lambda>_. ()) (r_Patch res x (f x)))) msg ok)) w = (Inr (), w')"
    and xs: "distinct (map (\<lambda>x. metaKey (meta x)) xs)" "\<And>x. x \<in> set xs \<Longrightarrow> view w (metaKey (meta x)) = Some x"
  shows "(\<forall>x\<in>set xs. \<exists>z. view w' (metaKey (meta x)) = Some z \<and> payload z = payload (f x)) \<and>
    (\<forall>k. k \<notin> (\<lambda>x. metaKey (meta x)) ` set xs \<longrightarrow> view w' k = view w k)"
  using run xs
proof (induction xs arbitrary: w)
  case Nil
  then show ?case by simp
next
  case (Cons x xs)
  let ?m = "mapOp (\<lambda>_. ()) (r_Patch res x (f x))"
  obtain w1 where first: "run_state (retry ?m) w = (Inr (), w1)"
    and rest: "run_state (forEach xs (\<lambda>x. orWrap (retry (mapOp (\<lambda>_. ()) (r_Patch res x (f x)))) msg ok)) w1 = (Inr (), w')"
    using Cons.prems(1) by (auto simp: run_andThen run_orWrap split: prod.splits sum.splits)
  have frame: "view w'' = view w'" if run: "run_state ?m w' = (Inl e, w'')" for e w' w''
  proof -
    have "run_state (r_Patch res x (f x)) w' = (Inl e, w'')"
      using run by (auto simp: run_mapOp split: prod.splits sum.splits)
    then show ?thesis by (rule patch_error)
  qed
  have "\<exists>w0. view w0 = view w \<and> run_state ?m w0 = (Inr (), w1)"
    by (rule conflict_retry.retry_ok [OF retry first]) (rule frame)
  then obtain w0 where w0: "view w0 = view w" "run_state ?m w0 = (Inr (), w1)" by (elim exE conjE)
  then obtain u where "run_state (r_Patch res x (f x)) w0 = (Inr u, w1)"
    by (auto simp: run_mapOp split: prod.splits sum.splits)
  from patch_stored [OF this _ f] Cons.prems(3) w0(1)
  obtain z where z: "payload z = payload (f x)" "view w1 = (view w)(metaKey (meta x) \<mapsto> z)" by auto
  have others: "view w1 (metaKey (meta y)) = Some y" if "y \<in> set xs" for y
    using that z(2) Cons.prems(2,3) by (auto simp: rev_image_eqI)
  have keys: "distinct (map (\<lambda>x. metaKey (meta x)) xs)" "metaKey (meta x) \<notin> (\<lambda>x. metaKey (meta x)) ` set xs"
    using Cons.prems(2) by auto
  note IH = Cons.IH [OF rest keys(1) others]
  have "view w' (metaKey (meta x)) = Some z" using IH keys(2) z(2) by (metis fun_upd_same)
  with IH z show ?case by auto
qed

end

end
