(* ===== verification/Ref_Cluster.thy ===== *)
theory Ref_Cluster
  imports Kube_Client
begin

text \<open>
  A concrete instance of the parameters of \<open>Kube_Client\<close>: a store of objects per kind, with
  resource versions, finalizers and injected faults, and concrete status-condition and finalizer
  helpers. It shows that the laws can hold together, and it is the environment in which the
  witnesses run the controllers. It is not a model of code of this repository.
\<close>

section \<open>The store\<close>

record cluster =
  st_PolicyServers :: "PolicyServer list"
  st_AdmissionPolicies :: "AdmissionPolicy list"
  st_ClusterAdmissionPolicies :: "ClusterAdmissionPolicy list"
  st_AdmissionPolicyGroups :: "AdmissionPolicyGroup list"
  st_ClusterAdmissionPolicyGroups :: "ClusterAdmissionPolicyGroup list"
  st_Deployments :: "Deployment list"
  st_ReplicaSets :: "ReplicaSet list"
  st_Pods :: "Pod list"
  st_ConfigMaps :: "ConfigMap list"
  st_Secrets :: "Secret list"
  st_Services :: "Service list"
  st_PodDisruptionBudgets :: "PodDisruptionBudget list"
  st_ValidatingWebhooks :: "ValidatingWebhookConfiguration list"
  st_MutatingWebhooks :: "MutatingWebhookConfiguration list"
  st_version :: nat
  st_faults :: "((string \<times> string) \<times> string) list"

definition emptyCluster :: cluster where
  "emptyCluster = \<lparr>st_PolicyServers = [], st_AdmissionPolicies = [], st_ClusterAdmissionPolicies = [], st_AdmissionPolicyGroups = [], st_ClusterAdmissionPolicyGroups = [], st_Deployments = [], st_ReplicaSets = [], st_Pods = [], st_ConfigMaps = [], st_Secrets = [], st_Services = [], st_PodDisruptionBudgets = [], st_ValidatingWebhooks = [], st_MutatingWebhooks = [],
     st_version = 1, st_faults = []\<rparr>"

text \<open>What the store has to know about a kind of object.\<close>

record 'o kind =
  k_name :: string
  k_meta :: "'o \<Rightarrow> ObjectMeta"
  k_mapMeta :: "(ObjectMeta \<Rightarrow> ObjectMeta) \<Rightarrow> 'o \<Rightarrow> 'o"
  k_fields :: "'o \<Rightarrow> string gomap"
  k_withStatus :: "'o \<Rightarrow> 'o \<Rightarrow> 'o"
  k_get :: "cluster \<Rightarrow> 'o list"
  k_map :: "('o list \<Rightarrow> 'o list) \<Rightarrow> cluster \<Rightarrow> cluster"

definition findObj :: "('o \<Rightarrow> ObjectMeta) \<Rightarrow> nsname \<Rightarrow> 'o list \<Rightarrow> 'o option" where
  "findObj meta k xs = find (\<lambda>x. metaKey (meta x) = k) xs"

definition putObj :: "('o \<Rightarrow> ObjectMeta) \<Rightarrow> 'o \<Rightarrow> 'o list \<Rightarrow> 'o list" where
  "putObj meta x xs = filter (\<lambda>y. metaKey (meta y) \<noteq> metaKey (meta x)) xs @ [x]"

definition delObj :: "('o \<Rightarrow> ObjectMeta) \<Rightarrow> nsname \<Rightarrow> 'o list \<Rightarrow> 'o list" where
  "delObj meta k xs = filter (\<lambda>y. metaKey (meta y) \<noteq> k) xs"

lemma findObj_key: "findObj meta k xs = Some x \<Longrightarrow> metaKey (meta x) = k"
  by (auto simp: findObj_def find_Some_iff)

lemma findObj_filter:
  "findObj meta k (filter (\<lambda>y. metaKey (meta y) \<noteq> k') xs) = (if k = k' then None else findObj meta k xs)"
  by (induction xs) (auto simp: findObj_def)

lemma findObj_append:
  "findObj meta k (xs @ ys) = (case findObj meta k xs of None \<Rightarrow> findObj meta k ys | Some x \<Rightarrow> Some x)"
  by (induction xs) (auto simp: findObj_def)

lemma findObj_single: "findObj meta k [x] = (if k = metaKey (meta x) then Some x else None)"
  by (simp add: findObj_def)

lemma findObj_putObj:
  "findObj meta k (putObj meta x xs) = (if k = metaKey (meta x) then Some x else findObj meta k xs)"
  by (simp add: putObj_def findObj_append findObj_filter findObj_single split: option.split)

lemma findObj_delObj:
  "findObj meta k (delObj meta k' xs) = (if k = k' then None else findObj meta k xs)"
  by (simp add: delObj_def findObj_filter)

text \<open>A list call returns the stored objects, one for each namespace and name.\<close>

fun visible :: "('o \<Rightarrow> ObjectMeta) \<Rightarrow> 'o list \<Rightarrow> 'o list" where
  "visible meta [] = []"
| "visible meta (x # xs) = x # filter (\<lambda>y. metaKey (meta y) \<noteq> metaKey (meta x)) (visible meta xs)"

lemma visible_iff: "x \<in> set (visible meta xs) \<longleftrightarrow> findObj meta (metaKey (meta x)) xs = Some x"
  by (induction xs) (auto simp: findObj_def)

lemma distinct_visible: "distinct (map (\<lambda>x. metaKey (meta x)) (visible meta xs))"
proof (induction xs)
  case Nil
  then show ?case by simp
next
  case (Cons x xs)
  have "distinct (map f (filter P ys))" if "distinct (map f ys)" for f :: "'a \<Rightarrow> nsname" and P ys
    using that by (induction ys) auto
  with Cons show ?case by auto
qed

section \<open>The calls\<close>

text \<open>A fault for a kind and a verb makes the call fail, with no effect.\<close>

definition withFault :: "string \<Rightarrow> string \<Rightarrow> (cluster \<Rightarrow> (go_error + 'a) \<times> cluster) \<Rightarrow> (cluster, 'a) op" where
  "withFault kindName verb body =
     State (\<lambda>w. case map_of (st_faults w) (kindName, verb) of
                   Some msg \<Rightarrow> (Inl (ApiError (OtherReason msg)), w)
                 | None \<Rightarrow> body w)"

definition selects :: "'o kind \<Rightarrow> list_options \<Rightarrow> 'o \<Rightarrow> bool" where
  "selects kd opts x \<longleftrightarrow>
     (case lo_Namespace opts of None \<Rightarrow> True | Some ns \<Rightarrow> om_Namespace (k_meta kd x) = ns) \<and>
     list_all (\<lambda>(l, v). goget (om_Labels (k_meta kd x)) l = Some v) (lo_MatchingLabels opts) \<and>
     list_all (\<lambda>(f, v). goget (k_fields kd x) f = Some v) (lo_MatchingFields opts)"

text \<open>Write an object: it gets a new resource version.\<close>

definition writeObj :: "'o kind \<Rightarrow> 'o \<Rightarrow> cluster \<Rightarrow> 'o \<times> cluster" where
  "writeObj kd x w =
     (let y = k_mapMeta kd (\<lambda>m. m\<lparr>om_ResourceVersion := Itoa (int (st_version w))\<rparr>) x
      in (y, k_map kd (putObj (k_meta kd) y) (w\<lparr>st_version := Suc (st_version w)\<rparr>)))"

text \<open>An update that takes the last finalizer from an object being deleted removes it.\<close>

definition refUpdate :: "'o kind \<Rightarrow> ('o \<Rightarrow> 'o) \<Rightarrow> 'o \<Rightarrow> cluster \<Rightarrow> (go_error + 'o) \<times> cluster" where
  "refUpdate kd f x w =
     (case findObj (k_meta kd) (metaKey (k_meta kd x)) (k_get kd w) of
        None \<Rightarrow> (Inl (ApiError NotFound), w)
      | Some old \<Rightarrow>
          if om_ResourceVersion (k_meta kd x) \<noteq> '''' \<and>
             om_ResourceVersion (k_meta kd x) \<noteq> om_ResourceVersion (k_meta kd old)
          then (Inl (ApiError Conflict), w)
          else if om_DeletionTimestamp (k_meta kd old) \<noteq> None \<and> om_Finalizers (k_meta kd (f old)) = []
          then (Inr (f old), k_map kd (delObj (k_meta kd) (metaKey (k_meta kd x))) w)
          else apfst Inr (writeObj kd (f old) w))"

definition refResource :: "'o kind \<Rightarrow> (cluster, 'o) resource" where
  "refResource kd = \<lparr>
     r_Get = (\<lambda>k. withFault (k_name kd) ''get'' (\<lambda>w.
       case findObj (k_meta kd) k (k_get kd w) of
         None \<Rightarrow> (Inl (ApiError NotFound), w) | Some x \<Rightarrow> (Inr x, w))),
     r_List = (\<lambda>opts. withFault (k_name kd) ''list'' (\<lambda>w.
       (Inr (filter (selects kd opts) (visible (k_meta kd) (k_get kd w))), w))),
     r_Delete = (\<lambda>x. withFault (k_name kd) ''delete'' (\<lambda>w.
       case findObj (k_meta kd) (metaKey (k_meta kd x)) (k_get kd w) of
         None \<Rightarrow> (Inl (ApiError NotFound), w)
       | Some y \<Rightarrow>
           if om_Finalizers (k_meta kd y) = []
           then (Inr (), k_map kd (delObj (k_meta kd) (metaKey (k_meta kd x))) w)
           else (Inr (), snd (writeObj kd (k_mapMeta kd (\<lambda>m. m\<lparr>om_DeletionTimestamp := Some 0\<rparr>) y) w)))),
     r_Update = (\<lambda>x. withFault (k_name kd) ''update'' (refUpdate kd (\<lambda>_. x) x)),
     r_StatusUpdate = (\<lambda>x. withFault (k_name kd) ''status'' (refUpdate kd (\<lambda>old. k_withStatus kd old x) x)),
     r_Patch = (\<lambda>original x. withFault (k_name kd) ''patch'' (\<lambda>w.
       case findObj (k_meta kd) (metaKey (k_meta kd x)) (k_get kd w) of
         None \<Rightarrow> (Inl (ApiError NotFound), w)
       | Some _ \<Rightarrow> apfst Inr (writeObj kd x w))),
     r_CreateOrPatch = (\<lambda>x f. withFault (k_name kd) ''patch'' (\<lambda>w.
       let b = (case findObj (k_meta kd) (metaKey (k_meta kd x)) (k_get kd w) of None \<Rightarrow> x | Some y \<Rightarrow> y)
       in case run_state (f b) w of
            (Inl e, w') \<Rightarrow> (Inl e, w')
          | (Inr y, w') \<Rightarrow> apfst Inr (writeObj kd y w')))\<rparr>"

section \<open>The kinds\<close>

definition kind_PolicyServers :: "PolicyServer kind" where
  "kind_PolicyServers = \<lparr>k_name = ''PolicyServers'', k_meta = ps_Meta, k_mapMeta = ps_Meta_update,
     k_fields = (\<lambda>x. []), k_withStatus = (\<lambda>old x. old\<lparr>ps_Status := ps_Status x\<rparr>),
     k_get = st_PolicyServers, k_map = st_PolicyServers_update\<rparr>"

definition kind_AdmissionPolicies :: "AdmissionPolicy kind" where
  "kind_AdmissionPolicies = \<lparr>k_name = ''AdmissionPolicies'', k_meta = ap_Meta, k_mapMeta = ap_Meta_update,
     k_fields = (\<lambda>x. [(PolicyServerIndexKey, spec_PolicyServer (aps_PolicySpec (ap_Spec x)))]), k_withStatus = (\<lambda>old x. old\<lparr>ap_Status := ap_Status x\<rparr>),
     k_get = st_AdmissionPolicies, k_map = st_AdmissionPolicies_update\<rparr>"

definition kind_ClusterAdmissionPolicies :: "ClusterAdmissionPolicy kind" where
  "kind_ClusterAdmissionPolicies = \<lparr>k_name = ''ClusterAdmissionPolicies'', k_meta = cap_Meta, k_mapMeta = cap_Meta_update,
     k_fields = (\<lambda>x. [(PolicyServerIndexKey, spec_PolicyServer (caps_PolicySpec (cap_Spec x)))]), k_withStatus = (\<lambda>old x. old\<lparr>cap_Status := cap_Status x\<rparr>),
     k_get = st_ClusterAdmissionPolicies, k_map = st_ClusterAdmissionPolicies_update\<rparr>"

definition kind_AdmissionPolicyGroups :: "AdmissionPolicyGroup kind" where
  "kind_AdmissionPolicyGroups = \<lparr>k_name = ''AdmissionPolicyGroups'', k_meta = apg_Meta, k_mapMeta = apg_Meta_update,
     k_fields = (\<lambda>x. [(PolicyServerIndexKey, gspec_PolicyServer (pgs_GroupSpec (apgs_PolicyGroupSpec (apg_Spec x))))]), k_withStatus = (\<lambda>old x. old\<lparr>apg_Status := apg_Status x\<rparr>),
     k_get = st_AdmissionPolicyGroups, k_map = st_AdmissionPolicyGroups_update\<rparr>"

definition kind_ClusterAdmissionPolicyGroups :: "ClusterAdmissionPolicyGroup kind" where
  "kind_ClusterAdmissionPolicyGroups = \<lparr>k_name = ''ClusterAdmissionPolicyGroups'', k_meta = capg_Meta, k_mapMeta = capg_Meta_update,
     k_fields = (\<lambda>x. [(PolicyServerIndexKey, gspec_PolicyServer (cpgs_GroupSpec (capgs_ClusterPolicyGroupSpec (capg_Spec x))))]), k_withStatus = (\<lambda>old x. old\<lparr>capg_Status := capg_Status x\<rparr>),
     k_get = st_ClusterAdmissionPolicyGroups, k_map = st_ClusterAdmissionPolicyGroups_update\<rparr>"

definition kind_Deployments :: "Deployment kind" where
  "kind_Deployments = \<lparr>k_name = ''Deployments'', k_meta = dep_Meta, k_mapMeta = dep_Meta_update,
     k_fields = (\<lambda>x. []), k_withStatus = (\<lambda>old x. old),
     k_get = st_Deployments, k_map = st_Deployments_update\<rparr>"

definition kind_ReplicaSets :: "ReplicaSet kind" where
  "kind_ReplicaSets = \<lparr>k_name = ''ReplicaSets'', k_meta = rs_Meta, k_mapMeta = rs_Meta_update,
     k_fields = (\<lambda>x. []), k_withStatus = (\<lambda>old x. old),
     k_get = st_ReplicaSets, k_map = st_ReplicaSets_update\<rparr>"

definition kind_Pods :: "Pod kind" where
  "kind_Pods = \<lparr>k_name = ''Pods'', k_meta = pod_Meta, k_mapMeta = pod_Meta_update,
     k_fields = (\<lambda>x. []), k_withStatus = (\<lambda>old x. old),
     k_get = st_Pods, k_map = st_Pods_update\<rparr>"

definition kind_ConfigMaps :: "ConfigMap kind" where
  "kind_ConfigMaps = \<lparr>k_name = ''ConfigMaps'', k_meta = cm_Meta, k_mapMeta = cm_Meta_update,
     k_fields = (\<lambda>x. []), k_withStatus = (\<lambda>old x. old),
     k_get = st_ConfigMaps, k_map = st_ConfigMaps_update\<rparr>"

definition kind_Secrets :: "Secret kind" where
  "kind_Secrets = \<lparr>k_name = ''Secrets'', k_meta = sec_Meta, k_mapMeta = sec_Meta_update,
     k_fields = (\<lambda>x. []), k_withStatus = (\<lambda>old x. old),
     k_get = st_Secrets, k_map = st_Secrets_update\<rparr>"

definition kind_Services :: "Service kind" where
  "kind_Services = \<lparr>k_name = ''Services'', k_meta = svc_Meta, k_mapMeta = svc_Meta_update,
     k_fields = (\<lambda>x. []), k_withStatus = (\<lambda>old x. old),
     k_get = st_Services, k_map = st_Services_update\<rparr>"

definition kind_PodDisruptionBudgets :: "PodDisruptionBudget kind" where
  "kind_PodDisruptionBudgets = \<lparr>k_name = ''PodDisruptionBudgets'', k_meta = pdb_Meta, k_mapMeta = pdb_Meta_update,
     k_fields = (\<lambda>x. []), k_withStatus = (\<lambda>old x. old),
     k_get = st_PodDisruptionBudgets, k_map = st_PodDisruptionBudgets_update\<rparr>"

definition kind_ValidatingWebhooks :: "ValidatingWebhookConfiguration kind" where
  "kind_ValidatingWebhooks = \<lparr>k_name = ''ValidatingWebhooks'', k_meta = wc_Meta, k_mapMeta = wc_Meta_update,
     k_fields = (\<lambda>x. []), k_withStatus = (\<lambda>old x. old),
     k_get = st_ValidatingWebhooks, k_map = st_ValidatingWebhooks_update\<rparr>"

definition kind_MutatingWebhooks :: "MutatingWebhookConfiguration kind" where
  "kind_MutatingWebhooks = \<lparr>k_name = ''MutatingWebhooks'', k_meta = wc_Meta, k_mapMeta = wc_Meta_update,
     k_fields = (\<lambda>x. []), k_withStatus = (\<lambda>old x. old),
     k_get = st_MutatingWebhooks, k_map = st_MutatingWebhooks_update\<rparr>"

definition refClient :: "cluster client" where
  "refClient = \<lparr>cl_PolicyServers = refResource kind_PolicyServers,
     cl_AdmissionPolicies = refResource kind_AdmissionPolicies,
     cl_ClusterAdmissionPolicies = refResource kind_ClusterAdmissionPolicies,
     cl_AdmissionPolicyGroups = refResource kind_AdmissionPolicyGroups,
     cl_ClusterAdmissionPolicyGroups = refResource kind_ClusterAdmissionPolicyGroups,
     cl_Deployments = refResource kind_Deployments,
     cl_ReplicaSets = refResource kind_ReplicaSets,
     cl_Pods = refResource kind_Pods,
     cl_ConfigMaps = refResource kind_ConfigMaps,
     cl_Secrets = refResource kind_Secrets,
     cl_Services = refResource kind_Services,
     cl_PodDisruptionBudgets = refResource kind_PodDisruptionBudgets,
     cl_ValidatingWebhooks = refResource kind_ValidatingWebhooks,
     cl_MutatingWebhooks = refResource kind_MutatingWebhooks\<rparr>"

section \<open>The laws\<close>

text \<open>A kind is well described when its metadata and its part of the store are lenses.\<close>

definition good_kind :: "'o kind \<Rightarrow> ('o \<Rightarrow> 'p) \<Rightarrow> bool" where
  "good_kind kd payload \<longleftrightarrow>
     (\<forall>f x. k_meta kd (k_mapMeta kd f x) = f (k_meta kd x)) \<and>
     (\<forall>f w. k_get kd (k_map kd f w) = f (k_get kd w)) \<and>
     (\<forall>n w. k_get kd (w\<lparr>st_version := n\<rparr>) = k_get kd w) \<and>
     (\<forall>v x. payload (k_mapMeta kd (\<lambda>m. m\<lparr>om_ResourceVersion := v\<rparr>) x) = payload x)"

definition refView :: "'o kind \<Rightarrow> cluster \<Rightarrow> nsname \<Rightarrow> 'o option" where
  "refView kd w k = findObj (k_meta kd) k (k_get kd w)"

lemma refView_write:
  assumes "good_kind kd payload"
  shows "refView kd (snd (writeObj kd x w)) =
      (refView kd w)(metaKey (k_meta kd x) \<mapsto> fst (writeObj kd x w))"
    and "payload (fst (writeObj kd x w)) = payload x"
    and "k_meta kd (fst (writeObj kd x w)) = (k_meta kd x)\<lparr>om_ResourceVersion := Itoa (int (st_version w))\<rparr>"
  using assms
  by (auto simp: writeObj_def Let_def refView_def findObj_putObj good_kind_def metaKey_def fun_eq_iff)

lemma refView_delObj:
  "good_kind kd payload \<Longrightarrow>
   refView kd (k_map kd (delObj (k_meta kd) k) w) = (refView kd w)(k := None)"
  by (auto simp: refView_def findObj_delObj good_kind_def fun_eq_iff)

lemmas refResource_simps = refResource_def withFault_def

lemma run_refGet:
  "run_state (r_Get (refResource kd) k) w =
     (case map_of (st_faults w) (k_name kd, ''get'') of
        Some msg \<Rightarrow> (Inl (ApiError (OtherReason msg)), w)
      | None \<Rightarrow> (case refView kd w k of None \<Rightarrow> (Inl (ApiError NotFound), w) | Some x \<Rightarrow> (Inr x, w)))"
  by (simp add: refResource_simps refView_def split: option.split)

lemma run_refDelete:
  "run_state (r_Delete (refResource kd) x) w =
     (case map_of (st_faults w) (k_name kd, ''delete'') of
        Some msg \<Rightarrow> (Inl (ApiError (OtherReason msg)), w)
      | None \<Rightarrow>
          (case refView kd w (metaKey (k_meta kd x)) of
             None \<Rightarrow> (Inl (ApiError NotFound), w)
           | Some y \<Rightarrow>
               (Inr (), if om_Finalizers (k_meta kd y) = []
                then k_map kd (delObj (k_meta kd) (metaKey (k_meta kd x))) w
                else snd (writeObj kd (k_mapMeta kd (\<lambda>m. m\<lparr>om_DeletionTimestamp := Some 0\<rparr>) y) w))))"
  by (simp add: refResource_simps refView_def split: option.split)

lemma run_refList:
  "run_state (r_List (refResource kd) opts) w =
     (case map_of (st_faults w) (k_name kd, ''list'') of
        Some msg \<Rightarrow> (Inl (ApiError (OtherReason msg)), w)
      | None \<Rightarrow> (Inr (filter (selects kd opts) (visible (k_meta kd) (k_get kd w))), w))"
  by (simp add: refResource_simps)

lemma run_refCreateOrPatch:
  "run_state (r_CreateOrPatch (refResource kd) x (\<lambda>b. ok (f b))) w =
     (case map_of (st_faults w) (k_name kd, ''patch'') of
        Some msg \<Rightarrow> (Inl (ApiError (OtherReason msg)), w)
      | None \<Rightarrow> apfst Inr (writeObj kd (f (case refView kd w (metaKey (k_meta kd x)) of None \<Rightarrow> x | Some y \<Rightarrow> y)) w))"
  by (simp add: refResource_simps refView_def Let_def split: option.split)

lemma refCreateOrPatch_run:
  assumes "map_of (st_faults w) (k_name kd, ''patch'') = None"
    and "run_state (f (case refView kd w (metaKey (k_meta kd x)) of None \<Rightarrow> x | Some y \<Rightarrow> y)) w = (Inr y, w1)"
  shows "run_state (r_CreateOrPatch (refResource kd) x f) w = (Inr (fst (writeObj kd y w1)), snd (writeObj kd y w1))"
  using assms by (simp add: refResource_simps refView_def Let_def apfst_def map_prod_def split: prod.splits)

lemma refDelete_cases:
  assumes "run_state (r_Delete (refResource kd) x) w = (r, w')"
  obtains (fault) msg where "r = Inl (ApiError (OtherReason msg))" "w' = w"
  | (absent) "r = Inl (ApiError NotFound)" "w' = w" "refView kd w (metaKey (k_meta kd x)) = None"
  | (removed) y where "r = Inr ()" "refView kd w (metaKey (k_meta kd x)) = Some y"
      "om_Finalizers (k_meta kd y) = []"
      "w' = k_map kd (delObj (k_meta kd) (metaKey (k_meta kd x))) w"
  | (marked) y where "r = Inr ()" "refView kd w (metaKey (k_meta kd x)) = Some y"
      "om_Finalizers (k_meta kd y) \<noteq> []"
      "w' = snd (writeObj kd (k_mapMeta kd (\<lambda>m. m\<lparr>om_DeletionTimestamp := Some 0\<rparr>) y) w)"
proof (cases "map_of (st_faults w) (k_name kd, ''delete'')")
  case (Some msg)
  with assms fault [of msg] show ?thesis by (simp add: run_refDelete)
next
  case no_fault: None
  show ?thesis
  proof (cases "refView kd w (metaKey (k_meta kd x))")
    case None
    with assms no_fault absent show ?thesis by (simp add: run_refDelete)
  next
    case (Some y)
    with assms no_fault removed [of y] marked [of y] show ?thesis
      by (cases "om_Finalizers (k_meta kd y) = []") (simp_all add: run_refDelete)
  qed
qed

lemma refDelete_ok:
  assumes good: "good_kind kd payload"
    and run: "run_state (r_Delete (refResource kd) x) w = (Inr u, w')"
  shows "\<exists>y. refView kd w (metaKey (k_meta kd x)) = Some y \<and>
     (if om_Finalizers (k_meta kd y) = [] then refView kd w' = (refView kd w)(metaKey (k_meta kd x) := None)
      else \<exists>z. om_DeletionTimestamp (k_meta kd z) \<noteq> None \<and>
             refView kd w' = (refView kd w)(metaKey (k_meta kd x) \<mapsto> z))"
  using run
proof (cases rule: refDelete_cases)
  case (removed y)
  with refView_delObj [OF good] show ?thesis by simp
next
  case (marked y)
  let ?y = "k_mapMeta kd (\<lambda>m. m\<lparr>om_DeletionTimestamp := Some 0\<rparr>) y"
  have meta: "k_meta kd ?y = (k_meta kd y)\<lparr>om_DeletionTimestamp := Some 0\<rparr>"
    using good by (simp add: good_kind_def)
  have "metaKey (k_meta kd ?y) = metaKey (k_meta kd x)"
    using marked(2) findObj_key [of "k_meta kd" _ _ y] meta by (auto simp: refView_def metaKey_def)
  moreover have "om_DeletionTimestamp (k_meta kd (fst (writeObj kd ?y w))) \<noteq> None"
    by (simp add: refView_write(3) [OF good] meta)
  ultimately show ?thesis
    using marked refView_write(1) [OF good, of ?y w] by auto
qed auto

lemma refCreateOrPatch_ok:
  assumes good: "good_kind kd payload"
    and run: "run_state (r_CreateOrPatch (refResource kd) x f) w = (Inr y, w')"
  shows "\<exists>b y' z w0 w1. (b = x \<or> refView kd w (metaKey (k_meta kd x)) = Some b) \<and> refView kd w0 = refView kd w \<and>
    run_state (f b) w0 = (Inr y', w1) \<and> payload z = payload y' \<and>
    refView kd w' = (refView kd w1)(metaKey (k_meta kd y') \<mapsto> z)"
proof -
  let ?b = "case refView kd w (metaKey (k_meta kd x)) of None \<Rightarrow> x | Some z \<Rightarrow> z"
  obtain y' w1 where f: "run_state (f ?b) w = (Inr y', w1)" and w': "w' = snd (writeObj kd y' w1)"
    using run by (cases "map_of (st_faults w) (k_name kd, ''patch'')")
      (auto simp: refResource_simps refView_def Let_def apfst_def map_prod_def split: prod.splits sum.splits)
  moreover have "?b = x \<or> refView kd w (metaKey (k_meta kd x)) = Some ?b"
    by (simp split: option.split)
  moreover note refView_write(1,2) [OF good, of y' w1]
  ultimately show ?thesis by blast
qed

lemma refResource_store:
  assumes good: "good_kind kd payload"
  shows "resource_store (refResource kd) (k_meta kd) payload (refView kd)"
proof (rule resource_store.intro, goal_cases)
  case (1 w k x)
  then show ?case by (simp add: refView_def findObj_key)
next
  case (2 k w x w')
  then show ?case by (auto simp: run_refGet split: option.splits)
next
  case (3 k w r w')
  then show ?case by (auto simp: run_refGet split: option.splits)
next
  case (4 k w e w')
  then show ?case by (auto simp: run_refGet split: option.splits)
next
  case (5 x w u w')
  then show ?case by (rule refDelete_ok [OF good])
next
  case (6 x w e w')
  from 6(1) show ?case using 6(2) by (cases rule: refDelete_cases) auto
next
  case (7 x f w y w')
  then show ?case by (rule refCreateOrPatch_ok [OF good])
qed

lemma run_refPatch:
  "run_state (r_Patch (refResource kd) x y) w =
     (case map_of (st_faults w) (k_name kd, ''patch'') of
        Some msg \<Rightarrow> (Inl (ApiError (OtherReason msg)), w)
      | None \<Rightarrow> (case refView kd w (metaKey (k_meta kd y)) of
            None \<Rightarrow> (Inl (ApiError NotFound), w)
          | Some _ \<Rightarrow> (Inr (fst (writeObj kd y w)), snd (writeObj kd y w))))"
  by (simp add: refResource_simps refView_def apfst_def map_prod_def split: option.split prod.split)

lemma selects_matchingLabels: "selects kd (matchingLabels ls) x = hasLabels ls (k_meta kd x)"
  by (simp add: selects_def matchingLabels_def hasLabels_def)

lemma refPatch_store:
  assumes good: "good_kind kd payload"
  shows "patch_store (refResource kd) (k_meta kd) payload (refView kd)"
proof (intro patch_store.intro refResource_store [OF good] patch_store_axioms.intro, goal_cases)
  case (1 opts w r w')
  then show ?case by (auto simp: run_refList split: option.splits)
next
  case (2 opts w xs w')
  then have "xs = filter (selects kd opts) (visible (k_meta kd) (k_get kd w))"
    by (auto simp: run_refList split: option.splits)
  moreover have "distinct (map f (filter P ys))" if "distinct (map f ys)" for f :: "'a \<Rightarrow> nsname" and P ys
    using that by (induction ys) auto
  ultimately show ?case using distinct_visible by metis
next
  case (3 ls w xs w' x)
  then show ?case
    by (auto simp: run_refList selects_matchingLabels visible_iff refView_def split: option.splits)
next
  case (4 x y w u w')
  then show ?case
    using refView_write(1,2) [OF good, of y w] by (auto simp: run_refPatch split: option.splits)
next
  case (5 x y w e w')
  then show ?case by (auto simp: run_refPatch split: option.splits)
qed

text \<open>
  Of a webhook configuration the controller sets its name, labels, annotations and webhooks.
\<close>

definition webhookPayload :: "WebhookConfiguration \<Rightarrow> string \<times> string gomap \<times> string gomap \<times> Webhook list" where
  "webhookPayload x = (om_Name (wc_Meta x), om_Labels (wc_Meta x), om_Annotations (wc_Meta x), wc_Webhooks x)"

interpretation ref_validating: resource_store "cl_ValidatingWebhooks refClient" wc_Meta webhookPayload
    "refView kind_ValidatingWebhooks"
proof -
  have "good_kind kind_ValidatingWebhooks webhookPayload"
    by (simp add: good_kind_def kind_ValidatingWebhooks_def webhookPayload_def)
  from refResource_store [OF this]
  show "resource_store (cl_ValidatingWebhooks refClient) wc_Meta webhookPayload (refView kind_ValidatingWebhooks)"
    by (simp add: refClient_def kind_ValidatingWebhooks_def)
qed

interpretation ref_mutating: resource_store "cl_MutatingWebhooks refClient" wc_Meta webhookPayload
    "refView kind_MutatingWebhooks"
proof -
  have "good_kind kind_MutatingWebhooks webhookPayload"
    by (simp add: good_kind_def kind_MutatingWebhooks_def webhookPayload_def)
  from refResource_store [OF this]
  show "resource_store (cl_MutatingWebhooks refClient) wc_Meta webhookPayload (refView kind_MutatingWebhooks)"
    by (simp add: refClient_def kind_MutatingWebhooks_def)
qed

section \<open>Retries\<close>

fun refRetrySteps :: "nat \<Rightarrow> ('w, unit) op \<Rightarrow> ('w, unit) op" where
  "refRetrySteps 0 m = m"
| "refRetrySteps (Suc n) m = andThen m (\<lambda>e. if IsConflict e then refRetrySteps n m else fail e) ok"

text \<open>Four runs at most, as with \<open>retry.DefaultBackoff\<close>.\<close>

definition refRetry :: "('w, unit) op \<Rightarrow> ('w, unit) op" where
  "refRetry = refRetrySteps 3"

lemma refRetrySteps_attempts: "run_state (refRetrySteps n m) w = (res, w') \<Longrightarrow> attempts m w res w'"
proof (induction n arbitrary: w)
  case 0
  then show ?case by (simp add: attempts.last)
next
  case (Suc n)
  obtain r1 w1 where m: "run_state m w = (r1, w1)" by fastforce
  show ?case
  proof (cases "\<exists>e. r1 = Inl e \<and> IsConflict e")
    case True
    then obtain e where e: "r1 = Inl e" "IsConflict e" by blast
    with Suc.prems m have "run_state (refRetrySteps n m) w1 = (res, w')" by (simp add: run_andThen)
    with Suc.IH m e show ?thesis by (blast intro: attempts.again)
  next
    case False
    with Suc.prems m have "res = r1" "w' = w1" by (auto simp: run_andThen split: sum.splits if_splits)
    with m show ?thesis by (simp add: attempts.last)
  qed
qed

interpretation ref_retry: conflict_retry refRetry
  by unfold_locales (simp add: refRetry_def refRetrySteps_attempts)

section \<open>Conditions and finalizers\<close>

fun refSetCondition :: "Condition list \<Rightarrow> Condition \<Rightarrow> Condition list" where
  "refSetCondition [] c = [c]"
| "refSetCondition (d # ds) c = (if cond_Type d = cond_Type c then c # ds else d # refSetCondition ds c)"

interpretation ref_conditions: status_conditions refSetCondition
proof
  fix c cs
  show "findCondition (cond_Type c) (refSetCondition cs c) = Some c"
    by (induction cs) (auto simp: findCondition_def)
next
  fix t c cs
  show "t \<noteq> cond_Type c \<Longrightarrow> findCondition t (refSetCondition cs c) = findCondition t cs"
    by (induction cs) (auto simp: findCondition_def)
qed

definition refAddFinalizer :: "string list \<Rightarrow> string \<Rightarrow> string list" where
  "refAddFinalizer fs f = (if f \<in> set fs then fs else fs @ [f])"

definition refRemoveFinalizer :: "string list \<Rightarrow> string \<Rightarrow> string list" where
  "refRemoveFinalizer fs f = filter (\<lambda>x. x \<noteq> f) fs"

interpretation ref_finalizers: finalizer_ops refAddFinalizer refRemoveFinalizer
  by unfold_locales (auto simp: refAddFinalizer_def refRemoveFinalizer_def)

text \<open>
  An owner reference to an owner in another namespace is refused, as the documentation of
  \<open>controllerutil.SetOwnerReference\<close> says.
\<close>

definition refSetOwnerReference :: "ObjectMeta \<Rightarrow> ObjectMeta \<Rightarrow> go_error + ObjectMeta" where
  "refSetOwnerReference owner m =
     (if om_Namespace owner \<noteq> '''' \<and> om_Namespace owner \<noteq> om_Namespace m
      then Inl (NewError ''cross-namespace owner references are disallowed'')
      else Inr (if metaKey owner \<in> set (om_OwnerReferences m) then m
                else m\<lparr>om_OwnerReferences := om_OwnerReferences m @ [metaKey owner]\<rparr>))"

interpretation ref_owners: owner_references refSetOwnerReference
proof
  fix owner m m'
  assume "refSetOwnerReference owner m = Inr m'"
  then have "m' = m \<or> (\<exists>os. m' = m\<lparr>om_OwnerReferences := os\<rparr>)"
    by (auto simp: refSetOwnerReference_def split: if_splits)
  then show "\<exists>os. m' = m\<lparr>om_OwnerReferences := os\<rparr>"
  proof
    assume "m' = m"
    then have "m' = m\<lparr>om_OwnerReferences := om_OwnerReferences m\<rparr>" by simp
    then show ?thesis ..
  qed
qed

definition refLib :: kube_lib where
  "refLib = \<lparr>lib_SetStatusCondition = refSetCondition, lib_AddFinalizer = refAddFinalizer,
     lib_RemoveFinalizer = refRemoveFinalizer, lib_SetOwnerReference = refSetOwnerReference\<rparr>"

end
