(* ===== verification/Policy_Webhooks.thy ===== *)
theory Policy_Webhooks
  imports Policy_Validation Ref_Cluster
begin

text \<open>
  The admission webhooks of the controller for its own policy resources
  (\<open>api/policies/v1/*_webhook.go\<close>): a defaulter and a validator for each of the four policy
  kinds. The API server hands them a \<open>runtime.Object\<close>, which the handlers assert to be of
  their type. Two contracts are stated as locales, \<open>policy_defaulter\<close> and \<open>policy_validator\<close>,
  and interpreted by the handlers of every kind.
\<close>

datatype runtime_object =
    PolicyObj Policy
  | PolicyServerObj PolicyServer
  | OtherObj string

datatype webhook_error =
    WrongType string
  | InvalidObject string ErrorList

text \<open>\<open>None\<close> is the nil error of a validator: the request is admitted.\<close>

definition prepareInvalidAPIError :: "Policy \<Rightarrow> ErrorList \<Rightarrow> webhook_error" where
  "prepareInvalidAPIError policy errorList = InvalidObject (GetName policy) errorList"

definition withFinalizer :: "kube_lib \<Rightarrow> ObjectMeta \<Rightarrow> ObjectMeta" where
  "withFinalizer lib m =
     (if om_DeletionTimestamp m = None
      then m\<lparr>om_Finalizers := lib_AddFinalizer lib (om_Finalizers m) KubewardenFinalizer\<rparr> else m)"

section \<open>AdmissionPolicy\<close>

definition admissionPolicyDefaulter_Default :: "kube_lib \<Rightarrow> runtime_object \<Rightarrow> webhook_error + runtime_object" where
  "admissionPolicyDefaulter_Default lib obj =
     (case obj of
        PolicyObj (AP r) \<Rightarrow>
          let r1 = (if spec_PolicyServer (aps_PolicySpec (ap_Spec r)) = '''' then
              r\<lparr>ap_Spec := (ap_Spec r)\<lparr>aps_PolicySpec := (aps_PolicySpec (ap_Spec r))\<lparr>spec_PolicyServer := DefaultPolicyServer\<rparr>\<rparr>\<rparr>
            else r)
          in Inr (PolicyObj (AP (r1\<lparr>ap_Meta := withFinalizer lib (ap_Meta r1)\<rparr>)))
      | _ \<Rightarrow> Inl (WrongType ''expected an AdmissionPolicy object''))"

definition admissionPolicyValidator_ValidateCreate :: "validation_lib \<Rightarrow> runtime_object \<Rightarrow> webhook_error option" where
  "admissionPolicyValidator_ValidateCreate lib obj =
     (case obj of
        PolicyObj (AP r) \<Rightarrow>
          let allErrors = validatePolicyCreate lib (AP r)
          in if allErrors \<noteq> [] then Some (prepareInvalidAPIError (AP r) allErrors) else None
      | _ \<Rightarrow> Some (WrongType ''expected an AdmissionPolicy object''))"

definition admissionPolicyValidator_ValidateUpdate ::
  "validation_lib \<Rightarrow> runtime_object \<Rightarrow> runtime_object \<Rightarrow> webhook_error option" where
  "admissionPolicyValidator_ValidateUpdate lib oldObj newObj =
     (case oldObj of
        PolicyObj (AP old) \<Rightarrow>
          (case newObj of
             PolicyObj (AP new) \<Rightarrow>
               let allErrors = validatePolicyUpdate lib (AP old) (AP new)
               in if allErrors \<noteq> [] then Some (prepareInvalidAPIError (AP new) allErrors) else None
           | _ \<Rightarrow> Some (WrongType ''expected an AdmissionPolicy object''))
      | _ \<Rightarrow> Some (WrongType ''expected an AdmissionPolicy object''))"

definition admissionPolicyValidator_ValidateDelete :: "runtime_object \<Rightarrow> webhook_error option" where
  "admissionPolicyValidator_ValidateDelete obj =
     (case obj of
        PolicyObj (AP r) \<Rightarrow> None
      | _ \<Rightarrow> Some (WrongType ''expected an AdmissionPolicy object''))"

section \<open>ClusterAdmissionPolicy\<close>

definition clusterAdmissionPolicyDefaulter_Default :: "kube_lib \<Rightarrow> runtime_object \<Rightarrow> webhook_error + runtime_object" where
  "clusterAdmissionPolicyDefaulter_Default lib obj =
     (case obj of
        PolicyObj (CAP r) \<Rightarrow>
          let r1 = (if spec_PolicyServer (caps_PolicySpec (cap_Spec r)) = '''' then
              r\<lparr>cap_Spec := (cap_Spec r)\<lparr>caps_PolicySpec := (caps_PolicySpec (cap_Spec r))\<lparr>spec_PolicyServer := DefaultPolicyServer\<rparr>\<rparr>\<rparr>
            else r)
          in Inr (PolicyObj (CAP (r1\<lparr>cap_Meta := withFinalizer lib (cap_Meta r1)\<rparr>)))
      | _ \<Rightarrow> Inl (WrongType ''expected a ClusterAdmissionPolicy object''))"

definition clusterAdmissionPolicyValidator_ValidateCreate :: "validation_lib \<Rightarrow> runtime_object \<Rightarrow> webhook_error option" where
  "clusterAdmissionPolicyValidator_ValidateCreate lib obj =
     (case obj of
        PolicyObj (CAP r) \<Rightarrow>
          let allErrors = validatePolicyCreate lib (CAP r)
          in if allErrors \<noteq> [] then Some (prepareInvalidAPIError (CAP r) allErrors) else None
      | _ \<Rightarrow> Some (WrongType ''expected a ClusterAdmissionPolicy object''))"

definition clusterAdmissionPolicyValidator_ValidateUpdate ::
  "validation_lib \<Rightarrow> runtime_object \<Rightarrow> runtime_object \<Rightarrow> webhook_error option" where
  "clusterAdmissionPolicyValidator_ValidateUpdate lib oldObj newObj =
     (case oldObj of
        PolicyObj (CAP old) \<Rightarrow>
          (case newObj of
             PolicyObj (CAP new) \<Rightarrow>
               let allErrors = validatePolicyUpdate lib (CAP old) (CAP new)
               in if allErrors \<noteq> [] then Some (prepareInvalidAPIError (CAP new) allErrors) else None
           | _ \<Rightarrow> Some (WrongType ''expected a ClusterAdmissionPolicy object''))
      | _ \<Rightarrow> Some (WrongType ''expected a ClusterAdmissionPolicy object''))"

definition clusterAdmissionPolicyValidator_ValidateDelete :: "runtime_object \<Rightarrow> webhook_error option" where
  "clusterAdmissionPolicyValidator_ValidateDelete obj =
     (case obj of
        PolicyObj (CAP r) \<Rightarrow> None
      | _ \<Rightarrow> Some (WrongType ''expected a ClusterAdmissionPolicy object''))"

section \<open>AdmissionPolicyGroup\<close>

definition admissionPolicyGroupDefaulter_Default :: "kube_lib \<Rightarrow> runtime_object \<Rightarrow> webhook_error + runtime_object" where
  "admissionPolicyGroupDefaulter_Default lib obj =
     (case obj of
        PolicyObj (APG r) \<Rightarrow>
          let r1 = (if gspec_PolicyServer (pgs_GroupSpec (apgs_PolicyGroupSpec (apg_Spec r))) = '''' then
              r\<lparr>apg_Spec := (apg_Spec r)\<lparr>apgs_PolicyGroupSpec := (apgs_PolicyGroupSpec (apg_Spec r))\<lparr>pgs_GroupSpec :=
              (pgs_GroupSpec (apgs_PolicyGroupSpec (apg_Spec r)))\<lparr>gspec_PolicyServer := DefaultPolicyServer\<rparr>\<rparr>\<rparr>\<rparr>
            else r)
          in Inr (PolicyObj (APG (r1\<lparr>apg_Meta := withFinalizer lib (apg_Meta r1)\<rparr>)))
      | _ \<Rightarrow> Inl (WrongType ''expected an AdmissionPolicyGroup object''))"

definition admissionPolicyGroupValidator_ValidateCreate :: "validation_lib \<Rightarrow> runtime_object \<Rightarrow> webhook_error option" where
  "admissionPolicyGroupValidator_ValidateCreate lib obj =
     (case obj of
        PolicyObj (APG r) \<Rightarrow>
          let allErrors = validatePolicyGroupCreate lib (APG r)
          in if allErrors \<noteq> [] then Some (prepareInvalidAPIError (APG r) allErrors) else None
      | _ \<Rightarrow> Some (WrongType ''expected an AdmissionPolicyGroup object''))"

definition admissionPolicyGroupValidator_ValidateUpdate ::
  "validation_lib \<Rightarrow> runtime_object \<Rightarrow> runtime_object \<Rightarrow> webhook_error option" where
  "admissionPolicyGroupValidator_ValidateUpdate lib oldObj newObj =
     (case oldObj of
        PolicyObj (APG old) \<Rightarrow>
          (case newObj of
             PolicyObj (APG new) \<Rightarrow>
               let allErrors = validatePolicyGroupUpdate lib (APG old) (APG new)
               in if allErrors \<noteq> [] then Some (prepareInvalidAPIError (APG new) allErrors) else None
           | _ \<Rightarrow> Some (WrongType ''expected an AdmissionPolicyGroup object''))
      | _ \<Rightarrow> Some (WrongType ''expected an AdmissionPolicyGroup object''))"

definition admissionPolicyGroupValidator_ValidateDelete :: "runtime_object \<Rightarrow> webhook_error option" where
  "admissionPolicyGroupValidator_ValidateDelete obj =
     (case obj of
        PolicyObj (APG r) \<Rightarrow> None
      | _ \<Rightarrow> Some (WrongType ''expected an AdmissionPolicyGroup object''))"

section \<open>ClusterAdmissionPolicyGroup\<close>

definition clusterAdmissionPolicyGroupDefaulter_Default :: "kube_lib \<Rightarrow> runtime_object \<Rightarrow> webhook_error + runtime_object" where
  "clusterAdmissionPolicyGroupDefaulter_Default lib obj =
     (case obj of
        PolicyObj (CAPG r) \<Rightarrow>
          let r1 = (if gspec_PolicyServer (cpgs_GroupSpec (capgs_ClusterPolicyGroupSpec (capg_Spec r))) = '''' then
              r\<lparr>capg_Spec := (capg_Spec r)\<lparr>capgs_ClusterPolicyGroupSpec := (capgs_ClusterPolicyGroupSpec (capg_Spec r))\<lparr>cpgs_GroupSpec :=
              (cpgs_GroupSpec (capgs_ClusterPolicyGroupSpec (capg_Spec r)))\<lparr>gspec_PolicyServer := DefaultPolicyServer\<rparr>\<rparr>\<rparr>\<rparr>
            else r)
          in Inr (PolicyObj (CAPG (r1\<lparr>capg_Meta := withFinalizer lib (capg_Meta r1)\<rparr>)))
      | _ \<Rightarrow> Inl (WrongType ''expected a ClusterAdmissionPolicyGroup object''))"

definition clusterAdmissionPolicyGroupValidator_ValidateCreate :: "validation_lib \<Rightarrow> runtime_object \<Rightarrow> webhook_error option" where
  "clusterAdmissionPolicyGroupValidator_ValidateCreate lib obj =
     (case obj of
        PolicyObj (CAPG r) \<Rightarrow>
          let allErrors = validatePolicyGroupCreate lib (CAPG r)
          in if allErrors \<noteq> [] then Some (prepareInvalidAPIError (CAPG r) allErrors) else None
      | _ \<Rightarrow> Some (WrongType ''expected a ClusterAdmissionPolicyGroup object''))"

definition clusterAdmissionPolicyGroupValidator_ValidateUpdate ::
  "validation_lib \<Rightarrow> runtime_object \<Rightarrow> runtime_object \<Rightarrow> webhook_error option" where
  "clusterAdmissionPolicyGroupValidator_ValidateUpdate lib oldObj newObj =
     (case oldObj of
        PolicyObj (CAPG old) \<Rightarrow>
          (case newObj of
             PolicyObj (CAPG new) \<Rightarrow>
               let allErrors = validatePolicyGroupUpdate lib (CAPG old) (CAPG new)
               in if allErrors \<noteq> [] then Some (prepareInvalidAPIError (CAPG new) allErrors) else None
           | _ \<Rightarrow> Some (WrongType ''expected a ClusterAdmissionPolicyGroup object''))
      | _ \<Rightarrow> Some (WrongType ''expected a ClusterAdmissionPolicyGroup object''))"

definition clusterAdmissionPolicyGroupValidator_ValidateDelete :: "runtime_object \<Rightarrow> webhook_error option" where
  "clusterAdmissionPolicyGroupValidator_ValidateDelete obj =
     (case obj of
        PolicyObj (CAPG r) \<Rightarrow> None
      | _ \<Rightarrow> Some (WrongType ''expected a ClusterAdmissionPolicyGroup object''))"

section \<open>The contract of a defaulter\<close>

text \<open>
  A defaulter accepts the policies of its kind and no other object; it names a policy server
  where there is none, adds the finalizer unless the object is being deleted, and keeps the
  rest of what the reconciler reads.
\<close>

locale policy_defaulter =
  fixes dflt :: "kube_lib \<Rightarrow> runtime_object \<Rightarrow> webhook_error + runtime_object"
    and kind :: "Policy \<Rightarrow> bool"
  assumes accepts: "kind p \<Longrightarrow> \<exists>q. dflt lib (PolicyObj p) = Inr (PolicyObj q) \<and> kind q \<and>
      GetPolicyServer q = (if GetPolicyServer p = '''' then DefaultPolicyServer else GetPolicyServer p) \<and>
      GetObjectMeta q = withFinalizer lib (GetObjectMeta p) \<and>
      GetRules q = GetRules p \<and> GetPolicyMode q = GetPolicyMode p \<and> GetStatus q = GetStatus p"
    and rejects: "(\<And>p. obj = PolicyObj p \<Longrightarrow> \<not> kind p) \<Longrightarrow> \<exists>e. dflt lib obj = Inl e"
    and stable: "kind p \<Longrightarrow> GetPolicyServer p \<noteq> '''' \<Longrightarrow> withFinalizer lib (GetObjectMeta p) = GetObjectMeta p \<Longrightarrow>
      dflt lib (PolicyObj p) = Inr (PolicyObj p)"
begin

lemma result_kind: "dflt lib (PolicyObj p) = Inr obj \<Longrightarrow> \<exists>q. obj = PolicyObj q \<and> kind q \<and> kind p"
  by (metis Inl_Inr_False Inr_inject accepts rejects runtime_object.inject(1))

lemma result_server:
  assumes "dflt lib (PolicyObj p) = Inr (PolicyObj q)"
  shows "GetPolicyServer q \<noteq> ''''"
proof -
  from assms have "kind p" using result_kind by blast
  with accepts [of p lib] assms show ?thesis by (auto simp: DefaultPolicyServer_def)
qed

text \<open>Defaulting is idempotent: a second pass through the webhook changes nothing.\<close>

lemma default_twice:
  assumes fin: "finalizer_ops (lib_AddFinalizer lib) (lib_RemoveFinalizer lib)"
    and dflt: "dflt lib (PolicyObj p) = Inr (PolicyObj q)"
  shows "dflt lib (PolicyObj q) = Inr (PolicyObj q)"
proof -
  from dflt have kinds: "kind p" "kind q" using result_kind by blast+
  with accepts [of p lib] dflt have "GetObjectMeta q = withFinalizer lib (GetObjectMeta p)" by auto
  then have "withFinalizer lib (GetObjectMeta q) = GetObjectMeta q"
    using finalizer_ops.add_idem [OF fin] by (simp add: withFinalizer_def)
  then show ?thesis using stable kinds result_server [OF dflt] by blast
qed

lemma default_finalizer:
  assumes fin: "finalizer_ops (lib_AddFinalizer lib) (lib_RemoveFinalizer lib)"
    and dflt: "dflt lib (PolicyObj p) = Inr (PolicyObj q)"
  shows "set (om_Finalizers (GetObjectMeta q)) =
    (if GetDeletionTimestamp p = None then insert KubewardenFinalizer (set (om_Finalizers (GetObjectMeta p)))
     else set (om_Finalizers (GetObjectMeta p)))"
proof -
  from dflt have "kind p" using result_kind by blast
  with accepts [of p lib] dflt have "GetObjectMeta q = withFinalizer lib (GetObjectMeta p)" by auto
  then show ?thesis by (simp add: withFinalizer_def finalizer_ops.set_add [OF fin])
qed

end

fun isAP :: "Policy \<Rightarrow> bool" where
  "isAP (AP r) = True" | "isAP _ = False"

fun isCAP :: "Policy \<Rightarrow> bool" where
  "isCAP (CAP r) = True" | "isCAP _ = False"

fun isAPG :: "Policy \<Rightarrow> bool" where
  "isAPG (APG r) = True" | "isAPG _ = False"

fun isCAPG :: "Policy \<Rightarrow> bool" where
  "isCAPG (CAPG r) = True" | "isCAPG _ = False"

interpretation ap_defaulter: policy_defaulter admissionPolicyDefaulter_Default isAP
proof
  fix p lib
  show "isAP p \<Longrightarrow> \<exists>q. admissionPolicyDefaulter_Default lib (PolicyObj p) = Inr (PolicyObj q) \<and> isAP q \<and>
      GetPolicyServer q = (if GetPolicyServer p = '''' then DefaultPolicyServer else GetPolicyServer p) \<and>
      GetObjectMeta q = withFinalizer lib (GetObjectMeta p) \<and>
      GetRules q = GetRules p \<and> GetPolicyMode q = GetPolicyMode p \<and> GetStatus q = GetStatus p"
    by (cases p) (simp_all add: admissionPolicyDefaulter_Default_def Let_def getter_simps)
  show "isAP p \<Longrightarrow> GetPolicyServer p \<noteq> '''' \<Longrightarrow> withFinalizer lib (GetObjectMeta p) = GetObjectMeta p \<Longrightarrow>
      admissionPolicyDefaulter_Default lib (PolicyObj p) = Inr (PolicyObj p)"
    by (cases p) (simp_all add: admissionPolicyDefaulter_Default_def Let_def getter_simps)
next
  fix obj lib
  assume no: "\<And>p. obj = PolicyObj p \<Longrightarrow> \<not> isAP p"
  show "\<exists>e. admissionPolicyDefaulter_Default lib obj = Inl e"
  proof (cases obj)
    case (PolicyObj p)
    with no show ?thesis by (cases p) (simp_all add: admissionPolicyDefaulter_Default_def)
  qed (simp_all add: admissionPolicyDefaulter_Default_def)
qed

interpretation cap_defaulter: policy_defaulter clusterAdmissionPolicyDefaulter_Default isCAP
proof
  fix p lib
  show "isCAP p \<Longrightarrow> \<exists>q. clusterAdmissionPolicyDefaulter_Default lib (PolicyObj p) = Inr (PolicyObj q) \<and> isCAP q \<and>
      GetPolicyServer q = (if GetPolicyServer p = '''' then DefaultPolicyServer else GetPolicyServer p) \<and>
      GetObjectMeta q = withFinalizer lib (GetObjectMeta p) \<and>
      GetRules q = GetRules p \<and> GetPolicyMode q = GetPolicyMode p \<and> GetStatus q = GetStatus p"
    by (cases p) (simp_all add: clusterAdmissionPolicyDefaulter_Default_def Let_def getter_simps)
  show "isCAP p \<Longrightarrow> GetPolicyServer p \<noteq> '''' \<Longrightarrow> withFinalizer lib (GetObjectMeta p) = GetObjectMeta p \<Longrightarrow>
      clusterAdmissionPolicyDefaulter_Default lib (PolicyObj p) = Inr (PolicyObj p)"
    by (cases p) (simp_all add: clusterAdmissionPolicyDefaulter_Default_def Let_def getter_simps)
next
  fix obj lib
  assume no: "\<And>p. obj = PolicyObj p \<Longrightarrow> \<not> isCAP p"
  show "\<exists>e. clusterAdmissionPolicyDefaulter_Default lib obj = Inl e"
  proof (cases obj)
    case (PolicyObj p)
    with no show ?thesis by (cases p) (simp_all add: clusterAdmissionPolicyDefaulter_Default_def)
  qed (simp_all add: clusterAdmissionPolicyDefaulter_Default_def)
qed

interpretation apg_defaulter: policy_defaulter admissionPolicyGroupDefaulter_Default isAPG
proof
  fix p lib
  show "isAPG p \<Longrightarrow> \<exists>q. admissionPolicyGroupDefaulter_Default lib (PolicyObj p) = Inr (PolicyObj q) \<and> isAPG q \<and>
      GetPolicyServer q = (if GetPolicyServer p = '''' then DefaultPolicyServer else GetPolicyServer p) \<and>
      GetObjectMeta q = withFinalizer lib (GetObjectMeta p) \<and>
      GetRules q = GetRules p \<and> GetPolicyMode q = GetPolicyMode p \<and> GetStatus q = GetStatus p"
    by (cases p) (simp_all add: admissionPolicyGroupDefaulter_Default_def Let_def getter_simps)
  show "isAPG p \<Longrightarrow> GetPolicyServer p \<noteq> '''' \<Longrightarrow> withFinalizer lib (GetObjectMeta p) = GetObjectMeta p \<Longrightarrow>
      admissionPolicyGroupDefaulter_Default lib (PolicyObj p) = Inr (PolicyObj p)"
    by (cases p) (simp_all add: admissionPolicyGroupDefaulter_Default_def Let_def getter_simps)
next
  fix obj lib
  assume no: "\<And>p. obj = PolicyObj p \<Longrightarrow> \<not> isAPG p"
  show "\<exists>e. admissionPolicyGroupDefaulter_Default lib obj = Inl e"
  proof (cases obj)
    case (PolicyObj p)
    with no show ?thesis by (cases p) (simp_all add: admissionPolicyGroupDefaulter_Default_def)
  qed (simp_all add: admissionPolicyGroupDefaulter_Default_def)
qed

interpretation capg_defaulter: policy_defaulter clusterAdmissionPolicyGroupDefaulter_Default isCAPG
proof
  fix p lib
  show "isCAPG p \<Longrightarrow> \<exists>q. clusterAdmissionPolicyGroupDefaulter_Default lib (PolicyObj p) = Inr (PolicyObj q) \<and> isCAPG q \<and>
      GetPolicyServer q = (if GetPolicyServer p = '''' then DefaultPolicyServer else GetPolicyServer p) \<and>
      GetObjectMeta q = withFinalizer lib (GetObjectMeta p) \<and>
      GetRules q = GetRules p \<and> GetPolicyMode q = GetPolicyMode p \<and> GetStatus q = GetStatus p"
    by (cases p) (simp_all add: clusterAdmissionPolicyGroupDefaulter_Default_def Let_def getter_simps)
  show "isCAPG p \<Longrightarrow> GetPolicyServer p \<noteq> '''' \<Longrightarrow> withFinalizer lib (GetObjectMeta p) = GetObjectMeta p \<Longrightarrow>
      clusterAdmissionPolicyGroupDefaulter_Default lib (PolicyObj p) = Inr (PolicyObj p)"
    by (cases p) (simp_all add: clusterAdmissionPolicyGroupDefaulter_Default_def Let_def getter_simps)
next
  fix obj lib
  assume no: "\<And>p. obj = PolicyObj p \<Longrightarrow> \<not> isCAPG p"
  show "\<exists>e. clusterAdmissionPolicyGroupDefaulter_Default lib obj = Inl e"
  proof (cases obj)
    case (PolicyObj p)
    with no show ?thesis by (cases p) (simp_all add: clusterAdmissionPolicyGroupDefaulter_Default_def)
  qed (simp_all add: clusterAdmissionPolicyGroupDefaulter_Default_def)
qed

section \<open>The contract of a validator\<close>

text \<open>
  A validator admits objects of its kind only, and an object that it admits has passed the
  checks that all policies share.
\<close>

locale policy_validator =
  fixes vcreate :: "validation_lib \<Rightarrow> runtime_object \<Rightarrow> webhook_error option"
    and vupdate :: "validation_lib \<Rightarrow> runtime_object \<Rightarrow> runtime_object \<Rightarrow> webhook_error option"
    and kind :: "Policy \<Rightarrow> bool"
  assumes create_ok: "vcreate lib obj = None \<Longrightarrow>
      \<exists>p. obj = PolicyObj p \<and> kind p \<and> validatePolicyCreate lib p = []"
    and update_ok: "vupdate lib old new = None \<Longrightarrow>
      \<exists>p q. old = PolicyObj p \<and> new = PolicyObj q \<and> kind p \<and> kind q \<and> validatePolicyUpdate lib p q = []"
begin

text \<open>The step relation of a stored policy: an update that the webhook admits.\<close>

definition step :: "validation_lib \<Rightarrow> Policy \<Rightarrow> Policy \<Rightarrow> bool" where
  "step lib p q \<longleftrightarrow> vupdate lib (PolicyObj p) (PolicyObj q) = None"

lemma step_server: "step lib p q \<Longrightarrow> GetPolicyServer q = GetPolicyServer p"
  using update_ok [of lib "PolicyObj p" "PolicyObj q"]
  by (auto simp: step_def validatePolicyUpdate_def errorToList_def validatePolicyServerField_def split: if_splits)

lemma step_mode: "step lib p q \<Longrightarrow> GetPolicyMode p = ''protect'' \<Longrightarrow> GetPolicyMode q \<noteq> ''monitor''"
  using update_ok [of lib "PolicyObj p" "PolicyObj q"]
  by (auto simp: step_def validatePolicyUpdate_def errorToList_def validatePolicyModeField_def split: if_splits)

lemma step_kind: "step lib p q \<Longrightarrow> kind p \<and> kind q"
  using update_ok [of lib "PolicyObj p" "PolicyObj q"] by (auto simp: step_def)

lemma step_valid: "step lib p q \<Longrightarrow> validatePolicyCreate lib q = []"
  using update_ok [of lib "PolicyObj p" "PolicyObj q"]
  by (auto simp: step_def validatePolicyUpdate_def validatePolicyCreate_def)

end

interpretation ap_validator: policy_validator admissionPolicyValidator_ValidateCreate admissionPolicyValidator_ValidateUpdate isAP
proof
  fix lib obj
  show "admissionPolicyValidator_ValidateCreate lib obj = None \<Longrightarrow>
      \<exists>p. obj = PolicyObj p \<and> isAP p \<and> validatePolicyCreate lib p = []"
    by (auto simp: admissionPolicyValidator_ValidateCreate_def Let_def 
        split: runtime_object.splits Policy.splits if_splits)
next
  fix lib old new
  show "admissionPolicyValidator_ValidateUpdate lib old new = None \<Longrightarrow>
      \<exists>p q. old = PolicyObj p \<and> new = PolicyObj q \<and> isAP p \<and> isAP q \<and> validatePolicyUpdate lib p q = []"
    by (auto simp: admissionPolicyValidator_ValidateUpdate_def Let_def 
        split: runtime_object.splits Policy.splits if_splits)
qed

interpretation cap_validator: policy_validator clusterAdmissionPolicyValidator_ValidateCreate clusterAdmissionPolicyValidator_ValidateUpdate isCAP
proof
  fix lib obj
  show "clusterAdmissionPolicyValidator_ValidateCreate lib obj = None \<Longrightarrow>
      \<exists>p. obj = PolicyObj p \<and> isCAP p \<and> validatePolicyCreate lib p = []"
    by (auto simp: clusterAdmissionPolicyValidator_ValidateCreate_def Let_def 
        split: runtime_object.splits Policy.splits if_splits)
next
  fix lib old new
  show "clusterAdmissionPolicyValidator_ValidateUpdate lib old new = None \<Longrightarrow>
      \<exists>p q. old = PolicyObj p \<and> new = PolicyObj q \<and> isCAP p \<and> isCAP q \<and> validatePolicyUpdate lib p q = []"
    by (auto simp: clusterAdmissionPolicyValidator_ValidateUpdate_def Let_def 
        split: runtime_object.splits Policy.splits if_splits)
qed

interpretation apg_validator: policy_validator admissionPolicyGroupValidator_ValidateCreate admissionPolicyGroupValidator_ValidateUpdate isAPG
proof
  fix lib obj
  show "admissionPolicyGroupValidator_ValidateCreate lib obj = None \<Longrightarrow>
      \<exists>p. obj = PolicyObj p \<and> isAPG p \<and> validatePolicyCreate lib p = []"
    by (auto simp: admissionPolicyGroupValidator_ValidateCreate_def Let_def validatePolicyGroupCreate_def validatePolicyGroupUpdate_def 
        split: runtime_object.splits Policy.splits if_splits)
next
  fix lib old new
  show "admissionPolicyGroupValidator_ValidateUpdate lib old new = None \<Longrightarrow>
      \<exists>p q. old = PolicyObj p \<and> new = PolicyObj q \<and> isAPG p \<and> isAPG q \<and> validatePolicyUpdate lib p q = []"
    by (auto simp: admissionPolicyGroupValidator_ValidateUpdate_def Let_def validatePolicyGroupCreate_def validatePolicyGroupUpdate_def 
        split: runtime_object.splits Policy.splits if_splits)
qed

interpretation capg_validator: policy_validator clusterAdmissionPolicyGroupValidator_ValidateCreate clusterAdmissionPolicyGroupValidator_ValidateUpdate isCAPG
proof
  fix lib obj
  show "clusterAdmissionPolicyGroupValidator_ValidateCreate lib obj = None \<Longrightarrow>
      \<exists>p. obj = PolicyObj p \<and> isCAPG p \<and> validatePolicyCreate lib p = []"
    by (auto simp: clusterAdmissionPolicyGroupValidator_ValidateCreate_def Let_def validatePolicyGroupCreate_def validatePolicyGroupUpdate_def 
        split: runtime_object.splits Policy.splits if_splits)
next
  fix lib old new
  show "clusterAdmissionPolicyGroupValidator_ValidateUpdate lib old new = None \<Longrightarrow>
      \<exists>p q. old = PolicyObj p \<and> new = PolicyObj q \<and> isCAPG p \<and> isCAPG q \<and> validatePolicyUpdate lib p q = []"
    by (auto simp: clusterAdmissionPolicyGroupValidator_ValidateUpdate_def Let_def validatePolicyGroupCreate_def validatePolicyGroupUpdate_def 
        split: runtime_object.splits Policy.splits if_splits)
qed

section \<open>The life of a policy\<close>

text \<open>
  The API server calls the validator of the kind of the object; a request is admitted when it
  returns nil. A stored policy starts with an admitted creation and goes through admitted updates.
  Before the webhooks run, the schema of the resources restricts \<open>mode\<close> to two values.
\<close>

definition admits_create :: "validation_lib \<Rightarrow> Policy \<Rightarrow> bool" where
  "admits_create lib p \<longleftrightarrow>
     admissionPolicyValidator_ValidateCreate lib (PolicyObj p) = None \<or>
     clusterAdmissionPolicyValidator_ValidateCreate lib (PolicyObj p) = None \<or>
     admissionPolicyGroupValidator_ValidateCreate lib (PolicyObj p) = None \<or>
     clusterAdmissionPolicyGroupValidator_ValidateCreate lib (PolicyObj p) = None"

definition admits_update :: "validation_lib \<Rightarrow> Policy \<Rightarrow> Policy \<Rightarrow> bool" where
  "admits_update lib p q \<longleftrightarrow>
     admissionPolicyValidator_ValidateUpdate lib (PolicyObj p) (PolicyObj q) = None \<or>
     clusterAdmissionPolicyValidator_ValidateUpdate lib (PolicyObj p) (PolicyObj q) = None \<or>
     admissionPolicyGroupValidator_ValidateUpdate lib (PolicyObj p) (PolicyObj q) = None \<or>
     clusterAdmissionPolicyGroupValidator_ValidateUpdate lib (PolicyObj p) (PolicyObj q) = None"

definition schema_mode :: "Policy \<Rightarrow> bool" where
  "schema_mode p \<longleftrightarrow> GetPolicyMode p \<in> {''protect'', ''monitor''}"

inductive stored :: "validation_lib \<Rightarrow> Policy \<Rightarrow> Policy \<Rightarrow> bool" for lib where
  created: "admits_create lib p \<Longrightarrow> schema_mode p \<Longrightarrow> stored lib p p"
| updated: "stored lib p q \<Longrightarrow> admits_update lib q r \<Longrightarrow> schema_mode r \<Longrightarrow> stored lib p r"

definition same_kind :: "Policy \<Rightarrow> Policy \<Rightarrow> bool" where
  "same_kind p q \<longleftrightarrow> (isAP p \<and> isAP q) \<or> (isCAP p \<and> isCAP q) \<or> (isAPG p \<and> isAPG q) \<or> (isCAPG p \<and> isCAPG q)"

lemma admits_update_step:
  "admits_update lib p q \<longleftrightarrow>
     ap_validator.step lib p q \<or> cap_validator.step lib p q \<or>
     apg_validator.step lib p q \<or> capg_validator.step lib p q"
  by (simp add: admits_update_def ap_validator.step_def cap_validator.step_def apg_validator.step_def
      capg_validator.step_def)

lemmas step_servers = ap_validator.step_server cap_validator.step_server apg_validator.step_server
  capg_validator.step_server
lemmas step_modes = ap_validator.step_mode cap_validator.step_mode apg_validator.step_mode
  capg_validator.step_mode
lemmas step_kinds = ap_validator.step_kind cap_validator.step_kind apg_validator.step_kind
  capg_validator.step_kind
lemmas step_valids = ap_validator.step_valid cap_validator.step_valid apg_validator.step_valid
  capg_validator.step_valid

lemma admits_create_valid: "admits_create lib p \<Longrightarrow> validatePolicyCreate lib p = [] \<and> same_kind p p"
  unfolding admits_create_def same_kind_def
  using ap_validator.create_ok [of lib "PolicyObj p"] cap_validator.create_ok [of lib "PolicyObj p"]
    apg_validator.create_ok [of lib "PolicyObj p"] capg_validator.create_ok [of lib "PolicyObj p"]
  by auto

lemma same_kind_trans: "same_kind p q \<Longrightarrow> same_kind q r \<Longrightarrow> same_kind p r"
  by (cases p; cases q; cases r) (simp_all add: same_kind_def)

lemma admits_update_inv:
  assumes "admits_update lib p q"
  shows "GetPolicyServer q = GetPolicyServer p" "same_kind p q" "validatePolicyCreate lib q = []"
    "GetPolicyMode p = ''protect'' \<Longrightarrow> GetPolicyMode q \<noteq> ''monitor''"
  using assms step_servers step_modes step_kinds step_valids
  unfolding admits_update_step same_kind_def by metis+


definition relabelledCAP :: "string \<Rightarrow> ClusterAdmissionPolicy" where
  "relabelledCAP n = (sampleCAP n)\<lparr>cap_Spec := (cap_Spec (sampleCAP n))\<lparr>caps_PolicySpec :=
     samplePolicySpec\<lparr>spec_Mutating := True\<rparr>\<rparr>\<rparr>"

lemma sampleCAP_valid:
  "validatePolicyCreate acceptAll_lib (CAP (sampleCAP n)) = []"
  "validatePolicyUpdate acceptAll_lib (CAP (sampleCAP n)) (CAP (relabelledCAP n)) = []"
  by (simp_all add: validatePolicyCreate_def validatePolicyUpdate_def validation_Nil relabelledCAP_def sampleCAP_def
      samplePolicySpec_def sampleRule_def getter_simps rule_ok_def match_conditions_ok_def match_condition_ok_def
      TrimSpace_sample acceptAll_lib_def validatePolicyServerField_def validatePolicyModeField_def)


text \<open>
  The webhooks let an update change whether a policy mutates, although a mutating and a
  validating policy are registered as two kinds of webhook configuration.\<close>

theorem mutating_may_change:
  "admits_update acceptAll_lib (CAP (sampleCAP n)) (CAP (relabelledCAP n)) \<and>
   \<not> IsMutating (CAP (sampleCAP n)) \<and> IsMutating (CAP (relabelledCAP n))"
  by (simp add: admits_update_def clusterAdmissionPolicyValidator_ValidateUpdate_def sampleCAP_valid)
    (simp add: relabelledCAP_def sampleCAP_def samplePolicySpec_def getter_simps)

section \<open>Defaulting\<close>

definition defaulters :: "(kube_lib \<Rightarrow> runtime_object \<Rightarrow> webhook_error + runtime_object) list" where
  "defaulters = [admissionPolicyDefaulter_Default, clusterAdmissionPolicyDefaulter_Default,
     admissionPolicyGroupDefaulter_Default, clusterAdmissionPolicyGroupDefaulter_Default]"

lemmas default_servers = ap_defaulter.result_server cap_defaulter.result_server
  apg_defaulter.result_server capg_defaulter.result_server
lemmas default_twices = ap_defaulter.default_twice cap_defaulter.default_twice
  apg_defaulter.default_twice capg_defaulter.default_twice
lemmas default_finalizers = ap_defaulter.default_finalizer cap_defaulter.default_finalizer
  apg_defaulter.default_finalizer capg_defaulter.default_finalizer

text \<open>
  Whatever a defaulter returns names a policy server, carries the finalizer of the controller in
  addition to those it had unless it is being deleted, and is a fixed point of the defaulter.\<close>

theorem default_contract:
  assumes dflt: "dflt \<in> set defaulters"
    and fin: "finalizer_ops (lib_AddFinalizer lib) (lib_RemoveFinalizer lib)"
    and run: "dflt lib (PolicyObj p) = Inr (PolicyObj q)"
  shows "GetPolicyServer q \<noteq> '''' \<and> dflt lib (PolicyObj q) = Inr (PolicyObj q) \<and>
    set (om_Finalizers (GetObjectMeta q)) =
      (if GetDeletionTimestamp p = None then insert KubewardenFinalizer (set (om_Finalizers (GetObjectMeta p)))
       else set (om_Finalizers (GetObjectMeta p)))"
proof -
  consider "dflt = admissionPolicyDefaulter_Default" | "dflt = clusterAdmissionPolicyDefaulter_Default"
    | "dflt = admissionPolicyGroupDefaulter_Default" | "dflt = clusterAdmissionPolicyGroupDefaulter_Default"
    using dflt by (auto simp: defaulters_def)
  then show ?thesis
    using run default_servers default_twices [OF fin] default_finalizers [OF fin]
    by cases metis+
qed

theorem default_contract_witness:
  "\<exists>q. clusterAdmissionPolicyDefaulter_Default refLib (PolicyObj (CAP (sampleCAP ''p''))) = Inr (PolicyObj q) \<and>
     KubewardenFinalizer \<in> set (om_Finalizers (GetObjectMeta q))"
proof -
  have p: "GetDeletionTimestamp (CAP (sampleCAP ''p'')) = None"
    by (simp add: sampleCAP_def namedMeta_def emptyMeta_def getter_simps)
  have fin: "finalizer_ops (lib_AddFinalizer refLib) (lib_RemoveFinalizer refLib)"
    by (simp add: refLib_def ref_finalizers.finalizer_ops_axioms)
  obtain q where q: "clusterAdmissionPolicyDefaulter_Default refLib (PolicyObj (CAP (sampleCAP ''p''))) = Inr (PolicyObj q)"
    using cap_defaulter.accepts [of "CAP (sampleCAP ''p'')" refLib] by auto
  from default_contract [of clusterAdmissionPolicyDefaulter_Default refLib, OF _ fin q] q p show ?thesis by (auto simp: defaulters_def)
qed


end
