(* ===== verification/PolicyServer_Webhook.thy ===== *)
theory PolicyServer_Webhook
  imports Policy_Webhooks
begin

text \<open>
  \<open>api/policies/v1/policyserver_webhook.go\<close>: the defaulter and the validator of PolicyServer
  resources. The validator reads the image pull secret through the client, so it is an operation
  on the world. The arithmetic of \<open>resource.Quantity\<close> and the texts of errors are third-party
  code, collected in \<open>quantity_lib\<close>.
\<close>

section \<open>The handlers\<close>

record quantity_lib =
  qlib_Cmp :: "Quantity \<Rightarrow> Quantity \<Rightarrow> int"
  qlib_Zero :: Quantity
  qlib_String :: "Quantity \<Rightarrow> string"
  qlib_Error :: "go_error \<Rightarrow> string"
  qlib_IntOrString :: "IntOrString \<Rightarrow> string"

text \<open>\<open>validationutils.DNS1035LabelMaxLength\<close> and \<open>validation.IsNegativeErrorMsg\<close>.\<close>

definition DNS1035LabelMaxLength :: nat where
  "DNS1035LabelMaxLength = 63"

definition IsNegativeErrorMsg :: string where
  "IsNegativeErrorMsg = ''must be greater than or equal to 0''"

definition policyServerDefaulter_Default :: "kube_lib \<Rightarrow> runtime_object \<Rightarrow> webhook_error + runtime_object" where
  "policyServerDefaulter_Default lib obj =
     (case obj of
        PolicyServerObj ps \<Rightarrow> Inr (PolicyServerObj (ps\<lparr>ps_Meta := withFinalizer lib (ps_Meta ps)\<rparr>))
      | _ \<Rightarrow> Inl (WrongType ''expected a PolicyServer object''))"

text \<open>The error of \<open>validateImagePullSecret\<close>, \<open>None\<close> for nil.\<close>

definition validateImagePullSecret ::
  "'w client \<Rightarrow> string \<Rightarrow> string \<Rightarrow> ('w, go_error option) state" where
  "validateImagePullSecret c imagePullSecret deploymentsNamespace =
     andThen (r_Get (cl_Secrets c) (deploymentsNamespace, imagePullSecret))
       (\<lambda>err. ret (Some (Wrap ''cannot get spec.ImagePullSecret'' err)))
       (\<lambda>secret. if sec_Type secret \<noteq> ''kubernetes.io/dockerconfigjson''
          then ret (Some (NewError (''spec.ImagePullSecret secret '' @ om_Name (sec_Meta secret)
                 @ '' is not of type kubernetes.io/dockerconfigjson'')))
          else ret None)"

definition validateLimit :: "quantity_lib \<Rightarrow> string \<times> Quantity \<Rightarrow> ErrorList" where
  "validateLimit q = (\<lambda>(limitName, limitQuantity).
     let fieldPath = Child (Child (NewPath [''spec'']) ''limits'') limitName in
     if qlib_Cmp q limitQuantity (qlib_Zero q) < 0
     then [Invalid fieldPath (qlib_String q limitQuantity) IsNegativeErrorMsg] else [])"

definition validateRequest :: "quantity_lib \<Rightarrow> ResourceList \<Rightarrow> string \<times> Quantity \<Rightarrow> ErrorList" where
  "validateRequest q limits = (\<lambda>(requestName, requestQuantity).
     let fieldPath = Child (Child (NewPath [''spec'']) ''requests'') requestName in
     (if qlib_Cmp q requestQuantity (qlib_Zero q) < 0
      then [Invalid fieldPath (qlib_String q requestQuantity) IsNegativeErrorMsg] else [])
     @ (case goget limits requestName of
          None \<Rightarrow> []
        | Some limitQuantity \<Rightarrow>
            if qlib_Cmp q requestQuantity limitQuantity > 0
            then [Invalid fieldPath (qlib_String q requestQuantity)
                   (''must be less than or equal to '' @ requestName @ '' limit of '' @ qlib_String q limitQuantity)]
            else []))"

definition validateLimitsAndRequests :: "quantity_lib \<Rightarrow> ResourceList \<Rightarrow> ResourceList \<Rightarrow> ErrorList" where
  "validateLimitsAndRequests q limits requests =
     concat (map (validateLimit q) limits) @ concat (map (validateRequest q limits) requests)"

definition policyServerValidator_validate ::
  "quantity_lib \<Rightarrow> 'w client \<Rightarrow> string \<Rightarrow> PolicyServer \<Rightarrow> ('w, webhook_error option) state" where
  "policyServerValidator_validate q c deploymentsNamespace policyServer =
     (let spec = ps_Spec policyServer;
          nameErrs = (if length (ps_Name policyServer) > DNS1035LabelMaxLength
            then [Invalid (Child (NewPath [''metadata'']) ''name'') (ps_Name policyServer)
                    (''the PolicyServer name cannot be longer than '' @ Itoa (int DNS1035LabelMaxLength) @ '' characters'')]
            else []);
          pdbErrs = (case (pss_MinAvailable spec, pss_MaxUnavailable spec) of
            (Some mn, Some mx) \<Rightarrow> [Invalid (NewPath [''spec''])
                (''minAvailable: '' @ qlib_IntOrString q mn @ '', maxUnavailable: '' @ qlib_IntOrString q mx)
                ''minAvailable and maxUnavailable cannot be both set'']
          | _ \<Rightarrow> []);
          finish = (\<lambda>secretErrs.
            let allErrs = nameErrs @ secretErrs @ pdbErrs
                  @ validateLimitsAndRequests q (pss_Limits spec) (pss_Requests spec)
            in ret (if allErrs = [] then None else Some (InvalidObject (ps_Name policyServer) allErrs)))
      in if pss_ImagePullSecret spec \<noteq> '''' then
           State_Monad.bind (validateImagePullSecret c (pss_ImagePullSecret spec) deploymentsNamespace)
             (\<lambda>r. case r of
                None \<Rightarrow> finish []
              | Some err \<Rightarrow> finish [Invalid (Child (NewPath [''spec'']) ''imagePullSecret'')
                    (pss_ImagePullSecret spec) (qlib_Error q err)])
         else finish [])"

definition policyServerValidator_ValidateCreate ::
  "quantity_lib \<Rightarrow> 'w client \<Rightarrow> string \<Rightarrow> runtime_object \<Rightarrow> ('w, webhook_error option) state" where
  "policyServerValidator_ValidateCreate q c ns obj =
     (case obj of
        PolicyServerObj ps \<Rightarrow> policyServerValidator_validate q c ns ps
      | _ \<Rightarrow> ret (Some (WrongType ''expected a PolicyServer object'')))"

definition policyServerValidator_ValidateUpdate ::
  "quantity_lib \<Rightarrow> 'w client \<Rightarrow> string \<Rightarrow> runtime_object \<Rightarrow> runtime_object \<Rightarrow> ('w, webhook_error option) state" where
  "policyServerValidator_ValidateUpdate q c ns oldObj newObj =
     (case newObj of
        PolicyServerObj ps \<Rightarrow> policyServerValidator_validate q c ns ps
      | _ \<Rightarrow> ret (Some (WrongType ''expected a PolicyServer object'')))"

definition policyServerValidator_ValidateDelete :: "runtime_object \<Rightarrow> webhook_error option" where
  "policyServerValidator_ValidateDelete obj =
     (case obj of
        PolicyServerObj ps \<Rightarrow> None
      | _ \<Rightarrow> Some (WrongType ''expected a PolicyServer object''))"

section \<open>What the validator accepts\<close>

text \<open>
  What the code relies on of \<open>Quantity.Cmp\<close>: its sign is that of the difference of two amounts.
\<close>

locale quantities =
  fixes q :: quantity_lib and amount :: "Quantity \<Rightarrow> int"
  assumes cmp_neg: "qlib_Cmp q a b < 0 \<longleftrightarrow> amount a < amount b"
    and cmp_pos: "qlib_Cmp q a b > 0 \<longleftrightarrow> amount b < amount a"
    and zero: "amount (qlib_Zero q) = 0"
begin

lemma validateLimit_Nil: "validateLimit q (n, v) = [] \<longleftrightarrow> 0 \<le> amount v"
  by (simp add: validateLimit_def Let_def cmp_neg zero not_less)

lemma validateRequest_Nil:
  "validateRequest q limits (n, v) = [] \<longleftrightarrow>
     0 \<le> amount v \<and> (\<forall>l. goget limits n = Some l \<longrightarrow> amount v \<le> amount l)"
  by (simp add: validateRequest_def Let_def cmp_neg cmp_pos zero not_less split: option.split)

lemma validateLimitsAndRequests_Nil:
  "validateLimitsAndRequests q limits requests = [] \<longleftrightarrow>
     (\<forall>(n, l)\<in>set limits. 0 \<le> amount l) \<and>
     (\<forall>(n, v)\<in>set requests. 0 \<le> amount v \<and> (\<forall>l. goget limits n = Some l \<longrightarrow> amount v \<le> amount l))"
  using validateLimit_Nil validateRequest_Nil
  by (auto simp: validateLimitsAndRequests_def split_beta)

end

lemma run_validateImagePullSecret:
  "run_state (validateImagePullSecret c s ns) w =
     (case run_state (r_Get (cl_Secrets c) (ns, s)) w of
        (Inl e, w') \<Rightarrow> (Some (Wrap ''cannot get spec.ImagePullSecret'' e), w')
      | (Inr secret, w') \<Rightarrow>
          (if sec_Type secret \<noteq> ''kubernetes.io/dockerconfigjson''
           then Some (NewError (''spec.ImagePullSecret secret '' @ om_Name (sec_Meta secret)
                 @ '' is not of type kubernetes.io/dockerconfigjson'')) else None, w'))"
  by (simp add: validateImagePullSecret_def run_andThen split: prod.split sum.split)

lemma validate_admits:
  "run_state (policyServerValidator_validate q c ns ps) w = (None, w') \<longleftrightarrow>
     length (ps_Name ps) \<le> 63 \<and>
     (pss_MinAvailable (ps_Spec ps) = None \<or> pss_MaxUnavailable (ps_Spec ps) = None) \<and>
     validateLimitsAndRequests q (pss_Limits (ps_Spec ps)) (pss_Requests (ps_Spec ps)) = [] \<and>
     (if pss_ImagePullSecret (ps_Spec ps) = '''' then w' = w
      else run_state (validateImagePullSecret c (pss_ImagePullSecret (ps_Spec ps)) ns) w = (None, w'))"
  by (auto simp: policyServerValidator_validate_def Let_def DNS1035LabelMaxLength_def
      split: prod.splits option.splits if_splits)

text \<open>The amounts of the reference instance are decimal integers.\<close>

definition refAmount :: "Quantity \<Rightarrow> int" where
  "refAmount s = (case ParseInt32 s of None \<Rightarrow> 0 | Some v \<Rightarrow> v)"

definition refQuantities :: quantity_lib where
  "refQuantities = \<lparr>qlib_Cmp = (\<lambda>a b. sgn (refAmount a - refAmount b)), qlib_Zero = '''', qlib_String = (\<lambda>s. s),
     qlib_Error = (\<lambda>e. ''error''), qlib_IntOrString = (\<lambda>v. case v of IntVal i \<Rightarrow> Itoa (sint i) | StrVal s \<Rightarrow> s)\<rparr>"

interpretation ref_quantities: quantities refQuantities refAmount
  by unfold_locales (auto simp: refQuantities_def sgn_if refAmount_def ParseInt32_def)

definition secretPayload :: "Secret \<Rightarrow> string \<times> string gomap" where
  "secretPayload s = (sec_Type s, sec_Data s)"

interpretation ref_secrets: resource_store "cl_Secrets refClient" sec_Meta secretPayload
    "refView kind_Secrets"
proof -
  have "good_kind kind_Secrets secretPayload"
    by (simp add: good_kind_def kind_Secrets_def secretPayload_def)
  from refResource_store [OF this]
  show "resource_store (cl_Secrets refClient) sec_Meta secretPayload (refView kind_Secrets)"
    by (simp add: refClient_def kind_Secrets_def)
qed

definition samplePolicyServer :: "string \<Rightarrow> PolicyServer" where
  "samplePolicyServer n = \<lparr>ps_Meta = namedMeta '''' n,
     ps_Spec = \<lparr>pss_Image = ''ghcr.io/kubewarden/policy-server:v1'', pss_Replicas = 1, pss_MinAvailable = None,
       pss_MaxUnavailable = None, pss_Annotations = [], pss_Env = [], pss_ServiceAccountName = '''',
       pss_ImagePullSecret = ''pull'', pss_InsecureSources = [], pss_SourceAuthorities = [],
       pss_VerificationConfig = '''', pss_SecurityContexts = \<lparr>pssec_Container = None, pssec_Pod = None\<rparr>,
       pss_Affinity = JNull, pss_Limits = [(''cpu'', ''2'')], pss_Requests = [(''cpu'', ''1'')], pss_Tolerations = []\<rparr>,
     ps_Status = \<lparr>psst_Conditions = []\<rparr>\<rparr>"

definition samplePullSecret :: Secret where
  "samplePullSecret = \<lparr>sec_Meta = namedMeta ''kubewarden'' ''pull'', sec_Type = ''kubernetes.io/dockerconfigjson'',
     sec_Data = [], sec_StringData = []\<rparr>"

definition secretCluster :: cluster where
  "secretCluster = emptyCluster\<lparr>st_Secrets := [samplePullSecret]\<rparr>"

lemma samplePolicyServer_admitted:
  assumes "length n \<le> 63"
  shows "run_state (policyServerValidator_validate refQuantities refClient ''kubewarden'' (samplePolicyServer n))
    secretCluster = (None, secretCluster)"
proof -
  have amounts: "refAmount ''1'' = 1" "refAmount ''2'' = 2"
    by code_simp+
  have "run_state (r_Get (cl_Secrets refClient) (''kubewarden'', ''pull'')) secretCluster =
      (Inr samplePullSecret, secretCluster)"
    by (simp add: refClient_def run_refGet refView_def findObj_def kind_Secrets_def secretCluster_def emptyCluster_def
        samplePullSecret_def metaKey_def namedMeta_def)
  with assms show ?thesis
    by (simp add: validate_admits samplePolicyServer_def run_validateImagePullSecret samplePullSecret_def
        namedMeta_def ref_quantities.validateLimitsAndRequests_Nil amounts)
qed

section \<open>Properties\<close>

text \<open>C27.
  A policy server that the validator admits has a name of at most 63 bytes, sets at most one of
  minAvailable and maxUnavailable, has no negative limit or request, no request above the limit of
  the same resource, and its image pull secret, if it names one, is stored in the namespace of
  the deployments with the type of a Docker configuration.\<close>

theorem policyServer_admitted:
  assumes store: "resource_store (cl_Secrets c) sec_Meta payload view"
    and quantities: "quantities q amount"
    and run: "run_state (policyServerValidator_validate q c ns ps) w = (None, w')"
  shows "length (ps_Name ps) \<le> 63 \<and>
    (pss_MinAvailable (ps_Spec ps) = None \<or> pss_MaxUnavailable (ps_Spec ps) = None) \<and>
    (\<forall>(n, l)\<in>set (pss_Limits (ps_Spec ps)). 0 \<le> amount l) \<and>
    (\<forall>(n, v)\<in>set (pss_Requests (ps_Spec ps)). 0 \<le> amount v \<and>
       (\<forall>l. goget (pss_Limits (ps_Spec ps)) n = Some l \<longrightarrow> amount v \<le> amount l)) \<and>
    (pss_ImagePullSecret (ps_Spec ps) \<noteq> '''' \<longrightarrow>
       (\<exists>secret. view w (ns, pss_ImagePullSecret (ps_Spec ps)) = Some secret \<and>
          sec_Type secret = ''kubernetes.io/dockerconfigjson''))"
proof -
  have secret: "\<exists>secret. view w (ns, s) = Some secret \<and> sec_Type secret = ''kubernetes.io/dockerconfigjson''"
    if "run_state (validateImagePullSecret c s ns) w = (None, w')" for s
    using that resource_store.get_ok [OF store]
    by (fastforce simp: run_validateImagePullSecret split: prod.splits sum.splits if_splits)
  show ?thesis
    using run [unfolded validate_admits quantities.validateLimitsAndRequests_Nil [OF quantities]] secret
    by (simp split: if_splits)
qed

theorem policyServer_admitted_witness:
  "run_state (policyServerValidator_validate refQuantities refClient ''kubewarden'' (samplePolicyServer ''default''))
     secretCluster = (None, secretCluster) \<and>
   (\<exists>secret. refView kind_Secrets secretCluster (''kubewarden'', ''pull'') = Some secret \<and>
      sec_Type secret = ''kubernetes.io/dockerconfigjson'')"
proof -
  have run: "run_state (policyServerValidator_validate refQuantities refClient ''kubewarden'' (samplePolicyServer ''default''))
     secretCluster = (None, secretCluster)"
    by (rule samplePolicyServer_admitted) simp
  have "pss_ImagePullSecret (ps_Spec (samplePolicyServer ''default'')) = ''pull''"
    by (simp add: samplePolicyServer_def)
  with run policyServer_admitted [OF ref_secrets.resource_store_axioms ref_quantities.quantities_axioms run]
  show ?thesis by simp
qed


end
