(* ===== verification/Go_Marshal.thy ===== *)
theory Go_Marshal
  imports Go_Json "HOL-Library.Char_ord" "HOL-Library.List_Lexorder"
begin

text \<open>
  How \<open>encoding/json\<close> maps Go values to JSON trees and back, for the shapes that the controllers
  use: strings, booleans, slices, maps with string keys and structs. A map is written with its keys
  in byte order. Reading decodes into an existing value: null leaves a string, a boolean or a
  struct as it is and empties a slice or a map; an array overwrites the elements that are there;
  a member of an object goes to the field with that name, or else to one whose name
  differs in case only, and is skipped when there is none. \<open>None\<close> is an error.
\<close>

section \<open>Writing\<close>

definition marshal_map :: "('a \<Rightarrow> json) \<Rightarrow> 'a gomap \<Rightarrow> json" where
  "marshal_map enc m = JObj (map (\<lambda>(k, v). (k, enc v)) (sort_key fst m))"

definition marshal_slice :: "('a \<Rightarrow> json) \<Rightarrow> 'a list \<Rightarrow> json" where
  "marshal_slice enc xs = JArr (map enc xs)"

text \<open>A field tagged \<open>omitempty\<close> whose value is a slice or a map.\<close>

definition omitempty :: "string \<Rightarrow> ('a list \<Rightarrow> json) \<Rightarrow> 'a list \<Rightarrow> (string \<times> json) list" where
  "omitempty k enc xs = (if xs = [] then [] else [(k, enc xs)])"

section \<open>Reading\<close>

type_synonym 'a decoder = "json \<Rightarrow> 'a \<Rightarrow> 'a option"

definition dec_string :: "string decoder" where
  "dec_string j old = (case j of JStr s \<Rightarrow> Some s | JNull \<Rightarrow> Some old | _ \<Rightarrow> None)"

definition dec_bool :: "bool decoder" where
  "dec_bool j old = (case j of JBool b \<Rightarrow> Some b | JNull \<Rightarrow> Some old | _ \<Rightarrow> None)"

fun dec_elems :: "'a decoder \<Rightarrow> 'a \<Rightarrow> json list \<Rightarrow> 'a list \<Rightarrow> 'a list option" where
  "dec_elems dec zero [] old = Some []"
| "dec_elems dec zero (j # js) old =
     (case dec j (case old of [] \<Rightarrow> zero | x # _ \<Rightarrow> x) of
        None \<Rightarrow> None
      | Some y \<Rightarrow> map_option (Cons y) (dec_elems dec zero js (tl old)))"

definition dec_slice :: "'a decoder \<Rightarrow> 'a \<Rightarrow> 'a list decoder" where
  "dec_slice dec zero j old =
     (case j of JArr js \<Rightarrow> dec_elems dec zero js old | JNull \<Rightarrow> Some [] | _ \<Rightarrow> None)"

fun dec_entries :: "'a decoder \<Rightarrow> 'a \<Rightarrow> (string \<times> json) list \<Rightarrow> 'a gomap \<Rightarrow> 'a gomap option" where
  "dec_entries dec zero [] m = Some m"
| "dec_entries dec zero ((k, j) # kvs) m =
     (case dec j zero of None \<Rightarrow> None | Some v \<Rightarrow> dec_entries dec zero kvs (goput k v m))"

definition dec_map :: "'a decoder \<Rightarrow> 'a \<Rightarrow> 'a gomap decoder" where
  "dec_map dec zero j old =
     (case j of JObj kvs \<Rightarrow> dec_entries dec zero kvs old | JNull \<Rightarrow> Some [] | _ \<Rightarrow> None)"

text \<open>
  Names are compared up to case by folding them: ASCII letters to upper case, and the two other
  characters whose case folding is an ASCII letter, U+017F and U+212A.
\<close>

definition upper_char :: "char \<Rightarrow> char" where
  "upper_char c = (if 97 \<le> code c \<and> code c \<le> 122 then char_of (code c - 32) else c)"

fun fold_name :: "string \<Rightarrow> string" where
  "fold_name [] = []"
| "fold_name (c # s) =
     (if c = CHR 0xC5 \<and> take 1 s = [CHR 0xBF] then CHR ''S'' # fold_name (drop 1 s)
      else if c = CHR 0xE2 \<and> take 2 s = [CHR 0x84, CHR 0xAA] then CHR ''K'' # fold_name (drop 2 s)
      else upper_char c # fold_name s)"

definition find_field :: "string \<Rightarrow> (string \<times> 'a) list \<Rightarrow> 'a option" where
  "find_field k fields =
     (case map_of fields k of
        Some d \<Rightarrow> Some d
      | None \<Rightarrow> map_option snd (find (\<lambda>(n, d). fold_name n = fold_name k) fields))"

fun dec_members :: "(string \<times> 'a decoder) list \<Rightarrow> (string \<times> json) list \<Rightarrow> 'a \<Rightarrow> 'a option" where
  "dec_members fields [] x = Some x"
| "dec_members fields ((k, j) # kvs) x =
     (case find_field k fields of
        None \<Rightarrow> dec_members fields kvs x
      | Some dec \<Rightarrow> (case dec j x of None \<Rightarrow> None | Some y \<Rightarrow> dec_members fields kvs y))"

definition dec_struct :: "(string \<times> 'a decoder) list \<Rightarrow> 'a decoder" where
  "dec_struct fields j x =
     (case j of JObj kvs \<Rightarrow> dec_members fields kvs x | JNull \<Rightarrow> Some x | _ \<Rightarrow> None)"

text \<open>The decoder of a field, from a decoder of its value and the field's access functions.\<close>

definition field_dec :: "('a \<Rightarrow> 'b) \<Rightarrow> (('b \<Rightarrow> 'b) \<Rightarrow> 'a \<Rightarrow> 'a) \<Rightarrow> 'b decoder \<Rightarrow> 'a decoder" where
  "field_dec get upd dec j x = map_option (\<lambda>v. upd (\<lambda>_. v) x) (dec j (get x))"

section \<open>Reading what was written\<close>

lemma find_field_hit: "map_of fields k = Some d \<Longrightarrow> find_field k fields = Some d"
  by (simp add: find_field_def)

lemma dec_members_append:
  "dec_members fields (xs @ ys) x =
     (case dec_members fields xs x of None \<Rightarrow> None | Some y \<Rightarrow> dec_members fields ys y)"
  by (induction fields xs x rule: dec_members.induct) (auto split: option.split)

lemma dec_elems_marshal:
  assumes "\<And>x. x \<in> set xs \<Longrightarrow> dec (enc x) zero = Some (f x)"
  shows "dec_elems dec zero (map enc xs) [] = Some (map f xs)"
  using assms by (induction xs) simp_all

lemma goput_new: "k \<notin> fst ` set m \<Longrightarrow> goput k v m = m @ [(k, v)]"
  by (induction m) (auto simp: goput_def)

lemma dec_entries_marshal:
  assumes "\<And>k v. (k, v) \<in> set m \<Longrightarrow> dec (enc v) zero = Some (f v)"
    and "distinct (map fst acc @ map fst m)"
  shows "dec_entries dec zero (map (\<lambda>(k, v). (k, enc v)) m) acc = Some (acc @ map (\<lambda>(k, v). (k, f v)) m)"
  using assms
proof (induction m arbitrary: acc)
  case Nil
  then show ?case by simp
next
  case (Cons e m)
  obtain k v where e: "e = (k, v)" by fastforce
  have new: "k \<notin> fst ` set acc" using Cons.prems(2) e by auto
  have "dec_entries dec zero (map (\<lambda>(k, v). (k, enc v)) m) (goput k (f v) acc) =
      Some (goput k (f v) acc @ map (\<lambda>(k, v). (k, f v)) m)"
    using Cons.prems e new by (intro Cons.IH) (auto simp: goput_new)
  moreover have "dec (enc v) zero = Some (f v)" using Cons.prems(1) e by auto
  ultimately show ?case using e new by (simp add: goput_new)
qed

lemma wf_gomap_sort: "wf_gomap (sort_key fst m) \<longleftrightarrow> wf_gomap m"
  unfolding wf_gomap_def by (metis distinct_map distinct_sort set_sort)

lemma dec_map_marshal:
  assumes "\<And>k v. (k, v) \<in> set m \<Longrightarrow> dec (enc v) zero = Some (f v)" and "wf_gomap m"
  shows "dec_map dec zero (marshal_map enc m) [] = Some (map (\<lambda>(k, v). (k, f v)) (sort_key fst m))"
  using dec_entries_marshal [of "sort_key fst m" dec enc zero f "[]"] assms wf_gomap_sort [of m]
  by (simp add: dec_map_def marshal_map_def wf_gomap_def)

lemma dec_entries_None:
  "(k, j) \<in> set kvs \<Longrightarrow> dec j zero = None \<Longrightarrow> dec_entries dec zero kvs m = None"
  by (induction dec zero kvs m rule: dec_entries.induct) (auto split: option.split)

text \<open>One bad entry makes the whole map unreadable.\<close>

lemma dec_map_marshal_None:
  assumes "(k, v) \<in> set m" "dec (enc v) zero = None"
  shows "dec_map dec zero (marshal_map enc m) old = None"
proof -
  have "(k, enc v) \<in> set (map (\<lambda>(k, v). (k, enc v)) (sort_key fst m))" using assms(1) by force
  from dec_entries_None [of _ _ _ dec, OF this assms(2)] show ?thesis
    by (simp add: dec_map_def marshal_map_def)
qed

lemma map_of_map_snd: "map_of (map (\<lambda>(k, v). (k, f v)) m) k = map_option f (map_of m k)"
  by (induction m) auto

lemma goget_sort: "wf_gomap m \<Longrightarrow> goget (sort_key fst m) k = goget m k"
  unfolding goget_def wf_gomap_def by (intro fun_cong [OF map_of_eqI])
    (auto simp: distinct_map distinct_sort dom_map_of_conv_image_fst [symmetric])

text \<open>The text of a map depends on its entries only, not on the order they were put in.\<close>

lemma marshal_map_cong:
  assumes "wf_gomap m" "wf_gomap n" "set m = set n"
  shows "marshal_map enc m = marshal_map enc n"
proof -
  have inj: "inj_on fst (set m)" using assms(1) by (simp add: wf_gomap_def distinct_map)
  have "distinct (map fst (sort_key fst m))" "distinct (map fst (sort_key fst n))"
    using assms wf_gomap_sort [of m] wf_gomap_sort [of n] by (simp_all add: wf_gomap_def)
  then have "sort_key fst m = sort_key fst n"
    using assms(3) inj by (intro map_sorted_distinct_set_unique) simp_all
  then show ?thesis by (simp add: marshal_map_def)
qed

end
