(* ===== verification/Certs.thy ===== *)
theory Certs
  imports Kube_Client
begin

text \<open>
  \<open>internal/certs/certs.go\<close> and \<open>secrets.go\<close>: the certificates of the controller, of the policy
  servers and of their certificate authority. The cryptography (\<open>crypto/x509\<close>, \<open>crypto/ecdsa\<close>,
  \<open>crypto/tls\<close>, \<open>crypto/rand\<close>), the PEM armour and the clock are the record \<open>crypto_lib\<close>.
  Times are in seconds. The source dereferences the block that \<open>pem.Decode\<close> returns without a
  check; where there is none the model is \<open>Aborted\<close>, or \<open>VerifyPanic\<close> where the caller would go on
  after an error.
\<close>

section \<open>Cryptography\<close>

record Certificate =
  x509_SerialNumber :: int
  x509_CommonName :: string
  x509_DNSNames :: "string list"
  x509_NotBefore :: int
  x509_NotAfter :: int
  x509_IsCA :: bool
  x509_ExtKeyUsage :: "string list"
  x509_KeyUsage :: "string list"
  x509_BasicConstraintsValid :: bool

text \<open>A private key is opaque; the public key is computed from it by \<open>CreateCertificate\<close>.\<close>

type_synonym PrivateKey = string

record 'w crypto_lib =
  cr_Now :: "('w, int) state"
  cr_RandInt :: "int \<Rightarrow> ('w, int) op"
  cr_GenerateKey :: "('w, PrivateKey) op"
  cr_CreateCertificate :: "Certificate \<Rightarrow> Certificate \<Rightarrow> PrivateKey \<Rightarrow> PrivateKey \<Rightarrow> ('w, string) op"
  cr_ParseCertificate :: "string \<Rightarrow> go_error + Certificate"
  cr_ParseECPrivateKey :: "string \<Rightarrow> go_error + PrivateKey"
  cr_MarshalECPrivateKey :: "PrivateKey \<Rightarrow> go_error + string"
  cr_PemEncode :: "string \<Rightarrow> string \<Rightarrow> go_error + string"
  cr_PemDecode :: "string \<Rightarrow> string option \<times> string"
  cr_X509KeyPair :: "string \<Rightarrow> string \<Rightarrow> go_error option"
  cr_Verify :: "Certificate \<Rightarrow> Certificate list \<Rightarrow> string \<Rightarrow> int \<Rightarrow> go_error option"

definition startValue :: int where "startValue = 1"
definition maxBitLength :: nat where "maxBitLength = 128"
definition caCommonName :: string where "caCommonName = ''kubewarden-controller-ca''"

definition lift_err :: "string \<Rightarrow> go_error + 'a \<Rightarrow> go_error + 'a" where
  "lift_err msg r = (case r of Inl e \<Rightarrow> Inl (Wrap msg e) | Inr x \<Rightarrow> Inr x)"

definition pemEncodeCertificate :: "'w crypto_lib \<Rightarrow> string \<Rightarrow> go_error + string" where
  "pemEncodeCertificate cl certificate = lift_err ''PEM encode failure'' (cr_PemEncode cl ''CERTIFICATE'' certificate)"

definition pemEncodePrivateKey :: "'w crypto_lib \<Rightarrow> PrivateKey \<Rightarrow> go_error + string" where
  "pemEncodePrivateKey cl privateKey =
     (case cr_MarshalECPrivateKey cl privateKey of
        Inl e \<Rightarrow> Inl (Wrap ''cannot marshalprivate key'' e)
      | Inr b \<Rightarrow> lift_err ''PEM encode failure'' (cr_PemEncode cl ''RSA PRIVATE KEY'' b))"

text \<open>A computation that does not touch the world, with its error wrapped.\<close>

definition pureStep :: "go_error + 'a \<Rightarrow> string \<Rightarrow> ('a \<Rightarrow> ('w, 'b) op) \<Rightarrow> ('w, 'b) op" where
  "pureStep r msg f = (case r of Inl e \<Rightarrow> fail (Wrap msg e) | Inr x \<Rightarrow> f x)"

definition serialNumberUpperBound :: int where
  "serialNumberUpperBound = startValue * 2 ^ maxBitLength"

section \<open>Generation\<close>

definition caTemplate :: "int \<Rightarrow> int \<Rightarrow> int \<Rightarrow> Certificate" where
  "caTemplate serialNumber notBefore notAfter = \<lparr>
     x509_SerialNumber = serialNumber, x509_CommonName = caCommonName, x509_DNSNames = [],
     x509_NotBefore = notBefore, x509_NotAfter = notAfter, x509_IsCA = True,
     x509_ExtKeyUsage = [''ClientAuth'', ''ServerAuth''],
     x509_KeyUsage = [''KeyEncipherment'', ''DigitalSignature'', ''CertSign''],
     x509_BasicConstraintsValid = True\<rparr>"

definition GenerateCA :: "'w crypto_lib \<Rightarrow> int \<Rightarrow> int \<Rightarrow> ('w, string \<times> string) op" where
  "GenerateCA cl notBefore notAfter =
     orWrap (cr_RandInt cl serialNumberUpperBound) ''cannot init serial number''
       (\<lambda>serialNumber. orWrap (cr_GenerateKey cl) ''cannot create private key''
         (\<lambda>privateKey.
            let caCert = caTemplate serialNumber notBefore notAfter in
            orWrap (cr_CreateCertificate cl caCert caCert privateKey privateKey) ''cannot create certificate''
              (\<lambda>caCertBytes. pureStep (pemEncodeCertificate cl caCertBytes) ''cannot encode certificate''
                (\<lambda>caCertPEM. pureStep (pemEncodePrivateKey cl privateKey) ''cannot encode private key''
                  (\<lambda>privateKeyPEM. ok (caCertPEM, privateKeyPEM))))))"

definition serverTemplate :: "int \<Rightarrow> string \<Rightarrow> int \<Rightarrow> int \<Rightarrow> Certificate" where
  "serverTemplate serialNumber dnsName notBefore notAfter = \<lparr>
     x509_SerialNumber = serialNumber, x509_CommonName = dnsName, x509_DNSNames = [dnsName],
     x509_NotBefore = notBefore, x509_NotAfter = notAfter, x509_IsCA = False,
     x509_ExtKeyUsage = [''ClientAuth'', ''ServerAuth''],
     x509_KeyUsage = [''KeyEncipherment'', ''DigitalSignature''],
     x509_BasicConstraintsValid = False\<rparr>"

definition GenerateCert ::
  "'w crypto_lib \<Rightarrow> string \<Rightarrow> string \<Rightarrow> int \<Rightarrow> int \<Rightarrow> string \<Rightarrow> ('w, string \<times> string) op" where
  "GenerateCert cl caCertPEM caPrivateKeyPEM notBefore notAfter dnsName =
     (case fst (cr_PemDecode cl caCertPEM) of
        None \<Rightarrow> fail (Aborted ''nil PEM block'')
      | Some caCertBytes \<Rightarrow>
          pureStep (cr_ParseCertificate cl caCertBytes) ''error parsing ca root certificate''
            (\<lambda>caCert.
               case fst (cr_PemDecode cl caPrivateKeyPEM) of
                 None \<Rightarrow> fail (Aborted ''nil PEM block'')
               | Some keyBytes \<Rightarrow>
                   pureStep (cr_ParseECPrivateKey cl keyBytes) ''error parsing ca root private key''
                     (\<lambda>caPrivateKey.
                        orWrap (cr_RandInt cl serialNumberUpperBound) ''cannot generate serialNumber for certificate''
                          (\<lambda>serialNumber. orWrap (cr_GenerateKey cl) ''cannot create private key''
                            (\<lambda>privateKey.
                               orWrap (cr_CreateCertificate cl (serverTemplate serialNumber dnsName notBefore notAfter)
                                   caCert privateKey caPrivateKey) ''cannot create certificate''
                                 (\<lambda>certBytes. pureStep (pemEncodeCertificate cl certBytes) ''cannot encode certificate''
                                   (\<lambda>certPEM. pureStep (pemEncodePrivateKey cl privateKey) ''cannot encode private key''
                                     (\<lambda>privateKeyPEM. ok (certPEM, privateKeyPEM)))))))))"

section \<open>Verification\<close>

text \<open>
  The loop of \<open>NewCertPool\<close> runs as long as \<open>pem.Decode\<close> finds a block. The fuel bounds the
  number of rounds; \<open>NewCertPool\<close> starts with one more than the length of the text, which is enough
  when every block takes at least a character (\<open>NewCertPool_decides\<close>).
\<close>

datatype 'a fueled = OutOfFuel | Done 'a

fun NewCertPool_loop ::
  "'w crypto_lib \<Rightarrow> nat \<Rightarrow> string \<Rightarrow> Certificate list \<Rightarrow> (go_error + Certificate list) fueled" where
  "NewCertPool_loop cl 0 certPEM pool = OutOfFuel"
| "NewCertPool_loop cl (Suc n) certPEM pool =
     (case cr_PemDecode cl certPEM of
        (None, _) \<Rightarrow> Done (Inr pool)
      | (Some b, rest) \<Rightarrow>
          (case cr_ParseCertificate cl b of
             Inl err \<Rightarrow> Done (Inl (Wrap ''error parsing certificate'' err))
           | Inr cert \<Rightarrow> NewCertPool_loop cl n rest (pool @ [cert])))"

definition NewCertPool :: "'w crypto_lib \<Rightarrow> string \<Rightarrow> go_error + Certificate list" where
  "NewCertPool cl certPEM =
     (case NewCertPool_loop cl (Suc (length certPEM)) certPEM [] of
        OutOfFuel \<Rightarrow> Inl (Aborted ''endless loop'')
      | Done r \<Rightarrow> r)"

datatype verify_result = Valid | InvalidCert go_error | VerifyPanic

definition VerifyCert ::
  "'w crypto_lib \<Rightarrow> string \<Rightarrow> string option \<Rightarrow> Certificate list \<Rightarrow> string \<Rightarrow> int \<Rightarrow> verify_result" where
  "VerifyCert cl certPEM privateKeyPEM certPool dnsName at =
     (case fst (cr_PemDecode cl certPEM) of
        None \<Rightarrow> VerifyPanic
      | Some b \<Rightarrow>
          (case cr_ParseCertificate cl b of
             Inl err \<Rightarrow> InvalidCert (Wrap ''error parsing certificate'' err)
           | Inr cert \<Rightarrow>
               (case (case privateKeyPEM of None \<Rightarrow> None | Some k \<Rightarrow> cr_X509KeyPair cl certPEM k) of
                  Some err \<Rightarrow> InvalidCert (Wrap ''key pair is invalid'' err)
                | None \<Rightarrow>
                    (case cr_Verify cl cert certPool dnsName at of
                       Some err \<Rightarrow> InvalidCert (Wrap ''the certificate is invalid'' err)
                     | None \<Rightarrow> Valid))))"

definition VerifyCA :: "'w crypto_lib \<Rightarrow> string \<Rightarrow> string option \<Rightarrow> int \<Rightarrow> verify_result" where
  "VerifyCA cl caCertPEM caPrivateKeyPEM at =
     (case NewCertPool cl caCertPEM of
        Inl err \<Rightarrow> InvalidCert (Wrap ''failed to create cert pool'' err)
      | Inr pool \<Rightarrow>
          (case VerifyCert cl caCertPEM caPrivateKeyPEM pool '''' at of
             InvalidCert err \<Rightarrow> InvalidCert (Wrap ''failed to verify CA certificate'' err)
           | r \<Rightarrow> r))"

definition DNSName :: "string \<Rightarrow> string \<Rightarrow> string" where
  "DNSName serviceName namespace = serviceName @ ''.'' @ namespace @ ''.svc''"

section \<open>Secrets\<close>

text \<open>The common shape of the two functions, with their four messages.\<close>

definition extractPair ::
  "string \<Rightarrow> string \<Rightarrow> string \<times> string \<Rightarrow> string \<times> string \<Rightarrow> Secret \<Rightarrow> go_error + string \<times> string" where
  "extractPair certField keyField certMsgs keyMsgs secret =
     (let err = (\<lambda>msg. Inl (NewError (msg @ '' secret: '' @ om_Name (sec_Meta secret)))) in
      case goget (sec_Data secret) certField of
        None \<Rightarrow> err (fst certMsgs)
      | Some cert \<Rightarrow>
          if cert = [] then err (snd certMsgs)
          else (case goget (sec_Data secret) keyField of
             None \<Rightarrow> err (fst keyMsgs)
           | Some key \<Rightarrow> if key = [] then err (snd keyMsgs) else Inr (cert, key)))"

definition ExtractCARootFromSecret :: "Secret \<Rightarrow> go_error + string \<times> string" where
  "ExtractCARootFromSecret caRootSecret = extractPair CARootCert CARootPrivateKey
     (''CA could not be extracted from'', ''CA certificate is empty in'')
     (''CA private key bytes could not be extracted from'', ''CA private key is empty in'') caRootSecret"

definition ExtractServerCertFromSecret :: "Secret \<Rightarrow> go_error + string \<times> string" where
  "ExtractServerCertFromSecret serverCertSecret = extractPair ServerCert ServerPrivateKey
     (''server certificate could not be extracted from'', ''server certificate is empty in'')
     (''server private key could not be extracted from'', ''server private key is empty in'') serverCertSecret"

lemma extractPair_Inr:
  "extractPair ck pk a b secret = Inr (cert, key) \<longleftrightarrow>
     goget (sec_Data secret) ck = Some cert \<and> cert \<noteq> [] \<and> goget (sec_Data secret) pk = Some key \<and> key \<noteq> []"
  by (auto simp: extractPair_def Let_def split: option.splits if_splits)

lemmas Extract_Inr = ExtractCARootFromSecret_def ExtractServerCertFromSecret_def extractPair_Inr

section \<open>The loop ends\<close>

text \<open>The documented behaviour of \<open>pem.Decode\<close>: the rest is what follows the block it found.\<close>

locale pem_blocks =
  fixes decode :: "string \<Rightarrow> string option \<times> string"
  assumes rest_shorter: "decode s = (Some b, rest) \<Longrightarrow> length rest < length s"
begin

lemma loop_done:
  assumes "decode = cr_PemDecode cl"
  shows "length s < n \<Longrightarrow> NewCertPool_loop cl n s pool \<noteq> OutOfFuel"
proof (induction n arbitrary: s pool)
  case 0
  then show ?case by simp
next
  case (Suc n)
  have "length rest < n" if "cr_PemDecode cl s = (Some b, rest)" for b rest
    using rest_shorter [of s b rest] that assms Suc.prems by simp
  with Suc.IH show ?case by (auto split: prod.split option.split sum.split)
qed

end

section \<open>Generated certificates verify\<close>

text \<open>
  What the code relies on of \<open>crypto/x509\<close>, \<open>crypto/tls\<close> and \<open>encoding/pem\<close>: an encoded block is the
  first block of its text; a certificate that was created parses; it matches the key it was
  created for; and it verifies, within its validity and for a name it lists, against a pool with
  its issuer, while the issuer is a valid authority.
\<close>

definition authority_at :: "Certificate \<Rightarrow> int \<Rightarrow> bool" where
  "authority_at issuer at \<longleftrightarrow>
     x509_IsCA issuer \<and> x509_BasicConstraintsValid issuer \<and> ''CertSign'' \<in> set (x509_KeyUsage issuer) \<and>
     x509_NotBefore issuer \<le> at \<and> at \<le> x509_NotAfter issuer"

locale x509_laws = pem_blocks "cr_PemDecode cl" for cl :: "'w crypto_lib" +
  assumes pem_round_trip: "cr_PemEncode cl ty b = Inr pem \<Longrightarrow> fst (cr_PemDecode cl pem) = Some b"
    and created_parses: "run_state (cr_CreateCertificate cl t issuer key signer) w = (Inr b, w') \<Longrightarrow>
      \<exists>cert. cr_ParseCertificate cl b = Inr cert"
    and created_pair: "run_state (cr_CreateCertificate cl t issuer key signer) w = (Inr b, w') \<Longrightarrow>
      cr_PemEncode cl ''CERTIFICATE'' b = Inr certPEM \<Longrightarrow> cr_MarshalECPrivateKey cl key = Inr kb \<Longrightarrow>
      cr_PemEncode cl ty kb = Inr keyPEM \<Longrightarrow> cr_X509KeyPair cl certPEM keyPEM = None"
    and created_verifies: "run_state (cr_CreateCertificate cl t issuer key signer) w = (Inr b, w') \<Longrightarrow>
      cr_ParseCertificate cl b = Inr cert \<Longrightarrow> issuer \<in> set pool \<Longrightarrow> authority_at issuer at \<Longrightarrow> dns \<in> set (x509_DNSNames t) \<Longrightarrow>
      ''ServerAuth'' \<in> set (x509_ExtKeyUsage t) \<Longrightarrow> x509_NotBefore t \<le> at \<Longrightarrow> at \<le> x509_NotAfter t \<Longrightarrow> cr_Verify cl cert pool dns at = None"
begin

text \<open>The certificate and key that a successful \<open>GenerateCert\<close> returns.\<close>

lemma GenerateCert_cases:
  assumes "run_state (GenerateCert cl ca caKey notBefore notAfter dns) w = (Inr (certPEM, keyPEM), w')"
  obtains caBytes issuer signer serial key b kb w1 w2 where
    "fst (cr_PemDecode cl ca) = Some caBytes" "cr_ParseCertificate cl caBytes = Inr issuer"
    "run_state (cr_CreateCertificate cl (serverTemplate serial dns notBefore notAfter) issuer key signer) w1 = (Inr b, w2)"
    "cr_PemEncode cl ''CERTIFICATE'' b = Inr certPEM" "cr_MarshalECPrivateKey cl key = Inr kb"
    "cr_PemEncode cl ''RSA PRIVATE KEY'' kb = Inr keyPEM"
proof -
  obtain caBytes issuer keyBytes signer where ca: "fst (cr_PemDecode cl ca) = Some caBytes"
    "cr_ParseCertificate cl caBytes = Inr issuer" "fst (cr_PemDecode cl caKey) = Some keyBytes"
    "cr_ParseECPrivateKey cl keyBytes = Inr signer"
    using assms by (auto simp: GenerateCert_def pureStep_def split: option.splits sum.splits)
  obtain serial w0 key w1 b w2 where gen: "run_state (cr_RandInt cl serialNumberUpperBound) w = (Inr serial, w0)"
    "run_state (cr_GenerateKey cl) w0 = (Inr key, w1)"
    "run_state (cr_CreateCertificate cl (serverTemplate serial dns notBefore notAfter) issuer key signer) w1 = (Inr b, w2)"
    using assms ca by (auto simp: GenerateCert_def pureStep_def run_orWrap split: prod.splits sum.splits)
  obtain kb where "cr_PemEncode cl ''CERTIFICATE'' b = Inr certPEM" "cr_MarshalECPrivateKey cl key = Inr kb"
    "cr_PemEncode cl ''RSA PRIVATE KEY'' kb = Inr keyPEM"
    using assms ca gen
    by (auto simp: GenerateCert_def pureStep_def run_orWrap pemEncodeCertificate_def pemEncodePrivateKey_def lift_err_def
        split: sum.splits)
  with ca gen that show thesis by blast
qed

lemma GenerateCert_verifies:
  assumes run: "run_state (GenerateCert cl ca caKey notBefore notAfter dns) w = (Inr (certPEM, keyPEM), w')"
    and ca: "fst (cr_PemDecode cl ca) = Some caBytes" "cr_ParseCertificate cl caBytes = Inr issuer" "authority_at issuer at"
    and pool: "NewCertPool cl ca = Inr pool" and time: "notBefore \<le> at" "at \<le> notAfter"
  shows "VerifyCert cl certPEM (Some keyPEM) pool dns at = Valid"
  using run
proof (cases rule: GenerateCert_cases)
  case (1 caBytes' issuer' signer serial key b kb w1 w2)
  then have "issuer' = issuer" "caBytes' = caBytes" using ca by simp_all
  note 1 = 1 [unfolded this]
  obtain rest where dec: "cr_PemDecode cl ca = (Some caBytes, rest)"
    using 1(1) by (metis prod.collapse)
  have grows: "NewCertPool_loop cl n s acc = Done (Inr p) \<Longrightarrow> set acc \<subseteq> set p" for n s acc p
    by (induction cl n s acc rule: NewCertPool_loop.induct) (auto split: prod.splits option.splits sum.splits)
  have "issuer \<in> set pool"
    using pool dec 1(2) grows [of "length ca" rest "[issuer]" pool]
    by (auto simp: NewCertPool_def split: fueled.splits)
  moreover obtain cert where cert: "cr_ParseCertificate cl b = Inr cert" using created_parses [OF 1(3)] by blast
  moreover have "dns \<in> set (x509_DNSNames (serverTemplate serial dns notBefore notAfter))"
    "x509_NotBefore (serverTemplate serial dns notBefore notAfter) \<le> at"
    "at \<le> x509_NotAfter (serverTemplate serial dns notBefore notAfter)"
    "''ServerAuth'' \<in> set (x509_ExtKeyUsage (serverTemplate serial dns notBefore notAfter))"
    using time by (simp_all add: serverTemplate_def)
  ultimately have "cr_Verify cl cert pool dns at = None" using created_verifies [OF 1(3)] ca(3) by blast
  then show ?thesis
    using pem_round_trip [OF 1(4)] created_pair [OF 1(3-6)] cert by (simp add: VerifyCert_def)
qed

end

section \<open>A reference instance\<close>

text \<open>
  Certificates as text: a block is a line, a certificate is its kind and its name, and the root
  certificates of the pool are those marked as authorities.
\<close>

abbreviation newline :: char where "newline \<equiv> CHR 0x0A"

definition refPemDecode :: "string \<Rightarrow> string option \<times> string" where
  "refPemDecode s = (if newline \<in> set s
     then (Some (takeWhile (\<lambda>c. c \<noteq> newline) s), tl (dropWhile (\<lambda>c. c \<noteq> newline) s)) else (None, s))"

definition refCertificate :: "bool \<Rightarrow> string \<Rightarrow> Certificate" where
  "refCertificate isCA name = \<lparr>x509_SerialNumber = 1, x509_CommonName = name, x509_DNSNames = [name],
     x509_NotBefore = 0, x509_NotAfter = 1000, x509_IsCA = isCA, x509_ExtKeyUsage = [], x509_KeyUsage = [''CertSign''],
     x509_BasicConstraintsValid = isCA\<rparr>"

definition refParse :: "string \<Rightarrow> go_error + Certificate" where
  "refParse b = (case b of [] \<Rightarrow> Inl (NewError ''empty'')
     | c # name \<Rightarrow> if c = CHR ''C'' then Inr (refCertificate True name)
         else if c = CHR ''S'' then Inr (refCertificate False name) else Inl (NewError ''malformed''))"

definition refCrypto :: "'w crypto_lib" where
  "refCrypto = \<lparr>cr_Now = ret 0, cr_RandInt = (\<lambda>_. ok 1), cr_GenerateKey = ok ''key'',
     cr_CreateCertificate = (\<lambda>t issuer key signer.
       ok ((if x509_IsCA t then CHR ''C'' else CHR ''S'') # x509_CommonName t)),
     cr_ParseCertificate = refParse, cr_ParseECPrivateKey = Inr, cr_MarshalECPrivateKey = Inr,
     cr_PemEncode = (\<lambda>ty b. if newline \<in> set b then Inl (NewError ''newline'') else Inr (b @ [newline])),
     cr_PemDecode = refPemDecode, cr_X509KeyPair = (\<lambda>_ _. None),
     cr_Verify = (\<lambda>cert pool dns at. if pool = [] then Some (NewError ''unknown authority'') else None)\<rparr>"

lemma refPemDecode_shorter: "refPemDecode s = (Some b, rest) \<Longrightarrow> length rest < length s"
proof -
  assume "refPemDecode s = (Some b, rest)"
  then have nl: "newline \<in> set s" and rest: "rest = tl (dropWhile (\<lambda>c. c \<noteq> newline) s)"
    by (auto simp: refPemDecode_def split: if_splits)
  from nl have "dropWhile (\<lambda>c. c \<noteq> newline) s \<noteq> []" by (auto simp: dropWhile_eq_Nil_conv)
  then have "length rest < length (dropWhile (\<lambda>c. c \<noteq> newline) s)" by (simp add: rest)
  also have "\<dots> \<le> length s" by (rule length_dropWhile_le)
  finally show ?thesis .
qed

lemma refPem_round_trip: "newline \<notin> set b \<Longrightarrow> fst (refPemDecode (b @ [newline])) = Some b"
proof -
  assume "newline \<notin> set b"
  then have "takeWhile (\<lambda>c. c \<noteq> newline) (b @ [newline]) = b"
    by (subst takeWhile_append2) auto
  then show ?thesis by (simp add: refPemDecode_def)
qed

interpretation ref_x509: x509_laws refCrypto
  by unfold_locales
    (auto simp: refCrypto_def refPemDecode_shorter refPem_round_trip refParse_def split: if_splits)

section \<open>Properties\<close>

text \<open>
  A certificate that the controller generates is one that it accepts: what GenerateCert returns
  verifies with its key against the pool of the authority that signed it, for the name it was
  made for, at every time of its validity and of that of the authority. So a rotated certificate is not rotated again
  until it comes near its end.\<close>

theorem generated_cert_verifies:
  assumes laws: "x509_laws cl"
    and run: "run_state (GenerateCert cl ca caKey notBefore notAfter dns) w = (Inr (certPEM, keyPEM), w')"
    and ca: "fst (cr_PemDecode cl ca) = Some caBytes" "cr_ParseCertificate cl caBytes = Inr issuer" "authority_at issuer at"
    and pool: "NewCertPool cl ca = Inr pool" and time: "notBefore \<le> at" "at \<le> notAfter"
  shows "VerifyCert cl certPEM (Some keyPEM) pool dns at = Valid"
  by (rule x509_laws.GenerateCert_verifies [OF laws run ca pool time])

theorem generated_cert_verifies_witness:
  "\<exists>certPEM keyPEM pool. run_state (GenerateCert refCrypto (''Ca'' @ [newline]) (''key'' @ [newline]) 0 100 ''svc'') () =
       (Inr (certPEM, keyPEM), ()) \<and>
     VerifyCert (refCrypto :: unit crypto_lib) certPEM (Some keyPEM) pool ''svc'' 50 = Valid"
proof -
  define ca where "ca = ''Ca'' @ [newline]"
  have run: "run_state (GenerateCert refCrypto ca (''key'' @ [newline]) 0 100 ''svc'') () =
      (Inr (''Ssvc'' @ [newline], ''key'' @ [newline]), ())"
    by (simp add: GenerateCert_def ca_def refCrypto_def refPemDecode_def refParse_def pureStep_def run_orWrap
        pemEncodeCertificate_def pemEncodePrivateKey_def lift_err_def serverTemplate_def)
  have "NewCertPool refCrypto ca = Inr [refCertificate True ''a'']"
    by (simp add: NewCertPool_def ca_def refCrypto_def refPemDecode_def refParse_def)
  moreover have "fst (cr_PemDecode (refCrypto :: unit crypto_lib) ca) = Some ''Ca''"
    "cr_ParseCertificate (refCrypto :: unit crypto_lib) ''Ca'' = Inr (refCertificate True ''a'')"
    "authority_at (refCertificate True ''a'') 50"
    by (simp_all add: ca_def refCrypto_def refPemDecode_def refParse_def refCertificate_def authority_at_def)
  ultimately have "VerifyCert (refCrypto :: unit crypto_lib) (''Ssvc'' @ [newline]) (Some (''key'' @ [newline]))
      [refCertificate True ''a''] ''svc'' 50 = Valid"
    using generated_cert_verifies [OF ref_x509.x509_laws_axioms run, of "''Ca''" "refCertificate True ''a''" 50] by simp
  with run show ?thesis
    unfolding ca_def by auto
qed



text \<open>
  On text without a PEM block the verification of a certificate does not return an error: it
  dereferences a nil block, and so does the generation of a certificate for such an authority.\<close>

lemma no_pem_block_panics:
  "fst (cr_PemDecode cl text) = None \<longrightarrow>
     VerifyCert cl text key pool dns at = VerifyPanic \<and>
     run_state (GenerateCert cl text caKey notBefore notAfter dns) w = (Inl (Aborted ''nil PEM block''), w)"
  by (simp add: VerifyCert_def GenerateCert_def)

end
