(* ===== verification/Config_Map.thy ===== *)
theory Config_Map
  imports Go_Marshal PolicyServer_Webhook Certs
begin

text \<open>
  \<open>internal/controller/policyserver_controller_configmap.go\<close>: the ConfigMap through which the
  controller tells a policy server its policies, written by the PolicyServer reconciler
  (\<open>buildPoliciesMap\<close>, \<open>updateConfigMapData\<close>) and read back by the policy reconcilers
  (\<open>getPolicyMapFromConfigMap\<close> of \<open>policy_subreconciler.go\<close>, the reconcile requests).
  The central facts are the round trip through the JSON text and its independence of the order
  in which the policies are listed.
\<close>

section \<open>Entries\<close>

definition dataType :: string where
  "dataType = ''Data''"

record policyGroupMemberWithContext =
  pgmj_Module :: string
  pgmj_Settings :: RawExtension
  pgmj_ContextAwareResources :: "ContextAwareResource list"

record policyServerConfigEntry =
  pce_NamespacedName :: nsname
  pce_Module :: string
  pce_PolicyMode :: string
  pce_AllowedToMutate :: bool
  pce_ContextAwareResources :: "ContextAwareResource list"
  pce_Settings :: RawExtension
  pce_Policies :: "policyGroupMemberWithContext gomap"
  pce_Expression :: string
  pce_Message :: string

type_synonym policyConfigEntryMap = "policyServerConfigEntry gomap"

record policyServerSourceAuthority =
  psa_Type :: string
  psa_Data :: string

record policyServerSourcesEntry =
  pse_InsecureSources :: "string list"
  pse_SourceAuthorities :: "(policyServerSourceAuthority list) gomap"

definition zeroMember :: policyGroupMemberWithContext where
  "zeroMember = \<lparr>pgmj_Module = '''', pgmj_Settings = None, pgmj_ContextAwareResources = []\<rparr>"

definition zeroEntry :: policyServerConfigEntry where
  "zeroEntry = \<lparr>pce_NamespacedName = ('''', ''''), pce_Module = '''', pce_PolicyMode = '''',
     pce_AllowedToMutate = False, pce_ContextAwareResources = [], pce_Settings = None,
     pce_Policies = [], pce_Expression = '''', pce_Message = ''''\<rparr>"

section \<open>Writing\<close>

definition marshal_NamespacedName :: "nsname \<Rightarrow> json" where
  "marshal_NamespacedName n = JObj [(''Namespace'', JStr (fst n)), (''Name'', JStr (snd n))]"

definition marshal_ContextAwareResource :: "ContextAwareResource \<Rightarrow> json" where
  "marshal_ContextAwareResource c = JObj [(''apiVersion'', JStr (car_APIVersion c)), (''kind'', JStr (car_Kind c))]"

text \<open>\<open>omitempty\<close> does not apply to a struct: absent settings are written as null.\<close>

definition marshal_RawExtension :: "RawExtension \<Rightarrow> json" where
  "marshal_RawExtension r = (case r of None \<Rightarrow> JNull | Some j \<Rightarrow> j)"

definition marshal_member :: "policyGroupMemberWithContext \<Rightarrow> json" where
  "marshal_member m = JObj
     ([(''module'', JStr (pgmj_Module m)), (''settings'', marshal_RawExtension (pgmj_Settings m))]
      @ omitempty ''contextAwareResources'' (marshal_slice marshal_ContextAwareResource) (pgmj_ContextAwareResources m))"

definition policyServerConfigEntry_MarshalJSON :: "policyServerConfigEntry \<Rightarrow> json" where
  "policyServerConfigEntry_MarshalJSON p =
     (if pce_Policies p \<noteq> [] then JObj
        [(''namespacedName'', marshal_NamespacedName (pce_NamespacedName p)),
         (''policyMode'', JStr (pce_PolicyMode p)),
         (''policies'', marshal_map marshal_member (pce_Policies p)),
         (''expression'', JStr (pce_Expression p)),
         (''message'', JStr (pce_Message p))]
      else JObj
        ([(''namespacedName'', marshal_NamespacedName (pce_NamespacedName p)),
          (''module'', JStr (pce_Module p)),
          (''policyMode'', JStr (pce_PolicyMode p)),
          (''allowedToMutate'', JBool (pce_AllowedToMutate p))]
         @ omitempty ''contextAwareResources'' (marshal_slice marshal_ContextAwareResource) (pce_ContextAwareResources p)
         @ [(''settings'', marshal_RawExtension (pce_Settings p))]))"

definition marshal_policies :: "policyConfigEntryMap \<Rightarrow> string" where
  "marshal_policies m = json_render (marshal_map policyServerConfigEntry_MarshalJSON m)"

definition marshal_authority :: "policyServerSourceAuthority \<Rightarrow> json" where
  "marshal_authority a = JObj [(''type'', JStr (psa_Type a)), (''data'', JStr (psa_Data a))]"

definition marshal_sources :: "policyServerSourcesEntry \<Rightarrow> string" where
  "marshal_sources s = json_render (JObj
     (omitempty ''insecure_sources'' (marshal_slice JStr) (pse_InsecureSources s)
      @ omitempty ''source_authorities'' (marshal_map (marshal_slice marshal_authority)) (pse_SourceAuthorities s)))"

section \<open>Reading\<close>

definition dec_NamespacedName :: "nsname decoder" where
  "dec_NamespacedName = dec_struct
     [(''Namespace'', field_dec fst apfst dec_string), (''Name'', field_dec snd apsnd dec_string)]"

definition dec_ContextAwareResource :: "ContextAwareResource decoder" where
  "dec_ContextAwareResource = dec_struct
     [(''apiVersion'', field_dec car_APIVersion car_APIVersion_update dec_string),
      (''kind'', field_dec car_Kind car_Kind_update dec_string)]"

definition dec_RawExtension :: "RawExtension decoder" where
  "dec_RawExtension j old = Some (if j = JNull then old else Some j)"

definition zeroResource :: ContextAwareResource where
  "zeroResource = \<lparr>car_APIVersion = '''', car_Kind = ''''\<rparr>"

definition dec_member :: "policyGroupMemberWithContext decoder" where
  "dec_member = dec_struct
     [(''module'', field_dec pgmj_Module pgmj_Module_update dec_string),
      (''settings'', field_dec pgmj_Settings pgmj_Settings_update dec_RawExtension),
      (''contextAwareResources'', field_dec pgmj_ContextAwareResources pgmj_ContextAwareResources_update
         (dec_slice dec_ContextAwareResource zeroResource))]"

definition dec_entry :: "policyServerConfigEntry decoder" where
  "dec_entry = dec_struct
     [(''namespacedName'', field_dec pce_NamespacedName pce_NamespacedName_update dec_NamespacedName),
      (''module'', field_dec pce_Module pce_Module_update dec_string),
      (''policyMode'', field_dec pce_PolicyMode pce_PolicyMode_update dec_string),
      (''allowedToMutate'', field_dec pce_AllowedToMutate pce_AllowedToMutate_update dec_bool),
      (''contextAwareResources'', field_dec pce_ContextAwareResources pce_ContextAwareResources_update
         (dec_slice dec_ContextAwareResource zeroResource)),
      (''settings'', field_dec pce_Settings pce_Settings_update dec_RawExtension),
      (''policies'', field_dec pce_Policies pce_Policies_update (dec_map dec_member zeroMember)),
      (''expression'', field_dec pce_Expression pce_Expression_update dec_string),
      (''message'', field_dec pce_Message pce_Message_update dec_string)]"

definition policyServerConfigEntry_UnmarshalJSON :: "policyServerConfigEntry decoder" where
  "policyServerConfigEntry_UnmarshalJSON b p =
     (case dec_entry b p of
        None \<Rightarrow> None
      | Some e \<Rightarrow>
          if pce_Policies e = [] \<and> pce_Module e = '''' then None
          else if pce_Policies e \<noteq> [] \<and> pce_Module e \<noteq> '''' then None
          else Some e)"

definition unmarshal_policies :: "string \<Rightarrow> policyConfigEntryMap option" where
  "unmarshal_policies text =
     (case json_parse text of
        None \<Rightarrow> None
      | Some j \<Rightarrow> dec_map policyServerConfigEntry_UnmarshalJSON zeroEntry j [])"

section \<open>The maps of a policy server\<close>

definition buildPolicyGroupMembersWithContext ::
  "PolicyGroupMembersWithContext \<Rightarrow> policyGroupMemberWithContext gomap" where
  "buildPolicyGroupMembersWithContext policies =
     foldl (\<lambda>policyGroupMembers (name, policy).
         goput name \<lparr>pgmj_Module = pgm_Module (pgmc_Member policy), pgmj_Settings = pgm_Settings (pgmc_Member policy),
           pgmj_ContextAwareResources = pgmc_ContextAwareResources policy\<rparr> policyGroupMembers)
       [] policies"

text \<open>The body of the loop of \<open>buildPoliciesMap\<close>: the entry of one policy.\<close>

definition configEntry :: "Policy \<Rightarrow> policyServerConfigEntry" where
  "configEntry admissionPolicy =
     (let entry = \<lparr>pce_NamespacedName = (GetNamespace admissionPolicy, GetName admissionPolicy),
            pce_Module = GetModule admissionPolicy,
            pce_PolicyMode = GetPolicyMode admissionPolicy,
            pce_AllowedToMutate = IsMutating admissionPolicy,
            pce_ContextAwareResources = GetContextAwareResources admissionPolicy,
            pce_Settings = GetSettings admissionPolicy,
            pce_Policies = [], pce_Expression = '''', pce_Message = ''''\<rparr>
      in case asPolicyGroup admissionPolicy of
           None \<Rightarrow> entry
         | Some (members, expression, message) \<Rightarrow>
             entry\<lparr>pce_Policies := buildPolicyGroupMembersWithContext members,
               pce_Expression := expression, pce_Message := message\<rparr>)"

definition buildPoliciesMap :: "Policy list \<Rightarrow> policyConfigEntryMap" where
  "buildPoliciesMap admissionPolicies =
     foldl (\<lambda>policies admissionPolicy. goput (GetUniqueName admissionPolicy) (configEntry admissionPolicy) policies)
       [] admissionPolicies"

definition buildSourcesMap :: "PolicyServer \<Rightarrow> policyServerSourcesEntry" where
  "buildSourcesMap policyServer =
     \<lparr>pse_InsecureSources = pss_InsecureSources (ps_Spec policyServer),
      pse_SourceAuthorities = foldl (\<lambda>m (uri, certs). goput uri (map (\<lambda>cert. \<lparr>psa_Type = dataType, psa_Data = cert\<rparr>) certs) m)
        [] (pss_SourceAuthorities (ps_Spec policyServer))\<rparr>"

section \<open>The reconciler of the ConfigMap\<close>

record TelemetryConfiguration =
  tc_MetricsEnabled :: bool
  tc_TracingEnabled :: bool
  tc_OtelSidecarEnabled :: bool
  tc_OtelCertificateSecret :: string
  tc_OtelClientCertificateSecret :: string

text \<open>
  The reconciler of policy servers: the client, the library functions, and its configuration.
  \<open>psr_Error\<close> is the text of an error, which goes into the messages of conditions, and
  \<open>psr_Getenv\<close> is \<open>os.Getenv\<close> in the environment of the process.
\<close>

record 'w PolicyServerReconciler =
  psr_Client :: "'w client"
  psr_Lib :: kube_lib
  psr_Telemetry :: TelemetryConfiguration
  psr_DeploymentsNamespace :: string
  psr_AlwaysAcceptAdmissionReviewsInDeploymentsNamespace :: bool
  psr_ClientCAConfigMapName :: string
  psr_Error :: "go_error \<Rightarrow> string"
  psr_Getenv :: "string \<Rightarrow> string"
  psr_Crypto :: "'w crypto_lib"

text \<open>
  The settings of a policy are a JSON tree in the model, so \<open>json.Marshal\<close> cannot fail and the
  two branches for its errors are not reached.
\<close>

definition updateConfigMapData ::
  "'w PolicyServerReconciler \<Rightarrow> PolicyServer \<Rightarrow> Policy list \<Rightarrow> ConfigMap \<Rightarrow> go_error + ConfigMap" where
  "updateConfigMapData r policyServer policies cfg =
     (let policiesYML = marshal_policies (buildPoliciesMap policies);
          sourcesYML = marshal_sources (buildSourcesMap policyServer);
          cfg1 = cfg\<lparr>cm_Data := [(PolicyServerConfigPoliciesEntry, policiesYML),
                                 (PolicyServerConfigSourcesEntry, sourcesYML)],
                     cm_Meta := (cm_Meta cfg)\<lparr>om_Labels := [(PolicyServerLabelKey, ps_Name policyServer)]\<rparr>\<rparr>
      in case lib_SetOwnerReference (psr_Lib r) (ps_Meta policyServer) (cm_Meta cfg1) of
           Inl err \<Rightarrow> Inl (errors_Join ''failed to set policy server configmap owner reference'' err)
         | Inr m \<Rightarrow> Inr (cfg1\<lparr>cm_Meta := m\<rparr>))"

text \<open>A callback that only computes.\<close>

definition lift_result :: "go_error + 'a \<Rightarrow> ('w, 'a) op" where
  "lift_result r = (case r of Inl e \<Rightarrow> fail e | Inr x \<Rightarrow> ok x)"

definition reconcilePolicyServerConfigMap ::
  "'w PolicyServerReconciler \<Rightarrow> PolicyServer \<Rightarrow> Policy list \<Rightarrow> ('w, unit) op" where
  "reconcilePolicyServerConfigMap r policyServer policies =
     orWrap (r_CreateOrPatch (cl_ConfigMaps (psr_Client r))
         \<lparr>cm_Meta = namedMeta (psr_DeploymentsNamespace r) (NameWithPrefix policyServer), cm_Data = []\<rparr>
         (\<lambda>cfg. lift_result (updateConfigMapData r policyServer policies cfg)))
       ''cannot create or update PolicyServer ConfigMap'' (\<lambda>_. ok ())"

definition policyServerConfigMapVersion :: "'w PolicyServerReconciler \<Rightarrow> PolicyServer \<Rightarrow> ('w, string) op" where
  "policyServerConfigMapVersion r policyServer =
     orWrap (r_Get (cl_ConfigMaps (psr_Client r)) (psr_DeploymentsNamespace r, NameWithPrefix policyServer))
       ''cannot retrieve existing policies ConfigMap'' (\<lambda>cfg. ok (om_ResourceVersion (cm_Meta cfg)))"

section \<open>Reading the ConfigMap\<close>

definition getPolicyMapFromConfigMap :: "ConfigMap \<Rightarrow> go_error + policyConfigEntryMap" where
  "getPolicyMapFromConfigMap configMap =
     (case goget (cm_Data configMap) PolicyServerConfigPoliciesEntry of
        Some policies \<Rightarrow>
          (case unmarshal_policies policies of
             None \<Rightarrow> Inl (errors_Join ''failed to unmarshal policy mapping'' (NewError ''json''))
           | Some policyMap \<Rightarrow> Inr policyMap)
      | None \<Rightarrow> Inr [])"

definition toAdmissionPolicyReconcileRequests :: "policyConfigEntryMap \<Rightarrow> Request list" where
  "toAdmissionPolicyReconcileRequests e =
     concat (map (\<lambda>(_, policy). if fst (pce_NamespacedName policy) = '''' then []
       else [(fst (pce_NamespacedName policy), snd (pce_NamespacedName policy))]) e)"

definition toClusterAdmissionPolicyReconcileRequests :: "policyConfigEntryMap \<Rightarrow> Request list" where
  "toClusterAdmissionPolicyReconcileRequests e =
     concat (map (\<lambda>(_, policy). if fst (pce_NamespacedName policy) \<noteq> '''' then []
       else [('''', snd (pce_NamespacedName policy))]) e)"

section \<open>Entries survive the round trip\<close>

definition raw_ok :: "RawExtension \<Rightarrow> bool" where
  "raw_ok r = (case r of None \<Rightarrow> True | Some j \<Rightarrow> j \<noteq> JNull \<and> json_wf j)"

lemma dec_RawExtension_marshal: "raw_ok r \<Longrightarrow> dec_RawExtension (marshal_RawExtension r) None = Some r"
  by (cases r) (auto simp: dec_RawExtension_def marshal_RawExtension_def raw_ok_def)

lemma dec_ContextAwareResource_marshal:
  "dec_ContextAwareResource (marshal_ContextAwareResource c) zeroResource = Some c"
  by (simp add: dec_ContextAwareResource_def marshal_ContextAwareResource_def dec_struct_def zeroResource_def
      find_field_hit field_dec_def dec_string_def)

lemma dec_resources_marshal:
  "dec_slice dec_ContextAwareResource zeroResource (marshal_slice marshal_ContextAwareResource cs) [] = Some cs"
  using dec_elems_marshal [of cs dec_ContextAwareResource marshal_ContextAwareResource zeroResource "\<lambda>c. c"]
    dec_ContextAwareResource_marshal
  by (simp add: dec_slice_def marshal_slice_def)

lemma dec_NamespacedName_marshal: "dec_NamespacedName (marshal_NamespacedName n) n' = Some n"
  by (simp add: dec_NamespacedName_def marshal_NamespacedName_def dec_struct_def find_field_hit field_dec_def
      dec_string_def split: prod.splits)

lemmas decode_simps = dec_struct_def dec_members_append find_field_hit field_dec_def dec_string_def dec_bool_def
  omitempty_def dec_RawExtension_marshal dec_resources_marshal dec_NamespacedName_marshal

lemma dec_member_marshal:
  "raw_ok (pgmj_Settings m) \<Longrightarrow> dec_member (marshal_member m) zeroMember = Some m"
  by (simp add: dec_member_def marshal_member_def zeroMember_def decode_simps)

text \<open>The shape of the entries that the controller writes.\<close>

definition entry_ok :: "policyServerConfigEntry \<Rightarrow> bool" where
  "entry_ok e \<longleftrightarrow>
     (if pce_Policies e = [] then pce_Module e \<noteq> '''' \<and> raw_ok (pce_Settings e) \<and>
        pce_Expression e = '''' \<and> pce_Message e = ''''
      else wf_gomap (pce_Policies e) \<and> (\<forall>(n, m)\<in>set (pce_Policies e). raw_ok (pgmj_Settings m)) \<and>
        pce_Module e = '''' \<and> \<not> pce_AllowedToMutate e \<and> pce_ContextAwareResources e = [] \<and> pce_Settings e = None)"

definition sortMembers :: "policyServerConfigEntry \<Rightarrow> policyServerConfigEntry" where
  "sortMembers e = e\<lparr>pce_Policies := sort_key fst (pce_Policies e)\<rparr>"

lemma dec_members_marshal:
  assumes "wf_gomap ms" "\<forall>(n, m)\<in>set ms. raw_ok (pgmj_Settings m)"
  shows "dec_map dec_member zeroMember (marshal_map marshal_member ms) [] = Some (sort_key fst ms)"
  using dec_map_marshal [of ms dec_member marshal_member zeroMember "\<lambda>m. m"] assms dec_member_marshal
  by fastforce

theorem unmarshal_marshal_entry:
  assumes "entry_ok e"
  shows "policyServerConfigEntry_UnmarshalJSON (policyServerConfigEntry_MarshalJSON e) zeroEntry = Some (sortMembers e)"
proof (cases "pce_Policies e = []")
  case True
  with assms show ?thesis
    by (simp add: policyServerConfigEntry_UnmarshalJSON_def policyServerConfigEntry_MarshalJSON_def dec_entry_def
        zeroEntry_def decode_simps entry_ok_def sortMembers_def)
next
  case False
  then have "sort_key fst (pce_Policies e) \<noteq> []" by (metis set_empty set_sort)
  with False assms show ?thesis
    by (simp add: policyServerConfigEntry_UnmarshalJSON_def policyServerConfigEntry_MarshalJSON_def dec_entry_def
        zeroEntry_def decode_simps entry_ok_def sortMembers_def dec_members_marshal)
qed

section \<open>The text of an entry is JSON\<close>

definition raw_wf :: "RawExtension \<Rightarrow> bool" where
  "raw_wf r = (case r of None \<Rightarrow> True | Some j \<Rightarrow> json_wf j)"

definition entry_wf :: "policyServerConfigEntry \<Rightarrow> bool" where
  "entry_wf e \<longleftrightarrow> raw_wf (pce_Settings e) \<and> (\<forall>(n, m)\<in>set (pce_Policies e). raw_wf (pgmj_Settings m))"

lemma raw_ok_wf: "raw_ok r \<Longrightarrow> raw_wf r"
  by (simp add: raw_ok_def raw_wf_def split: option.splits)

lemma json_wf_marshal_map:
  "(\<And>k v. (k, v) \<in> set m \<Longrightarrow> json_wf (enc v)) \<Longrightarrow> json_wf (marshal_map enc m)"
  by (fastforce simp: marshal_map_def list_all_iff)

lemma json_wf_member: "raw_wf (pgmj_Settings m) \<Longrightarrow> json_wf (marshal_member m)"
  by (simp add: marshal_member_def omitempty_def marshal_slice_def marshal_ContextAwareResource_def
      marshal_RawExtension_def raw_wf_def list_all_iff split: option.splits)

lemma json_wf_entry:
  assumes "entry_wf e"
  shows "json_wf (policyServerConfigEntry_MarshalJSON e)"
proof -
  have members: "json_wf (marshal_map marshal_member (pce_Policies e))"
    using assms by (intro json_wf_marshal_map json_wf_member) (auto simp: entry_wf_def)
  have settings: "json_wf (marshal_RawExtension (pce_Settings e))"
    using assms by (simp add: entry_wf_def raw_wf_def marshal_RawExtension_def split: option.splits)
  show ?thesis
    using members settings
    by (simp add: policyServerConfigEntry_MarshalJSON_def omitempty_def marshal_slice_def
        marshal_ContextAwareResource_def marshal_NamespacedName_def list_all_iff)
qed

lemma unmarshal_marshal_policies:
  assumes "wf_gomap m" "\<forall>(k, e)\<in>set m. entry_ok e \<and> entry_wf e"
  shows "unmarshal_policies (marshal_policies m) = Some (map (\<lambda>(k, e). (k, sortMembers e)) (sort_key fst m))"
proof -
  have "json_wf (marshal_map policyServerConfigEntry_MarshalJSON m)"
    using assms(2) by (intro json_wf_marshal_map json_wf_entry) auto
  moreover have "dec_map policyServerConfigEntry_UnmarshalJSON zeroEntry
      (marshal_map policyServerConfigEntry_MarshalJSON m) [] = Some (map (\<lambda>(k, e). (k, sortMembers e)) (sort_key fst m))"
    using assms unmarshal_marshal_entry by (intro dec_map_marshal) auto
  ultimately show ?thesis
    by (simp add: unmarshal_policies_def marshal_policies_def go_json.dec_enc)
qed

section \<open>The map of a list of policies\<close>

lemma wf_buildPoliciesMap: "wf_gomap (buildPoliciesMap ps)"
  unfolding buildPoliciesMap_def by (rule wf_gomap_foldl_goput) simp

lemma goget_buildPoliciesMap:
  "goget (buildPoliciesMap ps) k = map_option configEntry (find (\<lambda>p. GetUniqueName p = k) (rev ps))"
  unfolding buildPoliciesMap_def goget_foldl_goput by (simp split: option.split)

lemma set_buildPoliciesMap:
  "distinct (map GetUniqueName ps) \<Longrightarrow> set (buildPoliciesMap ps) = (\<lambda>p. (GetUniqueName p, configEntry p)) ` set ps"
  unfolding buildPoliciesMap_def by (rule set_foldl_goput)

lemma buildPoliciesMap_entry:
  "(k, e) \<in> set (buildPoliciesMap ps) \<Longrightarrow> \<exists>p\<in>set ps. k = GetUniqueName p \<and> e = configEntry p"
  unfolding mem_goget [OF wf_buildPoliciesMap] goget_buildPoliciesMap
  by (auto dest!: find_SomeD)

lemma foldl_goput_pairs:
  "foldl (\<lambda>m (k, v). goput k (f v) m) m0 xs = foldl (\<lambda>m x. goput (fst x) (f (snd x)) m) m0 xs"
  by (induction xs arbitrary: m0) auto

lemma wf_buildMembers: "wf_gomap (buildPolicyGroupMembersWithContext ms)"
  unfolding buildPolicyGroupMembersWithContext_def foldl_goput_pairs by (rule wf_gomap_foldl_goput) simp

lemma goget_buildMembers:
  "goget (buildPolicyGroupMembersWithContext ms) n =
     map_option (\<lambda>(n, m). \<lparr>pgmj_Module = pgm_Module (pgmc_Member m), pgmj_Settings = pgm_Settings (pgmc_Member m),
           pgmj_ContextAwareResources = pgmc_ContextAwareResources m\<rparr>)
       (find (\<lambda>x. fst x = n) (rev ms))"
  unfolding buildPolicyGroupMembersWithContext_def foldl_goput_pairs goget_foldl_goput
  by (simp add: split_beta split: option.split)

lemma buildMembers_settings:
  assumes "\<forall>(n, m)\<in>set ms. P (pgm_Settings (pgmc_Member m))"
  shows "\<forall>(n, m)\<in>set (buildPolicyGroupMembersWithContext ms). P (pgmj_Settings m)"
proof -
  have "P (pgmj_Settings m)" if "(n, m) \<in> set (buildPolicyGroupMembersWithContext ms)" for n m
    using that assms unfolding mem_goget [OF wf_buildMembers] goget_buildMembers
    by (auto dest!: find_SomeD)
  then show ?thesis by auto
qed

lemma buildMembers_Nil: "buildPolicyGroupMembersWithContext ms = [] \<longleftrightarrow> ms = []"
proof
  assume empty: "buildPolicyGroupMembersWithContext ms = []"
  show "ms = []"
  proof (rule ccontr)
    assume "ms \<noteq> []"
    then obtain n m rest where "rev ms = (n, m) # rest" by (metis list.exhaust rev_is_Nil_conv surj_pair)
    then have "goget (buildPolicyGroupMembersWithContext ms) n \<noteq> None" by (simp add: goget_buildMembers)
    with empty show False by simp
  qed
qed (simp add: buildPolicyGroupMembersWithContext_def)

text \<open>
  A policy that a policy server can be told about: it names a module, or has a member; its
  settings are JSON other than null (which the API server never stores in this field).
\<close>

definition servable :: "Policy \<Rightarrow> bool" where
  "servable p \<longleftrightarrow>
     (case asPolicyGroup p of
        None \<Rightarrow> GetModule p \<noteq> '''' \<and> raw_ok (GetSettings p)
      | Some (ms, _, _) \<Rightarrow> ms \<noteq> [] \<and> (\<forall>(n, m)\<in>set ms. raw_ok (pgm_Settings (pgmc_Member m))))"

definition settings_wf :: "Policy \<Rightarrow> bool" where
  "settings_wf p \<longleftrightarrow> raw_wf (GetSettings p) \<and> (\<forall>(n, m)\<in>set (groupMembers p). raw_wf (pgm_Settings (pgmc_Member m)))"

lemma configEntry_Policies: "pce_Policies (configEntry p) = buildPolicyGroupMembersWithContext (groupMembers p)"
  by (simp add: configEntry_def groupMembers_def buildPolicyGroupMembersWithContext_def Let_def
      split: option.split prod.split)

lemma group_fields:
  "asPolicyGroup p = Some g \<Longrightarrow>
   GetModule p = '''' \<and> \<not> IsMutating p \<and> GetContextAwareResources p = [] \<and> GetSettings p = None"
  by (cases p) (simp_all add: getter_simps)

lemma configEntry_fields:
  "pce_NamespacedName (configEntry p) = (GetNamespace p, GetName p)" "pce_Module (configEntry p) = GetModule p"
  "pce_PolicyMode (configEntry p) = GetPolicyMode p" "pce_AllowedToMutate (configEntry p) = IsMutating p"
  "pce_ContextAwareResources (configEntry p) = GetContextAwareResources p"
  "pce_Settings (configEntry p) = GetSettings p"
  by (simp_all add: configEntry_def Let_def split: option.split prod.split)

lemma servable_entry_ok:
  assumes "servable p"
  shows "entry_ok (configEntry p)"
proof (cases "asPolicyGroup p")
  case None
  with assms show ?thesis
    by (simp add: servable_def entry_ok_def configEntry_def groupMembers_def Let_def)
next
  case (Some g)
  then have ms: "groupMembers p \<noteq> []" "\<forall>(n, m)\<in>set (groupMembers p). raw_ok (pgm_Settings (pgmc_Member m))"
    using assms by (cases g; auto simp: servable_def groupMembers_def)+
  show ?thesis
    using group_fields [OF Some] ms(1) buildMembers_settings [OF ms(2)]
    by (simp add: entry_ok_def configEntry_fields configEntry_Policies buildMembers_Nil wf_buildMembers)
qed

lemma settings_entry_wf: "settings_wf p \<Longrightarrow> entry_wf (configEntry p)"
  unfolding settings_wf_def entry_wf_def configEntry_fields configEntry_Policies
  using buildMembers_settings [of "groupMembers p" raw_wf] by blast

lemma servable_settings: "servable p \<Longrightarrow> settings_wf p"
  by (cases "asPolicyGroup p") (auto simp: servable_def settings_wf_def groupMembers_def raw_ok_wf group_fields
      raw_wf_def [of None])

section \<open>Properties\<close>

lemma updateConfigMapData_data:
  "updateConfigMapData r ps policies cfg = Inr cfg' \<Longrightarrow>
   goget (cm_Data cfg') PolicyServerConfigPoliciesEntry = Some (marshal_policies (buildPoliciesMap policies))"
  by (auto simp: updateConfigMapData_def Let_def split: sum.splits)

definition refPSR :: "cluster PolicyServerReconciler" where
  "refPSR = \<lparr>psr_Client = refClient, psr_Lib = refLib,
     psr_Telemetry = \<lparr>tc_MetricsEnabled = False, tc_TracingEnabled = False, tc_OtelSidecarEnabled = False,
       tc_OtelCertificateSecret = '''', tc_OtelClientCertificateSecret = ''''\<rparr>,
     psr_DeploymentsNamespace = ''kubewarden'', psr_AlwaysAcceptAdmissionReviewsInDeploymentsNamespace = False,
     psr_ClientCAConfigMapName = '''', psr_Error = (\<lambda>e. ''error''),
     psr_Getenv = (\<lambda>_. ''''), psr_Crypto = refCrypto\<rparr>"

definition sampleConfigMap :: "string \<Rightarrow> ConfigMap" where
  "sampleConfigMap n = \<lparr>cm_Meta = namedMeta ''kubewarden'' n, cm_Data = []\<rparr>"

lemma updateConfigMapData_sample:
  "\<exists>cfg. updateConfigMapData refPSR (samplePolicyServer n) ps (sampleConfigMap n') = Inr cfg"
  by (simp add: updateConfigMapData_def Let_def refPSR_def refLib_def refSetOwnerReference_def samplePolicyServer_def
      namedMeta_def emptyMeta_def)

lemma getPolicyMap_updateConfigMapData:
  assumes ok: "\<forall>p\<in>set policies. servable p"
    and run: "updateConfigMapData r ps policies cfg = Inr cfg'"
  shows "\<exists>m. getPolicyMapFromConfigMap cfg' = Inr m \<and> distinct (map fst m) \<and>
    (\<forall>name. goget m name =
       map_option (\<lambda>p. sortMembers (configEntry p)) (find (\<lambda>p. GetUniqueName p = name) (rev policies)))"
proof -
  let ?m = "buildPoliciesMap policies"
  let ?m' = "map (\<lambda>(k, e). (k, sortMembers e)) (sort_key fst ?m)"
  have "\<forall>(k, e)\<in>set ?m. entry_ok e \<and> entry_wf e"
    using ok servable_entry_ok servable_settings settings_entry_wf by (fastforce dest!: buildPoliciesMap_entry)
  then have "unmarshal_policies (marshal_policies ?m) = Some ?m'"
    using unmarshal_marshal_policies wf_buildPoliciesMap by blast
  then have "getPolicyMapFromConfigMap cfg' = Inr ?m'"
    by (simp add: getPolicyMapFromConfigMap_def updateConfigMapData_data [OF run])
  moreover have "goget ?m' name = map_option sortMembers (goget ?m name)" for name
    by (simp add: goget_map_snd goget_sort wf_buildPoliciesMap)
  moreover have "distinct (map fst ?m')"
    using wf_gomap_sort [of ?m] wf_buildPoliciesMap by (simp add: wf_gomap_def comp_def split_beta)
  ultimately show ?thesis
    by (auto simp: goget_buildPoliciesMap option.map_comp comp_def)
qed


lemma servable_samples: "servable (AP (sampleAP ns n))" "servable (CAP (sampleCAP n))" "servable (APG (sampleAPG ns n))"
  by (simp_all add: servable_def sampleAP_def sampleCAP_def sampleAPG_def samplePolicySpec_def getter_simps raw_ok_def)


text \<open>C23.
  The ConfigMap does not depend on the order in which the API server lists the policies: two
  lists of the same policies, with distinct unique names, give the same ConfigMap. So a
  reconciliation that finds the same policies changes nothing and causes no new rollout.\<close>

theorem configMap_order_independent:
  assumes "distinct (map GetUniqueName policies)" "distinct (map GetUniqueName policies')"
    and "set policies = set policies'"
  shows "updateConfigMapData r ps policies cfg = updateConfigMapData r ps policies' cfg"
proof -
  have "marshal_map policyServerConfigEntry_MarshalJSON (buildPoliciesMap policies) =
      marshal_map policyServerConfigEntry_MarshalJSON (buildPoliciesMap policies')"
    using assms by (intro marshal_map_cong wf_buildPoliciesMap) (simp add: set_buildPoliciesMap)
  then show ?thesis by (simp add: updateConfigMapData_def marshal_policies_def)
qed

theorem configMap_order_independent_witness:
  "updateConfigMapData refPSR (samplePolicyServer ''s'') [AP (sampleAP ''ns'' ''p''), AP (sampleAP ''ns'' ''q'')] (sampleConfigMap ''s'') =
   updateConfigMapData refPSR (samplePolicyServer ''s'') [AP (sampleAP ''ns'' ''q''), AP (sampleAP ''ns'' ''p'')] (sampleConfigMap ''s'')"
  by (rule configMap_order_independent) (auto simp: sampleAP_def namedMeta_def getter_simps)

lemma unmarshal_empty_module:
  assumes "asPolicyGroup p = None" "GetModule p = ''''"
  shows "policyServerConfigEntry_UnmarshalJSON (policyServerConfigEntry_MarshalJSON (configEntry p)) zeroEntry = None"
proof -
  have e: "pce_Policies (configEntry p) = []" "pce_Module (configEntry p) = ''''"
    using assms by (simp_all add: configEntry_fields configEntry_Policies groupMembers_def
        buildPolicyGroupMembersWithContext_def)
  then have "dec_entry (policyServerConfigEntry_MarshalJSON (configEntry p)) zeroEntry = Some e' \<Longrightarrow>
      pce_Policies e' = [] \<and> pce_Module e' = ''''" for e'
    by (auto simp: policyServerConfigEntry_MarshalJSON_def dec_entry_def zeroEntry_def decode_simps
        split: if_splits option.splits)
  then show ?thesis
    by (auto simp: policyServerConfigEntry_UnmarshalJSON_def split: option.split)
qed


definition emptyModuleCAP :: "string \<Rightarrow> ClusterAdmissionPolicy" where
  "emptyModuleCAP n = (sampleCAP n)\<lparr>cap_Spec := (cap_Spec (sampleCAP n))\<lparr>caps_PolicySpec :=
     samplePolicySpec\<lparr>spec_Module := ''''\<rparr>\<rparr>\<rparr>"



text \<open>
  The unique names do tell apart a namespaced policy from a cluster-wide one, two policies of the
  same kind and namespace, and any two admission policies in namespaces without a hyphen.\<close>

theorem unique_names_distinct:
  "GetUniqueName (AP a) \<noteq> GetUniqueName (CAP c) \<and>
   (GetUniqueName (CAP c) = GetUniqueName (CAP d) \<longleftrightarrow> om_Name (cap_Meta c) = om_Name (cap_Meta d)) \<and>
   (om_Namespace (ap_Meta a) = om_Namespace (ap_Meta b) \<longrightarrow>
     (GetUniqueName (AP a) = GetUniqueName (AP b) \<longleftrightarrow> om_Name (ap_Meta a) = om_Name (ap_Meta b))) \<and>
   (CHR ''-'' \<notin> set (om_Namespace (ap_Meta a)) \<union> set (om_Namespace (ap_Meta b)) \<longrightarrow>
     (GetUniqueName (AP a) = GetUniqueName (AP b) \<longleftrightarrow>
        om_Namespace (ap_Meta a) = om_Namespace (ap_Meta b) \<and> om_Name (ap_Meta a) = om_Name (ap_Meta b)))"
proof -
  have split: "xs = us \<and> ys = vs" if "xs @ CHR ''-'' # ys = us @ CHR ''-'' # vs" "CHR ''-'' \<notin> set xs \<union> set us"
    for xs ys us vs :: string
  proof -
    have front: "takeWhile (\<lambda>c. c \<noteq> CHR ''-'') (zs @ CHR ''-'' # ws) = zs" if "CHR ''-'' \<notin> set zs" for zs ws
      using that by (subst takeWhile_append2) auto
    have "xs = us" using front [of xs ys] front [of us vs] that by simp
    with that show ?thesis by simp
  qed
  show ?thesis
    by (auto simp: getter_simps dest: split)
qed

theorem unique_names_distinct_witness:
  "GetUniqueName (AP (sampleAP ''a'' ''b'')) \<noteq> GetUniqueName (AP (sampleAP ''a'' ''c''))"
  using unique_names_distinct [of "sampleAP ''a'' ''b''" "sampleCAP ''c''" "sampleCAP ''c''" "sampleAP ''a'' ''c''"]
  by (simp add: sampleAP_def namedMeta_def)

text \<open>
  The requests that a change of the ConfigMap puts in the queues are those of its policies:
  a policy with a namespace goes to the controllers of the namespaced kinds, a policy without
  one to those of the cluster-wide kinds, and no other object is requested.\<close>

theorem configMap_requests:
  assumes names: "distinct (map GetUniqueName policies)"
  shows "set (toAdmissionPolicyReconcileRequests (buildPoliciesMap policies)) =
      {(GetNamespace p, GetName p) | p. p \<in> set policies \<and> GetNamespace p \<noteq> ''''} \<and>
    set (toClusterAdmissionPolicyReconcileRequests (buildPoliciesMap policies)) =
      {('''', GetName p) | p. p \<in> set policies \<and> GetNamespace p = ''''}"
  by (auto simp: toAdmissionPolicyReconcileRequests_def toClusterAdmissionPolicyReconcileRequests_def
      set_buildPoliciesMap [OF names] configEntry_fields split: if_splits)

theorem configMap_requests_witness:
  "distinct (map GetUniqueName [AP (sampleAP ''ns'' ''p''), CAP (sampleCAP ''q'')]) \<and>
   (''ns'', ''p'') \<in> set (toAdmissionPolicyReconcileRequests (buildPoliciesMap [AP (sampleAP ''ns'' ''p''), CAP (sampleCAP ''q'')]))"
proof -
  have d: "distinct (map GetUniqueName [AP (sampleAP ''ns'' ''p''), CAP (sampleCAP ''q'')])"
    by (simp add: sampleAP_def sampleCAP_def namedMeta_def getter_simps)
  have "(''ns'', ''p'') \<in> {(GetNamespace p, GetName p) | p.
      p \<in> set [AP (sampleAP ''ns'' ''p''), CAP (sampleCAP ''q'')] \<and> GetNamespace p \<noteq> ''''}"
    by (rule CollectI, rule exI [of _ "AP (sampleAP ''ns'' ''p'')"])
      (simp add: sampleAP_def namedMeta_def getter_simps)
  with d configMap_requests [OF d] show ?thesis by blast
qed

end
