(* ===== verification/Metrics.thy ===== *)
theory Metrics
  imports Kube_Client
begin

text \<open>
  \<open>RecordPolicyCount\<close> of \<open>internal/metrics/metrics.go\<close>. The OpenTelemetry meter is a parameter:
  creating the counter may fail, adding to it cannot. \<open>New\<close>, which starts the exporter, is part of
  the start of the program in \<open>Program_Start\<close>.
\<close>

definition policyCounterMetricName :: string where
  "policyCounterMetricName = ''kubewarden_policy_total''"

definition policyCounterMetricDescription :: string where
  "policyCounterMetricDescription = ''How many policies are installed in the cluster''"

datatype attribute = AttrString string string | AttrBool string bool

record 'w meter =
  mt_Int64Counter :: "string \<Rightarrow> string \<Rightarrow> ('w, unit) op"
  mt_Add :: "string \<Rightarrow> int \<Rightarrow> attribute list \<Rightarrow> ('w, unit) state"

definition RecordPolicyCount :: "'w meter \<Rightarrow> Policy \<Rightarrow> ('w, unit) op" where
  "RecordPolicyCount meter policy =
     (let failurePolicy = (case GetFailurePolicy policy of None \<Rightarrow> '''' | Some f \<Rightarrow> f) in
      orWrap (mt_Int64Counter meter policyCounterMetricName policyCounterMetricDescription)
        ''cannot create the instrument''
        (\<lambda>_. State_Monad.bind (mt_Add meter policyCounterMetricName 1
            [AttrString ''name'' (GetUniqueName policy),
             AttrString ''policy_server'' (GetPolicyServer policy),
             AttrString ''module'' (GetModule policy),
             AttrBool ''mutating'' (IsMutating policy),
             AttrString ''namespace'' (GetNamespace policy),
             AttrString ''failure_policy'' failurePolicy,
             AttrString ''policy_status'' (st_PolicyStatus (GetStatus policy))])
           (\<lambda>_. ok ())))"

end
