(* ===== verification/Policy_Reconciler.thy ===== *)
theory Policy_Reconciler
  imports Config_Map Metrics
begin

text \<open>
  The reconciler of the four policy kinds: \<open>internal/controller/policy_subreconciler.go\<close>,
  \<open>policy_subreconciler_webhook.go\<close> and the controllers \<open>*policy_controller.go\<close> and
  \<open>*policygroup_controller.go\<close>. A handler that changes the policy it was given through its
  pointer returns the changed policy beside its result.
\<close>

record 'w policySubReconciler =
  sub_Client :: "'w client"
  sub_Lib :: kube_lib
  sub_Meter :: "'w meter"
  sub_deploymentsNamespace :: string
  sub_featureGateAdmissionWebhookMatchConditions :: bool

definition policyServerDeploymentName :: "string \<Rightarrow> string" where
  "policyServerDeploymentName policyServerName = ''policy-server-'' @ policyServerName"

section \<open>Webhook configurations\<close>

definition namespaceSelector :: "'w policySubReconciler \<Rightarrow> Policy \<Rightarrow> LabelSelector option" where
  "namespaceSelector r policy =
     (if \<not> isNamespacedKind policy then
        let base = [\<lparr>lsr_Key = ''kubernetes.io/metadata.name'', lsr_Operator = ''NotIn'',
                      lsr_Values = [sub_deploymentsNamespace r]\<rparr>] in
        Some \<lparr>ls_MatchLabels = [],
              ls_MatchExpressions = (case GetNamespaceSelector policy of
                 None \<Rightarrow> base | Some s \<Rightarrow> base @ ls_MatchExpressions s)\<rparr>
      else GetNamespaceSelector policy)"

text \<open>The one webhook of the configuration of a policy.\<close>

definition policyWebhook :: "'w policySubReconciler \<Rightarrow> Policy \<Rightarrow> Secret \<Rightarrow> string \<Rightarrow> Webhook" where
  "policyWebhook r policy admissionSecret policyServerNameWithPrefix =
     (let admissionPath = filepath_Join [''/validate'', GetUniqueName policy];
          sideEffects = (case GetSideEffects policy of None \<Rightarrow> Some ''None'' | Some s \<Rightarrow> Some s)
      in \<lparr>wh_Name = GetUniqueName policy @ ''.kubewarden.admission'',
          wh_ClientConfig = \<lparr>wcc_Service = Some \<lparr>sr_Namespace = sub_deploymentsNamespace r,
              sr_Name = policyServerNameWithPrefix, sr_Path = Some admissionPath,
              sr_Port = Some (of_int PolicyServerPort)\<rparr>,
            wcc_CABundle = gostr (sec_Data admissionSecret) CARootCert\<rparr>,
          wh_Rules = GetRules policy,
          wh_FailurePolicy = GetFailurePolicy policy,
          wh_MatchPolicy = GetMatchPolicy policy,
          wh_NamespaceSelector = namespaceSelector r policy,
          wh_ObjectSelector = GetObjectSelector policy,
          wh_SideEffects = sideEffects,
          wh_TimeoutSeconds = GetTimeoutSeconds policy,
          wh_AdmissionReviewVersions = [''v1''],
          wh_MatchConditions = (if sub_featureGateAdmissionWebhookMatchConditions r then GetMatchConditions policy else [])\<rparr>)"

text \<open>The callback that both functions pass to \<open>CreateOrPatch\<close>.\<close>

definition setPolicyWebhook ::
  "'w policySubReconciler \<Rightarrow> Policy \<Rightarrow> Secret \<Rightarrow> string \<Rightarrow> WebhookConfiguration \<Rightarrow> WebhookConfiguration" where
  "setPolicyWebhook r policy admissionSecret policyServerNameWithPrefix webhook =
     webhook\<lparr>wc_Meta := (wc_Meta webhook)\<lparr>om_Name := GetUniqueName policy,
         om_Labels := [(PartOfLabelKey, PartOfLabelValue)],
         om_Annotations := [(WebhookConfigurationPolicyNameAnnotationKey, GetName policy),
                            (WebhookConfigurationPolicyNamespaceAnnotationKey, GetNamespace policy)]\<rparr>,
       wc_Webhooks := [policyWebhook r policy admissionSecret policyServerNameWithPrefix]\<rparr>"

definition newWebhookConfiguration :: "Policy \<Rightarrow> WebhookConfiguration" where
  "newWebhookConfiguration policy = \<lparr>wc_Meta = namedMeta '''' (GetUniqueName policy), wc_Webhooks = []\<rparr>"

definition reconcileValidatingWebhookConfiguration ::
  "'w policySubReconciler \<Rightarrow> Policy \<Rightarrow> Secret \<Rightarrow> string \<Rightarrow> ('w, unit) op" where
  "reconcileValidatingWebhookConfiguration r policy admissionSecret policyServerNameWithPrefix =
     orWrap (r_CreateOrPatch (cl_ValidatingWebhooks (sub_Client r)) (newWebhookConfiguration policy)
         (\<lambda>webhook. ok (setPolicyWebhook r policy admissionSecret policyServerNameWithPrefix webhook)))
       ''cannot reconcile validating webhook'' (\<lambda>_. ok ())"

definition reconcileMutatingWebhookConfiguration ::
  "'w policySubReconciler \<Rightarrow> Policy \<Rightarrow> Secret \<Rightarrow> string \<Rightarrow> ('w, unit) op" where
  "reconcileMutatingWebhookConfiguration r policy admissionSecret policyServerNameWithPrefix =
     orWrap (r_CreateOrPatch (cl_MutatingWebhooks (sub_Client r)) (newWebhookConfiguration policy)
         (\<lambda>webhook. ok (setPolicyWebhook r policy admissionSecret policyServerNameWithPrefix webhook)))
       ''cannot reconcile mutating webhook'' (\<lambda>_. ok ())"

definition reconcileValidatingWebhookConfigurationDeletion ::
  "'w policySubReconciler \<Rightarrow> Policy \<Rightarrow> ('w, unit) op" where
  "reconcileValidatingWebhookConfigurationDeletion r admissionPolicy =
     andThen (r_Get (cl_ValidatingWebhooks (sub_Client r)) ('''', GetUniqueName admissionPolicy))
       (\<lambda>err. if \<not> IsNotFound err then fail (Wrap ''cannot retrieve validating webhook'' err) else ok ())
       (\<lambda>webhook. andThen (r_Delete (cl_ValidatingWebhooks (sub_Client r)) webhook)
         (\<lambda>err. if \<not> IsNotFound err then fail (Wrap ''cannot delete validating webhook'' err) else ok ())
         (\<lambda>_. ok ()))"

definition reconcileMutatingWebhookConfigurationDeletion ::
  "'w policySubReconciler \<Rightarrow> Policy \<Rightarrow> ('w, unit) op" where
  "reconcileMutatingWebhookConfigurationDeletion r admissionPolicy =
     andThen (r_Get (cl_MutatingWebhooks (sub_Client r)) ('''', GetUniqueName admissionPolicy))
       (\<lambda>err. if \<not> IsNotFound err then fail (Wrap ''cannot retrieve mutating webhook'' err) else ok ())
       (\<lambda>webhook. andThen (r_Delete (cl_MutatingWebhooks (sub_Client r)) webhook)
         (\<lambda>err. if \<not> IsNotFound err then fail (Wrap ''cannot delete mutating webhook'' err) else ok ())
         (\<lambda>_. ok ()))"

section \<open>Is the policy served?\<close>

definition isLatestReplicaSetFromPolicyServerDeployment :: "ReplicaSet \<Rightarrow> Deployment \<Rightarrow> string \<Rightarrow> bool" where
  "isLatestReplicaSetFromPolicyServerDeployment replicaSet policyServerDeployment configMapVersion \<longleftrightarrow>
     gostr (om_Annotations (rs_Meta replicaSet)) KubernetesRevisionAnnotation =
       gostr (om_Annotations (dep_Meta policyServerDeployment)) KubernetesRevisionAnnotation \<and>
     gostr (om_Annotations (rs_Meta replicaSet)) PolicyServerDeploymentConfigVersionAnnotation = configMapVersion"

definition isPolicyInConfigMap :: "ConfigMap \<Rightarrow> string \<Rightarrow> bool" where
  "isPolicyInConfigMap configMap policyName =
     (case getPolicyMapFromConfigMap configMap of
        Inl err \<Rightarrow> False
      | Inr policies \<Rightarrow> goget policies policyName \<noteq> None)"

definition isPodReady :: "Pod \<Rightarrow> bool" where
  "isPodReady pod =
     (case find (\<lambda>condition. pc_Type condition = ''Ready'') (pod_Conditions pod) of
        None \<Rightarrow> False
      | Some condition \<Rightarrow> pc_Status condition = ''True'')"

definition podTemplateHashOf :: "ReplicaSet list \<Rightarrow> Deployment \<Rightarrow> string \<Rightarrow> string" where
  "podTemplateHashOf replicaSets policyServerDeployment configMapVersion =
     (case find (\<lambda>rs. isLatestReplicaSetFromPolicyServerDeployment rs policyServerDeployment configMapVersion) replicaSets of
        None \<Rightarrow> ''''
      | Some rs \<Rightarrow> gostr (om_Labels (rs_Meta rs)) DefaultDeploymentUniqueLabelKey)"

definition podsServe :: "string \<Rightarrow> Pod list \<Rightarrow> bool" where
  "podsServe podTemplateHash pods \<longleftrightarrow>
     pods \<noteq> [] \<and>
     list_all (\<lambda>pod. \<not> (gostr (om_Labels (pod_Meta pod)) DefaultDeploymentUniqueLabelKey \<noteq> podTemplateHash
                       \<or> \<not> isPodReady pod)) pods"

definition isPolicyUniquelyReachable ::
  "'w policySubReconciler \<Rightarrow> Deployment \<Rightarrow> string \<Rightarrow> ('w, bool) state" where
  "isPolicyUniquelyReachable r policyServerDeployment policyName =
     (let label = matchingLabels [(PolicyServerLabelKey,
            gostr (om_Labels (dep_Meta policyServerDeployment)) PolicyServerLabelKey)] in
      andThen (r_Get (cl_ConfigMaps (sub_Client r)) (metaKey (dep_Meta policyServerDeployment)))
        (\<lambda>_. ret False)
        (\<lambda>configMap. if \<not> isPolicyInConfigMap configMap policyName then ret False
          else andThen (r_List (cl_ReplicaSets (sub_Client r)) label)
            (\<lambda>_. ret False)
            (\<lambda>replicaSets.
               let podTemplateHash = podTemplateHashOf replicaSets policyServerDeployment
                     (om_ResourceVersion (cm_Meta configMap)) in
               if podTemplateHash = '''' then ret False
               else andThen (r_List (cl_Pods (sub_Client r)) label)
                 (\<lambda>_. ret False)
                 (\<lambda>pods. ret (podsServe podTemplateHash pods)))))"

section \<open>Conditions\<close>

definition setCondition :: "kube_lib \<Rightarrow> string \<Rightarrow> string \<Rightarrow> string \<Rightarrow> string \<Rightarrow> Condition list \<Rightarrow> Condition list" where
  "setCondition lib ty status reason message conditions =
     lib_SetStatusCondition lib conditions
       \<lparr>cond_Type = ty, cond_Status = status, cond_Reason = reason, cond_Message = message\<rparr>"

definition setPolicyAsActive :: "kube_lib \<Rightarrow> Policy \<Rightarrow> Policy" where
  "setPolicyAsActive lib policy =
     mapConditions (setCondition lib PolicyActive ConditionTrue ''PolicyActive'' ''The policy webhook has been created'')
       (SetStatus PolicyStatusActive policy)"

definition setPolicyConfigurationCondition ::
  "kube_lib \<Rightarrow> ConfigMap \<Rightarrow> Deployment \<Rightarrow> Condition list \<Rightarrow> Condition list" where
  "setPolicyConfigurationCondition lib policyServerConfigMap policyServerDeployment conditions =
     (case goget (om_Annotations (dep_Meta policyServerDeployment)) PolicyServerDeploymentConfigVersionAnnotation of
        Some configAnnotation \<Rightarrow>
          if configAnnotation = om_ResourceVersion (cm_Meta policyServerConfigMap)
          then setCondition lib PolicyServerConfigurationUpToDate ConditionTrue ''ConfigurationVersionMatch''
                 ''Configuration for this policy is up to date'' conditions
          else setCondition lib PolicyServerConfigurationUpToDate ConditionFalse ''ConfigurationVersionMismatch''
                 ''Configuration for this policy is not up to date'' conditions
      | None \<Rightarrow> setCondition lib PolicyServerConfigurationUpToDate ConditionFalse ''UnknownConfigurationVersion''
          (''Configuration version annotation ('' @ PolicyServerDeploymentConfigVersionAnnotation @ '') in deployment ''
             @ om_Name (dep_Meta policyServerDeployment) @ '' is missing'') conditions)"

section \<open>Reconciliation\<close>

definition getPolicyServer :: "'w policySubReconciler \<Rightarrow> Policy \<Rightarrow> ('w, PolicyServer) op" where
  "getPolicyServer r policy =
     andThen (r_Get (cl_PolicyServers (sub_Client r)) ('''', GetPolicyServer policy))
       (\<lambda>err. fail (errors_Join ''could not get policy server'' err)) ok"

text \<open>The last part of \<open>reconcilePolicy\<close>: the policy is served, its webhook is configured.\<close>

definition configurePolicy ::
  "'w policySubReconciler \<Rightarrow> PolicyServer \<Rightarrow> Policy \<Rightarrow> ('w, (go_error + Result) \<times> Policy) state" where
  "configurePolicy r policyServer policy =
     andThen (r_Get (cl_Secrets (sub_Client r)) (sub_deploymentsNamespace r, CARootSecretName))
       (\<lambda>err. ret (Inl (errors_Join ''cannot find policy server secret'' err), policy))
       (\<lambda>secret.
          if IsMutating policy then
            andThen (reconcileMutatingWebhookConfiguration r policy secret (NameWithPrefix policyServer))
              (\<lambda>err. ret (Inl (errors_Join ''error reconciling mutating webhook'' err), policy))
              (\<lambda>_. ret (Inr emptyResult, setPolicyAsActive (sub_Lib r) policy))
          else
            andThen (reconcileValidatingWebhookConfiguration r policy secret (NameWithPrefix policyServer))
              (\<lambda>err. ret (Inl (errors_Join ''error reconciling validating webhook'' err), policy))
              (\<lambda>_. ret (Inr emptyResult, setPolicyAsActive (sub_Lib r) policy)))"

definition reconcilePolicy ::
  "'w policySubReconciler \<Rightarrow> Policy \<Rightarrow> ('w, (go_error + Result) \<times> Policy) state" where
  "reconcilePolicy r policy0 =
     (let policy1 = mapConditions (setCondition (sub_Lib r) PolicyActive ConditionFalse ''PolicyActive''
            ''The policy webhook has not been created'') policy0 in
      if GetPolicyServer policy1 = '''' then
        ret (Inr emptyResult, SetStatus PolicyStatusUnscheduled policy1)
      else
        andThen (getPolicyServer r policy1)
          (\<lambda>_. ret (Inr emptyResult, SetStatus PolicyStatusScheduled policy1))
          (\<lambda>policyServer.
             let policy2 = (if st_PolicyStatus (GetStatus policy1) \<noteq> PolicyStatusActive
                            then SetStatus PolicyStatusPending policy1 else policy1) in
             andThen (r_Get (cl_Deployments (sub_Client r))
                 (sub_deploymentsNamespace r, policyServerDeploymentName (GetPolicyServer policy2)))
               (\<lambda>err. if IsNotFound err then ret (Inr (emptyResult\<lparr>Requeue := True\<rparr>), policy2)
                  else ret (Inl (errors_Join ''could not read policy server Deployment'' err), policy2))
               (\<lambda>policyServerDeployment.
                  State_Monad.bind (isPolicyUniquelyReachable r policyServerDeployment (GetUniqueName policy2))
                    (\<lambda>reachable.
                       if \<not> reachable then
                         ret (Inr \<lparr>Requeue = True, RequeueAfter = TimeToRequeuePolicyReconciliation\<rparr>,
                           mapConditions (setCondition (sub_Lib r) PolicyUniquelyReachable ConditionFalse
                             ''LatestReplicaSetIsNotUniquelyReachable'' ''The latest replica set is not uniquely reachable'') policy2)
                       else
                         configurePolicy r policyServer
                           (mapConditions (setCondition (sub_Lib r) PolicyUniquelyReachable ConditionTrue
                             ''LatestReplicaSetIsUniquelyReachable'' ''The latest replica set is uniquely reachable'') policy2)))))"

definition removeFinalizers :: "kube_lib \<Rightarrow> ObjectMeta \<Rightarrow> ObjectMeta" where
  "removeFinalizers lib m = m\<lparr>om_Finalizers :=
     lib_RemoveFinalizer lib (lib_RemoveFinalizer lib (om_Finalizers m) KubewardenFinalizerPre114) KubewardenFinalizer\<rparr>"

definition reconcilePolicyDeletion :: "'w policySubReconciler \<Rightarrow> Policy \<Rightarrow> ('w, Result) op" where
  "reconcilePolicyDeletion r policy =
     andThen (if IsMutating policy then reconcileMutatingWebhookConfigurationDeletion r policy
              else reconcileValidatingWebhookConfigurationDeletion r policy)
       fail
       (\<lambda>_. orWrap (policyUpdate (sub_Client r) (mapMeta (removeFinalizers (sub_Lib r)) policy))
          ''cannot update admission policy'' (\<lambda>_. ok emptyResult))"

definition setPolicyModeStatus :: "'w policySubReconciler \<Rightarrow> Policy \<Rightarrow> ('w, Policy) op" where
  "setPolicyModeStatus r policy =
     (let name = policyServerDeploymentName (GetPolicyServer policy) in
      andThen (r_Get (cl_Deployments (sub_Client r)) (sub_deploymentsNamespace r, name))
        (\<lambda>err. if IsNotFound err then ok policy
           else fail (errors_Join ''could not get policy server deployment'' err))
        (\<lambda>policyServerDeployment.
           andThen (r_Get (cl_ConfigMaps (sub_Client r)) (sub_deploymentsNamespace r, name))
             (\<lambda>err. fail (errors_Join ''could not get configmap'' err))
             (\<lambda>policyServerConfigMap.
                let policy1 = (case getPolicyMapFromConfigMap policyServerConfigMap of
                      Inr policyMap \<Rightarrow>
                        (case goget policyMap (GetUniqueName policy) of
                           Some policyConfig \<Rightarrow> SetPolicyModeStatus (pce_PolicyMode policyConfig) policy
                         | None \<Rightarrow> SetPolicyModeStatus PolicyModeStatusUnknown policy)
                    | Inl _ \<Rightarrow> SetPolicyModeStatus PolicyModeStatusUnknown policy)
                in ok (mapConditions
                     (setPolicyConfigurationCondition (sub_Lib r) policyServerConfigMap policyServerDeployment) policy1))))"

definition reconcile :: "'w policySubReconciler \<Rightarrow> Policy \<Rightarrow> ('w, Result) op" where
  "reconcile r policy =
     (if GetDeletionTimestamp policy \<noteq> None then reconcilePolicyDeletion r policy
      else State_Monad.bind (reconcilePolicy r policy)
        (\<lambda>(reconcileResult, policy1).
           orWrap (setPolicyModeStatus r policy1) ''error setting policy status''
             (\<lambda>policy2. orWrap (policyStatusUpdate (sub_Client r) policy2) ''update admission policy status error''
                (\<lambda>policy3. orWrap (RecordPolicyCount (sub_Meter r) policy3) ''failed to record policy mestrics''
                   (\<lambda>_. ret reconcileResult)))))"

section \<open>The controllers of the four kinds\<close>

definition ignoreNotFoundResult :: "go_error \<Rightarrow> ('w, Result) op" where
  "ignoreNotFoundResult err = (case IgnoreNotFound err of None \<Rightarrow> ok emptyResult | Some e \<Rightarrow> fail e)"

definition AdmissionPolicyReconciler_Reconcile :: "'w policySubReconciler \<Rightarrow> Request \<Rightarrow> ('w, Result) op" where
  "AdmissionPolicyReconciler_Reconcile r req =
     andThen (r_Get (cl_AdmissionPolicies (sub_Client r)) req) ignoreNotFoundResult (\<lambda>p. reconcile r (AP p))"

definition ClusterAdmissionPolicyReconciler_Reconcile :: "'w policySubReconciler \<Rightarrow> Request \<Rightarrow> ('w, Result) op" where
  "ClusterAdmissionPolicyReconciler_Reconcile r req =
     andThen (r_Get (cl_ClusterAdmissionPolicies (sub_Client r)) req) ignoreNotFoundResult (\<lambda>p. reconcile r (CAP p))"

definition AdmissionPolicyGroupReconciler_Reconcile :: "'w policySubReconciler \<Rightarrow> Request \<Rightarrow> ('w, Result) op" where
  "AdmissionPolicyGroupReconciler_Reconcile r req =
     andThen (r_Get (cl_AdmissionPolicyGroups (sub_Client r)) req) ignoreNotFoundResult (\<lambda>p. reconcile r (APG p))"

definition ClusterAdmissionPolicyGroupReconciler_Reconcile :: "'w policySubReconciler \<Rightarrow> Request \<Rightarrow> ('w, Result) op" where
  "ClusterAdmissionPolicyGroupReconciler_Reconcile r req =
     andThen (r_Get (cl_ClusterAdmissionPolicyGroups (sub_Client r)) req) ignoreNotFoundResult (\<lambda>p. reconcile r (CAPG p))"

section \<open>Which policies an event concerns\<close>

text \<open>A value of the interface \<open>client.Object\<close>, as the watches hand it to the map functions.\<close>

datatype client_object =
    ObjPod Pod
  | ObjConfigMap ConfigMap
  | ObjWebhookConfiguration WebhookConfiguration
  | ObjPolicy Policy
  | ObjOther ObjectMeta

primrec objMeta :: "client_object \<Rightarrow> ObjectMeta" where
  "objMeta (ObjPod p) = pod_Meta p"
| "objMeta (ObjConfigMap c) = cm_Meta c"
| "objMeta (ObjWebhookConfiguration w) = wc_Meta w"
| "objMeta (ObjPolicy p) = GetObjectMeta p"
| "objMeta (ObjOther m) = m"

definition findPoliciesForConfigMap :: "client_object \<Rightarrow> Request list" where
  "findPoliciesForConfigMap object =
     (case object of
        ObjConfigMap configMap \<Rightarrow>
          if goget (om_Labels (cm_Meta configMap)) PolicyServerLabelKey = None then []
          else (case getPolicyMapFromConfigMap configMap of
                  Inl _ \<Rightarrow> []
                | Inr policyMap \<Rightarrow> toAdmissionPolicyReconcileRequests policyMap)
      | _ \<Rightarrow> [])"

definition findClusterPoliciesForConfigMap :: "client_object \<Rightarrow> Request list" where
  "findClusterPoliciesForConfigMap object =
     (case object of
        ObjConfigMap configMap \<Rightarrow>
          (case getPolicyMapFromConfigMap configMap of
             Inl _ \<Rightarrow> []
           | Inr policyMap \<Rightarrow> toClusterAdmissionPolicyReconcileRequests policyMap)
      | _ \<Rightarrow> [])"

definition findPoliciesForPod :: "'w client \<Rightarrow> client_object \<Rightarrow> ('w, Request list) state" where
  "findPoliciesForPod c object =
     (case object of
        ObjPod pod \<Rightarrow>
          (case goget (om_Labels (pod_Meta pod)) PolicyServerLabelKey of
             None \<Rightarrow> ret []
           | Some policyServerName \<Rightarrow>
               if om_DeletionTimestamp (pod_Meta pod) \<noteq> None then ret []
               else andThen (r_Get (cl_ConfigMaps c)
                   (om_Namespace (pod_Meta pod), policyServerDeploymentName policyServerName))
                 (\<lambda>_. ret []) (\<lambda>configMap. ret (findPoliciesForConfigMap (ObjConfigMap configMap))))
      | _ \<Rightarrow> ret [])"

definition findClusterPoliciesForPod :: "'w client \<Rightarrow> client_object \<Rightarrow> ('w, Request list) state" where
  "findClusterPoliciesForPod c object =
     (case object of
        ObjPod pod \<Rightarrow>
          (case goget (om_Labels (pod_Meta pod)) PolicyServerLabelKey of
             None \<Rightarrow> ret []
           | Some policyServerName \<Rightarrow>
               andThen (r_Get (cl_ConfigMaps c)
                   (om_Namespace (pod_Meta pod), policyServerDeploymentName policyServerName))
                 (\<lambda>_. ret []) (\<lambda>configMap. ret (findClusterPoliciesForConfigMap (ObjConfigMap configMap))))
      | _ \<Rightarrow> ret [])"

definition hasKubewardenLabel :: "string gomap \<Rightarrow> bool" where
  "hasKubewardenLabel labels \<longleftrightarrow>
     gostr labels ''kubewarden'' = ''true'' \<or> gostr labels PartOfLabelKey = PartOfLabelValue"

definition AdmissionPolicyReconciler_findAdmissionPolicyForWebhookConfiguration :: "client_object \<Rightarrow> Request list" where
  "AdmissionPolicyReconciler_findAdmissionPolicyForWebhookConfiguration webhookConfiguration =
     (if \<not> hasKubewardenLabel (om_Labels (objMeta webhookConfiguration)) then []
      else let policyName = gostr (om_Annotations (objMeta webhookConfiguration)) WebhookConfigurationPolicyNameAnnotationKey in
        if policyName = '''' then []
        else let policyNamespace = gostr (om_Annotations (objMeta webhookConfiguration)) WebhookConfigurationPolicyNamespaceAnnotationKey in
          if policyNamespace = '''' then [] else [(policyNamespace, policyName)])"

definition AdmissionPolicyGroupReconciler_findAdmissionPolicyForWebhookConfiguration :: "client_object \<Rightarrow> Request list" where
  "AdmissionPolicyGroupReconciler_findAdmissionPolicyForWebhookConfiguration webhookConfiguration =
     (if \<not> hasKubewardenLabel (om_Labels (objMeta webhookConfiguration)) then []
      else let policyName = gostr (om_Annotations (objMeta webhookConfiguration)) WebhookConfigurationPolicyNameAnnotationKey in
        if policyName = '''' then []
        else let policyNamespace = gostr (om_Annotations (objMeta webhookConfiguration)) WebhookConfigurationPolicyNamespaceAnnotationKey in
          if policyNamespace = '''' then [] else [(policyNamespace, policyName)])"

definition ClusterAdmissionPolicyReconciler_findClusterAdmissionPolicyForWebhookConfiguration :: "client_object \<Rightarrow> Request list" where
  "ClusterAdmissionPolicyReconciler_findClusterAdmissionPolicyForWebhookConfiguration webhookConfiguration =
     (if \<not> hasKubewardenLabel (om_Labels (objMeta webhookConfiguration)) then []
      else let policyName = gostr (om_Annotations (objMeta webhookConfiguration)) WebhookConfigurationPolicyNameAnnotationKey in
        if policyName = '''' then [] else [('''', policyName)])"

definition ClusterAdmissionPolicyGroupReconciler_findClusterAdmissionPolicyForWebhookConfiguration :: "client_object \<Rightarrow> Request list" where
  "ClusterAdmissionPolicyGroupReconciler_findClusterAdmissionPolicyForWebhookConfiguration webhookConfiguration =
     (if \<not> hasKubewardenLabel (om_Labels (objMeta webhookConfiguration)) then []
      else let policyName = gostr (om_Annotations (objMeta webhookConfiguration)) WebhookConfigurationPolicyNameAnnotationKey in
        if policyName = '''' then [] else [('''', policyName)])"

section \<open>Interfaces at work\<close>

text \<open>What the two patterns of the webhook functions do to a store that keeps its laws.\<close>

context resource_store
begin

lemma upsert_ok:
  assumes run: "run_state (orWrap (r_CreateOrPatch res x (\<lambda>b. ok (f b))) msg (\<lambda>_. ok ())) w = (Inr u, w')"
    and f: "\<And>b. metaKey (meta b) = metaKey (meta x) \<Longrightarrow>
      metaKey (meta (f b)) = metaKey (meta x) \<and> payload (f b) = p"
  shows "\<exists>z. view w' = (view w)(metaKey (meta x) \<mapsto> z) \<and> payload z = p"
proof -
  obtain y where "run_state (r_CreateOrPatch res x (\<lambda>b. ok (f b))) w = (Inr y, w')"
    using run by (auto simp: run_orWrap split: prod.splits sum.splits)
  from patch_determined [OF this f] show ?thesis .
qed

lemma remove_ok:
  assumes run: "run_state (andThen (r_Get res k)
      (\<lambda>err. if \<not> IsNotFound err then fail (g err) else ok ())
      (\<lambda>x. andThen (r_Delete res x) (\<lambda>err. if \<not> IsNotFound err then fail (h err) else ok ()) (\<lambda>_. ok ()))) w = (Inr u, w')"
  shows "gone w' k \<and> (\<forall>k'. k' \<noteq> k \<longrightarrow> view w' k' = view w k')"
proof -
  obtain r1 w1 where get: "run_state (r_Get res k) w = (r1, w1)" by fastforce
  show ?thesis
  proof (cases r1)
    case (Inl err)
    with run get have "IsNotFound err" "w' = w1" by (auto simp: run_andThen split: if_splits)
    with get Inl get_not_found_gone show ?thesis by blast
  next
    case (Inr x)
    obtain r2 w2 where del: "run_state (r_Delete res x) w1 = (r2, w2)" by fastforce
    show ?thesis
    proof (cases r2)
      case (Inl err)
      with run get del \<open>r1 = Inr x\<close> have "IsNotFound err" "w' = w2" by (auto simp: run_andThen split: if_splits)
      with get del Inl \<open>r1 = Inr x\<close> get_delete_not_found show ?thesis by blast
    next
      case (Inr v)
      with run get del \<open>r1 = Inr x\<close> have "w' = w2" by (auto simp: run_andThen)
      with get del Inr \<open>r1 = Inr x\<close> get_delete_gone show ?thesis by blast
    qed
  qed
qed

end

text \<open>The stored webhook configuration of a policy, up to what the API server adds.\<close>

definition webhookSpec :: "'w policySubReconciler \<Rightarrow> Policy \<Rightarrow> Secret \<Rightarrow> string \<Rightarrow> string \<times> string gomap \<times> string gomap \<times> Webhook list" where
  "webhookSpec r policy secret server =
     (GetUniqueName policy, [(PartOfLabelKey, PartOfLabelValue)],
      [(WebhookConfigurationPolicyNameAnnotationKey, GetName policy),
       (WebhookConfigurationPolicyNamespaceAnnotationKey, GetNamespace policy)],
      [policyWebhook r policy secret server])"

lemma setPolicyWebhook_spec:
  "metaKey (wc_Meta b) = metaKey (wc_Meta (newWebhookConfiguration p)) \<Longrightarrow>
   metaKey (wc_Meta (setPolicyWebhook r p secret server b)) = metaKey (wc_Meta (newWebhookConfiguration p)) \<and>
   webhookPayload (setPolicyWebhook r p secret server b) = webhookSpec r p secret server"
  by (simp add: setPolicyWebhook_def webhookPayload_def webhookSpec_def metaKey_def newWebhookConfiguration_def namedMeta_def)

lemma newWebhookConfiguration_key: "metaKey (wc_Meta (newWebhookConfiguration p)) = ('''', GetUniqueName p)"
  by (simp add: newWebhookConfiguration_def namedMeta_def metaKey_def emptyMeta_def)

lemma reconcileValidating_ok:
  assumes "resource_store (cl_ValidatingWebhooks (sub_Client r)) wc_Meta webhookPayload view"
    and "run_state (reconcileValidatingWebhookConfiguration r p secret server) w = (Inr u, w')"
  shows "\<exists>z. view w' = (view w)(('''', GetUniqueName p) \<mapsto> z) \<and> webhookPayload z = webhookSpec r p secret server"
  using resource_store.upsert_ok [OF assms(1) assms(2) [unfolded reconcileValidatingWebhookConfiguration_def]
      setPolicyWebhook_spec]
  by (simp add: newWebhookConfiguration_key)

lemma reconcileMutating_ok:
  assumes "resource_store (cl_MutatingWebhooks (sub_Client r)) wc_Meta webhookPayload view"
    and "run_state (reconcileMutatingWebhookConfiguration r p secret server) w = (Inr u, w')"
  shows "\<exists>z. view w' = (view w)(('''', GetUniqueName p) \<mapsto> z) \<and> webhookPayload z = webhookSpec r p secret server"
  using resource_store.upsert_ok [OF assms(1) assms(2) [unfolded reconcileMutatingWebhookConfiguration_def]
      setPolicyWebhook_spec]
  by (simp add: newWebhookConfiguration_key)

text \<open>What a policy looks like to the webhook does not depend on its status.\<close>

lemma isNamespacedKind_policyFrame [simp]: "isNamespacedKind (policyFrame p) = isNamespacedKind p"
  by (cases p) simp_all

lemma policyWebhook_policyFrame: "policyWebhook r (policyFrame p) secret server = policyWebhook r p secret server"
  by (simp add: policyWebhook_def namespaceSelector_def)

lemma webhookSpec_frame:
  assumes "policyFrame p = policyFrame q"
  shows "webhookSpec r p secret server = webhookSpec r q secret server"
  using getters_frame_eq [OF assms] policyWebhook_policyFrame [of r p] policyWebhook_policyFrame [of r q] assms
  by (simp add: webhookSpec_def)

section \<open>The branches of reconcilePolicy\<close>

text \<open>The statuses that a policy goes through.\<close>

definition inactive :: "kube_lib \<Rightarrow> Policy \<Rightarrow> Policy" where
  "inactive lib p = mapConditions (setCondition lib PolicyActive ConditionFalse ''PolicyActive''
     ''The policy webhook has not been created'') p"

definition pending :: "kube_lib \<Rightarrow> Policy \<Rightarrow> Policy" where
  "pending lib p = (if st_PolicyStatus (GetStatus p) \<noteq> PolicyStatusActive
     then SetStatus PolicyStatusPending (inactive lib p) else inactive lib p)"

definition unreachable :: "kube_lib \<Rightarrow> Policy \<Rightarrow> Policy" where
  "unreachable lib p = mapConditions (setCondition lib PolicyUniquelyReachable ConditionFalse
     ''LatestReplicaSetIsNotUniquelyReachable'' ''The latest replica set is not uniquely reachable'') (pending lib p)"

definition reachable :: "kube_lib \<Rightarrow> Policy \<Rightarrow> Policy" where
  "reachable lib p = mapConditions (setCondition lib PolicyUniquelyReachable ConditionTrue
     ''LatestReplicaSetIsUniquelyReachable'' ''The latest replica set is uniquely reachable'') (pending lib p)"

lemma policyFrame_statuses [simp]:
  "policyFrame (inactive lib p) = policyFrame p" "policyFrame (pending lib p) = policyFrame p"
  "policyFrame (unreachable lib p) = policyFrame p" "policyFrame (reachable lib p) = policyFrame p"
  "policyFrame (setPolicyAsActive lib p) = policyFrame p"
  by (simp_all add: inactive_def pending_def unreachable_def reachable_def setPolicyAsActive_def)

lemma getters_statuses [simp]:
  "GetPolicyServer (inactive lib p) = GetPolicyServer p" "GetPolicyServer (pending lib p) = GetPolicyServer p"
  "GetUniqueName (pending lib p) = GetUniqueName p" "IsMutating (reachable lib p) = IsMutating p"
  using getters_frame_eq policyFrame_statuses by metis+

lemma run_getPolicyServer:
  "run_state (getPolicyServer r p) w =
     (case run_state (r_Get (cl_PolicyServers (sub_Client r)) ('''', GetPolicyServer p)) w of (x, w') \<Rightarrow>
       (case x of Inl e \<Rightarrow> (Inl (errors_Join ''could not get policy server'' e), w') | Inr ps \<Rightarrow> (Inr ps, w')))"
  by (simp add: getPolicyServer_def run_andThen split: prod.split sum.split)

lemma reconcilePolicy_unfold:
  "reconcilePolicy r p =
     (if GetPolicyServer p = '''' then ret (Inr emptyResult, SetStatus PolicyStatusUnscheduled (inactive (sub_Lib r) p))
      else andThen (getPolicyServer r p)
        (\<lambda>_. ret (Inr emptyResult, SetStatus PolicyStatusScheduled (inactive (sub_Lib r) p)))
        (\<lambda>ps. andThen (r_Get (cl_Deployments (sub_Client r))
               (sub_deploymentsNamespace r, policyServerDeploymentName (GetPolicyServer p)))
             (\<lambda>err. if IsNotFound err then ret (Inr (emptyResult\<lparr>Requeue := True\<rparr>), pending (sub_Lib r) p)
                else ret (Inl (errors_Join ''could not read policy server Deployment'' err), pending (sub_Lib r) p))
             (\<lambda>dep. State_Monad.bind (isPolicyUniquelyReachable r dep (GetUniqueName p))
                (\<lambda>reach. if \<not> reach then
                    ret (Inr \<lparr>Requeue = True, RequeueAfter = TimeToRequeuePolicyReconciliation\<rparr>, unreachable (sub_Lib r) p)
                  else configurePolicy r ps (reachable (sub_Lib r) p)))))"
proof -
  have 1: "mapConditions (setCondition (sub_Lib r) PolicyActive ConditionFalse ''PolicyActive''
     ''The policy webhook has not been created'') p = inactive (sub_Lib r) p" by (simp add: inactive_def)
  have 2: "(if st_PolicyStatus (GetStatus (inactive (sub_Lib r) p)) \<noteq> PolicyStatusActive
     then SetStatus PolicyStatusPending (inactive (sub_Lib r) p) else inactive (sub_Lib r) p) = pending (sub_Lib r) p"
    by (simp add: pending_def inactive_def)
  have 3: "getPolicyServer r (inactive (sub_Lib r) p) = getPolicyServer r p" by (simp add: getPolicyServer_def)
  show ?thesis
    unfolding reconcilePolicy_def Let_def 1 2 3 by (simp add: unreachable_def reachable_def cong: if_cong)
qed

lemma reconcilePolicy_cases:
  assumes run: "run_state (reconcilePolicy r p) w = ((res, q), w')"
  obtains
    (unscheduled) "GetPolicyServer p = ''''" "res = Inr emptyResult"
      "q = SetStatus PolicyStatusUnscheduled (inactive (sub_Lib r) p)"
  | (scheduled) "GetPolicyServer p \<noteq> ''''" "res = Inr emptyResult"
      "q = SetStatus PolicyStatusScheduled (inactive (sub_Lib r) p)"
  | (no_deployment) err where "res = Inr (emptyResult\<lparr>Requeue := True\<rparr>) \<or>
        res = Inl (errors_Join ''could not read policy server Deployment'' err)" "q = pending (sub_Lib r) p"
      "GetPolicyServer p \<noteq> ''''"
  | (unreachable) "res = Inr \<lparr>Requeue = True, RequeueAfter = TimeToRequeuePolicyReconciliation\<rparr>"
      "q = unreachable (sub_Lib r) p" "GetPolicyServer p \<noteq> ''''"
  | (configured) ps dep w1 w2 w3 where
      "run_state (r_Get (cl_PolicyServers (sub_Client r)) ('''', GetPolicyServer p)) w = (Inr ps, w1)"
      "run_state (r_Get (cl_Deployments (sub_Client r))
         (sub_deploymentsNamespace r, policyServerDeploymentName (GetPolicyServer p))) w1 = (Inr dep, w2)"
      "run_state (isPolicyUniquelyReachable r dep (GetUniqueName p)) w2 = (True, w3)"
      "run_state (configurePolicy r ps (reachable (sub_Lib r) p)) w3 = ((res, q), w')"
      "GetPolicyServer p \<noteq> ''''"
proof (cases "GetPolicyServer p = ''''")
  case True
  with run unscheduled show ?thesis by (simp add: reconcilePolicy_unfold)
next
  case server: False
  obtain x w1 where ps: "run_state (r_Get (cl_PolicyServers (sub_Client r)) ('''', GetPolicyServer p)) w = (x, w1)"
    by fastforce
  show ?thesis
  proof (cases x)
    case (Inl e)
    with run server ps scheduled show ?thesis
      by (simp add: reconcilePolicy_unfold run_andThen run_getPolicyServer)
  next
    case ps_ok: (Inr server')
    obtain y w2 where dep: "run_state (r_Get (cl_Deployments (sub_Client r))
         (sub_deploymentsNamespace r, policyServerDeploymentName (GetPolicyServer p))) w1 = (y, w2)" by fastforce
    show ?thesis
    proof (cases y)
      case (Inl err)
      with run server ps ps_ok dep no_deployment [of err] show ?thesis
        by (simp add: reconcilePolicy_unfold run_andThen run_getPolicyServer split: if_splits)
    next
      case dep_ok: (Inr d)
      obtain b w3 where "run_state (isPolicyUniquelyReachable r d (GetUniqueName p)) w2 = (b, w3)" by fastforce
      with run server ps ps_ok dep dep_ok unreachable configured [of server' w1 d w2 w3] show ?thesis
        by (simp add: reconcilePolicy_unfold run_andThen run_getPolicyServer split: if_splits)
    qed
  qed
qed

lemma configurePolicy_cases:
  assumes run: "run_state (configurePolicy r ps p) w = ((res, q), w')"
  obtains
    (failed) err where "res = Inl err" "q = p"
  | (configured) secret w1 where
      "run_state (r_Get (cl_Secrets (sub_Client r)) (sub_deploymentsNamespace r, CARootSecretName)) w = (Inr secret, w1)"
      "run_state (if IsMutating p then reconcileMutatingWebhookConfiguration r p secret (NameWithPrefix ps)
         else reconcileValidatingWebhookConfiguration r p secret (NameWithPrefix ps)) w1 = (Inr (), w')"
      "res = Inr emptyResult" "q = setPolicyAsActive (sub_Lib r) p"
proof -
  obtain x w1 where sec: "run_state (r_Get (cl_Secrets (sub_Client r)) (sub_deploymentsNamespace r, CARootSecretName)) w = (x, w1)"
    by fastforce
  show ?thesis
  proof (cases x)
    case (Inl e)
    with run sec show ?thesis by (auto simp: configurePolicy_def run_andThen intro: failed)
  next
    case (Inr secret)
    let ?webhook = "if IsMutating p then reconcileMutatingWebhookConfiguration r p secret (NameWithPrefix ps)
         else reconcileValidatingWebhookConfiguration r p secret (NameWithPrefix ps)"
    obtain y w2 where hook: "run_state ?webhook w1 = (y, w2)" by fastforce
    with run sec Inr failed configured [of secret w1] show ?thesis
      by (cases y) (auto simp: configurePolicy_def run_andThen split: if_splits)
  qed
qed

section \<open>A sample cluster\<close>

definition refMeter :: "cluster meter" where
  "refMeter = \<lparr>mt_Int64Counter = (\<lambda>_ _. ok ()), mt_Add = (\<lambda>_ _ _. ret ())\<rparr>"

definition refSub :: "cluster policySubReconciler" where
  "refSub = \<lparr>sub_Client = refClient, sub_Lib = refLib, sub_Meter = refMeter,
     sub_deploymentsNamespace = ''kubewarden'', sub_featureGateAdmissionWebhookMatchConditions = True\<rparr>"

text \<open>
  A policy server called default with one ready pod, which serves the policies \<open>ps\<close>: its
  ConfigMap has the version 7, and so has the only ReplicaSet.
\<close>

definition serverLabels :: "string gomap" where
  "serverLabels = [(PolicyServerLabelKey, ''default''), (DefaultDeploymentUniqueLabelKey, ''hash'')]"

definition sampleDeployment :: Deployment where
  "sampleDeployment = \<lparr>dep_Meta = (namedMeta ''kubewarden'' ''policy-server-default'')\<lparr>om_Labels := serverLabels,
     om_Annotations := [(KubernetesRevisionAnnotation, ''1''), (PolicyServerDeploymentConfigVersionAnnotation, ''7'')]\<rparr>,
     dep_Spec = None\<rparr>"

definition sampleReplicaSet :: ReplicaSet where
  "sampleReplicaSet = \<lparr>rs_Meta = (namedMeta ''kubewarden'' ''rs'')\<lparr>om_Labels := serverLabels,
     om_Annotations := [(KubernetesRevisionAnnotation, ''1''), (PolicyServerDeploymentConfigVersionAnnotation, ''7'')]\<rparr>\<rparr>"

definition samplePod :: Pod where
  "samplePod = \<lparr>pod_Meta = (namedMeta ''kubewarden'' ''pod'')\<lparr>om_Labels := serverLabels\<rparr>,
     pod_Conditions = [\<lparr>pc_Type = ''Ready'', pc_Status = ''True''\<rparr>]\<rparr>"

definition servedConfigMap :: "Policy list \<Rightarrow> ConfigMap" where
  "servedConfigMap ps = \<lparr>cm_Meta = (namedMeta ''kubewarden'' ''policy-server-default'')\<lparr>om_ResourceVersion := ''7''\<rparr>,
     cm_Data = [(PolicyServerConfigPoliciesEntry, marshal_policies (buildPoliciesMap ps))]\<rparr>"

definition sampleCASecret :: Secret where
  "sampleCASecret = \<lparr>sec_Meta = namedMeta ''kubewarden'' CARootSecretName, sec_Type = ''Opaque'',
     sec_Data = [(CARootCert, ''CA'')], sec_StringData = []\<rparr>"

definition servingCluster :: "Policy list \<Rightarrow> cluster" where
  "servingCluster ps = emptyCluster\<lparr>st_PolicyServers := [samplePolicyServer ''default''],
     st_Deployments := [sampleDeployment], st_ReplicaSets := [sampleReplicaSet], st_Pods := [samplePod],
     st_ConfigMaps := [servedConfigMap ps], st_Secrets := [sampleCASecret],
     st_ClusterAdmissionPolicies := List.map_filter (\<lambda>p. case p of CAP c \<Rightarrow> Some c | _ \<Rightarrow> None) ps\<rparr>"

lemma getPolicyMap_servedConfigMap:
  assumes "\<forall>p\<in>set ps. servable p"
  shows "\<exists>m. getPolicyMapFromConfigMap (servedConfigMap ps) = Inr m \<and>
    (\<forall>name. goget m name = map_option (\<lambda>p. sortMembers (configEntry p)) (find (\<lambda>p. GetUniqueName p = name) (rev ps)))"
proof -
  obtain cfg where cfg: "updateConfigMapData refPSR (samplePolicyServer ''s'') ps (sampleConfigMap ''s'') = Inr cfg"
    using updateConfigMapData_sample by blast
  have "getPolicyMapFromConfigMap (servedConfigMap ps) = getPolicyMapFromConfigMap cfg"
    by (simp add: getPolicyMapFromConfigMap_def servedConfigMap_def updateConfigMapData_data [OF cfg])
  with getPolicyMap_updateConfigMapData [OF assms cfg] show ?thesis by auto
qed

lemma isPolicyInConfigMap_served:
  assumes "\<forall>p\<in>set ps. servable p" "p \<in> set ps"
  shows "isPolicyInConfigMap (servedConfigMap ps) (GetUniqueName p)"
proof -
  have "find (\<lambda>q. GetUniqueName q = GetUniqueName p) (rev ps) \<noteq> None"
    using assms(2) by (auto simp: find_None_iff)
  with getPolicyMap_servedConfigMap [OF assms(1)] show ?thesis
    by (auto simp: isPolicyInConfigMap_def)
qed

lemmas ref_defs = refSub_def refClient_def run_refGet run_refList refView_def findObj_def selects_def
  kind_PolicyServers_def kind_Deployments_def kind_ReplicaSets_def kind_Pods_def kind_ConfigMaps_def kind_Secrets_def
  servingCluster_def emptyCluster_def metaKey_def namedMeta_def emptyMeta_def

lemma run_serving_gets:
  "run_state (r_Get (cl_PolicyServers (sub_Client refSub)) ('''', ''default'')) (servingCluster ps) =
     (Inr (samplePolicyServer ''default''), servingCluster ps)"
  "run_state (r_Get (cl_Deployments (sub_Client refSub)) (''kubewarden'', ''policy-server-default'')) (servingCluster ps) =
     (Inr sampleDeployment, servingCluster ps)"
  "run_state (r_Get (cl_ConfigMaps (sub_Client refSub)) (''kubewarden'', ''policy-server-default'')) (servingCluster ps) =
     (Inr (servedConfigMap ps), servingCluster ps)"
  "run_state (r_Get (cl_Secrets (sub_Client refSub)) (''kubewarden'', CARootSecretName)) (servingCluster ps) =
     (Inr sampleCASecret, servingCluster ps)"
  by (simp_all add: ref_defs samplePolicyServer_def sampleDeployment_def servedConfigMap_def sampleCASecret_def)

lemma run_serving_reachable:
  assumes "\<forall>p\<in>set ps. servable p" "p \<in> set ps"
  shows "run_state (isPolicyUniquelyReachable refSub sampleDeployment (GetUniqueName p)) (servingCluster ps) =
    (True, servingCluster ps)"
proof -
  have lists: "run_state (r_List (cl_ReplicaSets (sub_Client refSub)) (matchingLabels [(PolicyServerLabelKey, ''default'')]))
        (servingCluster ps) = (Inr [sampleReplicaSet], servingCluster ps)"
    "run_state (r_List (cl_Pods (sub_Client refSub)) (matchingLabels [(PolicyServerLabelKey, ''default'')]))
        (servingCluster ps) = (Inr [samplePod], servingCluster ps)"
    by (simp_all add: ref_defs sampleReplicaSet_def samplePod_def matchingLabels_def serverLabels_def)
  have hash: "podTemplateHashOf [sampleReplicaSet] sampleDeployment ''7'' = ''hash''"
    by (simp add: podTemplateHashOf_def isLatestReplicaSetFromPolicyServerDeployment_def sampleReplicaSet_def
        sampleDeployment_def namedMeta_def serverLabels_def gostr_def const_defs)
  have pods: "podsServe ''hash'' [samplePod]"
    by (simp add: podsServe_def samplePod_def isPodReady_def namedMeta_def serverLabels_def gostr_def const_defs)
  have meta: "metaKey (dep_Meta sampleDeployment) = (''kubewarden'', ''policy-server-default'')"
    "gostr (om_Labels (dep_Meta sampleDeployment)) PolicyServerLabelKey = ''default''"
    "om_ResourceVersion (cm_Meta (servedConfigMap ps)) = ''7''"
    by (simp_all add: sampleDeployment_def servedConfigMap_def namedMeta_def metaKey_def serverLabels_def gostr_def)
  show ?thesis
    by (simp add: isPolicyUniquelyReachable_def Let_def run_andThen meta run_serving_gets lists hash pods
        isPolicyInConfigMap_served [OF assms])
qed

lemma run_serving_configure:
  assumes ps: "\<forall>p\<in>set ps. servable p" "CAP c \<in> set ps"
    and c: "GetPolicyServer (CAP c) = ''default''" "\<not> IsMutating (CAP c)"
  shows "\<exists>hooks n. run_state (reconcilePolicy refSub (CAP c)) (servingCluster ps) =
    ((Inr emptyResult, setPolicyAsActive refLib (reachable refLib (CAP c))),
     (servingCluster ps)\<lparr>st_ValidatingWebhooks := hooks, st_version := n\<rparr>)"
proof -
  have sub: "sub_Lib refSub = refLib" "sub_deploymentsNamespace refSub = ''kubewarden''"
    "cl_ValidatingWebhooks (sub_Client refSub) = refResource kind_ValidatingWebhooks"
    by (simp_all add: refSub_def refClient_def)
  have hook: "\<exists>hooks n. run_state (reconcileValidatingWebhookConfiguration refSub q secret s) (servingCluster ps) =
      (Inr (), (servingCluster ps)\<lparr>st_ValidatingWebhooks := hooks, st_version := n\<rparr>)"
    for q secret s
    by (simp add: reconcileValidatingWebhookConfiguration_def run_orWrap sub run_refCreateOrPatch writeObj_def Let_def
        kind_ValidatingWebhooks_def servingCluster_def emptyCluster_def)
  obtain hooks n where w': "run_state (reconcileValidatingWebhookConfiguration refSub (reachable refLib (CAP c)) sampleCASecret
      (NameWithPrefix (samplePolicyServer ''default''))) (servingCluster ps) =
      (Inr (), (servingCluster ps)\<lparr>st_ValidatingWebhooks := hooks, st_version := n\<rparr>)"
    using hook by blast
  have "\<not> IsMutating (reachable refLib (CAP c))" using c(2) by (simp del: IsMutating.simps)
  then have conf: "run_state (configurePolicy refSub (samplePolicyServer ''default'') (reachable refLib (CAP c))) (servingCluster ps) =
      ((Inr emptyResult, setPolicyAsActive refLib (reachable refLib (CAP c))),
       (servingCluster ps)\<lparr>st_ValidatingWebhooks := hooks, st_version := n\<rparr>)"
    using w' by (simp add: configurePolicy_def run_andThen sub run_serving_gets)
  show ?thesis
    using c(1) conf run_serving_reachable [OF ps]
    by (simp add: reconcilePolicy_unfold run_andThen run_getPolicyServer sub run_serving_gets policyServerDeploymentName_def
        del: GetPolicyServer.simps GetUniqueName.simps) blast
qed

section \<open>Properties\<close>

abbreviation conditionOf :: "string \<Rightarrow> Policy \<Rightarrow> Condition option" where
  "conditionOf t p \<equiv> findCondition t (st_Conditions (GetStatus p))"

lemma conditionOf_setCondition:
  assumes "status_conditions (lib_SetStatusCondition lib)"
  shows "findCondition t (setCondition lib ty s rs m cs) =
    (if t = ty then Some \<lparr>cond_Type = ty, cond_Status = s, cond_Reason = rs, cond_Message = m\<rparr> else findCondition t cs)"
  by (simp add: setCondition_def status_conditions.find_setc [OF assms])

lemma conditionOf_statuses:
  assumes "status_conditions (lib_SetStatusCondition lib)"
  shows "map_option cond_Status (conditionOf PolicyActive (inactive lib p)) = Some ConditionFalse"
    "map_option cond_Status (conditionOf PolicyActive (pending lib p)) = Some ConditionFalse"
    "map_option cond_Status (conditionOf PolicyActive (unreachable lib p)) = Some ConditionFalse"
    "map_option cond_Status (conditionOf PolicyActive (reachable lib p)) = Some ConditionFalse"
    "map_option cond_Status (conditionOf PolicyActive (setPolicyAsActive lib p)) = Some ConditionTrue"
    "map_option cond_Status (conditionOf PolicyUniquelyReachable (setPolicyAsActive lib (reachable lib p))) = Some ConditionTrue"
  by (simp_all add: inactive_def pending_def unreachable_def reachable_def setPolicyAsActive_def
      conditionOf_setCondition [OF assms] const_defs)





text \<open>
  The status of a policy follows the state of the cluster: without a policy server in the spec it
  is unscheduled; with one that cannot be read it is scheduled, without an error; when the Deployment
  is not there yet it is queued again; when the policy is not uniquely reachable yet
  it is queued again after two seconds. On all of these paths no webhook is touched, and a policy
  that was not active before becomes pending.\<close>

theorem reconcilePolicy_waits:
  fixes r :: "'w policySubReconciler"
  defines "lib \<equiv> sub_Lib r"
  shows "(GetPolicyServer p = '''' \<longrightarrow>
      run_state (reconcilePolicy r p) w = ((Inr emptyResult, SetStatus PolicyStatusUnscheduled (inactive lib p)), w)) \<and>
    (\<forall>err w1. GetPolicyServer p \<noteq> '''' \<and>
      run_state (r_Get (cl_PolicyServers (sub_Client r)) ('''', GetPolicyServer p)) w = (Inl err, w1) \<longrightarrow>
      run_state (reconcilePolicy r p) w = ((Inr emptyResult, SetStatus PolicyStatusScheduled (inactive lib p)), w1)) \<and>
    (\<forall>ps w1 err w2. GetPolicyServer p \<noteq> '''' \<and>
      run_state (r_Get (cl_PolicyServers (sub_Client r)) ('''', GetPolicyServer p)) w = (Inr ps, w1) \<and>
      run_state (r_Get (cl_Deployments (sub_Client r))
         (sub_deploymentsNamespace r, ''policy-server-'' @ GetPolicyServer p)) w1 = (Inl err, w2) \<and> IsNotFound err \<longrightarrow>
      run_state (reconcilePolicy r p) w = ((Inr \<lparr>Requeue = True, RequeueAfter = 0\<rparr>, pending lib p), w2)) \<and>
    (\<forall>ps w1 dep w2 w3. GetPolicyServer p \<noteq> '''' \<and>
      run_state (r_Get (cl_PolicyServers (sub_Client r)) ('''', GetPolicyServer p)) w = (Inr ps, w1) \<and>
      run_state (r_Get (cl_Deployments (sub_Client r))
         (sub_deploymentsNamespace r, ''policy-server-'' @ GetPolicyServer p)) w1 = (Inr dep, w2) \<and>
      run_state (isPolicyUniquelyReachable r dep (GetUniqueName p)) w2 = (False, w3) \<longrightarrow>
      run_state (reconcilePolicy r p) w = ((Inr \<lparr>Requeue = True, RequeueAfter = 2\<rparr>, unreachable lib p), w3))"
  by (simp add: lib_def reconcilePolicy_unfold run_andThen run_getPolicyServer policyServerDeploymentName_def emptyResult_def
      const_defs)

theorem reconcilePolicy_waits_witness:
  "run_state (reconcilePolicy refSub (CAP (sampleCAP ''p''))) (servingCluster [CAP (sampleCAP ''q'')] \<lparr>st_Deployments := []\<rparr>) =
     ((Inr \<lparr>Requeue = True, RequeueAfter = 0\<rparr>, pending refLib (CAP (sampleCAP ''p''))),
      servingCluster [CAP (sampleCAP ''q'')] \<lparr>st_Deployments := []\<rparr>)"
proof -
  let ?w = "servingCluster [CAP (sampleCAP ''q'')] \<lparr>st_Deployments := []\<rparr>"
  have p: "GetPolicyServer (CAP (sampleCAP ''p'')) = ''default''"
    by (simp add: sampleCAP_def samplePolicySpec_def getter_simps)
  have 1: "run_state (r_Get (cl_PolicyServers (sub_Client refSub)) ('''', GetPolicyServer (CAP (sampleCAP ''p'')))) ?w =
      (Inr (samplePolicyServer ''default''), ?w)"
    unfolding p by (simp add: ref_defs samplePolicyServer_def)
  have 2: "run_state (r_Get (cl_Deployments (sub_Client refSub))
      (sub_deploymentsNamespace refSub, ''policy-server-'' @ GetPolicyServer (CAP (sampleCAP ''p'')))) ?w =
      (Inl (ApiError NotFound), ?w)"
    unfolding p by (simp add: ref_defs)
  have "sub_Lib refSub = refLib" by (simp add: refSub_def)
  with reconcilePolicy_waits [of "CAP (sampleCAP ''p'')" refSub ?w] 1 2 p show ?thesis
    by (simp del: GetPolicyServer.simps)
qed

lemma run_serving_mode:
  assumes "\<forall>p\<in>set ps. servable p" "p \<in> set ps" "distinct (map GetUniqueName ps)" "GetPolicyServer p = ''default''"
  shows "\<exists>q. run_state (setPolicyModeStatus refSub p) (servingCluster ps) = (Inr q, servingCluster ps)"
proof -
  have sub: "sub_deploymentsNamespace refSub = ''kubewarden''" by (simp add: refSub_def)
  show ?thesis
    using getPolicyMap_servedConfigMap [OF assms(1)] assms(4)
    by (auto simp: setPolicyModeStatus_def Let_def run_andThen policyServerDeploymentName_def sub run_serving_gets)
qed

text \<open>
  A reconciler with other ways to write policies, except their status: when two of them run alike,
  no such call was made.
\<close>

definition withPolicyWrites :: "('w, AdmissionPolicy) resource \<Rightarrow> ('w, ClusterAdmissionPolicy) resource \<Rightarrow>
  ('w, AdmissionPolicyGroup) resource \<Rightarrow> ('w, ClusterAdmissionPolicyGroup) resource \<Rightarrow>
  'w policySubReconciler \<Rightarrow> 'w policySubReconciler" where
  "withPolicyWrites a c ag cg r = r\<lparr>sub_Client := (sub_Client r)
     \<lparr>cl_AdmissionPolicies := a\<lparr>r_StatusUpdate := r_StatusUpdate (cl_AdmissionPolicies (sub_Client r))\<rparr>,
      cl_ClusterAdmissionPolicies := c\<lparr>r_StatusUpdate := r_StatusUpdate (cl_ClusterAdmissionPolicies (sub_Client r))\<rparr>,
      cl_AdmissionPolicyGroups := ag\<lparr>r_StatusUpdate := r_StatusUpdate (cl_AdmissionPolicyGroups (sub_Client r))\<rparr>,
      cl_ClusterAdmissionPolicyGroups := cg\<lparr>r_StatusUpdate := r_StatusUpdate (cl_ClusterAdmissionPolicyGroups (sub_Client r))\<rparr>\<rparr>\<rparr>"

lemma withPolicyWrites_same:
  "sub_Lib (withPolicyWrites a c ag cg r) = sub_Lib r" "sub_Meter (withPolicyWrites a c ag cg r) = sub_Meter r"
  "sub_deploymentsNamespace (withPolicyWrites a c ag cg r) = sub_deploymentsNamespace r"
  "sub_featureGateAdmissionWebhookMatchConditions (withPolicyWrites a c ag cg r) = sub_featureGateAdmissionWebhookMatchConditions r"
  "cl_PolicyServers (sub_Client (withPolicyWrites a c ag cg r)) = cl_PolicyServers (sub_Client r)"
  "cl_Deployments (sub_Client (withPolicyWrites a c ag cg r)) = cl_Deployments (sub_Client r)"
  "cl_ReplicaSets (sub_Client (withPolicyWrites a c ag cg r)) = cl_ReplicaSets (sub_Client r)"
  "cl_Pods (sub_Client (withPolicyWrites a c ag cg r)) = cl_Pods (sub_Client r)"
  "cl_ConfigMaps (sub_Client (withPolicyWrites a c ag cg r)) = cl_ConfigMaps (sub_Client r)"
  "cl_Secrets (sub_Client (withPolicyWrites a c ag cg r)) = cl_Secrets (sub_Client r)"
  "cl_ValidatingWebhooks (sub_Client (withPolicyWrites a c ag cg r)) = cl_ValidatingWebhooks (sub_Client r)"
  "cl_MutatingWebhooks (sub_Client (withPolicyWrites a c ag cg r)) = cl_MutatingWebhooks (sub_Client r)"
  by (simp_all add: withPolicyWrites_def)

lemma policyStatusUpdate_withPolicyWrites:
  "policyStatusUpdate (sub_Client (withPolicyWrites a c ag cg r)) = policyStatusUpdate (sub_Client r)"
  by (rule ext, rename_tac p, case_tac p) (simp_all add: withPolicyWrites_def)

lemma reconcile_withPolicyWrites:
  "GetDeletionTimestamp p = None \<Longrightarrow> reconcile (withPolicyWrites a c ag cg r) p = reconcile r p"
  unfolding reconcile_def reconcilePolicy_def getPolicyServer_def isPolicyUniquelyReachable_def configurePolicy_def
    reconcileMutatingWebhookConfiguration_def reconcileValidatingWebhookConfiguration_def setPolicyWebhook_def policyWebhook_def
    namespaceSelector_def setPolicyModeStatus_def withPolicyWrites_same policyStatusUpdate_withPolicyWrites
  by simp

lemma reconcilePolicy_frame:
  assumes "run_state (reconcilePolicy r p) w = ((res, q), w1)"
  shows "policyFrame q = policyFrame p"
  using assms
proof (cases rule: reconcilePolicy_cases)
  case (configured ps dep w1 w2 w3)
  from configured(4) show ?thesis by (cases rule: configurePolicy_cases) simp_all
qed simp_all

lemma setPolicyModeStatus_frame: "run_state (setPolicyModeStatus r q) w = (Inr q', w') \<Longrightarrow> policyFrame q' = policyFrame q"
  by (auto simp: setPolicyModeStatus_def Let_def run_andThen split: prod.splits sum.splits option.splits if_splits)


definition unscheduledCAP :: ClusterAdmissionPolicy where
  "unscheduledCAP = (sampleCAP ''p'')\<lparr>cap_Spec := (cap_Spec (sampleCAP ''p''))\<lparr>caps_PolicySpec :=
     (caps_PolicySpec (cap_Spec (sampleCAP ''p'')))\<lparr>spec_PolicyServer := ''''\<rparr>\<rparr>\<rparr>"




section \<open>Deletion\<close>

lemma reconcileWebhookDeletion_ok:
  assumes vstore: "resource_store (cl_ValidatingWebhooks (sub_Client r)) wc_Meta webhookPayload vview"
    and mstore: "resource_store (cl_MutatingWebhooks (sub_Client r)) wc_Meta webhookPayload mview"
    and run: "run_state (if IsMutating p then reconcileMutatingWebhookConfigurationDeletion r p
       else reconcileValidatingWebhookConfigurationDeletion r p) w = (Inr u, w')"
  shows "let view = (if IsMutating p then mview else vview) in
    (\<forall>x. view w' ('''', GetUniqueName p) = Some x \<longrightarrow> om_DeletionTimestamp (wc_Meta x) \<noteq> None) \<and>
    (\<forall>k. k \<noteq> ('''', GetUniqueName p) \<longrightarrow> view w' k = view w k)"
proof (cases "IsMutating p")
  case True
  with resource_store.remove_ok [OF mstore run [unfolded reconcileMutatingWebhookConfigurationDeletion_def
        if_P [OF True]]]
  show ?thesis by (auto simp: resource_store.gone_def [OF mstore] split: option.splits)
next
  case False
  with resource_store.remove_ok [OF vstore run [unfolded reconcileValidatingWebhookConfigurationDeletion_def
        if_not_P [OF False]]]
  show ?thesis by (auto simp: resource_store.gone_def [OF vstore] split: option.splits)
qed

text \<open>C2.
  A policy that is being deleted loses its finalizers only after its webhook configuration is gone:
  when its reconciliation succeeds, the configuration with its unique name is deleted (or is being
  deleted), every other configuration of that kind is as before, and the policy was then
  updated without the two finalizers and otherwise unchanged; when the configuration cannot be
  deleted, the reconciliation fails and the policy is not updated at all.\<close>

theorem deletion_order:
  assumes vstore: "resource_store (cl_ValidatingWebhooks (sub_Client r)) wc_Meta webhookPayload vview"
    and mstore: "resource_store (cl_MutatingWebhooks (sub_Client r)) wc_Meta webhookPayload mview"
    and fin: "finalizer_ops (lib_AddFinalizer (sub_Lib r)) (lib_RemoveFinalizer (sub_Lib r))"
    and deleted: "GetDeletionTimestamp p \<noteq> None"
    and run: "run_state (reconcile r p) w = (res, w')"
  shows "\<exists>r1 w1.
    run_state (if IsMutating p then reconcileMutatingWebhookConfigurationDeletion r p
       else reconcileValidatingWebhookConfigurationDeletion r p) w = (r1, w1) \<and>
    (case r1 of
       Inl err \<Rightarrow> res = Inl err \<and> w' = w1
     | Inr _ \<Rightarrow>
         (\<forall>x. (if IsMutating p then mview else vview) w1 ('''', GetUniqueName p) = Some x \<longrightarrow>
            om_DeletionTimestamp (wc_Meta x) \<noteq> None) \<and>
         (\<forall>k. k \<noteq> ('''', GetUniqueName p) \<longrightarrow> (if IsMutating p then mview else vview) w1 k =
            (if IsMutating p then mview else vview) w k) \<and>
         (\<exists>q upd. run_state (policyUpdate (sub_Client r) q) w1 = (upd, w') \<and>
            set (om_Finalizers (GetObjectMeta q)) =
              set (om_Finalizers (GetObjectMeta p)) - {KubewardenFinalizerPre114, KubewardenFinalizer} \<and>
            mapMeta (\<lambda>m. m\<lparr>om_Finalizers := om_Finalizers (GetObjectMeta p)\<rparr>) q = p \<and>
            (res = Inr emptyResult \<longleftrightarrow> (\<exists>q'. upd = Inr q'))))"
proof -
  let ?webhook = "if IsMutating p then reconcileMutatingWebhookConfigurationDeletion r p
       else reconcileValidatingWebhookConfigurationDeletion r p"
  let ?q = "mapMeta (removeFinalizers (sub_Lib r)) p"
  obtain r1 w1 where hook: "run_state ?webhook w = (r1, w1)" by fastforce
  obtain upd w2 where upd: "run_state (policyUpdate (sub_Client r) ?q) w1 = (upd, w2)" by fastforce
  have run': "run_state (reconcilePolicyDeletion r p) w = (res, w')"
    using run deleted by (simp add: reconcile_def)
  have fins: "set (om_Finalizers (GetObjectMeta ?q)) =
      set (om_Finalizers (GetObjectMeta p)) - {KubewardenFinalizerPre114, KubewardenFinalizer}"
    by (auto simp: removeFinalizers_def finalizer_ops.set_rem [OF fin])
  have same: "mapMeta (\<lambda>m. m\<lparr>om_Finalizers := om_Finalizers (GetObjectMeta p)\<rparr>) ?q = p"
    by (cases p) (simp_all add: removeFinalizers_def getter_simps)
  show ?thesis
  proof (cases r1)
    case (Inl err)
    with run' hook show ?thesis by (auto simp: reconcilePolicyDeletion_def run_andThen)
  next
    case (Inr u)
    have out: "w' = w2" "res = Inr emptyResult \<longleftrightarrow> (\<exists>q'. upd = Inr q')"
      using run' hook upd Inr
      by (auto simp: reconcilePolicyDeletion_def run_andThen run_orWrap split: sum.splits)
    have "run_state ?webhook w = (Inr u, w1)" using hook Inr by simp
    note webhook = reconcileWebhookDeletion_ok [OF vstore mstore this, unfolded Let_def]
    have "run_state (policyUpdate (sub_Client r) ?q) w1 = (upd, w')" using upd out(1) by simp
    with webhook fins same out(2) have "case r1 of Inl err \<Rightarrow> res = Inl err \<and> w' = w1
     | Inr _ \<Rightarrow>
         (\<forall>x. (if IsMutating p then mview else vview) w1 ('''', GetUniqueName p) = Some x \<longrightarrow>
            om_DeletionTimestamp (wc_Meta x) \<noteq> None) \<and>
         (\<forall>k. k \<noteq> ('''', GetUniqueName p) \<longrightarrow> (if IsMutating p then mview else vview) w1 k =
            (if IsMutating p then mview else vview) w k) \<and>
         (\<exists>q upd. run_state (policyUpdate (sub_Client r) q) w1 = (upd, w') \<and>
            set (om_Finalizers (GetObjectMeta q)) =
              set (om_Finalizers (GetObjectMeta p)) - {KubewardenFinalizerPre114, KubewardenFinalizer} \<and>
            mapMeta (\<lambda>m. m\<lparr>om_Finalizers := om_Finalizers (GetObjectMeta p)\<rparr>) q = p \<and>
            (res = Inr emptyResult \<longleftrightarrow> (\<exists>q'. upd = Inr q')))"
      unfolding Inr sum.case by blast
    with hook show ?thesis by blast
  qed
qed

definition dyingCAP :: ClusterAdmissionPolicy where
  "dyingCAP = (sampleCAP ''p'')\<lparr>cap_Meta := (namedMeta '''' ''p'')\<lparr>om_DeletionTimestamp := Some 1,
     om_Finalizers := [KubewardenFinalizer]\<rparr>\<rparr>"

theorem deletion_order_witness:
  "\<exists>res w' w1. run_state (reconcile refSub (CAP dyingCAP)) emptyCluster = (res, w') \<and>
     run_state (reconcileValidatingWebhookConfigurationDeletion refSub (CAP dyingCAP)) emptyCluster = (Inr (), w1) \<and>
     (\<exists>q. run_state (policyUpdate refClient q) w1 = (Inl (ApiError NotFound), w') \<and> om_Finalizers (GetObjectMeta q) = [])"
proof -
  obtain res w' where run: "run_state (reconcile refSub (CAP dyingCAP)) emptyCluster = (res, w')" by fastforce
  have fin: "finalizer_ops (lib_AddFinalizer (sub_Lib refSub)) (lib_RemoveFinalizer (sub_Lib refSub))"
    by (simp add: refSub_def refLib_def ref_finalizers.finalizer_ops_axioms)
  have sub: "sub_Client refSub = refClient" by (simp add: refSub_def)
  have p: "GetDeletionTimestamp (CAP dyingCAP) \<noteq> None" "\<not> IsMutating (CAP dyingCAP)"
    "om_Finalizers (GetObjectMeta (CAP dyingCAP)) = [KubewardenFinalizer]"
    by (simp_all add: dyingCAP_def sampleCAP_def samplePolicySpec_def getter_simps)
  have hook: "run_state (reconcileValidatingWebhookConfigurationDeletion refSub (CAP dyingCAP)) emptyCluster = (Inr (), emptyCluster)"
    by (simp add: reconcileValidatingWebhookConfigurationDeletion_def run_andThen ref_defs kind_ValidatingWebhooks_def)
  have gone: "run_state (policyUpdate refClient q) emptyCluster = (Inl (ApiError NotFound), emptyCluster)" for q
    by (cases q) (simp_all add: run_mapOp refClient_def refResource_simps refUpdate_def kind_AdmissionPolicies_def
        kind_ClusterAdmissionPolicies_def kind_AdmissionPolicyGroups_def kind_ClusterAdmissionPolicyGroups_def
        emptyCluster_def findObj_def)
  from deletion_order [OF _ _ fin p(1) run, unfolded sub, OF ref_validating.resource_store_axioms ref_mutating.resource_store_axioms]
    p(2,3) hook gone
  obtain q where "run_state (policyUpdate refClient q) emptyCluster = (Inl (ApiError NotFound), w')"
    "set (om_Finalizers (GetObjectMeta q)) = {}"
    by (auto simp del: IsMutating.simps GetObjectMeta.simps)
  with run hook show ?thesis by auto
qed

end
