(* ===== verification/Webhook_Scope.thy ===== *)
theory Webhook_Scope
  imports Policy_Reconciler
begin

text \<open>
  What the webhook configuration that a policy gets means to the API server: the namespaces in
  which it applies, the path on which the policy server is called, and the requests that a
  change of the configuration puts back into the queue. The meaning of a label selector is
  the documented one of \<open>metav1.LabelSelector\<close>.
\<close>

section \<open>Label selectors\<close>

definition requirement_matches :: "LabelSelectorRequirement \<Rightarrow> string gomap \<Rightarrow> bool" where
  "requirement_matches req labels =
     (case goget labels (lsr_Key req) of
        None \<Rightarrow> lsr_Operator req \<in> {''NotIn'', ''DoesNotExist''}
      | Some v \<Rightarrow>
          lsr_Operator req = ''In'' \<and> v \<in> set (lsr_Values req) \<or>
          lsr_Operator req = ''NotIn'' \<and> v \<notin> set (lsr_Values req) \<or>
          lsr_Operator req = ''Exists'')"

definition selector_matches :: "LabelSelector \<Rightarrow> string gomap \<Rightarrow> bool" where
  "selector_matches sel labels \<longleftrightarrow>
     list_all (\<lambda>(k, v). goget labels k = Some v) (ls_MatchLabels sel) \<and>
     list_all (\<lambda>req. requirement_matches req labels) (ls_MatchExpressions sel)"

text \<open>No selector selects everything.\<close>

definition applies_in :: "Webhook \<Rightarrow> string gomap \<Rightarrow> bool" where
  "applies_in h labels = (case wh_NamespaceSelector h of None \<Rightarrow> True | Some sel \<Rightarrow> selector_matches sel labels)"

abbreviation namespaceName :: "string gomap \<Rightarrow> string option" where
  "namespaceName labels \<equiv> goget labels ''kubernetes.io/metadata.name''"

lemma applies_in_policyWebhook:
  "applies_in (policyWebhook r p secret server) labels \<longleftrightarrow>
     (if isNamespacedKind p then namespaceName labels = Some (GetNamespace p)
      else namespaceName labels \<noteq> Some (sub_deploymentsNamespace r) \<and>
        (case GetNamespaceSelector p of None \<Rightarrow> True
         | Some sel \<Rightarrow> list_all (\<lambda>req. requirement_matches req labels) (ls_MatchExpressions sel)))"
  by (cases p) (auto simp: applies_in_def policyWebhook_def Let_def namespaceSelector_def selector_matches_def
      requirement_matches_def namespaceNameSelector_def getter_simps split: option.split)

lemma wh_Rules_policyWebhook [simp]: "wh_Rules (policyWebhook r p secret server) = GetRules p"
  by (simp add: policyWebhook_def)

section \<open>Properties\<close>

text \<open>C20.
  The webhook of a cluster-wide policy never applies in the namespace of the policy servers, so that
  a policy cannot keep its own server from starting; the webhook of a namespaced policy applies
  in the namespace of the policy and nowhere else, and only to namespaced resources.\<close>

theorem webhook_scope:
  "(\<not> isNamespacedKind p \<and> namespaceName labels = Some (sub_deploymentsNamespace r) \<longrightarrow>
      \<not> applies_in (policyWebhook r p secret server) labels) \<and>
   (isNamespacedKind p \<longrightarrow>
      (applies_in (policyWebhook r p secret server) labels \<longleftrightarrow> namespaceName labels = Some (GetNamespace p)) \<and>
      (\<forall>rule\<in>set (wh_Rules (policyWebhook r p secret server)). rule_Scope rule = Some NamespacedScope))"
  unfolding applies_in_policyWebhook
  by (cases p) (auto simp: namespacedRules_def getter_simps)

theorem webhook_scope_witness:
  "\<not> applies_in (policyWebhook refSub (CAP (sampleCAP ''p'')) sampleCASecret ''s'') [(''kubernetes.io/metadata.name'', ''kubewarden'')] \<and>
   applies_in (policyWebhook refSub (AP (sampleAP ''ns'' ''p'')) sampleCASecret ''s'') [(''kubernetes.io/metadata.name'', ''ns'')]"
  using webhook_scope [of "CAP (sampleCAP ''p'')" "[(''kubernetes.io/metadata.name'', ''kubewarden'')]" refSub sampleCASecret "''s''"]
    webhook_scope [of "AP (sampleAP ''ns'' ''p'')" "[(''kubernetes.io/metadata.name'', ''ns'')]" refSub sampleCASecret "''s''"]
  by (simp add: refSub_def sampleAP_def namedMeta_def getter_simps)

definition withSelector :: "LabelSelector \<Rightarrow> ClusterAdmissionPolicy \<Rightarrow> ClusterAdmissionPolicy" where
  "withSelector sel c = c\<lparr>cap_Spec := (cap_Spec c)\<lparr>caps_NamespaceSelector := Some sel\<rparr>\<rparr>"

text \<open>C37.
  The labels of the namespace selector of a cluster-wide policy have no effect: the webhook gets
  the expressions of the selector and not its \<open>matchLabels\<close>, so a policy meant for the
  namespaces with a label applies in every namespace but that of the policy servers.\<close>

theorem match_labels_ignored:
  "policyWebhook r (CAP (withSelector \<lparr>ls_MatchLabels = ls, ls_MatchExpressions = es\<rparr> c)) secret server =
   policyWebhook r (CAP (withSelector \<lparr>ls_MatchLabels = [], ls_MatchExpressions = es\<rparr> c)) secret server \<and>
   (applies_in (policyWebhook r (CAP (withSelector \<lparr>ls_MatchLabels = ls, ls_MatchExpressions = []\<rparr> c)) secret server) labels \<longleftrightarrow>
      namespaceName labels \<noteq> Some (sub_deploymentsNamespace r))"
  unfolding applies_in_policyWebhook
  by (simp add: policyWebhook_def Let_def namespaceSelector_def withSelector_def getter_simps)

lemma slash_GetUniqueName:
  "CHR ''/'' \<in> set (GetUniqueName p) \<Longrightarrow> CHR ''/'' \<in> set (GetNamespace p) \<union> set (GetName p)"
  by (cases p) (auto simp: getter_simps)

lemma long_GetUniqueName: "length (GetUniqueName p) \<ge> 11"
  by (cases p) (simp_all add: getter_simps)

text \<open>
  The policy server is called at the path \<open>/validate/\<close> followed by the unique name, on its
  HTTPS port, at the Service of the policy server in the namespace of the deployments.\<close>

theorem webhook_address:
  assumes "CHR ''/'' \<notin> set (GetNamespace p) \<union> set (GetName p)"
  shows "wcc_Service (wh_ClientConfig (policyWebhook r p secret server)) =
    Some \<lparr>sr_Namespace = sub_deploymentsNamespace r, sr_Name = server,
      sr_Path = Some (''/validate/'' @ GetUniqueName p), sr_Port = Some 8443\<rparr>"
proof -
  have name: "CHR ''/'' \<notin> set (GetUniqueName p)" using slash_GetUniqueName assms by blast
  have "GetUniqueName p \<noteq> []" "GetUniqueName p \<noteq> ''.''" "GetUniqueName p \<noteq> ''..''"
    using long_GetUniqueName [of p] by auto
  then show ?thesis
    using filepath_Join_plain [of "''validate''" "GetUniqueName p"] name
    by (simp add: policyWebhook_def Let_def PolicyServerPort_def)
qed

theorem webhook_address_witness:
  "wcc_Service (wh_ClientConfig (policyWebhook refSub (AP (sampleAP ''ns'' ''p'')) sampleCASecret ''s'')) =
    Some \<lparr>sr_Namespace = ''kubewarden'', sr_Name = ''s'', sr_Path = Some ''/validate/namespaced-ns-p'', sr_Port = Some 8443\<rparr>"
  using webhook_address [of "AP (sampleAP ''ns'' ''p'')" refSub sampleCASecret "''s''"]
  by (simp add: refSub_def sampleAP_def namedMeta_def getter_simps)

text \<open>
  A change of the stored webhook configuration of a policy leads back to that policy: the map
  functions of the four controllers give the request that names it (for a namespaced kind its
  namespace and name), so a configuration that somebody edits or deletes is reconciled again.\<close>

theorem webhook_event_requests_policy:
  assumes stored: "webhookPayload z = webhookSpec r p secret server" and name: "GetName p \<noteq> ''''"
  shows "ClusterAdmissionPolicyReconciler_findClusterAdmissionPolicyForWebhookConfiguration (ObjWebhookConfiguration z) = [('''', GetName p)] \<and>
    ClusterAdmissionPolicyGroupReconciler_findClusterAdmissionPolicyForWebhookConfiguration (ObjWebhookConfiguration z) = [('''', GetName p)] \<and>
    AdmissionPolicyReconciler_findAdmissionPolicyForWebhookConfiguration (ObjWebhookConfiguration z) =
      (if GetNamespace p = '''' then [] else [(GetNamespace p, GetName p)]) \<and>
    AdmissionPolicyGroupReconciler_findAdmissionPolicyForWebhookConfiguration (ObjWebhookConfiguration z) =
      (if GetNamespace p = '''' then [] else [(GetNamespace p, GetName p)])"
proof -
  have "om_Labels (wc_Meta z) = [(PartOfLabelKey, PartOfLabelValue)]"
    "om_Annotations (wc_Meta z) = [(WebhookConfigurationPolicyNameAnnotationKey, GetName p),
       (WebhookConfigurationPolicyNamespaceAnnotationKey, GetNamespace p)]"
    using stored by (simp_all add: webhookPayload_def webhookSpec_def)
  with name show ?thesis
    by (simp add: hasKubewardenLabel_def gostr_def Let_def const_defs
        ClusterAdmissionPolicyReconciler_findClusterAdmissionPolicyForWebhookConfiguration_def
        ClusterAdmissionPolicyGroupReconciler_findClusterAdmissionPolicyForWebhookConfiguration_def
        AdmissionPolicyReconciler_findAdmissionPolicyForWebhookConfiguration_def
        AdmissionPolicyGroupReconciler_findAdmissionPolicyForWebhookConfiguration_def)
qed

theorem webhook_event_requests_policy_witness:
  "AdmissionPolicyReconciler_findAdmissionPolicyForWebhookConfiguration (ObjWebhookConfiguration
     (setPolicyWebhook refSub (AP (sampleAP ''ns'' ''p'')) sampleCASecret ''s''
       (newWebhookConfiguration (AP (sampleAP ''ns'' ''p''))))) = [(''ns'', ''p'')]"
proof -
  let ?p = "AP (sampleAP ''ns'' ''p'')"
  have "webhookPayload (setPolicyWebhook refSub ?p sampleCASecret ''s'' (newWebhookConfiguration ?p)) =
      webhookSpec refSub ?p sampleCASecret ''s''"
    using setPolicyWebhook_spec by blast
  moreover have "GetName ?p = ''p''" "GetNamespace ?p = ''ns''"
    by (simp_all add: sampleAP_def namedMeta_def getter_simps)
  ultimately show ?thesis using webhook_event_requests_policy by fastforce
qed

text \<open>
  Reconciling a mutating policy, its deletion included, never looks at the validating webhook
  configurations: the result is the same whatever the API server would answer about them. The
  configuration of a policy that was validating before an update made it mutating stays forever.\<close>

theorem mutating_policy_ignores_validating:
  assumes "IsMutating p"
  shows "reconcile (r\<lparr>sub_Client := (sub_Client r)\<lparr>cl_ValidatingWebhooks := any\<rparr>\<rparr>) p = reconcile r p"
proof -
  let ?r = "r\<lparr>sub_Client := (sub_Client r)\<lparr>cl_ValidatingWebhooks := any\<rparr>\<rparr>"
  have client: "sub_Client ?r = (sub_Client r)\<lparr>cl_ValidatingWebhooks := any\<rparr>" "sub_Lib ?r = sub_Lib r"
    "sub_deploymentsNamespace ?r = sub_deploymentsNamespace r" "sub_Meter ?r = sub_Meter r"
    "sub_featureGateAdmissionWebhookMatchConditions ?r = sub_featureGateAdmissionWebhookMatchConditions r"
    by simp_all
  have upd: "policyUpdate (sub_Client ?r) q = policyUpdate (sub_Client r) q"
    "policyStatusUpdate (sub_Client ?r) q = policyStatusUpdate (sub_Client r) q" for q
    by (cases q; simp)+
  have hook: "policyWebhook ?r q = policyWebhook r q" for q
    by (simp add: fun_eq_iff policyWebhook_def namespaceSelector_def)
  then have "setPolicyWebhook ?r q = setPolicyWebhook r q" for q
    by (simp add: fun_eq_iff setPolicyWebhook_def)
  then have "reconcileMutatingWebhookConfiguration ?r q s n = reconcileMutatingWebhookConfiguration r q s n" for q s n
    by (simp add: reconcileMutatingWebhookConfiguration_def)
  then have "configurePolicy ?r ps (reachable (sub_Lib r) p) = configurePolicy r ps (reachable (sub_Lib r) p)" for ps
    using assms by (simp add: configurePolicy_def)
  then have 1: "reconcilePolicy ?r p = reconcilePolicy r p"
    by (simp add: reconcilePolicy_unfold getPolicyServer_def isPolicyUniquelyReachable_def Let_def cong: if_cong)
  have 2: "setPolicyModeStatus ?r q = setPolicyModeStatus r q" for q
    by (simp add: setPolicyModeStatus_def)
  have 3: "reconcilePolicyDeletion ?r p = reconcilePolicyDeletion r p"
    using assms upd by (simp add: reconcilePolicyDeletion_def reconcileMutatingWebhookConfigurationDeletion_def)
  show ?thesis unfolding reconcile_def 1 2 3 upd client(4) by (rule refl)
qed

theorem mutating_policy_ignores_validating_witness:
  "IsMutating (CAP (relabelledCAP ''p'')) \<and>
   reconcile (refSub\<lparr>sub_Client := (sub_Client refSub)\<lparr>cl_ValidatingWebhooks := cl_MutatingWebhooks refClient\<rparr>\<rparr>) (CAP (relabelledCAP ''p'')) =
   reconcile refSub (CAP (relabelledCAP ''p''))"
proof -
  have "IsMutating (CAP (relabelledCAP ''p''))"
    by (simp add: relabelledCAP_def getter_simps)
  with mutating_policy_ignores_validating show ?thesis by blast
qed

end
