(* ===== verification/Deployment_Spec.thy ===== *)
theory Deployment_Spec
  imports Config_Map
begin

text \<open>
  \<open>internal/controller/policyserver_controller_deployment.go\<close>: the Deployment of a policy server.
  The map of the template annotations is shared in the source between the spec of the policy
  server and the pod template; the model threads it through the functions that write to it. The
  write to the in-memory spec of the policy server is not seen by any later step of the
  reconciliation (the status update does not store the spec) and is left out.
\<close>

section \<open>Names\<close>

definition certsVolumeName :: string where "certsVolumeName = ''certs''"
definition policiesConfigContainerPath :: string where "policiesConfigContainerPath = ''/config''"
definition policiesFilename :: string where "policiesFilename = ''policies.yml''"
definition sourcesFilename :: string where "sourcesFilename = ''sources.yml''"
definition verificationFilename :: string where "verificationFilename = ''verification.yml''"
definition policiesVolumeName :: string where "policiesVolumeName = ''policies''"
definition sourcesVolumeName :: string where "sourcesVolumeName = ''sources''"
definition verificationConfigVolumeName :: string where "verificationConfigVolumeName = ''verification''"
definition kubewardenCAVolumeName :: string where "kubewardenCAVolumeName = ''kubewarden-ca-cert''"
definition kubewardenCAVolumePath :: string where "kubewardenCAVolumePath = ''/ca''"
definition clientCAVolumeName :: string where "clientCAVolumeName = ''client-ca-cert''"
definition clientCAVolumePath :: string where "clientCAVolumePath = ''/client-ca''"
definition secretsContainerPath :: string where "secretsContainerPath = ''/pki''"
definition imagePullSecretVolumeName :: string where "imagePullSecretVolumeName = ''imagepullsecret''"
definition dockerConfigJSONPolicyServerPath :: string where
  "dockerConfigJSONPolicyServerPath = ''/home/kubewarden/.docker''"
definition policyStoreVolume :: string where "policyStoreVolume = ''policy-store''"
definition policyStoreVolumePath :: string where "policyStoreVolumePath = ''/tmp''"
definition sigstoreCacheDirPath :: string where "sigstoreCacheDirPath = ''/tmp/sigstore-data''"
definition otelClientCertificateVolumeName :: string where
  "otelClientCertificateVolumeName = ''otel-collector-client-certificate''"
definition otelCertificateVolumeName :: string where
  "otelCertificateVolumeName = ''otel-collector-certificate''"
definition defaultOtelCertificateMountMode :: int where "defaultOtelCertificateMountMode = 420"

lemmas deployment_names = certsVolumeName_def policiesConfigContainerPath_def policiesFilename_def
  sourcesFilename_def verificationFilename_def policiesVolumeName_def sourcesVolumeName_def
  verificationConfigVolumeName_def kubewardenCAVolumeName_def kubewardenCAVolumePath_def clientCAVolumeName_def
  clientCAVolumePath_def secretsContainerPath_def imagePullSecretVolumeName_def
  dockerConfigJSONPolicyServerPath_def policyStoreVolume_def policyStoreVolumePath_def sigstoreCacheDirPath_def
  otelClientCertificateVolumeName_def otelCertificateVolumeName_def

section \<open>The container\<close>

definition addMount :: "string \<Rightarrow> bool \<Rightarrow> string \<Rightarrow> Container \<Rightarrow> Container" where
  "addMount name readOnly path c =
     c\<lparr>ct_VolumeMounts := ct_VolumeMounts c @ [\<lparr>vm_Name = name, vm_ReadOnly = readOnly, vm_MountPath = path\<rparr>]\<rparr>"

definition addEnv :: "string \<Rightarrow> string \<Rightarrow> Container \<Rightarrow> Container" where
  "addEnv name v c = c\<lparr>ct_Env := ct_Env c @ [\<lparr>ev_Name = name, ev_Value = v\<rparr>]\<rparr>"

definition getPolicyServerContainer :: "PolicyServer \<Rightarrow> Container" where
  "getPolicyServerContainer policyServer = \<lparr>
     ct_Name = NameWithPrefix policyServer,
     ct_Image = pss_Image (ps_Spec policyServer),
     ct_VolumeMounts =
       [\<lparr>vm_Name = certsVolumeName, vm_ReadOnly = True, vm_MountPath = secretsContainerPath\<rparr>,
        \<lparr>vm_Name = policiesVolumeName, vm_ReadOnly = True, vm_MountPath = policiesConfigContainerPath\<rparr>,
        \<lparr>vm_Name = policyStoreVolume, vm_ReadOnly = False, vm_MountPath = policyStoreVolumePath\<rparr>],
     ct_Env =
       [\<lparr>ev_Name = ''KUBEWARDEN_CERT_FILE'', ev_Value = filepath_Join [secretsContainerPath, ServerCert]\<rparr>,
        \<lparr>ev_Name = ''KUBEWARDEN_KEY_FILE'', ev_Value = filepath_Join [secretsContainerPath, ServerPrivateKey]\<rparr>,
        \<lparr>ev_Name = ''KUBEWARDEN_PORT'', ev_Value = Itoa PolicyServerPort\<rparr>,
        \<lparr>ev_Name = ''KUBEWARDEN_READINESS_PROBE_PORT'', ev_Value = Itoa PolicyServerReadinessProbePort\<rparr>,
        \<lparr>ev_Name = ''KUBEWARDEN_POLICIES_DOWNLOAD_DIR'', ev_Value = policyStoreVolumePath\<rparr>,
        \<lparr>ev_Name = ''KUBEWARDEN_POLICIES'', ev_Value = filepath_Join [policiesConfigContainerPath, policiesFilename]\<rparr>,
        \<lparr>ev_Name = ''KUBEWARDEN_SIGSTORE_CACHE_DIR'', ev_Value = sigstoreCacheDirPath\<rparr>]
       @ pss_Env (ps_Spec policyServer),
     ct_ReadinessProbePath = PolicyServerReadinessProbe,
     ct_ReadinessProbePort = PolicyServerReadinessProbePort,
     ct_ReadinessProbeScheme = ''HTTP'',
     ct_Requests = pss_Requests (ps_Spec policyServer),
     ct_Limits = pss_Limits (ps_Spec policyServer),
     ct_SecurityContext = None\<rparr>"

definition configureVerificationConfig :: "PolicyServer \<Rightarrow> Container \<Rightarrow> Container" where
  "configureVerificationConfig policyServer c =
     (if pss_VerificationConfig (ps_Spec policyServer) \<noteq> '''' then
        addEnv ''KUBEWARDEN_VERIFICATION_CONFIG_PATH''
            (filepath_Join [PolicyServerVerificationConfigContainerPath, verificationFilename])
          (addMount verificationConfigVolumeName True PolicyServerVerificationConfigContainerPath c)
      else c)"

definition configureImagePullSecret :: "PolicyServer \<Rightarrow> Container \<Rightarrow> Container" where
  "configureImagePullSecret policyServer c =
     (if pss_ImagePullSecret (ps_Spec policyServer) \<noteq> '''' then
        addEnv ''KUBEWARDEN_DOCKER_CONFIG_JSON_PATH'' dockerConfigJSONPolicyServerPath
          (addMount imagePullSecretVolumeName True dockerConfigJSONPolicyServerPath c)
      else c)"

definition configuresInsecureSources :: "PolicyServer \<Rightarrow> Container \<Rightarrow> Container" where
  "configuresInsecureSources policyServer c =
     (if pss_InsecureSources (ps_Spec policyServer) \<noteq> [] \<or> pss_SourceAuthorities (ps_Spec policyServer) \<noteq> [] then
        addEnv ''KUBEWARDEN_SOURCES_PATH'' (filepath_Join [PolicyServerSourcesConfigContainerPath, sourcesFilename])
          (addMount sourcesVolumeName True PolicyServerSourcesConfigContainerPath c)
      else c)"

definition defaultContainerSecurityContext :: json where
  "defaultContainerSecurityContext = JObj
     [(''capabilities'', JObj [(''drop'', JArr [JStr ''all''])]),
      (''privileged'', JBool False),
      (''runAsNonRoot'', JBool True),
      (''readOnlyRootFilesystem'', JBool True),
      (''allowPrivilegeEscalation'', JBool False)]"

text \<open>The index of a variable, \<open>None\<close> for the \<open>-1\<close> of the source.\<close>

definition envVarsContainVariable :: "EnvVar list \<Rightarrow> string \<Rightarrow> nat option" where
  "envVarsContainVariable envVars envVarName = firstIndex (\<lambda>envvar. ev_Name envvar = envVarName) envVars"

definition setEnvVar :: "string \<Rightarrow> string \<Rightarrow> Container \<Rightarrow> Container" where
  "setEnvVar name v c =
     (case envVarsContainVariable (ct_Env c) name of
        Some index \<Rightarrow> c\<lparr>ct_Env := (ct_Env c)[index := \<lparr>ev_Name = name, ev_Value = v\<rparr>]\<rparr>
      | None \<Rightarrow> addEnv name v c)"

section \<open>The Deployment\<close>

definition configureLabelsAndAnnotations :: "Deployment \<Rightarrow> PolicyServer \<Rightarrow> string \<Rightarrow> Deployment" where
  "configureLabelsAndAnnotations policyServerDeployment policyServer configMapVersion =
     (let m = dep_Meta policyServerDeployment in
      policyServerDeployment\<lparr>dep_Meta := m\<lparr>
        om_Annotations := goput PolicyServerDeploymentConfigVersionAnnotation configMapVersion (om_Annotations m),
        om_Labels := goput PolicyServerLabelKey (ps_Name policyServer)
          (goput AppLabelKey (AppLabel policyServer) (om_Labels m))\<rparr>\<rparr>)"

definition buildPolicyServerDeploymentSpec ::
  "PolicyServer \<Rightarrow> Container \<Rightarrow> string \<Rightarrow> string gomap \<Rightarrow> json \<Rightarrow> DeploymentSpec" where
  "buildPolicyServerDeploymentSpec policyServer admissionContainer configMapVersion templateAnnotations podSecurityContext =
     \<lparr>dspec_Replicas = pss_Replicas (ps_Spec policyServer),
      dspec_Selector = [(AppLabelKey, AppLabel policyServer)],
      dspec_StrategyType = ''RollingUpdate'',
      dspec_TemplateLabels = [(AppLabelKey, AppLabel policyServer),
        (PolicyServerDeploymentPodSpecConfigVersionLabel, configMapVersion),
        (PolicyServerLabelKey, ps_Name policyServer)],
      dspec_TemplateAnnotations = templateAnnotations,
      dspec_TemplateSpec = \<lparr>
        pspec_SecurityContext = Some podSecurityContext,
        pspec_Containers = [admissionContainer],
        pspec_ServiceAccountName = pss_ServiceAccountName (ps_Spec policyServer),
        pspec_Tolerations = pss_Tolerations (ps_Spec policyServer),
        pspec_Affinity = pss_Affinity (ps_Spec policyServer),
        pspec_Volumes =
          [\<lparr>vol_Name = policyStoreVolume, vol_Source = EmptyDir\<rparr>,
           \<lparr>vol_Name = certsVolumeName, vol_Source = SecretVolume (NameWithPrefix policyServer) [] None\<rparr>,
           \<lparr>vol_Name = policiesVolumeName, vol_Source = ConfigMapVolume (NameWithPrefix policyServer)
              [\<lparr>ktp_Key = PolicyServerConfigPoliciesEntry, ktp_Path = policiesFilename\<rparr>]\<rparr>]\<rparr>\<rparr>"

text \<open>Changes of the first container, and of the volumes, of the pod template.\<close>

definition mapAdmissionContainer :: "(Container \<Rightarrow> Container) \<Rightarrow> DeploymentSpec \<Rightarrow> DeploymentSpec" where
  "mapAdmissionContainer f spec = spec\<lparr>dspec_TemplateSpec := (dspec_TemplateSpec spec)\<lparr>pspec_Containers :=
     (case pspec_Containers (dspec_TemplateSpec spec) of [] \<Rightarrow> [] | c # cs \<Rightarrow> f c # cs)\<rparr>\<rparr>"

definition addVolumes :: "Volume list \<Rightarrow> DeploymentSpec \<Rightarrow> DeploymentSpec" where
  "addVolumes vs spec = spec\<lparr>dspec_TemplateSpec := (dspec_TemplateSpec spec)\<lparr>pspec_Volumes :=
     pspec_Volumes (dspec_TemplateSpec spec) @ vs\<rparr>\<rparr>"

definition setOtelCertificateMounts :: "(string \<Rightarrow> string) \<Rightarrow> string \<Rightarrow> string \<Rightarrow> DeploymentSpec \<Rightarrow> DeploymentSpec" where
  "setOtelCertificateMounts getenv otelCertificateSecret otelClientCertificateSecret spec =
     (let mode = Some (of_int defaultOtelCertificateMountMode);
          certificatePath = filepath_Dir (getenv ''OTEL_EXPORTER_OTLP_CERTIFICATE'');
          spec1 = (if otelCertificateSecret \<noteq> '''' then
              mapAdmissionContainer (addMount otelCertificateVolumeName True certificatePath)
                (addVolumes [\<lparr>vol_Name = otelCertificateVolumeName,
                    vol_Source = SecretVolume otelCertificateSecret [] mode\<rparr>] spec)
            else spec);
          clientCertificatePath = filepath_Dir (getenv ''OTEL_EXPORTER_OTLP_CLIENT_CERTIFICATE'')
      in if otelClientCertificateSecret \<noteq> '''' then
           mapAdmissionContainer (addMount otelClientCertificateVolumeName True clientCertificatePath)
             (addVolumes [\<lparr>vol_Name = otelClientCertificateVolumeName,
                 vol_Source = SecretVolume otelClientCertificateSecret [] mode\<rparr>] spec1)
         else spec1)"

definition otelEnvVarToReplicate :: "string list" where
  "otelEnvVarToReplicate =
     [''OTEL_EXPORTER_OTLP_CERTIFICATE'', ''OTEL_EXPORTER_OTLP_CLIENT_CERTIFICATE'',
      ''OTEL_EXPORTER_OTLP_CLIENT_KEY'', ''OTEL_EXPORTER_OTLP_COMPRESSION'',
      ''OTEL_EXPORTER_OTLP_ENDPOINT'', ''OTEL_EXPORTER_OTLP_HEADERS'',
      ''OTEL_EXPORTER_OTLP_INSECURE'', ''OTEL_EXPORTER_OTLP_METRICS_CERTIFICATE'',
      ''OTEL_EXPORTER_OTLP_METRICS_CLIENT_CERTIFICATE'', ''OTEL_EXPORTER_OTLP_METRICS_CLIENT_KEY'',
      ''OTEL_EXPORTER_OTLP_METRICS_COMPRESSION'', ''OTEL_EXPORTER_OTLP_METRICS_DEFAULT_HISTOGRAM_AGGREGATION'',
      ''OTEL_EXPORTER_OTLP_METRICS_ENDPOINT'', ''OTEL_EXPORTER_OTLP_METRICS_HEADERS'',
      ''OTEL_EXPORTER_OTLP_METRICS_INSECURE'', ''OTEL_EXPORTER_OTLP_METRICS_TEMPORALITY_PREFERENCE'',
      ''OTEL_EXPORTER_OTLP_METRICS_TIMEOUT'', ''OTEL_EXPORTER_OTLP_TIMEOUT'',
      ''OTEL_EXPORTER_OTLP_TRACES_CERTIFICATE'', ''OTEL_EXPORTER_OTLP_TRACES_CLIENT_CERTIFICATE'',
      ''OTEL_EXPORTER_OTLP_TRACES_CLIENT_KEY'', ''OTEL_EXPORTER_OTLP_TRACES_COMPRESSION'',
      ''OTEL_EXPORTER_OTLP_TRACES_ENDPOINT'', ''OTEL_EXPORTER_OTLP_TRACES_HEADERS'',
      ''OTEL_EXPORTER_OTLP_TRACES_INSECURE'', ''OTEL_EXPORTER_OTLP_TRACES_TIMEOUT'']"

definition replicateOtelEnvVars :: "(string \<Rightarrow> string) \<Rightarrow> DeploymentSpec \<Rightarrow> DeploymentSpec" where
  "replicateOtelEnvVars getenv spec =
     mapAdmissionContainer (\<lambda>c. foldl (\<lambda>c envVar. if getenv envVar \<noteq> '''' then setEnvVar envVar (getenv envVar) c else c)
       c otelEnvVarToReplicate) spec"

definition adaptDeploymentForMetricsAndTracingConfiguration ::
  "'w PolicyServerReconciler \<Rightarrow> DeploymentSpec \<Rightarrow> DeploymentSpec" where
  "adaptDeploymentForMetricsAndTracingConfiguration r spec =
     (let t = psr_Telemetry r;
          spec1 = (if tc_MetricsEnabled t then mapAdmissionContainer (setEnvVar PolicyServerEnableMetricsEnvVar ''true'') spec else spec);
          spec2 = (if tc_TracingEnabled t then mapAdmissionContainer (setEnvVar PolicyServerLogFmtEnvVar ''otlp'') spec1 else spec1);
          spec3 = (if (tc_MetricsEnabled t \<or> tc_TracingEnabled t) \<and> \<not> tc_OtelSidecarEnabled t then
              replicateOtelEnvVars (psr_Getenv r)
                (setOtelCertificateMounts (psr_Getenv r) (tc_OtelCertificateSecret t) (tc_OtelClientCertificateSecret t) spec2)
            else spec2)
      in if (tc_MetricsEnabled t \<or> tc_TracingEnabled t) \<and> tc_OtelSidecarEnabled t then
           mapAdmissionContainer (setEnvVar ''OTEL_EXPORTER_OTLP_ENDPOINT'' ''http://localhost:4317'')
             (spec3\<lparr>dspec_TemplateAnnotations := goput OptelInjectAnnotation ''true'' (dspec_TemplateAnnotations spec3)\<rparr>)
         else spec3)"

definition adaptDeploymentSettingsForPolicyServer :: "PolicyServer \<Rightarrow> DeploymentSpec \<Rightarrow> DeploymentSpec" where
  "adaptDeploymentSettingsForPolicyServer policyServer spec =
     (let s = ps_Spec policyServer;
          spec1 = (if pss_VerificationConfig s \<noteq> '''' then
              addVolumes [\<lparr>vol_Name = verificationConfigVolumeName, vol_Source = ConfigMapVolume (pss_VerificationConfig s)
                [\<lparr>ktp_Key = PolicyServerVerificationConfigEntry, ktp_Path = verificationFilename\<rparr>]\<rparr>] spec else spec);
          spec2 = (if pss_ImagePullSecret s \<noteq> '''' then
              addVolumes [\<lparr>vol_Name = imagePullSecretVolumeName, vol_Source = SecretVolume (pss_ImagePullSecret s)
                [\<lparr>ktp_Key = ''.dockerconfigjson'', ktp_Path = ''config.json''\<rparr>] None\<rparr>] spec1 else spec1)
      in if pss_InsecureSources s \<noteq> [] \<or> pss_SourceAuthorities s \<noteq> [] then
           addVolumes [\<lparr>vol_Name = sourcesVolumeName, vol_Source = ConfigMapVolume (NameWithPrefix policyServer) []\<rparr>] spec2
         else spec2)"

definition configureMutualTLS :: "'w PolicyServerReconciler \<Rightarrow> DeploymentSpec \<Rightarrow> ('w, DeploymentSpec) op" where
  "configureMutualTLS r spec =
     (if psr_ClientCAConfigMapName r \<noteq> '''' then
        orWrap (r_Get (cl_ConfigMaps (psr_Client r)) (psr_DeploymentsNamespace r, psr_ClientCAConfigMapName r))
          ''failed to fetch client CA config map''
          (\<lambda>_. ok (mapAdmissionContainer
             (\<lambda>c. addEnv ''KUBEWARDEN_CLIENT_CA_FILE''
                 (filepath_Join [kubewardenCAVolumePath, CARootCert] @ '','' @ filepath_Join [clientCAVolumePath, ClientCACert])
                 (addMount clientCAVolumeName True clientCAVolumePath
                   (addMount kubewardenCAVolumeName True kubewardenCAVolumePath c)))
             (addVolumes
               [\<lparr>vol_Name = kubewardenCAVolumeName, vol_Source = SecretVolume CARootSecretName
                   [\<lparr>ktp_Key = CARootCert, ktp_Path = CARootCert\<rparr>] None\<rparr>,
                \<lparr>vol_Name = clientCAVolumeName, vol_Source = ConfigMapVolume (psr_ClientCAConfigMapName r)
                   [\<lparr>ktp_Key = ClientCACert, ktp_Path = ClientCACert\<rparr>]\<rparr>] spec)))
      else ok spec)"

text \<open>The container and the spec before the client CA is looked up.\<close>

definition admissionContainerFor :: "'w PolicyServerReconciler \<Rightarrow> PolicyServer \<Rightarrow> Container" where
  "admissionContainerFor r policyServer =
     (let c0 = getPolicyServerContainer policyServer;
          c1 = (if psr_AlwaysAcceptAdmissionReviewsInDeploymentsNamespace r
                then addEnv ''KUBEWARDEN_ALWAYS_ACCEPT_ADMISSION_REVIEWS_ON_NAMESPACE'' (psr_DeploymentsNamespace r) c0
                else c0);
          c2 = configuresInsecureSources policyServer (configureImagePullSecret policyServer
                 (configureVerificationConfig policyServer c1))
      in c2\<lparr>ct_SecurityContext := (case pssec_Container (pss_SecurityContexts (ps_Spec policyServer)) of
            Some sc \<Rightarrow> Some sc
          | None \<Rightarrow> Some defaultContainerSecurityContext)\<rparr>)"

definition updatePolicyServerDeployment ::
  "'w PolicyServerReconciler \<Rightarrow> PolicyServer \<Rightarrow> string \<Rightarrow> Deployment \<Rightarrow> ('w, Deployment) op" where
  "updatePolicyServerDeployment r policyServer configMapVersion policyServerDeployment =
     (let podSecurityContext = (case pssec_Pod (pss_SecurityContexts (ps_Spec policyServer)) of
            None \<Rightarrow> JObj [] | Some sc \<Rightarrow> sc);
          dep1 = configureLabelsAndAnnotations policyServerDeployment policyServer configMapVersion;
          spec = adaptDeploymentSettingsForPolicyServer policyServer
            (adaptDeploymentForMetricsAndTracingConfiguration r
              (buildPolicyServerDeploymentSpec policyServer (admissionContainerFor r policyServer) configMapVersion
                 (pss_Annotations (ps_Spec policyServer)) podSecurityContext))
      in orWrap (configureMutualTLS r spec) ''failed to configure mutual TLS''
           (\<lambda>spec'. case lib_SetOwnerReference (psr_Lib r) (ps_Meta policyServer) (dep_Meta dep1) of
              Inl err \<Rightarrow> fail (errors_Join ''failed to set policy server deployment owner reference'' err)
            | Inr m \<Rightarrow> ok (dep1\<lparr>dep_Spec := Some spec', dep_Meta := m\<rparr>)))"

definition reconcilePolicyServerDeployment :: "'w PolicyServerReconciler \<Rightarrow> PolicyServer \<Rightarrow> ('w, unit) op" where
  "reconcilePolicyServerDeployment r policyServer =
     orWrap (policyServerConfigMapVersion r policyServer) ''cannot get policy-server ConfigMap version''
       (\<lambda>configMapVersion.
          orWrap (r_CreateOrPatch (cl_Deployments (psr_Client r))
              \<lparr>dep_Meta = namedMeta (psr_DeploymentsNamespace r) (NameWithPrefix policyServer), dep_Spec = None\<rparr>
              (updatePolicyServerDeployment r policyServer configMapVersion))
            ''error reconciling policy-server deployment'' (\<lambda>_. ok ()))"

section \<open>Volumes and mounts\<close>

definition volumeNames :: "DeploymentSpec \<Rightarrow> string list" where
  "volumeNames spec = map vol_Name (pspec_Volumes (dspec_TemplateSpec spec))"

definition mountsOf :: "Container \<Rightarrow> string list" where
  "mountsOf c = map vm_Name (ct_VolumeMounts c)"

definition mountNames :: "DeploymentSpec \<Rightarrow> string list" where
  "mountNames spec = concat (map mountsOf (pspec_Containers (dspec_TemplateSpec spec)))"

definition oneContainer :: "DeploymentSpec \<Rightarrow> bool" where
  "oneContainer spec \<longleftrightarrow> length (pspec_Containers (dspec_TemplateSpec spec)) = 1"

named_theorems pod_simps "volumes and mounts of the parts of the pod template"

lemma mountsOf_add [pod_simps]:
  "mountsOf (addMount n ro p c) = mountsOf c @ [n]" "mountsOf (addEnv n v c) = mountsOf c"
  by (simp_all add: mountsOf_def addMount_def addEnv_def)

lemma mountsOf_setEnvVar [pod_simps]: "mountsOf (setEnvVar n v c) = mountsOf c"
  by (simp add: setEnvVar_def mountsOf_add split: option.split) (simp add: mountsOf_def)

lemma mountsOf_foldl_setEnvVar [pod_simps]:
  "mountsOf (foldl (\<lambda>c x. if P x then setEnvVar x (f x) c else c) c xs) = mountsOf c"
  by (induction xs arbitrary: c) (simp_all add: mountsOf_setEnvVar)

lemma volumeNames_add [pod_simps]:
  "volumeNames (addVolumes vs spec) = volumeNames spec @ map vol_Name vs"
  "volumeNames (mapAdmissionContainer f spec) = volumeNames spec"
  "volumeNames (spec\<lparr>dspec_TemplateAnnotations := a\<rparr>) = volumeNames spec"
  by (simp_all add: volumeNames_def addVolumes_def mapAdmissionContainer_def)

lemma oneContainer_add [pod_simps]:
  "oneContainer (addVolumes vs spec) = oneContainer spec"
  "oneContainer (mapAdmissionContainer f spec) = oneContainer spec"
  "oneContainer (spec\<lparr>dspec_TemplateAnnotations := a\<rparr>) = oneContainer spec"
  by (auto simp: oneContainer_def addVolumes_def mapAdmissionContainer_def split: list.split)

lemma mountNames_add [pod_simps]:
  "mountNames (addVolumes vs spec) = mountNames spec"
  "mountNames (spec\<lparr>dspec_TemplateAnnotations := a\<rparr>) = mountNames spec"
  by (simp_all add: mountNames_def addVolumes_def)

text \<open>A change of the only container that adds the mounts \<open>ns\<close>.\<close>

lemma mountNames_map:
  assumes "oneContainer spec" "\<And>c. mountsOf (f c) = mountsOf c @ ns"
  shows "mountNames (mapAdmissionContainer f spec) = mountNames spec @ ns"
  using assms by (auto simp: oneContainer_def mountNames_def mapAdmissionContainer_def length_Suc_conv)

lemmas mountNames_env = mountNames_map [where ns = "[]", simplified]

lemma mountNames_addMount [pod_simps]:
  "oneContainer spec \<Longrightarrow> mountNames (mapAdmissionContainer (addMount n ro p) spec) = mountNames spec @ [n]"
  by (rule mountNames_map) (simp_all add: pod_simps)

lemma mountNames_setEnvVar [pod_simps]:
  "oneContainer spec \<Longrightarrow> mountNames (mapAdmissionContainer (setEnvVar n v) spec) = mountNames spec"
  by (rule mountNames_env) (simp_all add: pod_simps)

lemma replicateOtelEnvVars_pod [pod_simps]:
  "volumeNames (replicateOtelEnvVars env spec) = volumeNames spec"
  "oneContainer (replicateOtelEnvVars env spec) = oneContainer spec"
  "oneContainer spec \<Longrightarrow> mountNames (replicateOtelEnvVars env spec) = mountNames spec"
  by (simp_all add: replicateOtelEnvVars_def pod_simps mountNames_env del: foldl_Cons)

definition otelVolumes :: "string \<Rightarrow> string \<Rightarrow> string list" where
  "otelVolumes cert clientCert = (if cert \<noteq> '''' then [otelCertificateVolumeName] else [])
     @ (if clientCert \<noteq> '''' then [otelClientCertificateVolumeName] else [])"

lemma setOtelCertificateMounts_pod [pod_simps]:
  "volumeNames (setOtelCertificateMounts env cert cc spec) = volumeNames spec @ otelVolumes cert cc"
  "oneContainer (setOtelCertificateMounts env cert cc spec) = oneContainer spec"
  "oneContainer spec \<Longrightarrow> mountNames (setOtelCertificateMounts env cert cc spec) = mountNames spec @ otelVolumes cert cc"
  by (simp_all add: setOtelCertificateMounts_def Let_def otelVolumes_def pod_simps)

definition telemetryVolumes :: "TelemetryConfiguration \<Rightarrow> string list" where
  "telemetryVolumes t = (if (tc_MetricsEnabled t \<or> tc_TracingEnabled t) \<and> \<not> tc_OtelSidecarEnabled t
     then otelVolumes (tc_OtelCertificateSecret t) (tc_OtelClientCertificateSecret t) else [])"

lemma adaptTelemetry_pod [pod_simps]:
  "volumeNames (adaptDeploymentForMetricsAndTracingConfiguration r spec) =
     volumeNames spec @ telemetryVolumes (psr_Telemetry r)"
  "oneContainer (adaptDeploymentForMetricsAndTracingConfiguration r spec) = oneContainer spec"
  "oneContainer spec \<Longrightarrow> mountNames (adaptDeploymentForMetricsAndTracingConfiguration r spec) =
     mountNames spec @ telemetryVolumes (psr_Telemetry r)"
  by (auto simp: adaptDeploymentForMetricsAndTracingConfiguration_def Let_def telemetryVolumes_def pod_simps)

definition settingsVolumes :: "PolicyServerSpec \<Rightarrow> string list" where
  "settingsVolumes s =
     (if pss_VerificationConfig s \<noteq> '''' then [verificationConfigVolumeName] else [])
     @ (if pss_ImagePullSecret s \<noteq> '''' then [imagePullSecretVolumeName] else [])
     @ (if pss_InsecureSources s \<noteq> [] \<or> pss_SourceAuthorities s \<noteq> [] then [sourcesVolumeName] else [])"

lemma adaptSettings_pod [pod_simps]:
  "volumeNames (adaptDeploymentSettingsForPolicyServer ps spec) = volumeNames spec @ settingsVolumes (ps_Spec ps)"
  "oneContainer (adaptDeploymentSettingsForPolicyServer ps spec) = oneContainer spec"
  "mountNames (adaptDeploymentSettingsForPolicyServer ps spec) = mountNames spec"
  by (simp_all add: adaptDeploymentSettingsForPolicyServer_def Let_def settingsVolumes_def pod_simps)

lemma mountsOf_admissionContainerFor [pod_simps]:
  "mountsOf (admissionContainerFor r ps) =
     [certsVolumeName, policiesVolumeName, policyStoreVolume] @ settingsVolumes (ps_Spec ps)"
proof -
  have sc: "mountsOf (c\<lparr>ct_SecurityContext := x\<rparr>) = mountsOf c" for c x by (simp add: mountsOf_def)
  have base: "mountsOf (getPolicyServerContainer ps) = [certsVolumeName, policiesVolumeName, policyStoreVolume]"
    by (simp add: mountsOf_def getPolicyServerContainer_def)
  show ?thesis
    by (simp add: admissionContainerFor_def Let_def sc base configuresInsecureSources_def configureImagePullSecret_def
        configureVerificationConfig_def settingsVolumes_def pod_simps)
qed

lemma buildSpec_pod [pod_simps]:
  "volumeNames (buildPolicyServerDeploymentSpec ps c v a sc) = [policyStoreVolume, certsVolumeName, policiesVolumeName]"
  "oneContainer (buildPolicyServerDeploymentSpec ps c v a sc)"
  "mountNames (buildPolicyServerDeploymentSpec ps c v a sc) = mountsOf c"
  by (simp_all add: volumeNames_def oneContainer_def mountNames_def buildPolicyServerDeploymentSpec_def)

definition tlsVolumes :: "'w PolicyServerReconciler \<Rightarrow> string list" where
  "tlsVolumes r = (if psr_ClientCAConfigMapName r \<noteq> '''' then [kubewardenCAVolumeName, clientCAVolumeName] else [])"

lemma dspec_labels_keep:
  "dspec_Selector (mapAdmissionContainer f spec) = dspec_Selector spec"
  "dspec_TemplateLabels (mapAdmissionContainer f spec) = dspec_TemplateLabels spec"
  "dspec_Selector (addVolumes vs spec) = dspec_Selector spec"
  "dspec_TemplateLabels (addVolumes vs spec) = dspec_TemplateLabels spec"
  by (simp_all add: mapAdmissionContainer_def addVolumes_def)

lemma configureMutualTLS_pod:
  assumes "run_state (configureMutualTLS r spec) w = (Inr spec', w')" "oneContainer spec"
  shows "volumeNames spec' = volumeNames spec @ tlsVolumes r" "mountNames spec' = mountNames spec @ tlsVolumes r"
    "dspec_Selector spec' = dspec_Selector spec" "dspec_TemplateLabels spec' = dspec_TemplateLabels spec"
proof -
  have mounts: "mountNames (mapAdmissionContainer (\<lambda>c. addEnv n v (addMount a b d (addMount e f g c))) s) = mountNames s @ [e, a]"
    if "oneContainer s" for n v a b d e f g s
    using that by (intro mountNames_map) (simp_all add: pod_simps)
  note step = configureMutualTLS_def run_orWrap tlsVolumes_def
  show "volumeNames spec' = volumeNames spec @ tlsVolumes r" "mountNames spec' = mountNames spec @ tlsVolumes r"
    using assms by (auto simp: step pod_simps mounts split: if_splits prod.splits sum.splits)
  show "dspec_Selector spec' = dspec_Selector spec" "dspec_TemplateLabels spec' = dspec_TemplateLabels spec"
    using assms(1) by (auto simp: step dspec_labels_keep split: if_splits prod.splits sum.splits)
qed

section \<open>The spec that is written\<close>

definition baseSpec :: "'w PolicyServerReconciler \<Rightarrow> PolicyServer \<Rightarrow> string \<Rightarrow> DeploymentSpec" where
  "baseSpec r ps v = adaptDeploymentSettingsForPolicyServer ps
     (adaptDeploymentForMetricsAndTracingConfiguration r
       (buildPolicyServerDeploymentSpec ps (admissionContainerFor r ps) v (pss_Annotations (ps_Spec ps))
         (case pssec_Pod (pss_SecurityContexts (ps_Spec ps)) of None \<Rightarrow> JObj [] | Some sc \<Rightarrow> sc)))"

lemma updatePolicyServerDeployment_cases:
  assumes "run_state (updatePolicyServerDeployment r ps v dep) w = (Inr dep', w')"
  obtains spec m where "run_state (configureMutualTLS r (baseSpec r ps v)) w = (Inr spec, w')"
    "lib_SetOwnerReference (psr_Lib r) (ps_Meta ps) (dep_Meta (configureLabelsAndAnnotations dep ps v)) = Inr m"
    "dep_Spec dep' = Some spec" "dep_Meta dep' = m"
  using assms
  by (auto simp: updatePolicyServerDeployment_def Let_def baseSpec_def [symmetric] run_orWrap
      split: prod.splits sum.splits)

lemma baseSpec_pod:
  "oneContainer (baseSpec r ps v)"
  "volumeNames (baseSpec r ps v) = [policyStoreVolume, certsVolumeName, policiesVolumeName]
     @ telemetryVolumes (psr_Telemetry r) @ settingsVolumes (ps_Spec ps)"
  "mountNames (baseSpec r ps v) = [certsVolumeName, policiesVolumeName, policyStoreVolume]
     @ settingsVolumes (ps_Spec ps) @ telemetryVolumes (psr_Telemetry r)"
  by (simp_all add: baseSpec_def pod_simps)

lemma baseSpec_labels:
  "dspec_Selector (baseSpec r ps v) = [(AppLabelKey, AppLabel ps)]"
  "dspec_TemplateLabels (baseSpec r ps v) = [(AppLabelKey, AppLabel ps),
     (PolicyServerDeploymentPodSpecConfigVersionLabel, v), (PolicyServerLabelKey, ps_Name ps)]"
  by (simp_all add: baseSpec_def adaptDeploymentSettingsForPolicyServer_def
      adaptDeploymentForMetricsAndTracingConfiguration_def setOtelCertificateMounts_def replicateOtelEnvVars_def
      Let_def dspec_labels_keep buildPolicyServerDeploymentSpec_def del: foldl_Cons)

section \<open>Properties\<close>

text \<open>C19.
  The pod template of a policy server is consistent for every configuration: the names of its
  volumes are distinct, the container mounts every volume once, and mounts no volume that is not
  there.\<close>

theorem pod_volumes_match_mounts:
  assumes run: "run_state (updatePolicyServerDeployment r ps v dep) w = (Inr dep', w')"
  shows "\<exists>spec. dep_Spec dep' = Some spec \<and> distinct (volumeNames spec) \<and> distinct (mountNames spec) \<and>
    set (mountNames spec) = set (volumeNames spec)"
  using run
proof (cases rule: updatePolicyServerDeployment_cases)
  case (1 spec m)
  note pod = configureMutualTLS_pod(1,2) [OF 1(1) baseSpec_pod(1)] baseSpec_pod(2,3)
  have "set (mountNames spec) = set (volumeNames spec)" by (auto simp: pod)
  moreover have "distinct (volumeNames spec)" "distinct (mountNames spec)"
    by (auto simp: pod telemetryVolumes_def settingsVolumes_def tlsVolumes_def otelVolumes_def deployment_names)
  ultimately show ?thesis using 1 by blast
qed

definition sampleNewDeployment :: "string \<Rightarrow> Deployment" where
  "sampleNewDeployment n = \<lparr>dep_Meta = namedMeta ''kubewarden'' n, dep_Spec = None\<rparr>"

lemma updatePolicyServerDeployment_sample:
  "\<exists>dep. run_state (updatePolicyServerDeployment refPSR (samplePolicyServer n) v (sampleNewDeployment n')) w = (Inr dep, w)"
  by (simp add: updatePolicyServerDeployment_def Let_def run_orWrap configureMutualTLS_def refPSR_def refLib_def
      refSetOwnerReference_def samplePolicyServer_def sampleNewDeployment_def namedMeta_def emptyMeta_def
      configureLabelsAndAnnotations_def)

theorem pod_volumes_match_mounts_witness:
  "\<exists>dep spec. run_state (updatePolicyServerDeployment refPSR (samplePolicyServer ''s'') ''7'' (sampleNewDeployment ''s'')) emptyCluster =
       (Inr dep, emptyCluster) \<and> dep_Spec dep = Some spec \<and> set (mountNames spec) = set (volumeNames spec)"
proof -
  obtain dep where dep: "run_state (updatePolicyServerDeployment refPSR (samplePolicyServer ''s'') ''7'' (sampleNewDeployment ''s''))
      emptyCluster = (Inr dep, emptyCluster)"
    using updatePolicyServerDeployment_sample by blast
  with pod_volumes_match_mounts [OF dep] show ?thesis by blast
qed

text \<open>
  Setting an environment variable of the container replaces the first one of that name or appends
  it: afterwards the first variable of that name has the value, the variables of every other
  name are as before and in the same order, and no second one of that name was added.\<close>

theorem setEnvVar_sets:
  "find (\<lambda>e. ev_Name e = n) (ct_Env (setEnvVar n v c)) = Some \<lparr>ev_Name = n, ev_Value = v\<rparr> \<and>
   filter (\<lambda>e. ev_Name e \<noteq> n) (ct_Env (setEnvVar n v c)) = filter (\<lambda>e. ev_Name e \<noteq> n) (ct_Env c) \<and>
   length (filter (\<lambda>e. ev_Name e = n) (ct_Env (setEnvVar n v c))) = max 1 (length (filter (\<lambda>e. ev_Name e = n) (ct_Env c)))"
proof (cases "envVarsContainVariable (ct_Env c) n")
  case None
  then have none: "\<forall>e\<in>set (ct_Env c). ev_Name e \<noteq> n"
    by (simp add: envVarsContainVariable_def firstIndex_None)
  then have "filter (\<lambda>e. ev_Name e = n) (ct_Env c) = []" by simp
  then show ?thesis using None none by (simp add: setEnvVar_def addEnv_def find_append_none)
next
  case (Some i)
  then have i: "i < length (ct_Env c)" "ev_Name (ct_Env c ! i) = n" "\<forall>j<i. ev_Name (ct_Env c ! j) \<noteq> n"
    by (simp_all add: envVarsContainVariable_def firstIndex_Some)
  define a where "a = take i (ct_Env c)"
  define b where "b = drop (Suc i) (ct_Env c)"
  have env: "ct_Env c = a @ ct_Env c ! i # b" "(ct_Env c)[i := e] = a @ e # b" for e
    using i(1) by (simp_all add: a_def b_def id_take_nth_drop [symmetric] upd_conv_take_nth_drop)
  have a: "\<forall>e\<in>set a. ev_Name e \<noteq> n"
    using i by (auto simp: a_def in_set_conv_nth)
  then have fa: "filter (\<lambda>e. ev_Name e = n) a = []" "find (\<lambda>e. ev_Name e = n) (a @ xs) = find (\<lambda>e. ev_Name e = n) xs" for xs
    by (simp_all add: find_append_none)
  have new: "ct_Env (setEnvVar n v c) = a @ \<lparr>ev_Name = n, ev_Value = v\<rparr> # b"
    using Some by (simp add: setEnvVar_def env(2))
  have old: "filter P (ct_Env c) = filter P a @ filter P [ct_Env c ! i] @ filter P b" for P
    by (subst env(1)) simp
  show ?thesis by (simp add: new old fa i(2))
qed

end
