(* ===== verification/PolicyServer_Reconciler.thy ===== *)
theory PolicyServer_Reconciler
  imports Deployment_Spec Policy_Reconciler
begin

text \<open>
  The reconciler of policy servers: \<open>internal/controller/policyserver_controller.go\<close> and its parts for
  the certificate secret, the PodDisruptionBudget and the Service. The function that follows
  the read of the policy server, \<open>reconcileServer\<close>, returns the in-memory object beside its result, so
  that the conditions it sets can be told from those it stores.
\<close>

section \<open>Conditions\<close>

definition setFalseConditionType :: "kube_lib \<Rightarrow> string \<Rightarrow> string \<Rightarrow> PolicyServer \<Rightarrow> PolicyServer" where
  "setFalseConditionType lib conditionType message ps =
     ps\<lparr>ps_Status := (ps_Status ps)\<lparr>psst_Conditions :=
       setCondition lib conditionType ConditionFalse ReconciliationFailed message (psst_Conditions (ps_Status ps))\<rparr>\<rparr>"

definition setTrueConditionType :: "kube_lib \<Rightarrow> string \<Rightarrow> PolicyServer \<Rightarrow> PolicyServer" where
  "setTrueConditionType lib conditionType ps =
     ps\<lparr>ps_Status := (ps_Status ps)\<lparr>psst_Conditions :=
       setCondition lib conditionType ConditionTrue ReconciliationSucceeded '''' (psst_Conditions (ps_Status ps))\<rparr>\<rparr>"

section \<open>The certificate secret\<close>

definition updateCertSecret ::
  "'w PolicyServerReconciler \<Rightarrow> PolicyServer \<Rightarrow> Secret \<Rightarrow> Secret \<Rightarrow> ('w, Secret) op" where
  "updateCertSecret r policyServer caSecret policyServerSecret =
     (case lib_SetOwnerReference (psr_Lib r) (ps_Meta policyServer) (sec_Meta policyServerSecret) of
        Inl err \<Rightarrow> fail (errors_Join ''failed to set policy server secret owner reference'' err)
      | Inr m \<Rightarrow>
          let s1 = policyServerSecret\<lparr>sec_Meta := m\<lparr>om_Labels :=
                [(PartOfLabelKey, PartOfLabelValue), (ComponentLabelKey, ComponentPolicyServerLabelValue)]\<rparr>\<rparr>;
              hasTLSCert = (goget (sec_Data s1) ServerCert \<noteq> None);
              hasTLSKey = (goget (sec_Data s1) ServerPrivateKey \<noteq> None)
          in if \<not> hasTLSCert \<or> \<not> hasTLSKey then
               (case ExtractCARootFromSecret caSecret of
                  Inl err \<Rightarrow> fail err
                | Inr (caCert, caPrivateKey) \<Rightarrow>
                    State_Monad.bind (cr_Now (psr_Crypto r)) (\<lambda>now1.
                    State_Monad.bind (cr_Now (psr_Crypto r)) (\<lambda>now2.
                      orWrap (GenerateCert (psr_Crypto r) caCert caPrivateKey now1 (now2 + ServerCertExpiration)
                          (NameWithPrefix policyServer @ ''.'' @ psr_DeploymentsNamespace r @ ''.svc''))
                        (''cannot generate policy-server '' @ NameWithPrefix policyServer @ '' certificate'')
                        (\<lambda>(cert, privateKey). ok (s1\<lparr>sec_Type := ''Opaque'',
                           sec_StringData := [(ServerCert, cert), (ServerPrivateKey, privateKey)]\<rparr>)))))
             else ok s1)"

definition reconcilePolicyServerCertSecret ::
  "'w PolicyServerReconciler \<Rightarrow> PolicyServer \<Rightarrow> ('w, go_error option \<times> PolicyServer) state" where
  "reconcilePolicyServerCertSecret r policyServer =
     andThen (r_Get (cl_Secrets (psr_Client r)) (psr_DeploymentsNamespace r, CARootSecretName))
       (\<lambda>err. ret (Some (Wrap ''failed to fetch CA secret'' err), policyServer))
       (\<lambda>caSecret.
          andThen (r_CreateOrPatch (cl_Secrets (psr_Client r))
              \<lparr>sec_Meta = namedMeta (psr_DeploymentsNamespace r) (NameWithPrefix policyServer), sec_Type = '''',
               sec_Data = [], sec_StringData = []\<rparr>
              (updateCertSecret r policyServer caSecret))
            (\<lambda>err. ret (Some (errors_Join ''cannot fetch or initialize Policy Server CA secret'' err),
               setFalseConditionType (psr_Lib r) PolicyServerCertSecretReconciled
                 (''error reconciling secret: '' @ psr_Error r err) policyServer))
            (\<lambda>_. ret (None, setTrueConditionType (psr_Lib r) PolicyServerCertSecretReconciled policyServer)))"

section \<open>The PodDisruptionBudget\<close>

definition deletePodDisruptionBudget :: "'w client \<Rightarrow> PolicyServer \<Rightarrow> string \<Rightarrow> ('w, unit) op" where
  "deletePodDisruptionBudget k8s policyServer namespace =
     andThen (r_Delete (cl_PodDisruptionBudgets k8s)
         \<lparr>pdb_Meta = namedMeta namespace (NameWithPrefix policyServer), pdb_Selector = None,
          pdb_MinAvailable = None, pdb_MaxUnavailable = None\<rparr>)
       (\<lambda>e. case IgnoreNotFound e of
              None \<Rightarrow> ok ()
            | Some err \<Rightarrow> fail (errors_Join ''failed to delete PodDisruptionBudget'' err))
       (\<lambda>_. ok ())"

definition updatePodDisruptionBudget ::
  "kube_lib \<Rightarrow> PolicyServer \<Rightarrow> string \<Rightarrow> PodDisruptionBudget \<Rightarrow> go_error + PodDisruptionBudget" where
  "updatePodDisruptionBudget lib policyServer namespace pdb =
     (let m = (pdb_Meta pdb)\<lparr>om_Name := NameWithPrefix policyServer, om_Namespace := namespace\<rparr> in
      case lib_SetOwnerReference lib (ps_Meta policyServer) m of
        Inl err \<Rightarrow> Inl (errors_Join ''failed to set policy server PDB owner reference'' err)
      | Inr m' \<Rightarrow>
          let pdb1 = pdb\<lparr>pdb_Meta := m', pdb_Selector := Some \<lparr>ls_MatchLabels =
                [(AppLabelKey, AppLabel policyServer), (PolicyServerLabelKey, ps_Name policyServer)],
                ls_MatchExpressions = []\<rparr>\<rparr>
          in Inr (case pss_MinAvailable (ps_Spec policyServer) of
               Some mn \<Rightarrow> pdb1\<lparr>pdb_MinAvailable := Some mn, pdb_MaxUnavailable := None\<rparr>
             | None \<Rightarrow> pdb1\<lparr>pdb_MaxUnavailable := pss_MaxUnavailable (ps_Spec policyServer), pdb_MinAvailable := None\<rparr>))"

definition reconcilePodDisruptionBudget :: "'w client \<Rightarrow> kube_lib \<Rightarrow> PolicyServer \<Rightarrow> string \<Rightarrow> ('w, unit) op" where
  "reconcilePodDisruptionBudget k8s lib policyServer namespace =
     andThen (r_CreateOrPatch (cl_PodDisruptionBudgets k8s)
         \<lparr>pdb_Meta = namedMeta namespace (NameWithPrefix policyServer), pdb_Selector = None,
          pdb_MinAvailable = None, pdb_MaxUnavailable = None\<rparr>
         (\<lambda>pdb. lift_result (updatePodDisruptionBudget lib policyServer namespace pdb)))
       (\<lambda>err. fail (errors_Join ''failed to create or update PodDisruptionBudget'' err)) (\<lambda>_. ok ())"

definition reconcilePolicyServerPodDisruptionBudget ::
  "'w PolicyServerReconciler \<Rightarrow> PolicyServer \<Rightarrow> ('w, unit) op" where
  "reconcilePolicyServerPodDisruptionBudget r policyServer =
     (if pss_MinAvailable (ps_Spec policyServer) \<noteq> None \<or> pss_MaxUnavailable (ps_Spec policyServer) \<noteq> None
      then reconcilePodDisruptionBudget (psr_Client r) (psr_Lib r) policyServer (psr_DeploymentsNamespace r)
      else deletePodDisruptionBudget (psr_Client r) policyServer (psr_DeploymentsNamespace r))"

section \<open>The Service\<close>

text \<open>\<open>None\<close>: the process leaves with \<open>os.Exit(1)\<close>.\<close>

definition getMetricsPort :: "(string \<Rightarrow> string) \<Rightarrow> int32 option" where
  "getMetricsPort getenv =
     (let envMetricsPort = getenv PolicyServerMetricsPortEnvVar in
      if envMetricsPort \<noteq> '''' then map_option of_int (ParseInt32 envMetricsPort)
      else Some (of_int PolicyServerMetricsPort))"

definition updateService :: "'w PolicyServerReconciler \<Rightarrow> PolicyServer \<Rightarrow> Service \<Rightarrow> go_error + Service" where
  "updateService r policyServer svc =
     (let m = (svc_Meta svc)\<lparr>om_Name := NameWithPrefix policyServer, om_Namespace := psr_DeploymentsNamespace r,
            om_Labels := [(AppLabelKey, AppLabel policyServer)]\<rparr>;
          base = [\<lparr>sp_Name = ''policy-server'', sp_Port = of_int PolicyServerPort,
                   sp_TargetPort = Some (IntVal (of_int PolicyServerPort)), sp_Protocol = ''TCP''\<rparr>];
          ports = (if tc_MetricsEnabled (psr_Telemetry r) then
              map_option (\<lambda>p. base @ [\<lparr>sp_Name = ''metrics'', sp_Port = p, sp_TargetPort = None, sp_Protocol = ''TCP''\<rparr>])
                (getMetricsPort (psr_Getenv r))
            else Some base)
      in case ports of
           None \<Rightarrow> Inl (Aborted ''exit status 1'')
         | Some ps \<Rightarrow>
             (case lib_SetOwnerReference (psr_Lib r) (ps_Meta policyServer) m of
                Inl err \<Rightarrow> Inl (errors_Join ''failed to set policy server service owner reference'' err)
              | Inr m' \<Rightarrow> Inr \<lparr>svc_Meta = m', svc_Ports = ps,
                  svc_Selector = [(AppLabelKey, AppLabel policyServer)]\<rparr>))"

definition reconcilePolicyServerService :: "'w PolicyServerReconciler \<Rightarrow> PolicyServer \<Rightarrow> ('w, unit) op" where
  "reconcilePolicyServerService r policyServer =
     orWrap (r_CreateOrPatch (cl_Services (psr_Client r))
         \<lparr>svc_Meta = namedMeta (psr_DeploymentsNamespace r) (NameWithPrefix policyServer), svc_Ports = [], svc_Selector = []\<rparr>
         (\<lambda>svc. lift_result (updateService r policyServer svc)))
       ''cannot reconcile policy-server service'' (\<lambda>_. ok ())"

section \<open>The policies of a policy server\<close>

text \<open>
  The test that the source makes after each \<open>List\<close> call: only a "not found" error is returned; after
  any other error it goes on with the list that the call left empty.
\<close>

definition listPolicies ::
  "('w, 'o) resource \<Rightarrow> string \<Rightarrow> PolicyServer \<Rightarrow> ('o list \<Rightarrow> ('w, 'b) op) \<Rightarrow> ('w, 'b) op" where
  "listPolicies res what policyServer f =
     andThen (r_List res (matchingFields [(PolicyServerIndexKey, ps_Name policyServer)]))
       (\<lambda>err. if IsNotFound err then fail (Wrap (''failed obtaining '' @ what) err) else f [])
       f"

definition getPolicies :: "'w PolicyServerReconciler \<Rightarrow> PolicyServer \<Rightarrow> ('w, Policy list) op" where
  "getPolicies r policyServer =
     listPolicies (cl_ClusterAdmissionPolicies (psr_Client r)) ''ClusterAdmissionPolicies'' policyServer (\<lambda>caps.
     listPolicies (cl_AdmissionPolicies (psr_Client r)) ''AdmissionPolicies'' policyServer (\<lambda>aps.
     listPolicies (cl_AdmissionPolicyGroups (psr_Client r)) ''AdmissionPolicyGroups'' policyServer (\<lambda>apgs.
     listPolicies (cl_ClusterAdmissionPolicyGroups (psr_Client r)) ''ClusterAdmissionPolicyGroups'' policyServer (\<lambda>capgs.
       ok (map CAP caps @ map AP aps @ map APG apgs @ map CAPG capgs)))))"

section \<open>Deletion\<close>

text \<open>The loop of \<open>deletePoliciesAndRequeue\<close>: the errors of the calls that failed.\<close>

fun deletePolicies :: "'w client \<Rightarrow> Policy list \<Rightarrow> go_error list \<Rightarrow> ('w, go_error list) state" where
  "deletePolicies c [] deleteError = ret deleteError"
| "deletePolicies c (policy # policies) deleteError =
     (if GetDeletionTimestamp policy \<noteq> None then deletePolicies c policies deleteError
      else andThen (policyDelete c policy)
        (\<lambda>err. deletePolicies c policies (if \<not> IsNotFound err then deleteError @ [err] else deleteError))
        (\<lambda>_. deletePolicies c policies deleteError))"

definition deletePoliciesAndRequeue ::
  "'w PolicyServerReconciler \<Rightarrow> PolicyServer \<Rightarrow> Policy list \<Rightarrow> ('w, Result) op" where
  "deletePoliciesAndRequeue r policyServer policies =
     State_Monad.bind (deletePolicies (psr_Client r) policies [])
       (\<lambda>deleteError. if deleteError \<noteq> [] then
            fail (NewError (''could not remove all policies bound to policy server '' @ ps_Name policyServer))
          else ok (emptyResult\<lparr>Requeue := True\<rparr>))"

definition reconcileDeletion ::
  "'w PolicyServerReconciler \<Rightarrow> PolicyServer \<Rightarrow> Policy list \<Rightarrow> ('w, Result) op" where
  "reconcileDeletion r policyServer policies =
     (if policies \<noteq> [] then deletePoliciesAndRequeue r policyServer policies
      else andThen (r_Update (cl_PolicyServers (psr_Client r))
             (policyServer\<lparr>ps_Meta := removeFinalizers (psr_Lib r) (ps_Meta policyServer)\<rparr>))
           (\<lambda>err. if IsConflict err then ok emptyResult else fail (Wrap ''cannot update policy server'' err))
           (\<lambda>_. ok emptyResult))"

section \<open>Reconcile\<close>

text \<open>
  One step of \<open>Reconcile\<close> with its condition: on an error the condition is set to false on the
  in-memory object and the error is returned, else it is set to true and the next step runs.
\<close>

definition conditionStep ::
  "'w PolicyServerReconciler \<Rightarrow> (PolicyServer \<Rightarrow> ('w, unit) op) \<Rightarrow> string \<Rightarrow> string \<Rightarrow>
   (PolicyServer \<Rightarrow> ('w, (go_error + Result) \<times> PolicyServer) state) \<Rightarrow>
   PolicyServer \<Rightarrow> ('w, (go_error + Result) \<times> PolicyServer) state" where
  "conditionStep r step conditionType message next policyServer =
     andThen (step policyServer)
       (\<lambda>err. ret (Inl err, setFalseConditionType (psr_Lib r) conditionType (message @ psr_Error r err) policyServer))
       (\<lambda>_. next (setTrueConditionType (psr_Lib r) conditionType policyServer))"

definition reconcileServer ::
  "'w PolicyServerReconciler \<Rightarrow> PolicyServer \<Rightarrow> ('w, (go_error + Result) \<times> PolicyServer) state" where
  "reconcileServer r policyServer =
     andThen (getPolicies r policyServer)
       (\<lambda>err. ret (Inl (errors_Join ''could not get policies'' err), policyServer))
       (\<lambda>policies.
          if om_DeletionTimestamp (ps_Meta policyServer) \<noteq> None then
            State_Monad.bind (reconcileDeletion r policyServer policies) (\<lambda>res. ret (res, policyServer))
          else State_Monad.bind (reconcilePolicyServerCertSecret r policyServer) (\<lambda>(certErr, ps1).
            case certErr of
              Some err \<Rightarrow> ret (Inl err, ps1)
            | None \<Rightarrow>
                conditionStep r (\<lambda>ps. reconcilePolicyServerConfigMap r ps policies)
                  PolicyServerConfigMapReconciled ''error reconciling configmap: ''
                (conditionStep r (reconcilePolicyServerPodDisruptionBudget r)
                  PolicyServerPodDisruptionBudgetReconciled ''error reconciling policy server PodDisruptionBudget: ''
                (conditionStep r (reconcilePolicyServerDeployment r)
                  PolicyServerDeploymentReconciled ''error reconciling deployment: ''
                (conditionStep r (reconcilePolicyServerService r)
                  PolicyServerServiceReconciled ''error reconciling service: ''
                (\<lambda>ps. andThen (r_StatusUpdate (cl_PolicyServers (psr_Client r)) ps)
                   (\<lambda>err. ret (Inl (Wrap ''update policy server status error'' err), ps))
                   (\<lambda>ps'. ret (Inr emptyResult, ps')))))) ps1))"

definition PolicyServerReconciler_Reconcile :: "'w PolicyServerReconciler \<Rightarrow> Request \<Rightarrow> ('w, Result) op" where
  "PolicyServerReconciler_Reconcile r req =
     andThen (r_Get (cl_PolicyServers (psr_Client r)) req) ignoreNotFoundResult
       (\<lambda>policyServer. State_Monad.bind (reconcileServer r policyServer) (\<lambda>(res, _). ret res))"

section \<open>Which policy server an event concerns\<close>

definition enqueueAdmissionPolicy :: "client_object \<Rightarrow> Request list" where
  "enqueueAdmissionPolicy object =
     (case object of ObjPolicy (AP p) \<Rightarrow> [('''', spec_PolicyServer (aps_PolicySpec (ap_Spec p)))] | _ \<Rightarrow> [])"

definition enqueueAdmissionPolicyGroup :: "client_object \<Rightarrow> Request list" where
  "enqueueAdmissionPolicyGroup object =
     (case object of ObjPolicy (APG p) \<Rightarrow> [('''', gspec_PolicyServer (pgs_GroupSpec (apgs_PolicyGroupSpec (apg_Spec p))))] | _ \<Rightarrow> [])"

definition enqueueClusterAdmissionPolicy :: "client_object \<Rightarrow> Request list" where
  "enqueueClusterAdmissionPolicy object =
     (case object of ObjPolicy (CAP p) \<Rightarrow> [('''', spec_PolicyServer (caps_PolicySpec (cap_Spec p)))] | _ \<Rightarrow> [])"

definition enqueueClusterAdmissionPolicyGroup :: "client_object \<Rightarrow> Request list" where
  "enqueueClusterAdmissionPolicyGroup object =
     (case object of ObjPolicy (CAPG p) \<Rightarrow> [('''', gspec_PolicyServer (cpgs_GroupSpec (capgs_ClusterPolicyGroupSpec (capg_Spec p))))] | _ \<Rightarrow> [])"

section \<open>What a reconciliation may call\<close>

text \<open>
  A reconciler with another way to write policy servers, or to write their status: when two of
  them run alike, the run did not make such a call.
\<close>

definition withServerWrites :: "('w, PolicyServer) resource \<Rightarrow> 'w PolicyServerReconciler \<Rightarrow> 'w PolicyServerReconciler" where
  "withServerWrites res r = r\<lparr>psr_Client := (psr_Client r)\<lparr>cl_PolicyServers :=
     res\<lparr>r_Get := r_Get (cl_PolicyServers (psr_Client r)), r_List := r_List (cl_PolicyServers (psr_Client r))\<rparr>\<rparr>\<rparr>"

definition withStatusWrite :: "(PolicyServer \<Rightarrow> ('w, PolicyServer) op) \<Rightarrow> 'w PolicyServerReconciler \<Rightarrow> 'w PolicyServerReconciler" where
  "withStatusWrite upd r = r\<lparr>psr_Client := (psr_Client r)\<lparr>cl_PolicyServers :=
     (cl_PolicyServers (psr_Client r))\<lparr>r_StatusUpdate := upd\<rparr>\<rparr>\<rparr>"

named_theorems other_writes "steps that do not write policy servers"

lemma policyDelete_other [other_writes]: "policyDelete (c\<lparr>cl_PolicyServers := res\<rparr>) p = policyDelete c p"
  by (cases p) simp_all

lemma deletePolicies_other [other_writes]: "deletePolicies (c\<lparr>cl_PolicyServers := res\<rparr>) ps es = deletePolicies c ps es"
  by (induction ps arbitrary: es) (simp_all add: policyDelete_other)

lemma getPolicies_other [other_writes]:
  "getPolicies (withServerWrites res r) ps = getPolicies r ps"
  "getPolicies (withStatusWrite upd r) ps = getPolicies r ps"
  by (simp_all add: getPolicies_def withServerWrites_def withStatusWrite_def)

section \<open>Deletion of a policy server\<close>

text \<open>
  A client that writes down the policies it is asked to delete, with an outcome for each of the
  calls: what the loop of \<open>deletePoliciesAndRequeue\<close> asks for can be read from its world.
\<close>

definition recordsDeletes :: "Policy list client \<Rightarrow> (Policy \<Rightarrow> go_error option) \<Rightarrow> bool" where
  "recordsDeletes c outcome \<longleftrightarrow> (\<forall>p log. run_state (policyDelete c p) log =
     ((case outcome p of None \<Rightarrow> Inr () | Some e \<Rightarrow> Inl e), log @ [p]))"

definition alive :: "Policy \<Rightarrow> bool" where
  "alive p \<longleftrightarrow> GetDeletionTimestamp p = None"

definition deleteFailed :: "(Policy \<Rightarrow> go_error option) \<Rightarrow> Policy \<Rightarrow> bool" where
  "deleteFailed outcome p \<longleftrightarrow> (case outcome p of None \<Rightarrow> False | Some e \<Rightarrow> \<not> IsNotFound e)"

lemma deletePolicies_log:
  assumes "recordsDeletes c outcome"
  shows "run_state (deletePolicies c ps es) log =
    (es @ map (\<lambda>p. the (outcome p)) (filter (deleteFailed outcome) (filter alive ps)), log @ filter alive ps)"
  using assms
proof (induction ps arbitrary: es log)
  case Nil
  then show ?case by simp
next
  case (Cons p ps)
  then show ?case
    by (cases "outcome p") (auto simp: recordsDeletes_def run_andThen alive_def deleteFailed_def)
qed

lemma reconcileDeletion_other:
  "policies \<noteq> [] \<Longrightarrow> reconcileDeletion (withServerWrites res r) ps policies = reconcileDeletion r ps policies"
  by (simp add: reconcileDeletion_def deletePoliciesAndRequeue_def withServerWrites_def other_writes)

lemma reconcileDeletion_outcome:
  "policies \<noteq> [] \<Longrightarrow> fst (run_state (reconcileDeletion r ps policies) w) = Inr (emptyResult\<lparr>Requeue := True\<rparr>) \<or>
     fst (run_state (reconcileDeletion r ps policies) w) =
       Inl (NewError (''could not remove all policies bound to policy server '' @ ps_Name ps))"
  by (auto simp: reconcileDeletion_def deletePoliciesAndRequeue_def split: prod.split)

text \<open>The reconciliation of a policy server that is being deleted, after it and its policies were read.\<close>

lemma Reconcile_deletion:
  assumes "run_state (r_Get (cl_PolicyServers (psr_Client r)) req) w = (Inr ps, w1)"
    and "om_DeletionTimestamp (ps_Meta ps) \<noteq> None"
    and "run_state (getPolicies r ps) w1 = (Inr policies, w2)"
  shows "run_state (PolicyServerReconciler_Reconcile r req) w = run_state (reconcileDeletion r ps policies) w2"
  using assms by (simp add: PolicyServerReconciler_Reconcile_def reconcileServer_def run_andThen split: prod.split)

text \<open>C3.
  A policy server that is being deleted outlives its policies: while the lists of policies bound
  to it give any, the reconciliation makes no call that writes a policy server (it runs alike
  whatever such a call would do), so the finalizer stays, and it ends with a request to run
  again or with the error that not all policies could be removed.\<close>

theorem server_outlives_policies:
  assumes get: "run_state (r_Get (cl_PolicyServers (psr_Client r)) req) w = (Inr ps, w1)"
    and deleted: "om_DeletionTimestamp (ps_Meta ps) \<noteq> None"
    and policies: "run_state (getPolicies r ps) w1 = (Inr policies, w2)" "policies \<noteq> []"
  shows "run_state (PolicyServerReconciler_Reconcile (withServerWrites res r) req) w =
      run_state (PolicyServerReconciler_Reconcile r req) w \<and>
    (fst (run_state (PolicyServerReconciler_Reconcile r req) w) = Inr (emptyResult\<lparr>Requeue := True\<rparr>) \<or>
     fst (run_state (PolicyServerReconciler_Reconcile r req) w) =
       Inl (NewError (''could not remove all policies bound to policy server '' @ ps_Name ps)))"
proof -
  have get': "run_state (r_Get (cl_PolicyServers (psr_Client (withServerWrites res r))) req) w = (Inr ps, w1)"
    using get by (simp add: withServerWrites_def)
  have "run_state (PolicyServerReconciler_Reconcile (withServerWrites res r) req) w =
      run_state (reconcileDeletion (withServerWrites res r) ps policies) w2"
    by (rule Reconcile_deletion [OF get' deleted]) (simp add: other_writes policies)
  then show ?thesis
    unfolding Reconcile_deletion [OF get deleted policies(1)] reconcileDeletion_other [OF policies(2)]
    using reconcileDeletion_outcome [OF policies(2), of r ps w2] by blast
qed

definition dyingServer :: PolicyServer where
  "dyingServer = (samplePolicyServer ''default'')\<lparr>ps_Meta := (namedMeta '''' ''default'')\<lparr>om_DeletionTimestamp := Some 1,
     om_Finalizers := [KubewardenFinalizer]\<rparr>\<rparr>"

definition dyingCluster :: "((string \<times> string) \<times> string) list \<Rightarrow> cluster" where
  "dyingCluster faults = emptyCluster\<lparr>st_PolicyServers := [dyingServer], st_ClusterAdmissionPolicies := [sampleCAP ''p''],
     st_faults := faults\<rparr>"

lemma dyingCluster_get:
  "map_of faults (''PolicyServers'', ''get'') = None \<Longrightarrow>
   run_state (r_Get (cl_PolicyServers refClient) ('''', ''default'')) (dyingCluster faults) = (Inr dyingServer, dyingCluster faults)"
  by (simp add: refClient_def run_refGet refView_def findObj_def dyingCluster_def kind_PolicyServers_def dyingServer_def
      namedMeta_def metaKey_def)

lemma run_listPolicies_ref:
  "run_state (listPolicies (refResource kd) what ps f) w =
     (case map_of (st_faults w) (k_name kd, ''list'') of
        Some msg \<Rightarrow> run_state (f []) w
      | None \<Rightarrow> run_state (f (filter (selects kd (matchingFields [(PolicyServerIndexKey, ps_Name ps)])) (visible (k_meta kd) (k_get kd w)))) w)"
  by (simp add: listPolicies_def run_andThen run_refList split: option.split)

lemma dyingCluster_parts:
  "st_faults (dyingCluster faults) = faults" "st_ClusterAdmissionPolicies (dyingCluster faults) = [sampleCAP ''p'']"
  "st_AdmissionPolicies (dyingCluster faults) = []" "st_AdmissionPolicyGroups (dyingCluster faults) = []"
  "st_ClusterAdmissionPolicyGroups (dyingCluster faults) = []"
  by (simp_all add: dyingCluster_def emptyCluster_def)

lemma kind_parts:
  "k_get kind_ClusterAdmissionPolicies = st_ClusterAdmissionPolicies" "k_name kind_ClusterAdmissionPolicies = ''ClusterAdmissionPolicies''"
  "k_get kind_AdmissionPolicies = st_AdmissionPolicies" "k_name kind_AdmissionPolicies = ''AdmissionPolicies''"
  "k_get kind_AdmissionPolicyGroups = st_AdmissionPolicyGroups" "k_name kind_AdmissionPolicyGroups = ''AdmissionPolicyGroups''"
  "k_get kind_ClusterAdmissionPolicyGroups = st_ClusterAdmissionPolicyGroups"
  "k_name kind_ClusterAdmissionPolicyGroups = ''ClusterAdmissionPolicyGroups''"
  by (simp_all add: kind_ClusterAdmissionPolicies_def kind_AdmissionPolicies_def
      kind_AdmissionPolicyGroups_def kind_ClusterAdmissionPolicyGroups_def)

lemma sampleCAP_selected:
  "selects kind_ClusterAdmissionPolicies (matchingFields [(PolicyServerIndexKey, ps_Name dyingServer)]) (sampleCAP ''p'')"
  by (simp add: selects_def matchingFields_def dyingServer_def namedMeta_def sampleCAP_def samplePolicySpec_def
      kind_ClusterAdmissionPolicies_def)

lemma dyingCluster_policies:
  "run_state (getPolicies refPSR dyingServer) (dyingCluster []) = (Inr [CAP (sampleCAP ''p'')], dyingCluster [])"
  "run_state (getPolicies refPSR dyingServer) (dyingCluster [((''ClusterAdmissionPolicies'', ''list''), ''timeout'')]) =
     (Inr [], dyingCluster [((''ClusterAdmissionPolicies'', ''list''), ''timeout'')])"
  by (simp_all add: getPolicies_def run_listPolicies_ref refPSR_def refClient_def kind_parts dyingCluster_parts
      sampleCAP_selected)

theorem server_outlives_policies_witness:
  "run_state (PolicyServerReconciler_Reconcile (withServerWrites (undefined :: (cluster, PolicyServer) resource) refPSR) ('''', ''default''))
       (dyingCluster []) =
     run_state (PolicyServerReconciler_Reconcile refPSR ('''', ''default'')) (dyingCluster [])"
proof -
  have get: "run_state (r_Get (cl_PolicyServers (psr_Client refPSR)) ('''', ''default'')) (dyingCluster []) = (Inr dyingServer, dyingCluster [])"
    using dyingCluster_get [of "[]"] by (simp add: refPSR_def)
  have del: "om_DeletionTimestamp (ps_Meta dyingServer) \<noteq> None" by (simp add: dyingServer_def)
  show ?thesis
    by (rule server_outlives_policies [OF get del dyingCluster_policies(1), THEN conjunct1]) simp
qed

text \<open>
  The deletion of a policy server asks for the deletion of every policy bound to it that is not
  already being deleted, once and in the order of the lists, whatever the earlier calls
  returned; it reports an error exactly when one of the calls failed for another reason than that the
  policy is already gone.\<close>

theorem deletes_every_policy:
  assumes "recordsDeletes (psr_Client r) outcome"
  shows "run_state (deletePoliciesAndRequeue r ps policies) log =
    ((if \<exists>p\<in>set policies. alive p \<and> deleteFailed outcome p
      then Inl (NewError (''could not remove all policies bound to policy server '' @ ps_Name ps))
      else Inr (emptyResult\<lparr>Requeue := True\<rparr>)), log @ filter alive policies)"
  by (auto simp: deletePoliciesAndRequeue_def deletePolicies_log [OF assms] filter_empty_conv)

definition recordingResource :: "('o \<Rightarrow> Policy) \<Rightarrow> (Policy list, 'o) resource" where
  "recordingResource f = \<lparr>r_Get = (\<lambda>_. fail (ApiError NotFound)), r_List = (\<lambda>_. ok []),
     r_Delete = (\<lambda>x. State (\<lambda>log. (Inr (), log @ [f x]))), r_Update = ok, r_StatusUpdate = ok,
     r_Patch = (\<lambda>_. ok), r_CreateOrPatch = (\<lambda>x f. f x)\<rparr>"

theorem deletes_every_policy_witness:
  "\<exists>r :: Policy list PolicyServerReconciler. recordsDeletes (psr_Client r) (\<lambda>_. None) \<and>
     run_state (deletePoliciesAndRequeue r dyingServer [CAP dyingCAP, CAP (sampleCAP ''p''), AP (sampleAP ''n'' ''q'')]) [] =
       (Inr (emptyResult\<lparr>Requeue := True\<rparr>), [CAP (sampleCAP ''p''), AP (sampleAP ''n'' ''q'')])"
proof -
  define c :: "Policy list client" where "c = undefined\<lparr>cl_AdmissionPolicies := recordingResource AP,
    cl_ClusterAdmissionPolicies := recordingResource CAP, cl_AdmissionPolicyGroups := recordingResource APG,
    cl_ClusterAdmissionPolicyGroups := recordingResource CAPG\<rparr>"
  have "recordsDeletes c (\<lambda>_. None)"
    unfolding recordsDeletes_def
  proof (intro allI)
    fix p log
    show "run_state (policyDelete c p) log = ((case None of None \<Rightarrow> Inr () | Some e \<Rightarrow> Inl e), log @ [p])"
      by (cases p) (simp_all add: c_def recordingResource_def)
  qed
  moreover define r :: "Policy list PolicyServerReconciler" where "r = undefined\<lparr>psr_Client := c\<rparr>"
  ultimately have rec: "recordsDeletes (psr_Client r) (\<lambda>_. None)" by simp
  have "\<not> alive (CAP dyingCAP)" "alive (CAP (sampleCAP ''p''))" "alive (AP (sampleAP ''n'' ''q''))"
    by (simp_all add: alive_def dyingCAP_def sampleCAP_def sampleAP_def namedMeta_def emptyMeta_def getter_simps)
  with deletes_every_policy [OF rec, of dyingServer "[CAP dyingCAP, CAP (sampleCAP ''p''), AP (sampleAP ''n'' ''q'')]" "[]"] rec
  show ?thesis by (auto simp: deleteFailed_def)
qed


section \<open>The steps of a successful reconciliation\<close>

lemma run_conditionStep:
  "run_state (conditionStep r step ct msg next ps) w =
     (case run_state (step ps) w of (res, w') \<Rightarrow>
        (case res of
           Inl e \<Rightarrow> ((Inl e, setFalseConditionType (psr_Lib r) ct (msg @ psr_Error r e) ps), w')
         | Inr _ \<Rightarrow> run_state (next (setTrueConditionType (psr_Lib r) ct ps)) w'))"
  by (simp add: conditionStep_def run_andThen split: prod.split sum.split)

lemma conditionStep_ok:
  assumes "run_state (conditionStep r step ct msg next ps) w = ((Inr res, ps'), w')"
  obtains u w1 where "run_state (step ps) w = (Inr u, w1)"
    "run_state (next (setTrueConditionType (psr_Lib r) ct ps)) w1 = ((Inr res, ps'), w')"
  using assms by (auto simp: run_conditionStep split: prod.splits sum.splits)

lemma reconcilePolicyServerCertSecret_ok:
  assumes "run_state (reconcilePolicyServerCertSecret r ps) w = ((None, ps'), w')"
  shows "ps' = setTrueConditionType (psr_Lib r) PolicyServerCertSecretReconciled ps"
  using assms by (auto simp: reconcilePolicyServerCertSecret_def run_andThen split: prod.splits sum.splits)

text \<open>The policy server with the conditions of the types \<open>ts\<close> set to true, in that order.\<close>

abbreviation trueFor :: "kube_lib \<Rightarrow> string list \<Rightarrow> PolicyServer \<Rightarrow> PolicyServer" where
  "trueFor lib ts ps \<equiv> foldl (\<lambda>ps t. setTrueConditionType lib t ps) ps ts"

definition serverConditions :: "string list" where
  "serverConditions = [PolicyServerCertSecretReconciled, PolicyServerConfigMapReconciled,
     PolicyServerPodDisruptionBudgetReconciled, PolicyServerDeploymentReconciled, PolicyServerServiceReconciled]"

lemma reconcileServer_ok:
  assumes run: "run_state (reconcileServer r ps) w = ((Inr res, ps'), w')"
    and live: "om_DeletionTimestamp (ps_Meta ps) = None"
  obtains policies w1 w2 w3 w4 w5 w6 where
    "run_state (getPolicies r ps) w = (Inr policies, w1)"
    "run_state (reconcilePolicyServerCertSecret r ps) w1 = ((None, trueFor (psr_Lib r) (take 1 serverConditions) ps), w2)"
    "run_state (reconcilePolicyServerConfigMap r (trueFor (psr_Lib r) (take 1 serverConditions) ps) policies) w2 = (Inr (), w3)"
    "run_state (reconcilePolicyServerPodDisruptionBudget r (trueFor (psr_Lib r) (take 2 serverConditions) ps)) w3 = (Inr (), w4)"
    "run_state (reconcilePolicyServerDeployment r (trueFor (psr_Lib r) (take 3 serverConditions) ps)) w4 = (Inr (), w5)"
    "run_state (reconcilePolicyServerService r (trueFor (psr_Lib r) (take 4 serverConditions) ps)) w5 = (Inr (), w6)"
    "run_state (r_StatusUpdate (cl_PolicyServers (psr_Client r)) (trueFor (psr_Lib r) serverConditions ps)) w6 = (Inr ps', w')"
    "res = emptyResult"
proof -
  obtain policies w1 where pol: "run_state (getPolicies r ps) w = (Inr policies, w1)"
    using run by (auto simp: reconcileServer_def run_andThen split: prod.splits sum.splits)
  obtain ce ps1 w2 where cert: "run_state (reconcilePolicyServerCertSecret r ps) w1 = ((ce, ps1), w2)"
    by (metis prod.exhaust)
  have "ce = None"
    using run pol cert live by (auto simp: reconcileServer_def run_andThen split: option.splits)
  note cert = cert [unfolded this] and ps1 = reconcilePolicyServerCertSecret_ok [OF cert [unfolded this]]
  note steps = run [unfolded reconcileServer_def run_andThen pol, simplified live cert]
  show thesis
    using steps
    apply (simp add: cert)
    apply (elim conditionStep_ok)
    apply (rule that [OF pol])
    using cert ps1
    by (auto simp: serverConditions_def numeral_eq_Suc run_andThen split: prod.splits sum.splits)
qed

lemma findCondition_trueFor:
  assumes "status_conditions (lib_SetStatusCondition lib)"
  shows "map_option cond_Status (findCondition t (psst_Conditions (ps_Status (trueFor lib ts ps)))) =
    (if t \<in> set ts then Some ConditionTrue else map_option cond_Status (findCondition t (psst_Conditions (ps_Status ps))))"
proof (induction ts rule: rev_induct)
  case Nil
  then show ?case by simp
next
  case (snoc u us)
  then show ?case
    by (auto simp: setTrueConditionType_def setCondition_def status_conditions.find_setc [OF assms])
qed

lemma trueFor_frame:
  "ps_Meta (trueFor lib ts ps) = ps_Meta ps" "ps_Spec (trueFor lib ts ps) = ps_Spec ps"
  by (induction ts rule: rev_induct) (simp_all add: setTrueConditionType_def)

text \<open>C14.
  A reconciliation of a live policy server that succeeds has stored that all five of its objects
  are reconciled: the last call stored the status of the policy server with its metadata and spec as
  they were read, with the condition of the certificate secret, of the ConfigMap, of the
  PodDisruptionBudget, of the Deployment and of the Service true and every other condition
  as it was, and the result asks for no further run.\<close>

theorem success_stores_conditions:
  assumes cond: "status_conditions (lib_SetStatusCondition (psr_Lib r))"
    and live: "om_DeletionTimestamp (ps_Meta ps) = None"
    and run: "run_state (reconcileServer r ps) w = ((Inr res, ps'), w')"
  shows "res = emptyResult \<and> (\<exists>sent w1.
    run_state (r_StatusUpdate (cl_PolicyServers (psr_Client r)) sent) w1 = (Inr ps', w') \<and>
    ps_Meta sent = ps_Meta ps \<and> ps_Spec sent = ps_Spec ps \<and>
    (\<forall>t. map_option cond_Status (findCondition t (psst_Conditions (ps_Status sent))) =
      (if t \<in> set serverConditions then Some ConditionTrue
       else map_option cond_Status (findCondition t (psst_Conditions (ps_Status ps))))))"
proof -
  obtain w6 where "res = emptyResult"
    "run_state (r_StatusUpdate (cl_PolicyServers (psr_Client r)) (trueFor (psr_Lib r) serverConditions ps)) w6 = (Inr ps', w')"
    using reconcileServer_ok [OF run live] by metis
  with findCondition_trueFor [OF cond] trueFor_frame show ?thesis by blast
qed

text \<open>
  An API server that grants every request: it returns the object that was asked for and runs the
  callback of a \<open>CreateOrPatch\<close> on the new object.
\<close>

definition grants :: "'o \<Rightarrow> (unit, 'o) resource" where
  "grants x = \<lparr>r_Get = (\<lambda>_. ok x), r_List = (\<lambda>_. ok []), r_Delete = (\<lambda>_. ok ()), r_Update = ok,
     r_StatusUpdate = ok, r_Patch = (\<lambda>_. ok), r_CreateOrPatch = (\<lambda>x f. f x)\<rparr>"

definition grantedSecret :: Secret where
  "grantedSecret = \<lparr>sec_Meta = namedMeta ''kubewarden'' CARootSecretName, sec_Type = ''Opaque'',
     sec_Data = [(CARootCert, ''Ca'' @ [newline]), (CARootPrivateKey, ''key'' @ [newline])], sec_StringData = []\<rparr>"

definition grantingPSR :: "unit PolicyServerReconciler" where
  "grantingPSR = \<lparr>psr_Client = undefined\<lparr>cl_PolicyServers := grants (samplePolicyServer ''s''),
       cl_ClusterAdmissionPolicies := grants (sampleCAP ''p''), cl_AdmissionPolicies := grants (sampleAP ''n'' ''p''),
       cl_AdmissionPolicyGroups := grants (sampleAPG ''n'' ''g''), cl_ClusterAdmissionPolicyGroups := grants (sampleCAPG ''g''),
       cl_Secrets := grants grantedSecret, cl_ConfigMaps := grants (sampleConfigMap ''s''),
       cl_Deployments := grants (sampleNewDeployment ''s''), cl_Services := grants undefined,
       cl_PodDisruptionBudgets := grants undefined\<rparr>,
     psr_Lib = refLib, psr_Telemetry = psr_Telemetry refPSR, psr_DeploymentsNamespace = ''kubewarden'',
     psr_AlwaysAcceptAdmissionReviewsInDeploymentsNamespace = False, psr_ClientCAConfigMapName = '''',
     psr_Error = (\<lambda>e. ''error''), psr_Getenv = (\<lambda>_. ''''), psr_Crypto = refCrypto\<rparr>"

lemma refSetOwnerReference_sample:
  "\<exists>m'. refSetOwnerReference (ps_Meta (trueFor lib ts (samplePolicyServer n))) m = Inr m'"
  by (simp add: trueFor_frame refSetOwnerReference_def samplePolicyServer_def namedMeta_def emptyMeta_def)

lemma grantingPSR_steps:
  fixes ps :: PolicyServer
  assumes ps: "ps = trueFor refLib ts (samplePolicyServer ''s'')"
  shows "run_state (getPolicies grantingPSR ps) () = (Inr [], ())"
    "run_state (reconcilePolicyServerCertSecret grantingPSR ps) () =
       ((None, setTrueConditionType refLib PolicyServerCertSecretReconciled ps), ())"
    "run_state (reconcilePolicyServerConfigMap grantingPSR ps []) () = (Inr (), ())"
    "run_state (reconcilePolicyServerPodDisruptionBudget grantingPSR ps) () = (Inr (), ())"
    "run_state (reconcilePolicyServerDeployment grantingPSR ps) () = (Inr (), ())"
    "run_state (reconcilePolicyServerService grantingPSR ps) () = (Inr (), ())"
proof -
  have spec: "ps_Spec ps = ps_Spec (samplePolicyServer ''s'')" by (simp add: ps trueFor_frame)
  have name: "NameWithPrefix ps = ''policy-server-s''"
    by (simp add: NameWithPrefix_def ps trueFor_frame samplePolicyServer_def namedMeta_def)
  obtain g where owner: "refSetOwnerReference (ps_Meta ps) m = Inr (g m)" for m
    unfolding ps using refSetOwnerReference_sample [of refLib "''s''" ts] by metis
  note step = grantingPSR_def grants_def refLib_def refPSR_def run_andThen run_orWrap owner lift_result_def Let_def
  show "run_state (getPolicies grantingPSR ps) () = (Inr [], ())"
    by (simp add: getPolicies_def listPolicies_def step)
  show "run_state (reconcilePolicyServerPodDisruptionBudget grantingPSR ps) () = (Inr (), ())"
    by (simp add: reconcilePolicyServerPodDisruptionBudget_def spec samplePolicyServer_def deletePodDisruptionBudget_def step)
  show "run_state (reconcilePolicyServerService grantingPSR ps) () = (Inr (), ())"
    by (simp add: reconcilePolicyServerService_def updateService_def step)
  show "run_state (reconcilePolicyServerDeployment grantingPSR ps) () = (Inr (), ())"
    by (simp add: reconcilePolicyServerDeployment_def policyServerConfigMapVersion_def updatePolicyServerDeployment_def
        configureMutualTLS_def configureLabelsAndAnnotations_def step)
  show "run_state (reconcilePolicyServerConfigMap grantingPSR ps []) () = (Inr (), ())"
    by (simp add: reconcilePolicyServerConfigMap_def updateConfigMapData_def step)
  show "run_state (reconcilePolicyServerCertSecret grantingPSR ps) () =
       ((None, setTrueConditionType refLib PolicyServerCertSecretReconciled ps), ())"
    by (simp add: reconcilePolicyServerCertSecret_def updateCertSecret_def grantedSecret_def ExtractCARootFromSecret_def extractPair_def
        GenerateCert_def pureStep_def refCrypto_def refPemDecode_def refParse_def pemEncodeCertificate_def pemEncodePrivateKey_def
        lift_err_def serverTemplate_def const_defs name step)
qed

theorem success_stores_conditions_witness:
  "\<exists>ps'. run_state (reconcileServer grantingPSR (samplePolicyServer ''s'')) () = ((Inr emptyResult, ps'), ()) \<and>
     (\<exists>sent. run_state (r_StatusUpdate (cl_PolicyServers (psr_Client grantingPSR)) sent) () = (Inr ps', ()) \<and>
       map_option cond_Status (findCondition PolicyServerServiceReconciled (psst_Conditions (ps_Status sent))) = Some ConditionTrue)"
proof -
  let ?ps = "samplePolicyServer ''s''"
  have lib: "psr_Lib grantingPSR = refLib" by (simp add: grantingPSR_def)
  have live: "om_DeletionTimestamp (ps_Meta ?ps) = None"
    by (simp add: samplePolicyServer_def namedMeta_def emptyMeta_def)
  have run: "run_state (reconcileServer grantingPSR ?ps) () = ((Inr emptyResult, trueFor refLib serverConditions ?ps), ())"
    using grantingPSR_steps [of ?ps "[]"] live
      grantingPSR_steps [of _ "take 1 serverConditions", OF refl] grantingPSR_steps [of _ "take 2 serverConditions", OF refl]
      grantingPSR_steps [of _ "take 3 serverConditions", OF refl] grantingPSR_steps [of _ "take 4 serverConditions", OF refl]
    by (simp add: reconcileServer_def run_andThen run_conditionStep lib serverConditions_def numeral_eq_Suc)
      (simp add: grantingPSR_def grants_def)
  have cond: "status_conditions (lib_SetStatusCondition (psr_Lib grantingPSR))"
    using ref_conditions.status_conditions_axioms by (simp add: lib refLib_def)
  have "PolicyServerServiceReconciled \<in> set serverConditions" by (simp add: serverConditions_def)
  moreover obtain sent where
    "run_state (r_StatusUpdate (cl_PolicyServers (psr_Client grantingPSR)) sent) () = (Inr (trueFor refLib serverConditions ?ps), ())"
    "\<And>t. t \<in> set serverConditions \<Longrightarrow>
      map_option cond_Status (findCondition t (psst_Conditions (ps_Status sent))) = Some ConditionTrue"
    using success_stores_conditions [OF cond live run] by (metis old.unit.exhaust)
  ultimately show ?thesis using run by blast
qed

section \<open>A failed reconciliation\<close>

lemma steps_other [other_writes]:
  "reconcilePolicyServerCertSecret (withStatusWrite upd r) = reconcilePolicyServerCertSecret r"
  "reconcilePolicyServerConfigMap (withStatusWrite upd r) = reconcilePolicyServerConfigMap r"
  "reconcilePolicyServerPodDisruptionBudget (withStatusWrite upd r) = reconcilePolicyServerPodDisruptionBudget r"
  "reconcilePolicyServerDeployment (withStatusWrite upd r) = reconcilePolicyServerDeployment r"
  "reconcilePolicyServerService (withStatusWrite upd r) = reconcilePolicyServerService r"
  "reconcileDeletion (withStatusWrite upd r) = reconcileDeletion r"
proof -
  let ?r = "withStatusWrite upd r"
  have fields: "psr_Lib ?r = psr_Lib r" "psr_Telemetry ?r = psr_Telemetry r" "psr_Error ?r = psr_Error r"
    "psr_DeploymentsNamespace ?r = psr_DeploymentsNamespace r" "psr_Crypto ?r = psr_Crypto r" "psr_Getenv ?r = psr_Getenv r"
    "psr_ClientCAConfigMapName ?r = psr_ClientCAConfigMapName r" "cl_Secrets (psr_Client ?r) = cl_Secrets (psr_Client r)"
    "psr_AlwaysAcceptAdmissionReviewsInDeploymentsNamespace ?r = psr_AlwaysAcceptAdmissionReviewsInDeploymentsNamespace r"
    "cl_ConfigMaps (psr_Client ?r) = cl_ConfigMaps (psr_Client r)" "cl_Deployments (psr_Client ?r) = cl_Deployments (psr_Client r)"
    "cl_Services (psr_Client ?r) = cl_Services (psr_Client r)" "deletePolicies (psr_Client ?r) = deletePolicies (psr_Client r)"
    "cl_PodDisruptionBudgets (psr_Client ?r) = cl_PodDisruptionBudgets (psr_Client r)"
    "r_Update (cl_PolicyServers (psr_Client ?r)) = r_Update (cl_PolicyServers (psr_Client r))"
    by (simp_all add: withStatusWrite_def fun_eq_iff other_writes)
  show "reconcilePolicyServerCertSecret ?r = reconcilePolicyServerCertSecret r"
    unfolding reconcilePolicyServerCertSecret_def [abs_def] updateCertSecret_def [abs_def] fields ..
  show "reconcilePolicyServerConfigMap ?r = reconcilePolicyServerConfigMap r"
    unfolding reconcilePolicyServerConfigMap_def [abs_def] updateConfigMapData_def [abs_def] fields ..
  show "reconcilePolicyServerPodDisruptionBudget ?r = reconcilePolicyServerPodDisruptionBudget r"
    unfolding reconcilePolicyServerPodDisruptionBudget_def [abs_def] reconcilePodDisruptionBudget_def [abs_def]
        deletePodDisruptionBudget_def [abs_def] fields ..
  show "reconcilePolicyServerDeployment ?r = reconcilePolicyServerDeployment r"
    unfolding reconcilePolicyServerDeployment_def [abs_def] policyServerConfigMapVersion_def [abs_def] updatePolicyServerDeployment_def [abs_def]
        adaptDeploymentForMetricsAndTracingConfiguration_def [abs_def] configureMutualTLS_def [abs_def] admissionContainerFor_def [abs_def] fields ..
  show "reconcilePolicyServerService ?r = reconcilePolicyServerService r"
    unfolding reconcilePolicyServerService_def [abs_def] updateService_def [abs_def] fields ..
  show "reconcileDeletion ?r = reconcileDeletion r"
    unfolding reconcileDeletion_def [abs_def] deletePoliciesAndRequeue_def [abs_def] fields ..
qed

lemma conditionStep_error:
  assumes run: "run_state (conditionStep r step ct msg next ps) w = ((Inl e, ps'), w')"
    and cont: "\<And>ps w. run_state (next ps) w = ((Inl e, ps'), w') \<Longrightarrow>
      run_state (next' ps) w = ((Inl e, ps'), w') \<and> (\<exists>t msg prev. ps' = setFalseConditionType (psr_Lib r) t msg prev)"
    and same: "psr_Lib r' = psr_Lib r" "psr_Error r' = psr_Error r"
  shows "run_state (conditionStep r' step ct msg next' ps) w = ((Inl e, ps'), w') \<and>
    (\<exists>t msg prev. ps' = setFalseConditionType (psr_Lib r) t msg prev)"
  using run cont same by (auto simp: run_conditionStep split: prod.splits sum.splits)

lemma withStatusWrite_same:
  "psr_Lib (withStatusWrite upd r) = psr_Lib r" "psr_Error (withStatusWrite upd r) = psr_Error r"
  by (simp_all add: withStatusWrite_def)

lemma reconcilePolicyServerCertSecret_error:
  assumes "run_state (reconcilePolicyServerCertSecret r ps) w = ((Some e, ps'), w')"
  shows "ps' = ps \<or> (\<exists>t msg prev. ps' = setFalseConditionType (psr_Lib r) t msg prev)"
  using assms by (auto simp: reconcilePolicyServerCertSecret_def run_andThen split: prod.splits sum.splits)

text \<open>C34.
  The condition that a failed step sets to false is never stored: when the reconciliation of a
  policy server fails before its last call, it has set at most a condition of its in-memory copy to
  false, and it runs alike whatever a status update would do, so it makes none. The
  conditions of the stored policy server then still tell of an earlier, successful run.\<close>

theorem failure_stores_no_condition:
  assumes run: "run_state (reconcileServer r ps) w = ((Inl e, ps'), w')"
    and early: "\<And>e'. e \<noteq> Wrap ''update policy server status error'' e'"
  shows "run_state (reconcileServer (withStatusWrite upd r) ps) w = ((Inl e, ps'), w') \<and>
    (ps' = ps \<or> (\<exists>t msg prev. ps' = setFalseConditionType (psr_Lib r) t msg prev))"
proof -
  note error = conditionStep_error [OF _ _ withStatusWrite_same]
  have last: "P" if "run_state (andThen (r_StatusUpdate (cl_PolicyServers (psr_Client r)) q)
      (\<lambda>err. ret (Inl (Wrap ''update policy server status error'' err), q)) (\<lambda>q'. ret (Inr emptyResult, q'))) w1 = ((Inl e, ps'), w')"
    for q w1 P
    using that early by (auto simp: run_andThen split: prod.splits sum.splits)
  have chain: "run_state (conditionStep (withStatusWrite upd r) s1 t1 m1 (conditionStep (withStatusWrite upd r) s2 t2 m2
        (conditionStep (withStatusWrite upd r) s3 t3 m3 (conditionStep (withStatusWrite upd r) s4 t4 m4 last'))) q) w1 = ((Inl e, ps'), w') \<and>
      (\<exists>t msg prev. ps' = setFalseConditionType (psr_Lib r) t msg prev)"
    if "run_state (conditionStep r s1 t1 m1 (conditionStep r s2 t2 m2 (conditionStep r s3 t3 m3 (conditionStep r s4 t4 m4
        (\<lambda>ps. andThen (r_StatusUpdate (cl_PolicyServers (psr_Client r)) ps)
           (\<lambda>err. ret (Inl (Wrap ''update policy server status error'' err), ps)) (\<lambda>ps'. ret (Inr emptyResult, ps')))))) q) w1
      = ((Inl e, ps'), w')" for s1 t1 m1 s2 t2 m2 s3 t3 m3 s4 t4 m4 last' q w1
    using that by (rule error, elim error last)
  show ?thesis
    using run unfolding reconcileServer_def
    by (auto simp: run_andThen other_writes split: prod.splits sum.splits if_splits option.splits
        dest: chain reconcilePolicyServerCertSecret_error)
qed

definition faultyCluster :: cluster where
  "faultyCluster = emptyCluster\<lparr>st_PolicyServers := [samplePolicyServer ''s''], st_Secrets := [sampleCASecret],
     st_faults := [((''Secrets'', ''patch''), ''timeout'')]\<rparr>"

theorem failure_stores_no_condition_witness:
  "\<exists>e ps'. run_state (reconcileServer (withStatusWrite (\<lambda>_. fail (NewError ''refused'')) refPSR) (samplePolicyServer ''s'')) faultyCluster =
       ((Inl e, ps'), faultyCluster) \<and>
     map_option cond_Status (findCondition PolicyServerCertSecretReconciled (psst_Conditions (ps_Status ps'))) = Some ConditionFalse"
proof -
  let ?ps = "samplePolicyServer ''s''"
  let ?e = "errors_Join ''cannot fetch or initialize Policy Server CA secret'' (ApiError (OtherReason ''timeout''))"
  let ?ps' = "setFalseConditionType refLib PolicyServerCertSecretReconciled ''error reconciling secret: error'' ?ps"
  have pol: "run_state (getPolicies refPSR ?ps) faultyCluster = (Inr [], faultyCluster)"
    by (simp add: getPolicies_def refPSR_def refClient_def run_listPolicies_ref kind_parts faultyCluster_def emptyCluster_def)
  have cert: "run_state (reconcilePolicyServerCertSecret refPSR ?ps) faultyCluster = ((Some ?e, ?ps'), faultyCluster)"
    by (simp add: reconcilePolicyServerCertSecret_def run_andThen refPSR_def refClient_def refResource_simps kind_Secrets_def
        faultyCluster_def sampleCASecret_def findObj_def metaKey_def namedMeta_def)
  have "om_DeletionTimestamp (ps_Meta ?ps) = None"
    by (simp add: samplePolicyServer_def namedMeta_def emptyMeta_def)
  with pol cert have run: "run_state (reconcileServer refPSR ?ps) faultyCluster = ((Inl ?e, ?ps'), faultyCluster)"
    by (simp add: reconcileServer_def run_andThen)
  have "?e \<noteq> Wrap ''update policy server status error'' e'" for e' by (simp add: errors_Join_def)
  from failure_stores_no_condition [OF run this]
  have "run_state (reconcileServer (withStatusWrite (\<lambda>_. fail (NewError ''refused'')) refPSR) ?ps) faultyCluster =
      ((Inl ?e, ?ps'), faultyCluster)" by blast
  moreover have "map_option cond_Status (findCondition PolicyServerCertSecretReconciled (psst_Conditions (ps_Status ?ps'))) = Some ConditionFalse"
    by (simp add: setFalseConditionType_def setCondition_def refLib_def ref_conditions.find_setc)
  ultimately show ?thesis by blast
qed

end
