(* ===== verification/Server_Objects.thy ===== *)
theory Server_Objects
  imports PolicyServer_Reconciler
begin

text \<open>
  What the reconciliation of a policy server leaves in the cluster: the stored Deployment, the
  PodDisruptionBudget, the certificate secret, and how their labels and names fit together.
  The stores are those of any client that keeps the laws of \<open>resource_store\<close>.
\<close>

section \<open>What a store keeps\<close>

definition deploymentPayload ::
  "Deployment \<Rightarrow> string gomap \<times> string gomap \<times> (string gomap \<times> string gomap) option" where
  "deploymentPayload d = (om_Labels (dep_Meta d), om_Annotations (dep_Meta d),
     map_option (\<lambda>s. (dspec_Selector s, dspec_TemplateLabels s)) (dep_Spec d))"

definition configMapPayload :: "ConfigMap \<Rightarrow> string gomap \<times> string gomap" where
  "configMapPayload cm = (om_Labels (cm_Meta cm), cm_Data cm)"

definition pdbPayload :: "PodDisruptionBudget \<Rightarrow> LabelSelector option \<times> IntOrString option \<times> IntOrString option" where
  "pdbPayload p = (pdb_Selector p, pdb_MinAvailable p, pdb_MaxUnavailable p)"

text \<open>
  The data of a stored secret: \<open>stringData\<close> is a write-only field whose entries are merged into
  \<open>data\<close> and override it.
\<close>

definition secretEntry :: "Secret \<Rightarrow> string \<Rightarrow> string option" where
  "secretEntry s k = (case goget (sec_StringData s) k of Some v \<Rightarrow> Some v | None \<Rightarrow> goget (sec_Data s) k)"

interpretation ref_deployments: resource_store "cl_Deployments refClient" dep_Meta deploymentPayload "refView kind_Deployments"
proof -
  have "good_kind kind_Deployments deploymentPayload"
    by (simp add: good_kind_def kind_Deployments_def deploymentPayload_def)
  from refResource_store [OF this]
  show "resource_store (cl_Deployments refClient) dep_Meta deploymentPayload (refView kind_Deployments)"
    by (simp add: refClient_def kind_Deployments_def)
qed

interpretation ref_configMaps: resource_store "cl_ConfigMaps refClient" cm_Meta configMapPayload "refView kind_ConfigMaps"
proof -
  have "good_kind kind_ConfigMaps configMapPayload"
    by (simp add: good_kind_def kind_ConfigMaps_def configMapPayload_def)
  from refResource_store [OF this]
  show "resource_store (cl_ConfigMaps refClient) cm_Meta configMapPayload (refView kind_ConfigMaps)"
    by (simp add: refClient_def kind_ConfigMaps_def)
qed

interpretation ref_pdbs: resource_store "cl_PodDisruptionBudgets refClient" pdb_Meta pdbPayload "refView kind_PodDisruptionBudgets"
proof -
  have "good_kind kind_PodDisruptionBudgets pdbPayload"
    by (simp add: good_kind_def kind_PodDisruptionBudgets_def pdbPayload_def)
  from refResource_store [OF this]
  show "resource_store (cl_PodDisruptionBudgets refClient) pdb_Meta pdbPayload (refView kind_PodDisruptionBudgets)"
    by (simp add: refClient_def kind_PodDisruptionBudgets_def)
qed

interpretation ref_certSecrets: resource_store "cl_Secrets refClient" sec_Meta secretEntry "refView kind_Secrets"
proof -
  have "good_kind kind_Secrets secretEntry"
    by (simp add: good_kind_def kind_Secrets_def secretEntry_def fun_eq_iff split: option.split)
  from refResource_store [OF this]
  show "resource_store (cl_Secrets refClient) sec_Meta secretEntry (refView kind_Secrets)"
    by (simp add: refClient_def kind_Secrets_def)
qed

section \<open>The Deployment\<close>

lemma updatePolicyServerDeployment_meta:
  assumes owners: "owner_references (lib_SetOwnerReference (psr_Lib r))"
    and run: "run_state (updatePolicyServerDeployment r ps v dep) w = (Inr dep', w')"
  shows "metaKey (dep_Meta dep') = metaKey (dep_Meta dep)"
    "goget (om_Annotations (dep_Meta dep')) PolicyServerDeploymentConfigVersionAnnotation = Some v"
    "\<exists>spec. dep_Spec dep' = Some spec \<and> dspec_Selector spec = [(AppLabelKey, AppLabel ps)] \<and>
       dspec_TemplateLabels spec = [(AppLabelKey, AppLabel ps), (PolicyServerDeploymentPodSpecConfigVersionLabel, v),
         (PolicyServerLabelKey, ps_Name ps)]"
proof -
  obtain spec m where 1: "run_state (configureMutualTLS r (baseSpec r ps v)) w = (Inr spec, w')"
    "lib_SetOwnerReference (psr_Lib r) (ps_Meta ps) (dep_Meta (configureLabelsAndAnnotations dep ps v)) = Inr m"
    "dep_Spec dep' = Some spec" "dep_Meta dep' = m"
    using run by (rule updatePolicyServerDeployment_cases)
  note keeps = owner_references.keeps [OF owners 1(2)]
  show "metaKey (dep_Meta dep') = metaKey (dep_Meta dep)"
    "goget (om_Annotations (dep_Meta dep')) PolicyServerDeploymentConfigVersionAnnotation = Some v"
    by (simp_all add: 1(4) metaKey_def keeps configureLabelsAndAnnotations_def Let_def)
  show "\<exists>spec. dep_Spec dep' = Some spec \<and> dspec_Selector spec = [(AppLabelKey, AppLabel ps)] \<and>
       dspec_TemplateLabels spec = [(AppLabelKey, AppLabel ps), (PolicyServerDeploymentPodSpecConfigVersionLabel, v),
         (PolicyServerLabelKey, ps_Name ps)]"
    using 1(3) configureMutualTLS_pod(3,4) [OF 1(1) baseSpec_pod(1)] by (simp add: baseSpec_labels)
qed

text \<open>C15.
  The Deployment that a reconciliation stores carries the version of the configuration it was made
  for: its annotation and the label of its pod template are the resource version of the ConfigMap
  that was stored when the step began, so a change of the ConfigMap changes the pod template and
  starts new pods. A policy whose reconciler reads these two objects reports that the configuration is up to date.\<close>

theorem config_version_published:
  assumes cms: "resource_store (cl_ConfigMaps (psr_Client r)) cm_Meta configMapPayload cmview"
    and deps: "resource_store (cl_Deployments (psr_Client r)) dep_Meta deploymentPayload depview"
    and owners: "owner_references (lib_SetOwnerReference (psr_Lib r))"
    and cond: "status_conditions (lib_SetStatusCondition lib)"
    and run: "run_state (reconcilePolicyServerDeployment r ps) w = (Inr (), w')"
  shows "\<exists>cm dep labels. cmview w (psr_DeploymentsNamespace r, NameWithPrefix ps) = Some cm \<and>
    depview w' (psr_DeploymentsNamespace r, NameWithPrefix ps) = Some dep \<and>
    goget (om_Annotations (dep_Meta dep)) PolicyServerDeploymentConfigVersionAnnotation = Some (om_ResourceVersion (cm_Meta cm)) \<and>
    map_option dspec_TemplateLabels (dep_Spec dep) = Some labels \<and>
    goget labels PolicyServerDeploymentPodSpecConfigVersionLabel = Some (om_ResourceVersion (cm_Meta cm)) \<and>
    map_option cond_Status (findCondition PolicyServerConfigurationUpToDate (setPolicyConfigurationCondition lib cm dep cs)) =
      Some ConditionTrue"
proof -
  let ?k = "(psr_DeploymentsNamespace r, NameWithPrefix ps)"
  let ?new = "\<lparr>dep_Meta = namedMeta (psr_DeploymentsNamespace r) (NameWithPrefix ps), dep_Spec = None\<rparr>"
  obtain cm w1 dep' where get: "run_state (r_Get (cl_ConfigMaps (psr_Client r)) ?k) w = (Inr cm, w1)"
    and patch: "run_state (r_CreateOrPatch (cl_Deployments (psr_Client r)) ?new
      (updatePolicyServerDeployment r ps (om_ResourceVersion (cm_Meta cm)))) w1 = (Inr dep', w')"
    using run by (auto simp: reconcilePolicyServerDeployment_def policyServerConfigMapVersion_def run_orWrap
        split: prod.splits sum.splits)
  let ?v = "om_ResourceVersion (cm_Meta cm)"
  have key: "metaKey (dep_Meta ?new) = ?k" by (simp add: metaKey_def namedMeta_def)
  obtain b y z w0 w2 where b: "b = ?new \<or> depview w1 ?k = Some b"
    and upd: "run_state (updatePolicyServerDeployment r ps ?v b) w0 = (Inr y, w2)"
    and z: "deploymentPayload z = deploymentPayload y" "depview w' = (depview w2)(metaKey (dep_Meta y) \<mapsto> z)"
    using resource_store.patch_run [OF deps patch] key by metis
  note meta = updatePolicyServerDeployment_meta [OF owners upd]
  have "metaKey (dep_Meta y) = ?k"
    using b key meta(1) resource_store.view_key [OF deps] by metis
  then have dep: "depview w' ?k = Some z" using z(2) by simp
  have annotation: "goget (om_Annotations (dep_Meta z)) PolicyServerDeploymentConfigVersionAnnotation = Some ?v"
    using z(1) meta(2) by (simp add: deploymentPayload_def)
  obtain labels where "map_option dspec_TemplateLabels (dep_Spec z) = Some labels"
    "goget labels PolicyServerDeploymentPodSpecConfigVersionLabel = Some ?v"
    using z(1) meta(3) by (auto simp: deploymentPayload_def AppLabelKey_def PolicyServerDeploymentPodSpecConfigVersionLabel_def)
  moreover have "map_option cond_Status (findCondition PolicyServerConfigurationUpToDate (setPolicyConfigurationCondition lib cm z cs)) =
      Some ConditionTrue"
    by (simp add: setPolicyConfigurationCondition_def annotation setCondition_def status_conditions.find_setc [OF cond])
  ultimately show ?thesis
    using resource_store.get_ok [OF cms get] dep annotation by blast
qed

definition configuredCluster :: cluster where
  "configuredCluster = emptyCluster\<lparr>st_ConfigMaps := [(sampleConfigMap ''policy-server-s'')\<lparr>cm_Meta :=
     (namedMeta ''kubewarden'' ''policy-server-s'')\<lparr>om_ResourceVersion := ''42''\<rparr>\<rparr>]\<rparr>"

lemma configuredCluster_deployment:
  "\<exists>w'. run_state (reconcilePolicyServerDeployment refPSR (samplePolicyServer ''s'')) configuredCluster = (Inr (), w')"
proof -
  have name: "NameWithPrefix (samplePolicyServer ''s'') = ''policy-server-s''"
    by (simp add: NameWithPrefix_def samplePolicyServer_def namedMeta_def)
  obtain dep where dep: "run_state (updatePolicyServerDeployment refPSR (samplePolicyServer ''s'') ''42'' (sampleNewDeployment ''policy-server-s''))
      configuredCluster = (Inr dep, configuredCluster)"
    using updatePolicyServerDeployment_sample by blast
  have get: "run_state (policyServerConfigMapVersion refPSR (samplePolicyServer ''s'')) configuredCluster = (Inr ''42'', configuredCluster)"
    by (simp add: policyServerConfigMapVersion_def run_orWrap name refPSR_def refClient_def run_refGet refView_def findObj_def
        kind_ConfigMaps_def configuredCluster_def emptyCluster_def metaKey_def namedMeta_def)
  have "run_state (r_CreateOrPatch (cl_Deployments refClient) (sampleNewDeployment ''policy-server-s'')
      (updatePolicyServerDeployment refPSR (samplePolicyServer ''s'') ''42'')) configuredCluster =
      apfst Inr (writeObj kind_Deployments dep configuredCluster)"
    using dep by (simp add: refClient_def refResource_simps findObj_def Let_def)
      (simp add: kind_Deployments_def configuredCluster_def emptyCluster_def)
  then show ?thesis
    using get by (auto simp: reconcilePolicyServerDeployment_def run_orWrap name refPSR_def sampleNewDeployment_def apfst_def
        map_prod_def split: prod.splits)
qed

theorem config_version_published_witness:
  "\<exists>w' cm dep. run_state (reconcilePolicyServerDeployment refPSR (samplePolicyServer ''s'')) configuredCluster = (Inr (), w') \<and>
     refView kind_ConfigMaps configuredCluster (''kubewarden'', ''policy-server-s'') = Some cm \<and>
     refView kind_Deployments w' (''kubewarden'', ''policy-server-s'') = Some dep \<and>
     goget (om_Annotations (dep_Meta dep)) PolicyServerDeploymentConfigVersionAnnotation = Some (om_ResourceVersion (cm_Meta cm))"
proof -
  obtain w' where run: "run_state (reconcilePolicyServerDeployment refPSR (samplePolicyServer ''s'')) configuredCluster = (Inr (), w')"
    using configuredCluster_deployment by blast
  have parts: "psr_Client refPSR = refClient" "lib_SetOwnerReference (psr_Lib refPSR) = refSetOwnerReference"
    "psr_DeploymentsNamespace refPSR = ''kubewarden''" "lib_SetStatusCondition refLib = refSetCondition"
    "NameWithPrefix (samplePolicyServer ''s'') = ''policy-server-s''"
    by (simp_all add: refPSR_def refLib_def NameWithPrefix_def samplePolicyServer_def namedMeta_def)
  have laws: "resource_store (cl_ConfigMaps (psr_Client refPSR)) cm_Meta configMapPayload (refView kind_ConfigMaps)"
    "resource_store (cl_Deployments (psr_Client refPSR)) dep_Meta deploymentPayload (refView kind_Deployments)"
    "owner_references (lib_SetOwnerReference (psr_Lib refPSR))" "status_conditions (lib_SetStatusCondition refLib)"
    using ref_configMaps.resource_store_axioms ref_deployments.resource_store_axioms ref_owners.owner_references_axioms
      ref_conditions.status_conditions_axioms by (simp_all add: parts)
  from config_version_published [OF laws run, of "[]", unfolded parts] run show ?thesis by blast
qed

section \<open>Labels\<close>

text \<open>A set-based selector by labels matches when every label it names has its value.\<close>

definition labels_match :: "string gomap \<Rightarrow> string gomap \<Rightarrow> bool" where
  "labels_match sel labels \<longleftrightarrow> (\<forall>(k, v)\<in>set sel. goget labels k = Some v)"

text \<open>C21.
  The Deployment, the Service and the PodDisruptionBudget of a policy server select the pods that
  the Deployment creates, whatever the spec and the objects stored before; and the pods of
  a policy server with another name are selected by none of the three.\<close>

theorem selectors_find_own_pods:
  assumes owners: "owner_references (lib_SetOwnerReference (psr_Lib r))"
    and dep: "run_state (updatePolicyServerDeployment r ps v dep0) w = (Inr dep, w')" "dep_Spec dep = Some spec"
    and svc: "updateService r ps svc0 = Inr svc"
    and pdb: "updatePodDisruptionBudget (psr_Lib r) ps ns pdb0 = Inr pdb" "pdb_Selector pdb = Some sel"
    and other: "run_state (updatePolicyServerDeployment r' ps2 v2 dep1) w1 = (Inr dep2, w2)" "dep_Spec dep2 = Some spec2"
      "owner_references (lib_SetOwnerReference (psr_Lib r'))" "ps_Name ps2 \<noteq> ps_Name ps"
  shows "labels_match (dspec_Selector spec) (dspec_TemplateLabels spec) \<and>
    labels_match (svc_Selector svc) (dspec_TemplateLabels spec) \<and> labels_match (ls_MatchLabels sel) (dspec_TemplateLabels spec) \<and>
    \<not> labels_match (dspec_Selector spec) (dspec_TemplateLabels spec2) \<and>
    \<not> labels_match (svc_Selector svc) (dspec_TemplateLabels spec2) \<and> \<not> labels_match (ls_MatchLabels sel) (dspec_TemplateLabels spec2)"
proof -
  note own = updatePolicyServerDeployment_meta(3) [OF owners dep(1)]
    and their = updatePolicyServerDeployment_meta(3) [OF other(3,1)]
  have "svc_Selector svc = [(AppLabelKey, AppLabel ps)]"
    using svc by (auto simp: updateService_def Let_def split: option.splits sum.splits)
  moreover have "ls_MatchLabels sel = [(AppLabelKey, AppLabel ps), (PolicyServerLabelKey, ps_Name ps)]"
    using pdb by (auto simp: updatePodDisruptionBudget_def Let_def split: sum.splits option.splits)
  moreover have "AppLabel ps2 \<noteq> AppLabel ps" using other(4) by (simp add: AppLabel_def NameWithPrefix_def)
  ultimately show ?thesis
    using own their dep(2) other(2) by (auto simp: labels_match_def const_defs)
qed

lemma update_samples:
  "\<exists>svc. updateService refPSR (samplePolicyServer n) svc0 = Inr svc"
  "\<exists>pdb sel. updatePodDisruptionBudget refLib (samplePolicyServer n) ns pdb0 = Inr pdb \<and> pdb_Selector pdb = Some sel"
  by (simp_all add: updateService_def updatePodDisruptionBudget_def Let_def refPSR_def refLib_def refSetOwnerReference_def
      samplePolicyServer_def namedMeta_def emptyMeta_def)

theorem selectors_find_own_pods_witness:
  "\<exists>(spec :: DeploymentSpec) svc (spec2 :: DeploymentSpec). labels_match (svc_Selector svc) (dspec_TemplateLabels spec) \<and>
     \<not> labels_match (svc_Selector svc) (dspec_TemplateLabels spec2) \<and>
     updateService refPSR (samplePolicyServer ''s'') \<lparr>svc_Meta = emptyMeta, svc_Ports = [], svc_Selector = []\<rparr> = Inr svc"
proof -
  have owners: "owner_references (lib_SetOwnerReference (psr_Lib refPSR))"
    using ref_owners.owner_references_axioms by (simp add: refPSR_def refLib_def)
  have lib: "psr_Lib refPSR = refLib" by (simp add: refPSR_def)
  obtain d1 d2 where d: "run_state (updatePolicyServerDeployment refPSR (samplePolicyServer ''s'') ''1'' (sampleNewDeployment ''s'')) emptyCluster = (Inr d1, emptyCluster)"
    "run_state (updatePolicyServerDeployment refPSR (samplePolicyServer ''t'') ''1'' (sampleNewDeployment ''t'')) emptyCluster = (Inr d2, emptyCluster)"
    using updatePolicyServerDeployment_sample by meson
  obtain s1 s2 where s: "dep_Spec d1 = Some s1" "dep_Spec d2 = Some s2"
    using updatePolicyServerDeployment_meta(3) [OF owners d(1)] updatePolicyServerDeployment_meta(3) [OF owners d(2)] by blast
  obtain svc where svc: "updateService refPSR (samplePolicyServer ''s'') \<lparr>svc_Meta = emptyMeta, svc_Ports = [], svc_Selector = []\<rparr> = Inr svc"
    using update_samples(1) by blast
  obtain pdb sel where pdb: "updatePodDisruptionBudget (psr_Lib refPSR) (samplePolicyServer ''s'') ''n''
      \<lparr>pdb_Meta = emptyMeta, pdb_Selector = None, pdb_MinAvailable = None, pdb_MaxUnavailable = None\<rparr> = Inr pdb" "pdb_Selector pdb = Some sel"
    using update_samples(2) lib by metis
  have "ps_Name (samplePolicyServer ''t'') \<noteq> ps_Name (samplePolicyServer ''s'')"
    by (simp add: samplePolicyServer_def namedMeta_def)
  from selectors_find_own_pods [OF owners d(1) s(1) svc pdb d(2) s(2) owners this] svc show ?thesis by blast
qed

section \<open>The PodDisruptionBudget\<close>

text \<open>
  After the step for the PodDisruptionBudget the stored budget says what the spec says: a
  minimum of available pods when the spec gives one, else a maximum of unavailable pods, never both, with
  the selector of the policy server; and when the spec gives neither, there is no budget
  under that name that is not being deleted.\<close>

theorem pdb_matches_spec:
  assumes store: "resource_store (cl_PodDisruptionBudgets (psr_Client r)) pdb_Meta pdbPayload view"
    and owners: "owner_references (lib_SetOwnerReference (psr_Lib r))"
    and run: "run_state (reconcilePolicyServerPodDisruptionBudget r ps) w = (Inr (), w')"
  shows "case (pss_MinAvailable (ps_Spec ps), pss_MaxUnavailable (ps_Spec ps)) of
      (None, None) \<Rightarrow> (\<forall>p. view w' (psr_DeploymentsNamespace r, NameWithPrefix ps) = Some p \<longrightarrow> om_DeletionTimestamp (pdb_Meta p) \<noteq> None)
    | (mn, mx) \<Rightarrow> \<exists>p sel. view w' (psr_DeploymentsNamespace r, NameWithPrefix ps) = Some p \<and>
        pdb_Selector p = Some sel \<and> ls_MatchLabels sel = [(AppLabelKey, AppLabel ps), (PolicyServerLabelKey, ps_Name ps)] \<and>
        pdb_MinAvailable p = mn \<and> pdb_MaxUnavailable p = (if mn = None then mx else None)"
proof (cases "pss_MinAvailable (ps_Spec ps) = None \<and> pss_MaxUnavailable (ps_Spec ps) = None")
  case True
  let ?k = "(psr_DeploymentsNamespace r, NameWithPrefix ps)"
  let ?x = "\<lparr>pdb_Meta = namedMeta (psr_DeploymentsNamespace r) (NameWithPrefix ps), pdb_Selector = None,
    pdb_MinAvailable = None, pdb_MaxUnavailable = None\<rparr>"
  have key: "metaKey (pdb_Meta ?x) = ?k" by (simp add: metaKey_def namedMeta_def)
  obtain res where del: "run_state (r_Delete (cl_PodDisruptionBudgets (psr_Client r)) ?x) w = (res, w')"
    and res: "res = Inr () \<or> (\<exists>e. res = Inl e \<and> IsNotFound e)"
    using run True by (auto simp: reconcilePolicyServerPodDisruptionBudget_def deletePodDisruptionBudget_def run_andThen
        IgnoreNotFound_def split: prod.splits sum.splits if_splits option.splits)
  have "resource_store.gone pdb_Meta view w' ?k"
    using res
  proof (elim disjE exE conjE)
    assume "res = Inr ()"
    with del resource_store.delete_gone [OF store] key show ?thesis by metis
  next
    fix e assume "res = Inl e" "IsNotFound e"
    with del resource_store.delete_not_found [OF store] key show ?thesis
      by (metis option.case(1) resource_store.gone_def store)
  qed
  then show ?thesis using True by (auto simp: resource_store.gone_def [OF store])
next
  case False
  let ?k = "(psr_DeploymentsNamespace r, NameWithPrefix ps)"
  let ?x = "\<lparr>pdb_Meta = namedMeta (psr_DeploymentsNamespace r) (NameWithPrefix ps), pdb_Selector = None,
    pdb_MinAvailable = None, pdb_MaxUnavailable = None\<rparr>"
  let ?f = "\<lambda>pdb. lift_result (updatePodDisruptionBudget (psr_Lib r) ps (psr_DeploymentsNamespace r) pdb)"
  obtain y where patch: "run_state (r_CreateOrPatch (cl_PodDisruptionBudgets (psr_Client r)) ?x ?f) w = (Inr y, w')"
    using run False by (auto simp: reconcilePolicyServerPodDisruptionBudget_def reconcilePodDisruptionBudget_def run_andThen
        split: prod.splits sum.splits)
  obtain b y' z w0 w1 where upd: "run_state (?f b) w0 = (Inr y', w1)"
    and z: "pdbPayload z = pdbPayload y'" "view w' = (view w1)(metaKey (pdb_Meta y') \<mapsto> z)"
    using resource_store.patch_run [OF store patch] by blast
  have y': "updatePodDisruptionBudget (psr_Lib r) ps (psr_DeploymentsNamespace r) b = Inr y'"
    using upd by (simp add: lift_result_def split: sum.splits)
  have "metaKey (pdb_Meta y') = ?k"
    using y' owner_references.keeps [OF owners]
    by (auto simp: updatePodDisruptionBudget_def Let_def metaKey_def split: sum.splits option.splits)
  moreover have "\<exists>sel. pdb_Selector y' = Some sel \<and> ls_MatchLabels sel = [(AppLabelKey, AppLabel ps), (PolicyServerLabelKey, ps_Name ps)]"
    "pdb_MinAvailable y' = pss_MinAvailable (ps_Spec ps)"
    "pdb_MaxUnavailable y' = (if pss_MinAvailable (ps_Spec ps) = None then pss_MaxUnavailable (ps_Spec ps) else None)"
    using y' by (auto simp: updatePodDisruptionBudget_def Let_def split: sum.splits option.splits)
  ultimately show ?thesis
    using z False by (auto simp: pdbPayload_def split: option.splits)
qed

definition budgetServer :: PolicyServer where
  "budgetServer = (samplePolicyServer ''s'')\<lparr>ps_Spec := (ps_Spec (samplePolicyServer ''s''))\<lparr>pss_MinAvailable := Some (IntVal 2)\<rparr>\<rparr>"

theorem pdb_matches_spec_witness:
  "\<exists>w' p. run_state (reconcilePolicyServerPodDisruptionBudget refPSR budgetServer) emptyCluster = (Inr (), w') \<and>
     refView kind_PodDisruptionBudgets w' (''kubewarden'', ''policy-server-s'') = Some p \<and>
     pdb_MinAvailable p = Some (IntVal 2) \<and> pdb_MaxUnavailable p = None"
proof -
  have spec: "pss_MinAvailable (ps_Spec budgetServer) = Some (IntVal 2)" "pss_MaxUnavailable (ps_Spec budgetServer) = None"
    "NameWithPrefix budgetServer = ''policy-server-s''" "psr_DeploymentsNamespace refPSR = ''kubewarden''"
    by (simp_all add: budgetServer_def samplePolicyServer_def NameWithPrefix_def namedMeta_def refPSR_def)
  obtain w' where run: "run_state (reconcilePolicyServerPodDisruptionBudget refPSR budgetServer) emptyCluster = (Inr (), w')"
    by (simp add: reconcilePolicyServerPodDisruptionBudget_def spec reconcilePodDisruptionBudget_def run_andThen refPSR_def refClient_def
        refResource_simps kind_PodDisruptionBudgets_def emptyCluster_def findObj_def updatePodDisruptionBudget_def Let_def refLib_def
        refSetOwnerReference_def budgetServer_def samplePolicyServer_def namedMeta_def emptyMeta_def lift_result_def writeObj_def)
  have laws: "resource_store (cl_PodDisruptionBudgets (psr_Client refPSR)) pdb_Meta pdbPayload (refView kind_PodDisruptionBudgets)"
    "owner_references (lib_SetOwnerReference (psr_Lib refPSR))"
    using ref_pdbs.resource_store_axioms ref_owners.owner_references_axioms by (simp_all add: refPSR_def refLib_def)
  from pdb_matches_spec [OF laws run] run show ?thesis by (auto simp: spec)
qed

section \<open>The certificate secret\<close>

lemma secretEntry_meta: "secretEntry (s\<lparr>sec_Meta := m\<rparr>) = secretEntry s"
  by (simp add: secretEntry_def fun_eq_iff split: option.split)

lemma secretEntry_data: "goget (sec_Data s) k \<noteq> None \<Longrightarrow> secretEntry s k \<noteq> None"
  by (simp add: secretEntry_def split: option.split)

lemma updateCertSecret_cases:
  assumes owners: "owner_references (lib_SetOwnerReference (psr_Lib r))"
    and run: "run_state (updateCertSecret r ps caSecret b) w = (Inr y, w')"
  obtains (kept) "goget (sec_Data b) ServerCert \<noteq> None" "goget (sec_Data b) ServerPrivateKey \<noteq> None"
      "secretEntry y = secretEntry b" "metaKey (sec_Meta y) = metaKey (sec_Meta b)"
  | (generated) ca caKey cert key now1 now2 w1 w2 where "ExtractCARootFromSecret caSecret = Inr (ca, caKey)"
      "run_state (cr_Now (psr_Crypto r)) w = (now1, w1)" "run_state (cr_Now (psr_Crypto r)) w1 = (now2, w2)"
      "run_state (GenerateCert (psr_Crypto r) ca caKey now1 (now2 + ServerCertExpiration)
         (DNSName (NameWithPrefix ps) (psr_DeploymentsNamespace r))) w2 = (Inr (cert, key), w')"
      "secretEntry y ServerCert = Some cert" "secretEntry y ServerPrivateKey = Some key"
      "metaKey (sec_Meta y) = metaKey (sec_Meta b)"
proof -
  obtain m where m: "lib_SetOwnerReference (psr_Lib r) (ps_Meta ps) (sec_Meta b) = Inr m"
    using run by (auto simp: updateCertSecret_def split: sum.splits)
  note keeps = owner_references.keeps [OF owners m]
  show thesis
  proof (cases "goget (sec_Data b) ServerCert = None \<or> goget (sec_Data b) ServerPrivateKey = None")
    case False
    then show thesis
      using run m keeps kept by (auto simp: updateCertSecret_def Let_def metaKey_def secretEntry_meta)
  next
    case True
    obtain ca caKey where ca: "ExtractCARootFromSecret caSecret = Inr (ca, caKey)"
      using run m True by (auto simp: updateCertSecret_def Let_def split: sum.splits prod.splits)
    obtain now1 w1 now2 w2 where now: "run_state (cr_Now (psr_Crypto r)) w = (now1, w1)" "run_state (cr_Now (psr_Crypto r)) w1 = (now2, w2)"
      by (metis prod.exhaust)
    have "ServerCert \<noteq> ServerPrivateKey" by (simp add: const_defs)
    with True show thesis
      using run m keeps ca now generated [OF ca now]
      by (auto simp: updateCertSecret_def Let_def metaKey_def secretEntry_def DNSName_def run_orWrap split: sum.splits prod.splits)
  qed
qed


definition caCluster :: cluster where
  "caCluster = emptyCluster\<lparr>st_Secrets := [grantedSecret]\<rparr>"


end
