(* ===== verification/Cert_Reconciler.thy ===== *)
theory Cert_Reconciler
  imports Policy_Reconciler
begin

text \<open>
  \<open>internal/controller/cert_controller.go\<close>: the rotation of the CA and of the server certificates.
  The functions that change the CA secret in place return it. \<open>retry.RetryOnConflict\<close> of client-go is
  a parameter. A verification that dereferences a nil PEM block ends the run with \<open>Aborted\<close>.
\<close>

section \<open>The reconciler\<close>

record 'w CertReconciler =
  certr_Client :: "'w client"
  certr_Crypto :: "'w crypto_lib"
  certr_RetryOnConflict :: "('w, unit) op \<Rightarrow> ('w, unit) op"
  certr_DeploymentsNamespace :: string
  certr_WebhookServiceName :: string
  certr_CARootSecretName :: string
  certr_WebhookServerCertSecretName :: string

section \<open>Webhook configurations\<close>

definition injectCABundle :: "string \<Rightarrow> WebhookConfiguration \<Rightarrow> WebhookConfiguration" where
  "injectCABundle caBundle c = c\<lparr>wc_Webhooks :=
     map (\<lambda>h. h\<lparr>wh_ClientConfig := (wh_ClientConfig h)\<lparr>wcc_CABundle := caBundle\<rparr>\<rparr>) (wc_Webhooks c)\<rparr>"

definition patchWebhookConfigurations ::
  "'w CertReconciler \<Rightarrow> ('w, WebhookConfiguration) resource \<Rightarrow> string \<Rightarrow> string \<Rightarrow> ('w, unit) op" where
  "patchWebhookConfigurations r res kind caBundle =
     orWrap (r_List res (matchingLabels [(PartOfLabelKey, PartOfLabelValue)]))
       (''failed to list '' @ kind @ '' webhook configurations'')
       (\<lambda>items. forEach items (\<lambda>original.
          orWrap (certr_RetryOnConflict r (mapOp (\<lambda>_. ()) (r_Patch res original (injectCABundle caBundle original))))
            (''failed to patch '' @ kind @ '' webhook configuration'') ok))"

definition reconcileWebhookConfigurations :: "'w CertReconciler \<Rightarrow> string \<Rightarrow> ('w, unit) op" where
  "reconcileWebhookConfigurations r caBundle =
     andThen (patchWebhookConfigurations r (cl_ValidatingWebhooks (certr_Client r)) ''validating'' caBundle) fail
       (\<lambda>_. patchWebhookConfigurations r (cl_MutatingWebhooks (certr_Client r)) ''mutating'' caBundle)"

section \<open>The CA\<close>

definition rotateCA :: "'w CertReconciler \<Rightarrow> Secret \<Rightarrow> string \<Rightarrow> ('w, Secret) op" where
  "rotateCA r caRootSecret oldCACert =
     State_Monad.bind (cr_Now (certr_Crypto r)) (\<lambda>now1.
     State_Monad.bind (cr_Now (certr_Crypto r)) (\<lambda>now2.
       orWrap (GenerateCA (certr_Crypto r) now1 (now2 + CACertExpiration)) ''failed to generate CA cert''
         (\<lambda>(caCert, caPrivateKey).
            let caRootSecret1 = caRootSecret\<lparr>sec_Data := goput OldCARootCert oldCACert
                  (goput CARootPrivateKey caPrivateKey (goput CARootCert caCert (sec_Data caRootSecret)))\<rparr>
            in orWrap (r_Update (cl_Secrets (certr_Client r)) caRootSecret1) ''failed to update CA root secret''
                 (\<lambda>caRootSecret2. orWrap (reconcileWebhookConfigurations r (caCert @ oldCACert))
                    ''failed to reconcile webhook configurations'' (\<lambda>_. ok caRootSecret2)))))"

definition reconcileCARoot :: "'w CertReconciler \<Rightarrow> Secret \<Rightarrow> ('w, Secret) op" where
  "reconcileCARoot r caRootSecret =
     (case ExtractCARootFromSecret caRootSecret of
        Inl err \<Rightarrow> fail (Wrap ''failed to extract CA root from secret'' err)
      | Inr (caCert, caPrivateKey) \<Rightarrow>
          State_Monad.bind (cr_Now (certr_Crypto r)) (\<lambda>now.
            case VerifyCA (certr_Crypto r) caCert (Some caPrivateKey) (now + CertLookahead) of
              VerifyPanic \<Rightarrow> fail (Aborted ''nil PEM block'')
            | Valid \<Rightarrow> ok caRootSecret
            | InvalidCert _ \<Rightarrow> rotateCA r caRootSecret caCert))"

definition reconcileOldCARoot :: "'w CertReconciler \<Rightarrow> Secret \<Rightarrow> ('w, Secret) op" where
  "reconcileOldCARoot r caRootSecret =
     (case goget (sec_Data caRootSecret) OldCARootCert of
        None \<Rightarrow> ok caRootSecret
      | Some oldCACert \<Rightarrow>
          State_Monad.bind (cr_Now (certr_Crypto r)) (\<lambda>now.
            case VerifyCA (certr_Crypto r) oldCACert None now of
              VerifyPanic \<Rightarrow> fail (Aborted ''nil PEM block'')
            | Valid \<Rightarrow> ok caRootSecret
            | InvalidCert _ \<Rightarrow>
                (case ExtractCARootFromSecret caRootSecret of
                   Inl err \<Rightarrow> fail (Wrap ''failed to extract CA root from secret'' err)
                 | Inr (caCert, _) \<Rightarrow>
                     orWrap (r_Update (cl_Secrets (certr_Client r))
                         (caRootSecret\<lparr>sec_Data := godel OldCARootCert (sec_Data caRootSecret)\<rparr>))
                       ''failed to update CA root secret''
                       (\<lambda>caRootSecret1. orWrap (reconcileWebhookConfigurations r caCert)
                          ''failed to reconcile webhook configurations'' (\<lambda>_. ok caRootSecret1)))))"

section \<open>Server certificates\<close>

definition rotateServerCert :: "'w CertReconciler \<Rightarrow> Secret \<Rightarrow> string \<Rightarrow> string \<Rightarrow> string \<Rightarrow> ('w, unit) op" where
  "rotateServerCert r serverCertSecret caCert caPrivateKey dnsName =
     State_Monad.bind (cr_Now (certr_Crypto r)) (\<lambda>now1.
     State_Monad.bind (cr_Now (certr_Crypto r)) (\<lambda>now2.
       orWrap (GenerateCert (certr_Crypto r) caCert caPrivateKey now1 (now2 + ServerCertExpiration) dnsName)
         ''failed to generate cert''
         (\<lambda>(newCert, newPrivateKey).
            orWrap (r_Update (cl_Secrets (certr_Client r)) (serverCertSecret\<lparr>sec_Data :=
                goput ServerPrivateKey newPrivateKey (goput ServerCert newCert (sec_Data serverCertSecret))\<rparr>))
              ''failed to update secret'' (\<lambda>_. ok ()))))"

definition reconcileServerCert :: "'w CertReconciler \<Rightarrow> Secret \<Rightarrow> Secret \<Rightarrow> string \<Rightarrow> ('w, unit) op" where
  "reconcileServerCert r serverCertSecret caRootSecret dnsName =
     (case ExtractServerCertFromSecret serverCertSecret of
        Inl err \<Rightarrow> fail (Wrap ''failed to extract server cert from secret'' err)
      | Inr (cert, privateKey) \<Rightarrow>
          (case ExtractCARootFromSecret caRootSecret of
             Inl err \<Rightarrow> fail (Wrap ''failed to extract CA root from secret'' err)
           | Inr (caCert, caPrivateKey) \<Rightarrow>
               (case NewCertPool (certr_Crypto r) caCert of
                  Inl err \<Rightarrow> fail (Wrap ''failed to create cert pool'' err)
                | Inr pool \<Rightarrow>
                    State_Monad.bind (cr_Now (certr_Crypto r)) (\<lambda>now.
                      case VerifyCert (certr_Crypto r) cert (Some privateKey) pool dnsName (now + CertLookahead) of
                        VerifyPanic \<Rightarrow> fail (Aborted ''nil PEM block'')
                      | Valid \<Rightarrow> ok ()
                      | InvalidCert _ \<Rightarrow> rotateServerCert r serverCertSecret caCert caPrivateKey dnsName))))"

definition serverCertSecrets :: "string \<Rightarrow> list_options" where
  "serverCertSecrets namespace = \<lparr>lo_Namespace = Some namespace,
     lo_MatchingLabels = [(PartOfLabelKey, PartOfLabelValue), (ComponentLabelKey, ComponentPolicyServerLabelValue)],
     lo_MatchingFields = []\<rparr>"

definition reconcileServerCerts :: "'w CertReconciler \<Rightarrow> Secret \<Rightarrow> ('w, unit) op" where
  "reconcileServerCerts r caRootSecret =
     orWrap (r_Get (cl_Secrets (certr_Client r)) (certr_DeploymentsNamespace r, certr_WebhookServerCertSecretName r))
       ''failed to get webhook server cert secret''
       (\<lambda>webhookServerCertSecret.
          orWrap (reconcileServerCert r webhookServerCertSecret caRootSecret
              (DNSName (certr_WebhookServiceName r) (certr_DeploymentsNamespace r))) ''failed to rotate server cert''
            (\<lambda>_. orWrap (r_List (cl_Secrets (certr_Client r)) (serverCertSecrets (certr_DeploymentsNamespace r)))
               ''failed to list policy server cert secrets''
               (\<lambda>items. forEach items (\<lambda>serverCertSecret.
                  orWrap (reconcileServerCert r serverCertSecret caRootSecret
                      (DNSName (om_Name (sec_Meta serverCertSecret)) (certr_DeploymentsNamespace r)))
                    ''failed to rotate server cert'' ok))))"

section \<open>The loop\<close>

definition CertReconciler_reconcile :: "'w CertReconciler \<Rightarrow> ('w, unit) op" where
  "CertReconciler_reconcile r =
     orWrap (r_Get (cl_Secrets (certr_Client r)) (certr_DeploymentsNamespace r, certr_CARootSecretName r))
       ''failed to get CA cert secret''
       (\<lambda>caCertSecret. orWrap (reconcileCARoot r caCertSecret) ''failed to reconcile CA root''
          (\<lambda>s1. orWrap (reconcileOldCARoot r s1) ''failed to reconcile old CA root''
             (\<lambda>s2. orWrap (reconcileServerCerts r s2) ''failed to reconcile server certs'' (\<lambda>_. ok ()))))"

text \<open>
  \<open>Start\<close> waits for the next tick or for the end of its context; the list is what happens, in
  order. An error is logged and the loop goes on; a panic ends the process. \<open>Waiting\<close>: the
  loop is still running after the events of the list.
\<close>

datatype certr_event = Tick | ContextDone

datatype certr_outcome = Waiting | Stopped | Crashed

fun aborts :: "go_error \<Rightarrow> bool" where
  "aborts (ApiError _) = False"
| "aborts (NewError _) = False"
| "aborts (Wrap _ e) = aborts e"
| "aborts (Joined es) = list_ex aborts es"
| "aborts (Aborted _) = True"

fun CertReconciler_Start :: "'w CertReconciler \<Rightarrow> certr_event list \<Rightarrow> ('w, certr_outcome) state" where
  "CertReconciler_Start r [] = ret Waiting"
| "CertReconciler_Start r (ContextDone # events) = ret Stopped"
| "CertReconciler_Start r (Tick # events) =
     andThen (CertReconciler_reconcile r)
       (\<lambda>err. if aborts err then ret Crashed else CertReconciler_Start r events)
       (\<lambda>_. CertReconciler_Start r events)"

section \<open>Rotation of the CA\<close>

definition caBundles :: "WebhookConfiguration \<Rightarrow> string set" where
  "caBundles c = (\<lambda>h. wcc_CABundle (wh_ClientConfig h)) ` set (wc_Webhooks c)"

text \<open>
  The two kinds of webhook configurations: a patch or a list of the mutating ones does not touch the
  validating ones.
\<close>

locale webhook_stores =
  v: patch_store vres wc_Meta webhookPayload vview + m: patch_store mres wc_Meta webhookPayload mview
  for vres :: "('w, WebhookConfiguration) resource" and vview :: "'w \<Rightarrow> nsname \<Rightarrow> WebhookConfiguration option"
    and mres :: "('w, WebhookConfiguration) resource" and mview :: "'w \<Rightarrow> nsname \<Rightarrow> WebhookConfiguration option" +
  assumes m_list_frame: "run_state (r_List mres opts) w = (r1, w') \<Longrightarrow> vview w' = vview w"
    and m_patch_frame: "run_state (r_Patch mres x y) w = (r2, w') \<Longrightarrow> vview w' = vview w"

definition ours :: "ObjectMeta \<Rightarrow> bool" where
  "ours m \<longleftrightarrow> goget (om_Labels m) PartOfLabelKey = Some PartOfLabelValue"

lemma hasLabels_ours: "hasLabels [(PartOfLabelKey, PartOfLabelValue)] m = ours m"
  by (simp add: hasLabels_def ours_def)

lemma injectCABundle_simps:
  "wc_Meta (injectCABundle b c) = wc_Meta c" "caBundles (injectCABundle b c) \<subseteq> {b}"
  by (auto simp: injectCABundle_def caBundles_def)

lemma payload_bundles:
  "webhookPayload z = webhookPayload y \<Longrightarrow> caBundles z = caBundles y \<and> ours (wc_Meta z) = ours (wc_Meta y)"
  by (simp add: webhookPayload_def caBundles_def ours_def)

lemma patchWebhookConfigurations_injects:
  assumes store: "patch_store res wc_Meta webhookPayload view" and retry: "conflict_retry (certr_RetryOnConflict r)"
    and run: "run_state (patchWebhookConfigurations r res kind b) w = (Inr (), w')"
    and z: "view w' k = Some z" "ours (wc_Meta z)"
  shows "caBundles z \<subseteq> {b}"
proof -
  obtain xs w1 where list: "run_state (r_List res (matchingLabels [(PartOfLabelKey, PartOfLabelValue)])) w = (Inr xs, w1)"
    and loop: "run_state (forEach xs (\<lambda>x. orWrap (certr_RetryOnConflict r (mapOp (\<lambda>_. ()) (r_Patch res x (injectCABundle b x))))
      (''failed to patch '' @ kind @ '' webhook configuration'') ok)) w1 = (Inr (), w')"
    using run unfolding patchWebhookConfigurations_def run_orWrap by (auto split: prod.splits sum.splits)
  have view: "view w1 = view w" by (rule patch_store.list_frame [OF store list])
  have xs: "distinct (map (\<lambda>x. metaKey (wc_Meta x)) xs)"
    "\<And>x. x \<in> set xs \<longleftrightarrow> view w1 (metaKey (wc_Meta x)) = Some x \<and> ours (wc_Meta x)"
    using patch_store.list_distinct [OF store list] patch_store.list_iff [OF store list] view
    by (simp_all add: hasLabels_ours)
  note patched = patch_store.patch_all [OF store retry _ loop xs(1)]
  have all: "\<And>x. x \<in> set xs \<Longrightarrow> \<exists>z. view w' (metaKey (wc_Meta x)) = Some z \<and> webhookPayload z = webhookPayload (injectCABundle b x)"
    "\<And>k. k \<notin> (\<lambda>x. metaKey (wc_Meta x)) ` set xs \<Longrightarrow> view w' k = view w1 k"
    using patched xs(2) by (auto simp: injectCABundle_simps)
  have key: "metaKey (wc_Meta z) = k"
    using patch_store.axioms(1) [OF store] z(1) by (rule resource_store.view_key)
  show ?thesis
  proof (cases "k \<in> (\<lambda>x. metaKey (wc_Meta x)) ` set xs")
    case True
    with all(1) z(1) obtain x where "webhookPayload z = webhookPayload (injectCABundle b x)" by fastforce
    then show ?thesis using payload_bundles injectCABundle_simps(2) by blast
  next
    case False
    with all(2) z key xs(2) show ?thesis by (metis imageI)
  qed
qed

lemma patchWebhookConfigurations_keeps:
  assumes retry: "conflict_retry (certr_RetryOnConflict r)"
    and list: "\<And>opts w r w'. run_state (r_List res opts) w = (r, w') \<Longrightarrow> v w' = v w"
    and patch: "\<And>x y w r w'. run_state (r_Patch res x y) w = (r, w') \<Longrightarrow> v w' = v w"
    and run: "run_state (patchWebhookConfigurations r res kind b) w = (u, w')"
  shows "v w' = v w"
proof -
  have step: "v w2 = v w1"
    if "run_state (orWrap (certr_RetryOnConflict r (mapOp (\<lambda>_. ()) (r_Patch res x y))) msg ok) w1 = (r1, w2)" for x y msg w1 r1 w2
  proof -
    have "v w4 = v w3" if "run_state (mapOp (\<lambda>_. ()) (r_Patch res x y)) w3 = (r3, w4)" for w3 r3 w4
      using that patch [of x y w3] by (auto simp: run_mapOp split: prod.splits sum.splits)
    then have "v w2 = v w1" if "run_state (certr_RetryOnConflict r (mapOp (\<lambda>_. ()) (r_Patch res x y))) w1 = (r1, w2)" for r1 w2
      using conflict_retry.retry_keeps [OF retry that, of v] by blast
    with that show ?thesis by (auto simp: run_orWrap split: prod.splits sum.splits)
  qed
  obtain r1 w1 where l: "run_state (r_List res (matchingLabels [(PartOfLabelKey, PartOfLabelValue)])) w = (r1, w1)" by fastforce
  show ?thesis
  proof (cases r1)
    case (Inl e)
    with l run list [OF l] show ?thesis by (simp add: patchWebhookConfigurations_def run_orWrap)
  next
    case (Inr xs)
    with l run have "run_state (forEach xs (\<lambda>original. orWrap (certr_RetryOnConflict r (mapOp (\<lambda>_. ())
        (r_Patch res original (injectCABundle b original)))) (''failed to patch '' @ kind @ '' webhook configuration'') ok)) w1 = (u, w')"
      unfolding patchWebhookConfigurations_def run_orWrap by simp
    then have "v w' = v w1"
      by (rule forEach_invariant [where I = "\<lambda>w. v w = v w1", rotated]) (auto dest: step)
    with list [OF l] show ?thesis by simp
  qed
qed

context webhook_stores
begin

lemma inject_all:
  assumes retry: "conflict_retry (certr_RetryOnConflict r)"
    and client: "cl_ValidatingWebhooks (certr_Client r) = vres" "cl_MutatingWebhooks (certr_Client r) = mres"
    and run: "run_state (reconcileWebhookConfigurations r b) w = (Inr (), w')"
    and c: "vview w' k = Some c \<or> mview w' k = Some c" "ours (wc_Meta c)"
  shows "caBundles c \<subseteq> {b}"
proof -
  obtain w1 where v: "run_state (patchWebhookConfigurations r vres ''validating'' b) w = (Inr (), w1)"
    and m: "run_state (patchWebhookConfigurations r mres ''mutating'' b) w1 = (Inr (), w')"
    using run by (auto simp: reconcileWebhookConfigurations_def client run_andThen split: prod.splits sum.splits)
  have "vview w' = vview w1"
    by (rule patchWebhookConfigurations_keeps [OF retry _ _ m]) (auto dest: m_list_frame m_patch_frame)
  with c show ?thesis
    using patchWebhookConfigurations_injects [OF v.patch_store_axioms retry v, of k c]
      patchWebhookConfigurations_injects [OF m.patch_store_axioms retry m, of k c] by auto
qed

end

lemma refView_other:
  "refView kind_ValidatingWebhooks (snd (writeObj kind_MutatingWebhooks y w)) = refView kind_ValidatingWebhooks w"
  by (simp add: refView_def writeObj_def Let_def kind_ValidatingWebhooks_def kind_MutatingWebhooks_def fun_eq_iff)

interpretation ref_webhooks: webhook_stores "cl_ValidatingWebhooks refClient" "refView kind_ValidatingWebhooks"
    "cl_MutatingWebhooks refClient" "refView kind_MutatingWebhooks"
proof -
  have good: "good_kind kind_ValidatingWebhooks webhookPayload" "good_kind kind_MutatingWebhooks webhookPayload"
    by (simp_all add: good_kind_def kind_ValidatingWebhooks_def kind_MutatingWebhooks_def webhookPayload_def)
  have frame: "run_state (r_List (refResource kind_MutatingWebhooks) opts) w = (r1, w') \<Longrightarrow>
      refView kind_ValidatingWebhooks w' = refView kind_ValidatingWebhooks w"
    "run_state (r_Patch (refResource kind_MutatingWebhooks) x y) w = (r2, w') \<Longrightarrow>
      refView kind_ValidatingWebhooks w' = refView kind_ValidatingWebhooks w" for opts w r1 w' x y r2
    by (auto simp: run_refList run_refPatch refView_other split: option.splits)
  show "webhook_stores (cl_ValidatingWebhooks refClient) (refView kind_ValidatingWebhooks)
      (cl_MutatingWebhooks refClient) (refView kind_MutatingWebhooks)"
    using refPatch_store [OF good(1)] refPatch_store [OF good(2)] frame
    by (intro webhook_stores.intro webhook_stores_axioms.intro)
      (simp_all add: refClient_def kind_ValidatingWebhooks_def kind_MutatingWebhooks_def)
qed

section \<open>A cluster with a CA\<close>

definition refCertR :: "cluster CertReconciler" where
  "refCertR = \<lparr>certr_Client = refClient, certr_Crypto = refCrypto, certr_RetryOnConflict = refRetry,
     certr_DeploymentsNamespace = ''kubewarden'', certr_WebhookServiceName = ''webhook'',
     certr_CARootSecretName = CARootSecretName, certr_WebhookServerCertSecretName = WebhookServerCertSecretName\<rparr>"

text \<open>A CA secret with the certificate text \<open>ca\<close> and further entries.\<close>

definition caSecretWith :: "string \<Rightarrow> (string \<times> string) list \<Rightarrow> Secret" where
  "caSecretWith ca entries = \<lparr>sec_Meta = namedMeta ''kubewarden'' CARootSecretName, sec_Type = ''Opaque'',
     sec_Data = [(CARootCert, ca @ [newline]), (CARootPrivateKey, ''key'' @ [newline])] @ entries, sec_StringData = []\<rparr>"

definition ownWebhook :: WebhookConfiguration where
  "ownWebhook = setPolicyWebhook refSub (CAP (sampleCAP ''p'')) sampleCASecret ''s'' (newWebhookConfiguration (CAP (sampleCAP ''p'')))"

definition rotationCluster :: "Secret \<Rightarrow> cluster" where
  "rotationCluster s = emptyCluster\<lparr>st_Secrets := [s], st_ValidatingWebhooks := [ownWebhook]\<rparr>"

lemma refCertR_laws:
  "webhook_stores (cl_ValidatingWebhooks (certr_Client refCertR)) (refView kind_ValidatingWebhooks)
     (cl_MutatingWebhooks (certr_Client refCertR)) (refView kind_MutatingWebhooks)"
  "conflict_retry (certr_RetryOnConflict refCertR)"
  using ref_webhooks.webhook_stores_axioms ref_retry.conflict_retry_axioms by (simp_all add: refCertR_def)

lemma ownWebhook_simps: "wc_Meta ownWebhook = (namedMeta '''' (GetUniqueName (CAP (sampleCAP ''p''))))\<lparr>
    om_Labels := [(PartOfLabelKey, PartOfLabelValue)], om_Annotations := om_Annotations (wc_Meta ownWebhook)\<rparr>"
  by (simp add: ownWebhook_def setPolicyWebhook_def newWebhookConfiguration_def namedMeta_def)

lemma refRetry_ok: "run_state m w = (Inr (), w') \<Longrightarrow> run_state (refRetry m) w = (Inr (), w')"
  by (simp add: refRetry_def numeral_3_eq_3 run_andThen)

lemma rotationCluster_inject:
  assumes w: "st_faults w = []" "st_ValidatingWebhooks w = [ownWebhook]" "st_MutatingWebhooks w = []"
  shows "\<exists>w' c. run_state (reconcileWebhookConfigurations refCertR b) w = (Inr (), w') \<and>
    refView kind_ValidatingWebhooks w' (metaKey (wc_Meta ownWebhook)) = Some c \<and> ours (wc_Meta c)"
proof -
  let ?y = "injectCABundle b ownWebhook"
  let ?w = "snd (writeObj kind_ValidatingWebhooks ?y w)"
  have kind: "k_get kind_ValidatingWebhooks = st_ValidatingWebhooks" "k_meta kind_ValidatingWebhooks = wc_Meta"
    "k_get kind_MutatingWebhooks = st_MutatingWebhooks" "good_kind kind_ValidatingWebhooks webhookPayload"
    by (simp_all add: kind_ValidatingWebhooks_def kind_MutatingWebhooks_def good_kind_def webhookPayload_def)
  have parts: "certr_RetryOnConflict refCertR = refRetry" "cl_ValidatingWebhooks (certr_Client refCertR) = refResource kind_ValidatingWebhooks"
    "cl_MutatingWebhooks (certr_Client refCertR) = refResource kind_MutatingWebhooks"
    by (simp_all add: refCertR_def refClient_def)
  have own: "ours (wc_Meta ownWebhook)" by (subst ownWebhook_simps) (simp add: ours_def)
  have list: "run_state (r_List (refResource kind_ValidatingWebhooks) (matchingLabels [(PartOfLabelKey, PartOfLabelValue)])) w = (Inr [ownWebhook], w)"
    using own by (simp add: run_refList w kind selects_matchingLabels hasLabels_ours)
  have "run_state (mapOp (\<lambda>_. ()) (r_Patch (refResource kind_ValidatingWebhooks) ownWebhook ?y)) w = (Inr (), ?w)"
    by (simp add: run_mapOp run_refPatch w kind injectCABundle_simps refView_def findObj_def)
  then have "run_state (refRetry (mapOp (\<lambda>_. ()) (r_Patch (refResource kind_ValidatingWebhooks) ownWebhook ?y))) w = (Inr (), ?w)"
    by (rule refRetry_ok)
  then have v: "run_state (patchWebhookConfigurations refCertR (refResource kind_ValidatingWebhooks) ''validating'' b) w = (Inr (), ?w)"
    using list by (simp add: patchWebhookConfigurations_def run_orWrap run_andThen parts)
  have "st_faults ?w = []" "st_MutatingWebhooks ?w = []"
    using w by (simp_all add: writeObj_def Let_def kind_ValidatingWebhooks_def)
  then have "run_state (patchWebhookConfigurations refCertR (refResource kind_MutatingWebhooks) ''mutating'' b) ?w = (Inr (), ?w)"
    by (simp add: patchWebhookConfigurations_def run_orWrap run_refList kind)
  with v have "run_state (reconcileWebhookConfigurations refCertR b) w = (Inr (), ?w)"
    by (simp add: reconcileWebhookConfigurations_def run_andThen parts)
  moreover have "refView kind_ValidatingWebhooks ?w (metaKey (wc_Meta ownWebhook)) = Some (fst (writeObj kind_ValidatingWebhooks ?y w))"
    using refView_write(1) [OF kind(4), of ?y w] by (simp add: kind injectCABundle_simps)
  moreover have "ours (wc_Meta (fst (writeObj kind_ValidatingWebhooks ?y w)))"
    using refView_write(3) [OF kind(4), of ?y w] own by (simp add: kind injectCABundle_simps ours_def)
  ultimately show ?thesis by blast
qed

section \<open>Properties\<close>

lemma rotateCA_ok:
  assumes "run_state (rotateCA r s old) w = (Inr s', w')"
  obtains now1 now2 new newKey w1 w2 w3 w4 where
    "run_state (cr_Now (certr_Crypto r)) w = (now1, w1)" "run_state (cr_Now (certr_Crypto r)) w1 = (now2, w2)"
    "run_state (GenerateCA (certr_Crypto r) now1 (now2 + CACertExpiration)) w2 = (Inr (new, newKey), w3)"
    "run_state (r_Update (cl_Secrets (certr_Client r)) (s\<lparr>sec_Data := goput OldCARootCert old
       (goput CARootPrivateKey newKey (goput CARootCert new (sec_Data s)))\<rparr>)) w3 = (Inr s', w4)"
    "run_state (reconcileWebhookConfigurations r (new @ old)) w4 = (Inr (), w')"
  using assms by (auto simp: rotateCA_def Let_def run_orWrap split: prod.splits sum.splits)

text \<open>C10.
  When the CA is about to expire it is replaced without a moment in which no authority is known: a
  run that succeeds has stored a secret with a new CA made by GenerateCA, with its key and
  with the replaced certificate as the old one, every other entry as it was, and afterwards
  every webhook configuration of the controller, validating or mutating, trusts the
  new certificate followed by the old one, and nothing else.\<close>

theorem ca_rotation_reaches_webhooks:
  assumes stores: "webhook_stores (cl_ValidatingWebhooks (certr_Client r)) vview (cl_MutatingWebhooks (certr_Client r)) mview"
    and retry: "conflict_retry (certr_RetryOnConflict r)"
    and ca: "ExtractCARootFromSecret s = Inr (old, oldKey)" "run_state (cr_Now (certr_Crypto r)) w = (now, w1)"
      "VerifyCA (certr_Crypto r) old (Some oldKey) (now + CertLookahead) = InvalidCert e"
    and run: "run_state (reconcileCARoot r s) w = (Inr s', w')"
  shows "\<exists>new newKey sent from till w2 w3 w4.
    run_state (GenerateCA (certr_Crypto r) from till) w2 = (Inr (new, newKey), w3) \<and>
    run_state (r_Update (cl_Secrets (certr_Client r)) sent) w3 = (Inr s', w4) \<and> sec_Meta sent = sec_Meta s \<and>
    (\<forall>k. goget (sec_Data sent) k = (if k = OldCARootCert then Some old else if k = CARootCert then Some new
       else if k = CARootPrivateKey then Some newKey else goget (sec_Data s) k)) \<and>
    (\<forall>k c. (vview w' k = Some c \<or> mview w' k = Some c) \<and> ours (wc_Meta c) \<longrightarrow> caBundles c \<subseteq> {new @ old})"
proof -
  have rot: "run_state (rotateCA r s old) w1 = (Inr s', w')"
    using run ca by (simp add: reconcileCARoot_def)
  obtain now1 now2 new newKey v1 w2 w3 w4 where
    gen: "run_state (GenerateCA (certr_Crypto r) now1 (now2 + CACertExpiration)) w2 = (Inr (new, newKey), w3)"
    and upd: "run_state (r_Update (cl_Secrets (certr_Client r)) (s\<lparr>sec_Data := goput OldCARootCert old
       (goput CARootPrivateKey newKey (goput CARootCert new (sec_Data s)))\<rparr>)) w3 = (Inr s', w4)"
    and inj: "run_state (reconcileWebhookConfigurations r (new @ old)) w4 = (Inr (), w')"
    by (rule rotateCA_ok [OF rot])
  let ?sent = "s\<lparr>sec_Data := goput OldCARootCert old (goput CARootPrivateKey newKey (goput CARootCert new (sec_Data s)))\<rparr>"
  have "CARootCert \<noteq> CARootPrivateKey" by (simp add: const_defs)
  then have data: "sec_Meta ?sent = sec_Meta s" "\<forall>k. goget (sec_Data ?sent) k = (if k = OldCARootCert then Some old
      else if k = CARootCert then Some new else if k = CARootPrivateKey then Some newKey else goget (sec_Data s) k)"
    by auto
  have "\<forall>k c. (vview w' k = Some c \<or> mview w' k = Some c) \<and> ours (wc_Meta c) \<longrightarrow> caBundles c \<subseteq> {new @ old}"
    using webhook_stores.inject_all [OF stores retry refl refl inj] by blast
  with gen upd data show ?thesis by blast
qed

lemma malformed_rotates:
  "VerifyCA (refCrypto :: cluster crypto_lib) (''X'' @ [newline]) key t =
     InvalidCert (Wrap ''failed to create cert pool'' (Wrap ''error parsing certificate'' (NewError ''malformed'')))"
  by (simp add: VerifyCA_def NewCertPool_def refCrypto_def refPemDecode_def refParse_def)

theorem ca_rotation_reaches_webhooks_witness:
  "\<exists>s' w' new c. run_state (reconcileCARoot refCertR (caSecretWith ''X'' [])) (rotationCluster (caSecretWith ''X'' [])) = (Inr s', w') \<and>
     refView kind_ValidatingWebhooks w' (metaKey (wc_Meta ownWebhook)) = Some c \<and> caBundles c \<subseteq> {new @ ''X'' @ [newline]}"
proof -
  let ?s = "caSecretWith ''X'' []"
  let ?w = "rotationCluster ?s"
  have ca: "ExtractCARootFromSecret ?s = Inr (''X'' @ [newline], ''key'' @ [newline])"
    by (simp add: Extract_Inr caSecretWith_def const_defs)
  have now: "run_state (cr_Now (certr_Crypto refCertR)) w = (0, w)" for w
    by (simp add: refCertR_def refCrypto_def)
  note invalid = malformed_rotates [of "Some (''key'' @ [newline])" "0 + CertLookahead"]
  obtain new newKey where gen: "run_state (GenerateCA (certr_Crypto refCertR) 0 CACertExpiration) w = (Inr (new, newKey), w)" for w
    by (simp add: GenerateCA_def refCertR_def refCrypto_def run_orWrap pureStep_def pemEncodeCertificate_def
        pemEncodePrivateKey_def lift_err_def caTemplate_def caCommonName_def Let_def)
  let ?sent = "?s\<lparr>sec_Data := goput OldCARootCert (''X'' @ [newline]) (goput CARootPrivateKey newKey (goput CARootCert new (sec_Data ?s)))\<rparr>"
  obtain s' w1 where upd: "run_state (r_Update (cl_Secrets (certr_Client refCertR)) ?sent) ?w = (Inr s', w1)"
    and w1: "st_faults w1 = []" "st_ValidatingWebhooks w1 = [ownWebhook]" "st_MutatingWebhooks w1 = []"
    by (simp add: refCertR_def refClient_def refResource_simps refUpdate_def kind_Secrets_def rotationCluster_def emptyCluster_def
        findObj_def caSecretWith_def namedMeta_def emptyMeta_def writeObj_def Let_def)
  obtain w' c where inj: "run_state (reconcileWebhookConfigurations refCertR (new @ ''X'' @ [newline])) w1 = (Inr (), w')"
    and c: "refView kind_ValidatingWebhooks w' (metaKey (wc_Meta ownWebhook)) = Some c" "ours (wc_Meta c)"
    using rotationCluster_inject [OF w1] by blast
  have "run_state (rotateCA refCertR ?s (''X'' @ [newline])) ?w = (Inr s', w')"
    using upd inj by (simp add: rotateCA_def now gen run_orWrap Let_def)
  then have run: "run_state (reconcileCARoot refCertR ?s) ?w = (Inr s', w')"
    using ca invalid now by (simp add: reconcileCARoot_def refCertR_def)
  have "VerifyCA (certr_Crypto refCertR) (''X'' @ [newline]) (Some (''key'' @ [newline])) (0 + CertLookahead) = InvalidCert
      (Wrap ''failed to create cert pool'' (Wrap ''error parsing certificate'' (NewError ''malformed'')))"
    using invalid by (simp add: refCertR_def)
  from ca_rotation_reaches_webhooks [OF refCertR_laws ca now this run] obtain new' where "caBundles c \<subseteq> {new' @ ''X'' @ [newline]}"
    using c by blast
  with run c show ?thesis by blast
qed

text \<open>
  The old CA is dropped once it has expired: the secret is then stored without it and otherwise as it
  was, and afterwards every webhook configuration of the controller trusts the current
  certificate alone; as long as it is valid, or when there is none, nothing at all is written.\<close>

theorem old_ca_dropped:
  assumes stores: "webhook_stores (cl_ValidatingWebhooks (certr_Client r)) vview (cl_MutatingWebhooks (certr_Client r)) mview"
    and retry: "conflict_retry (certr_RetryOnConflict r)"
    and now: "run_state (cr_Now (certr_Crypto r)) w = (now, w1)"
    and run: "run_state (reconcileOldCARoot r s) w = (Inr s', w')"
  shows "case goget (sec_Data s) OldCARootCert of
      None \<Rightarrow> s' = s \<and> w' = w
    | Some old \<Rightarrow>
        VerifyCA (certr_Crypto r) old None now = Valid \<and> s' = s \<and> w' = w1 \<or>
        (\<exists>ca key sent w2. ExtractCARootFromSecret s = Inr (ca, key) \<and>
           run_state (r_Update (cl_Secrets (certr_Client r)) sent) w1 = (Inr s', w2) \<and> sec_Meta sent = sec_Meta s \<and>
           (\<forall>k. goget (sec_Data sent) k = (if k = OldCARootCert then None else goget (sec_Data s) k)) \<and>
           (\<forall>k c. (vview w' k = Some c \<or> mview w' k = Some c) \<and> ours (wc_Meta c) \<longrightarrow> caBundles c \<subseteq> {ca}))"
proof (cases "goget (sec_Data s) OldCARootCert")
  case None
  with run show ?thesis by (simp add: reconcileOldCARoot_def)
next
  case (Some old)
  show ?thesis
  proof (cases "VerifyCA (certr_Crypto r) old None now")
    case Valid
    with Some run now show ?thesis by (simp add: reconcileOldCARoot_def)
  next
    case VerifyPanic
    with Some run now show ?thesis by (simp add: reconcileOldCARoot_def)
  next
    case (InvalidCert e)
    then obtain ca key w2 where ca: "ExtractCARootFromSecret s = Inr (ca, key)"
      and upd: "run_state (r_Update (cl_Secrets (certr_Client r)) (s\<lparr>sec_Data := godel OldCARootCert (sec_Data s)\<rparr>)) w1 = (Inr s', w2)"
      and inj: "run_state (reconcileWebhookConfigurations r ca) w2 = (Inr (), w')"
      using run now Some by (auto simp: reconcileOldCARoot_def run_orWrap split: prod.splits sum.splits)
    let ?sent = "s\<lparr>sec_Data := godel OldCARootCert (sec_Data s)\<rparr>"
    have "sec_Meta ?sent = sec_Meta s" "\<forall>k. goget (sec_Data ?sent) k = (if k = OldCARootCert then None else goget (sec_Data s) k)"
      by simp_all
    moreover have "\<forall>k c. (vview w' k = Some c \<or> mview w' k = Some c) \<and> ours (wc_Meta c) \<longrightarrow> caBundles c \<subseteq> {ca}"
      using webhook_stores.inject_all [OF stores retry refl refl inj] by blast
    ultimately have "\<exists>ca key sent w2. ExtractCARootFromSecret s = Inr (ca, key) \<and>
       run_state (r_Update (cl_Secrets (certr_Client r)) sent) w1 = (Inr s', w2) \<and> sec_Meta sent = sec_Meta s \<and>
       (\<forall>k. goget (sec_Data sent) k = (if k = OldCARootCert then None else goget (sec_Data s) k)) \<and>
       (\<forall>k c. (vview w' k = Some c \<or> mview w' k = Some c) \<and> ours (wc_Meta c) \<longrightarrow> caBundles c \<subseteq> {ca})"
      using ca upd by blast
    then show ?thesis unfolding Some option.case by (rule disjI2)
  qed
qed

theorem old_ca_dropped_witness:
  "\<exists>s' w' c. run_state (reconcileOldCARoot refCertR (caSecretWith ''Ca'' [(OldCARootCert, ''X'' @ [newline])]))
       (rotationCluster (caSecretWith ''Ca'' [(OldCARootCert, ''X'' @ [newline])])) = (Inr s', w') \<and>
     refView kind_ValidatingWebhooks w' (metaKey (wc_Meta ownWebhook)) = Some c \<and> caBundles c \<subseteq> {''Ca'' @ [newline]}"
proof -
  let ?s = "caSecretWith ''Ca'' [(OldCARootCert, ''X'' @ [newline])]"
  have ca: "ExtractCARootFromSecret ?s = Inr (''Ca'' @ [newline], ''key'' @ [newline])" "goget (sec_Data ?s) OldCARootCert = Some (''X'' @ [newline])"
    by (simp_all add: Extract_Inr caSecretWith_def const_defs)
  have now: "run_state (cr_Now (certr_Crypto refCertR)) w = (0, w)" for w
    by (simp add: refCertR_def refCrypto_def)
  have invalid: "\<exists>e. VerifyCA (certr_Crypto refCertR) (''X'' @ [newline]) None 0 = InvalidCert e"
    using malformed_rotates by (simp add: refCertR_def)
  obtain s' w1 where upd: "run_state (r_Update (cl_Secrets (certr_Client refCertR)) (?s\<lparr>sec_Data := godel OldCARootCert (sec_Data ?s)\<rparr>))
      (rotationCluster ?s) = (Inr s', w1)"
    and w1: "st_faults w1 = []" "st_ValidatingWebhooks w1 = [ownWebhook]" "st_MutatingWebhooks w1 = []"
    by (simp add: refCertR_def refClient_def refResource_simps refUpdate_def kind_Secrets_def rotationCluster_def emptyCluster_def
        findObj_def caSecretWith_def namedMeta_def emptyMeta_def writeObj_def Let_def)
  obtain w' c where inj: "run_state (reconcileWebhookConfigurations refCertR (''Ca'' @ [newline])) w1 = (Inr (), w')"
    and c: "refView kind_ValidatingWebhooks w' (metaKey (wc_Meta ownWebhook)) = Some c" "ours (wc_Meta c)"
    using rotationCluster_inject [OF w1] by blast
  have run: "run_state (reconcileOldCARoot refCertR ?s) (rotationCluster ?s) = (Inr s', w')"
    using ca now invalid upd inj by (auto simp: reconcileOldCARoot_def run_orWrap)
  have "\<exists>ca key. ExtractCARootFromSecret ?s = Inr (ca, key) \<and> caBundles c \<subseteq> {ca}"
    using old_ca_dropped [OF refCertR_laws now run] invalid c unfolding ca(2) option.case by (metis verify_result.distinct(1))
  then have "caBundles c \<subseteq> {''Ca'' @ [newline]}" unfolding ca(1) by blast
  with run c show ?thesis by blast
qed

text \<open>A reconciler with other webhook configurations: when two of them run alike, none was called.\<close>

definition withWebhooks :: "('w, WebhookConfiguration) resource \<Rightarrow> ('w, WebhookConfiguration) resource \<Rightarrow>
  'w CertReconciler \<Rightarrow> 'w CertReconciler" where
  "withWebhooks v m r = r\<lparr>certr_Client := (certr_Client r)\<lparr>cl_ValidatingWebhooks := v, cl_MutatingWebhooks := m\<rparr>\<rparr>"

lemma reconcileServerCerts_other: "reconcileServerCerts (withWebhooks v m r) = reconcileServerCerts r"
proof -
  let ?r = "withWebhooks v m r"
  have same: "certr_Crypto ?r = certr_Crypto r" "cl_Secrets (certr_Client ?r) = cl_Secrets (certr_Client r)"
    "certr_DeploymentsNamespace ?r = certr_DeploymentsNamespace r" "certr_WebhookServiceName ?r = certr_WebhookServiceName r"
    "certr_WebhookServerCertSecretName ?r = certr_WebhookServerCertSecretName r"
    by (simp_all add: withWebhooks_def)
  show ?thesis
    unfolding reconcileServerCerts_def [abs_def] reconcileServerCert_def [abs_def] rotateServerCert_def [abs_def] same ..
qed

lemma valid_ca_noop:
  assumes "ExtractCARootFromSecret s = Inr (ca, key)" "run_state (cr_Now (certr_Crypto r)) w = (now, w1)"
    "VerifyCA (certr_Crypto r) ca (Some key) (now + CertLookahead) = Valid"
  shows "run_state (reconcileCARoot r s) w = (Inr s, w1)"
  using assms by (simp add: reconcileCARoot_def)

text \<open>C33.
  An injection that failed is not taken up again: once the secret holds a CA that is not near its end,
  and no old CA that has expired, a reconciliation makes no call for a webhook
  configuration (it runs alike whatever such a call would do). So when the run that stored a new CA
  could not patch a configuration, that configuration keeps trusting the old CA
  only, while the server certificates are signed by the new one.\<close>

theorem failed_injection_not_resumed:
  assumes get: "run_state (r_Get (cl_Secrets (certr_Client r)) (certr_DeploymentsNamespace r, certr_CARootSecretName r)) w = (Inr s, w1)"
    and ca: "ExtractCARootFromSecret s = Inr (ca, key)" "run_state (cr_Now (certr_Crypto r)) w1 = (now, w2)"
      "VerifyCA (certr_Crypto r) ca (Some key) (now + CertLookahead) = Valid"
    and old: "run_state (cr_Now (certr_Crypto r)) w2 = (now2, w3)"
      "\<And>old. goget (sec_Data s) OldCARootCert = Some old \<Longrightarrow> VerifyCA (certr_Crypto r) old None now2 = Valid"
  shows "run_state (CertReconciler_reconcile (withWebhooks v m r)) w = run_state (CertReconciler_reconcile r) w"
proof -
  let ?r = "withWebhooks v m r"
  have same: "certr_Crypto ?r = certr_Crypto r" "cl_Secrets (certr_Client ?r) = cl_Secrets (certr_Client r)"
    "certr_DeploymentsNamespace ?r = certr_DeploymentsNamespace r" "certr_CARootSecretName ?r = certr_CARootSecretName r"
    by (simp_all add: withWebhooks_def)
  have "run_state (reconcileCARoot ?r s) w1 = (Inr s, w2)" "run_state (reconcileCARoot r s) w1 = (Inr s, w2)"
    using ca by (auto intro: valid_ca_noop simp: same)
  moreover have "run_state (reconcileOldCARoot ?r s) w2 = run_state (reconcileOldCARoot r s) w2"
    using old by (cases "goget (sec_Data s) OldCARootCert") (simp_all add: reconcileOldCARoot_def same)
  ultimately show ?thesis
    using get by (simp add: CertReconciler_reconcile_def run_orWrap same reconcileServerCerts_other)
qed

theorem failed_injection_not_resumed_witness:
  "run_state (CertReconciler_reconcile (withWebhooks (undefined :: (cluster, WebhookConfiguration) resource) undefined refCertR))
       (rotationCluster (caSecretWith ''Ca'' [])) =
     run_state (CertReconciler_reconcile refCertR) (rotationCluster (caSecretWith ''Ca'' []))"
proof -
  let ?s = "caSecretWith ''Ca'' []"
  have get: "run_state (r_Get (cl_Secrets (certr_Client refCertR)) (certr_DeploymentsNamespace refCertR, certr_CARootSecretName refCertR))
      (rotationCluster ?s) = (Inr ?s, rotationCluster ?s)"
    by (simp add: refCertR_def refClient_def run_refGet refView_def findObj_def kind_Secrets_def rotationCluster_def emptyCluster_def
        caSecretWith_def namedMeta_def metaKey_def)
  have ca: "ExtractCARootFromSecret ?s = Inr (''Ca'' @ [newline], ''key'' @ [newline])"
    by (simp add: Extract_Inr caSecretWith_def const_defs)
  have now: "run_state (cr_Now (certr_Crypto refCertR)) w = (0, w)" for w
    by (simp add: refCertR_def refCrypto_def)
  have valid: "VerifyCA (certr_Crypto refCertR) (''Ca'' @ [newline]) (Some (''key'' @ [newline])) (0 + CertLookahead) = Valid"
    by (simp add: VerifyCA_def VerifyCert_def NewCertPool_def refCertR_def refCrypto_def refPemDecode_def refParse_def)
  have "goget (sec_Data ?s) OldCARootCert = None" by (simp add: caSecretWith_def const_defs)
  with failed_injection_not_resumed [OF get ca now valid now] show ?thesis by simp
qed

section \<open>Server certificates and the loop\<close>


definition serverSecretWith :: "string \<Rightarrow> Secret" where
  "serverSecretWith cert = \<lparr>sec_Meta = namedMeta ''kubewarden'' ''policy-server-s'', sec_Type = ''Opaque'',
     sec_Data = [(ServerCert, cert @ [newline]), (ServerPrivateKey, ''key'' @ [newline])], sec_StringData = []\<rparr>"


text \<open>C35.
  A CA secret whose certificate has no PEM block brings the controller down at the next tick of the
  rotation: the verification dereferences a nil block before the error path that would
  replace such a certificate, and no later event is handled.\<close>

theorem garbage_ca_crashes:
  assumes get: "run_state (r_Get (cl_Secrets (certr_Client r)) (certr_DeploymentsNamespace r, certr_CARootSecretName r)) w = (Inr s, w1)"
    and ca: "ExtractCARootFromSecret s = Inr (ca, key)" "fst (cr_PemDecode (certr_Crypto r) ca) = None"
  shows "fst (run_state (CertReconciler_Start r (Tick # events)) w) = Crashed"
proof -
  obtain rest where "cr_PemDecode (certr_Crypto r) ca = (None, rest)" using ca(2) by (metis prod.collapse)
  then have "VerifyCA (certr_Crypto r) ca k t = VerifyPanic" for k t
    by (simp add: VerifyCA_def NewCertPool_def VerifyCert_def)
  then have "\<exists>w2. run_state (reconcileCARoot r s) w1 = (Inl (Aborted ''nil PEM block''), w2)"
    using ca(1) by (simp add: reconcileCARoot_def split: prod.split)
  with get show ?thesis by (auto simp: CertReconciler_reconcile_def run_andThen run_orWrap)
qed

definition garbageSecret :: Secret where
  "garbageSecret = \<lparr>sec_Meta = namedMeta ''kubewarden'' CARootSecretName, sec_Type = ''Opaque'',
     sec_Data = [(CARootCert, ''garbage''), (CARootPrivateKey, ''key'')], sec_StringData = []\<rparr>"

theorem garbage_ca_crashes_witness:
  "fst (run_state (CertReconciler_Start refCertR [Tick, Tick, ContextDone]) (rotationCluster garbageSecret)) = Crashed"
proof (rule garbage_ca_crashes)
  show "run_state (r_Get (cl_Secrets (certr_Client refCertR)) (certr_DeploymentsNamespace refCertR, certr_CARootSecretName refCertR))
      (rotationCluster garbageSecret) = (Inr garbageSecret, rotationCluster garbageSecret)"
    by (simp add: refCertR_def refClient_def run_refGet refView_def findObj_def kind_Secrets_def rotationCluster_def emptyCluster_def
        garbageSecret_def namedMeta_def metaKey_def)
  show "ExtractCARootFromSecret garbageSecret = Inr (''garbage'', ''key'')"
    by (simp add: Extract_Inr garbageSecret_def const_defs)
  show "fst (cr_PemDecode (certr_Crypto refCertR) ''garbage'') = None"
    by (simp add: refCertR_def refCrypto_def refPemDecode_def)
qed

end
