(* ===== verification/Feature_Gates.thy ===== *)
theory Feature_Gates
  imports Go_Marshal Go_Std Kube_Client
begin

text \<open>
  The feature gate of the API server that the controllers depend on
  (\<open>internal/featuregates/featuregates.go\<close>): match conditions of webhooks are used only when the
  OpenAPI schema that the server publishes knows them. The OpenAPI client of \<open>client-go\<close> is a
  parameter: the paths it lists, each with the operation that fetches its schema in a
  given content type.
\<close>

section \<open>Decoding into an interface\<close>

text \<open>
  A JSON value that is decoded into an \<open>interface{}\<close> keeps its shape, but its numbers are read by
  \<open>strconv.ParseFloat\<close>, which refuses a literal whose value rounds to an infinite
  \<open>float64\<close>: one of at least \<open>2^1024 - 2^970\<close>, the middle between the largest finite number and
  the next power of two. (Literals with an exponent of more than four digits are out of range, or
  too small to matter, unless their fraction is thousands of digits long.)
\<close>

definition digits_value :: "string \<Rightarrow> nat" where
  "digits_value ds = foldl (\<lambda>n d. 10 * n + (code d - 48)) 0 ds"

definition exponent_value :: "string \<Rightarrow> int" where
  "exponent_value s =
     (case s of
        [] \<Rightarrow> 0
      | c # t \<Rightarrow> if c = CHR ''-'' then - int (digits_value t)
                 else if c = CHR ''+'' then int (digits_value t) else int (digits_value s))"

definition float64_overflows :: "string \<Rightarrow> bool" where
  "float64_overflows s =
     (let t = (if take 1 s = ''-'' then drop 1 s else s);
          whole = takeWhile is_digit t; t1 = dropWhile is_digit t;
          frac = (if take 1 t1 = ''.'' then takeWhile is_digit (drop 1 t1) else []);
          t2 = (if take 1 t1 = ''.'' then dropWhile is_digit (drop 1 t1) else t1);
          e = exponent_value (drop 1 t2) - int (length frac);
          m = digits_value (whole @ frac)
      in if 0 \<le> e then 2 ^ 1024 - 2 ^ 970 \<le> m * 10 ^ nat e
         else (2 ^ 1024 - 2 ^ 970) * 10 ^ nat (- e) \<le> m)"

primrec finite_numbers :: "json \<Rightarrow> bool" where
  "finite_numbers JNull = True"
| "finite_numbers (JBool b) = True"
| "finite_numbers (JNum s) = (\<not> float64_overflows s)"
| "finite_numbers (JStr s) = True"
| "finite_numbers (JArr xs) = list_all id (map finite_numbers xs)"
| "finite_numbers (JObj kvs) = list_all snd (map (map_prod id finite_numbers) kvs)"

definition dec_any :: "json decoder" where
  "dec_any j old = (if finite_numbers j then Some j else None)"

definition unmarshal_any_map :: "string \<Rightarrow> json gomap option" where
  "unmarshal_any_map text =
     (case json_parse text of None \<Rightarrow> None | Some j \<Rightarrow> dec_map dec_any JNull j [])"

text \<open>The type assertion \<open>m[key].(map[string]interface{})\<close>; a repeated member counts at its last place.\<close>

definition object_at :: "json gomap \<Rightarrow> string \<Rightarrow> json gomap option" where
  "object_at m key =
     (case goget m key of
        Some (JObj kvs) \<Rightarrow> Some (foldl (\<lambda>m (k, v). goput k v m) [] kvs)
      | _ \<Rightarrow> None)"

section \<open>The check\<close>

type_synonym 'w group_version = "string \<Rightarrow> ('w, string) op"

record 'w openapi_client =
  oa_Paths :: "('w, 'w group_version gomap) op"

definition ContentTypeJSON :: string where
  "ContentTypeJSON = ''application/json''"

definition resourcePath :: string where
  "resourcePath = ''apis/admissionregistration.k8s.io/v1''"

definition validatingWebhookSchema :: string where
  "validatingWebhookSchema = ''io.k8s.api.admissionregistration.v1.ValidatingWebhook''"

definition orError :: "'a option \<Rightarrow> go_error \<Rightarrow> ('a \<Rightarrow> ('w, 'b) op) \<Rightarrow> ('w, 'b) op" where
  "orError x e f = (case x of None \<Rightarrow> fail e | Some y \<Rightarrow> f y)"

definition CheckAdmissionWebhookMatchConditions :: "'w openapi_client \<Rightarrow> ('w, bool) op" where
  "CheckAdmissionWebhookMatchConditions apiClient =
     orWrap (oa_Paths apiClient) ''failed to fetch OpenAPI spec'' (\<lambda>paths.
     orError (goget paths resourcePath)
       (NewError (''couldn't find resource for '' @ [dq] @ resourcePath @ [dq])) (\<lambda>groupVersion.
     orWrap (groupVersion ContentTypeJSON) (''failed to fetch openapi schema for '' @ resourcePath) (\<lambda>openAPISchemaBytes.
     orError (unmarshal_any_map openAPISchemaBytes)
       (Wrap (''failed to unmarshal openapi schema for '' @ resourcePath) (NewError ''json'')) (\<lambda>parsedV3Schema.
     orError (object_at parsedV3Schema ''components'')
       (NewError (''couldn't find components in openapi schema for '' @ resourcePath)) (\<lambda>components.
     orError (object_at components ''schemas'')
       (NewError (''couldn't find schemas in openapi schema for '' @ resourcePath)) (\<lambda>schemas.
     orError (object_at schemas validatingWebhookSchema)
       (NewError (''couldn't find schema for '' @ validatingWebhookSchema @ '' in openapi schema for '' @ resourcePath)) (\<lambda>validatingWebhook.
     orError (object_at validatingWebhook ''properties'')
       (NewError (''couldn't find properties in schema for '' @ validatingWebhookSchema @ '' in openapi schema for '' @ resourcePath)) (\<lambda>properties.
     ok (goget properties ''matchConditions'' \<noteq> None)))))))))"

section \<open>What it decides\<close>

text \<open>The value at a path of member names of a JSON tree; of members with the same name the last one counts.\<close>

fun json_at :: "string list \<Rightarrow> json \<Rightarrow> json option" where
  "json_at [] j = Some j"
| "json_at (k # ks) (JObj kvs) = (case map_of (rev kvs) k of None \<Rightarrow> None | Some j \<Rightarrow> json_at ks j)"
| "json_at (k # ks) _ = None"

lemma goget_put_members: "goget (foldl (\<lambda>m (k, v). goput k v m) m kvs) k = (case map_of (rev kvs) k of None \<Rightarrow> goget m k | Some v \<Rightarrow> Some v)"
  by (induction kvs arbitrary: m) (auto split: option.split simp: map_add_def)

lemma dec_entries_any:
  "dec_entries dec_any JNull kvs m =
     (if list_all (\<lambda>(k, j). finite_numbers j) kvs then Some (foldl (\<lambda>m (k, v). goput k v m) m kvs) else None)"
  by (induction kvs arbitrary: m) (auto simp: dec_any_def)

text \<open>The nested assertions walk the path.\<close>

fun walk :: "string list \<Rightarrow> json gomap \<Rightarrow> json gomap option" where
  "walk [] m = Some m"
| "walk (k # ks) m = (case object_at m k of None \<Rightarrow> None | Some m' \<Rightarrow> walk ks m')"

definition members :: "json \<Rightarrow> json gomap \<Rightarrow> bool" where
  "members j m \<longleftrightarrow> (\<exists>kvs. j = JObj kvs \<and> m = foldl (\<lambda>m (k, v). goput k v m) [] kvs)"

lemma object_at_members:
  assumes "members j m"
  shows "object_at m k = Some m' \<longleftrightarrow> (\<exists>j'. json_at [k] j = Some j' \<and> members j' m')"
  using assms by (auto simp: object_at_def members_def goget_put_members split: option.splits json.splits)

lemma json_at_Cons: "json_at (k # ks) j = (case json_at [k] j of None \<Rightarrow> None | Some j' \<Rightarrow> json_at ks j')"
  by (cases j) (auto split: option.split)

lemma walk_members:
  "members j m \<Longrightarrow> walk ks m = Some m' \<longleftrightarrow> (\<exists>j'. json_at ks j = Some j' \<and> members j' m')"
proof (induction ks arbitrary: j m)
  case Nil
  then show ?case by (auto simp: members_def)
next
  case (Cons k ks)
  have "walk (k # ks) m = Some m' \<longleftrightarrow> (\<exists>m1. object_at m k = Some m1 \<and> walk ks m1 = Some m')"
    by (auto split: option.split)
  also have "\<dots> \<longleftrightarrow> (\<exists>j1 m1. json_at [k] j = Some j1 \<and> members j1 m1 \<and> walk ks m1 = Some m')"
    using object_at_members [OF Cons.prems] by blast
  also have "\<dots> \<longleftrightarrow> (\<exists>j1 m1 j'. json_at [k] j = Some j1 \<and> members j1 m1 \<and> json_at ks j1 = Some j' \<and> members j' m')"
    using Cons.IH by blast
  also have "\<dots> \<longleftrightarrow> (\<exists>j'. json_at (k # ks) j = Some j' \<and> members j' m')"
  proof -
    have "\<exists>m1. members j1 m1" if "json_at ks j1 = Some j'" "members j' m'" for j1 j'
      using that by (cases ks; cases j1) (auto simp: members_def)
    then show ?thesis unfolding json_at_Cons [of k ks j] by (auto split: option.splits)
  qed
  finally show ?case .
qed

lemma unmarshal_any_map_members:
  "unmarshal_any_map text = Some m \<longleftrightarrow>
     json_parse text = Some JNull \<and> m = [] \<or> (\<exists>j. json_parse text = Some j \<and> finite_numbers j \<and> members j m)"
  by (auto simp: unmarshal_any_map_def dec_map_def dec_entries_any members_def list_all_iff case_prod_beta
      split: option.splits json.splits if_splits)

lemma run_orError_Inr [run_simps]:
  "run_state (orError x e f) w = (Inr b, w') \<longleftrightarrow> (\<exists>y. x = Some y \<and> run_state (f y) w = (Inr b, w'))"
  by (auto simp: orError_def split: option.split)

lemma run_orWrap_Inr:
  "run_state (orWrap m msg f) w = (Inr b, w') \<longleftrightarrow> (\<exists>x w1. run_state m w = (Inr x, w1) \<and> run_state (f x) w1 = (Inr b, w'))"
  by (auto simp: run_orWrap split: prod.split sum.split)

definition propertiesPath :: "string list" where
  "propertiesPath = [''components'', ''schemas'', validatingWebhookSchema, ''properties'']"

lemma walk_Nil: "walk (k # ks) [] = None"
  by (simp add: object_at_def)

lemma Check_walks:
  "run_state (CheckAdmissionWebhookMatchConditions apiClient) w = (Inr b, w') \<longleftrightarrow>
     (\<exists>paths w1 groupVersion text m0 properties. run_state (oa_Paths apiClient) w = (Inr paths, w1) \<and>
        goget paths resourcePath = Some groupVersion \<and> run_state (groupVersion ContentTypeJSON) w1 = (Inr text, w') \<and>
        unmarshal_any_map text = Some m0 \<and> walk propertiesPath m0 = Some properties \<and>
        b = (goget properties ''matchConditions'' \<noteq> None))"
proof -
  have walk: "walk propertiesPath m0 = Some properties \<longleftrightarrow>
      (\<exists>m1. object_at m0 ''components'' = Some m1 \<and> (\<exists>m2. object_at m1 ''schemas'' = Some m2 \<and>
        (\<exists>m3. object_at m2 validatingWebhookSchema = Some m3 \<and> object_at m3 ''properties'' = Some properties)))" for m0 properties
    by (auto simp: propertiesPath_def split: option.split)
  show ?thesis
    unfolding walk by (simp only: CheckAdmissionWebhookMatchConditions_def run_orWrap_Inr run_orError_Inr run_ok prod.inject sum.inject) blast
qed

text \<open>C25.
  The gate is on exactly when the schema the API server publishes for webhooks has a property
  matchConditions: the check returns a decision precisely when the schema can be fetched, is a JSON text whose numbers
  are finite, and leads through components, schemas and the type of validating webhooks to
  an object of properties, and the decision is whether that object has the member matchConditions. In every other case it is an error.\<close>

theorem gate_decision:
  "run_state (CheckAdmissionWebhookMatchConditions apiClient) w = (Inr b, w') \<longleftrightarrow>
     (\<exists>paths w1 groupVersion text j properties. run_state (oa_Paths apiClient) w = (Inr paths, w1) \<and>
        goget paths resourcePath = Some groupVersion \<and> run_state (groupVersion ContentTypeJSON) w1 = (Inr text, w') \<and>
        json_parse text = Some j \<and> finite_numbers j \<and>
        json_at [''components'', ''schemas'', validatingWebhookSchema, ''properties''] j = Some (JObj properties) \<and>
        b = (''matchConditions'' \<in> fst ` set properties))"
proof -
  have "(\<exists>m0 m. unmarshal_any_map doc = Some m0 \<and> walk propertiesPath m0 = Some m \<and> b = (goget m ''matchConditions'' \<noteq> None)) \<longleftrightarrow>
      (\<exists>j properties. json_parse doc = Some j \<and> finite_numbers j \<and> json_at propertiesPath j = Some (JObj properties) \<and>
        b = (''matchConditions'' \<in> fst ` set properties))" (is "?l = ?r") for doc
  proof -
    have has: "(goget (foldl (\<lambda>m (k, v). goput k v m) [] kvs) k \<noteq> None) = (k \<in> fst ` set kvs)" for kvs :: "(string \<times> json) list" and k
      using map_of_eq_None_iff [of "rev kvs" k] by (simp add: goget_put_members split: option.split) (metis option.distinct(1))
    have "?l \<longleftrightarrow> (\<exists>j m0 m. json_parse doc = Some j \<and> finite_numbers j \<and> members j m0 \<and> walk propertiesPath m0 = Some m \<and>
        b = (goget m ''matchConditions'' \<noteq> None))"
      unfolding unmarshal_any_map_members by (auto simp: propertiesPath_def walk_Nil simp del: walk.simps)
    also have "\<dots> \<longleftrightarrow> (\<exists>j m0 j' m. json_parse doc = Some j \<and> finite_numbers j \<and> members j m0 \<and>
        json_at propertiesPath j = Some j' \<and> members j' m \<and> b = (goget m ''matchConditions'' \<noteq> None))"
      using walk_members by blast
    also have "\<dots> \<longleftrightarrow> (\<exists>j j' m. json_parse doc = Some j \<and> finite_numbers j \<and> json_at propertiesPath j = Some j' \<and>
        members j' m \<and> b = (goget m ''matchConditions'' \<noteq> None))"
    proof -
      have "\<exists>m0. members j m0" if "json_at propertiesPath j = Some j'" for j j'
        using that by (cases j) (auto simp: members_def propertiesPath_def)
      then show ?thesis by blast
    qed
    also have "\<dots> \<longleftrightarrow> ?r" unfolding members_def using has by metis
    finally show ?thesis .
  qed
  note decoded = this [unfolded propertiesPath_def ex_simps]
  show ?thesis unfolding Check_walks propertiesPath_def
    by (rule iff_exI, rule iff_exI, rule iff_exI, rule iff_exI) (simp only: ex_simps decoded)
qed

end
