(* ===== verification/Manager_Setup.thy ===== *)
theory Manager_Setup
  imports PolicyServer_Webhook PolicyServer_Reconciler Cert_Reconciler
begin

text \<open>
  The \<open>SetupWithManager\<close> and \<open>SetupWebhookWithManager\<close> methods: what each part registers with
  the manager of controller-runtime. The manager is a parameter, a record of the registrations
  it offers. A controller is registered with the kind it reconciles, the kinds it watches, each
  with the function that maps an event to requests, and its \<open>Reconcile\<close>; a webhook with
  its kind, its defaulter and its validator; a field index with its kind, its key and the function that
  computes the values of an object.
\<close>

section \<open>The manager\<close>

datatype object_kind =
    KPolicyServer | KAdmissionPolicy | KClusterAdmissionPolicy | KAdmissionPolicyGroup | KClusterAdmissionPolicyGroup
  | KPod | KValidatingWebhookConfiguration | KMutatingWebhookConfiguration
  | KReplicaSet | KSecret | KService | KPodDisruptionBudget | KConfigMap | KDeployment

type_synonym 'w map_func = "client_object \<Rightarrow> ('w, Request list) state"

record 'w controller =
  ctl_For :: object_kind
  ctl_Watches :: "(object_kind \<times> 'w map_func) list"
  ctl_Reconcile :: "Request \<Rightarrow> ('w, Result) op"

record 'w admission =
  adm_For :: object_kind
  adm_Default :: "runtime_object \<Rightarrow> webhook_error + runtime_object"
  adm_ValidateCreate :: "runtime_object \<Rightarrow> ('w, webhook_error option) state"
  adm_ValidateUpdate :: "runtime_object \<Rightarrow> runtime_object \<Rightarrow> ('w, webhook_error option) state"
  adm_ValidateDelete :: "runtime_object \<Rightarrow> webhook_error option"

record 'w manager =
  mgr_Client :: "'w client"
  mgr_IndexField :: "object_kind \<Rightarrow> string \<Rightarrow> (client_object \<Rightarrow> string list) \<Rightarrow> ('w, unit) op"
  mgr_AddController :: "'w controller \<Rightarrow> ('w, unit) op"
  mgr_AddWebhook :: "'w admission \<Rightarrow> ('w, unit) op"
  mgr_Add :: "'w CertReconciler \<Rightarrow> ('w, unit) op"
  mgr_AddHealthzCheck :: "string \<Rightarrow> ('w, unit) op"
  mgr_AddReadyzCheck :: "string \<Rightarrow> ('w, unit) op"
  mgr_Start :: "('w, unit) op"

definition orJoin :: "('w, 'a) op \<Rightarrow> string \<Rightarrow> ('a \<Rightarrow> ('w, 'b) op) \<Rightarrow> ('w, 'b) op" where
  "orJoin m msg f = andThen m (\<lambda>e. fail (errors_Join msg e)) f"

section \<open>The policy server controller\<close>

definition indexClusterAdmissionPolicy :: "client_object \<Rightarrow> string list" where
  "indexClusterAdmissionPolicy object =
     (case object of ObjPolicy (CAP policy) \<Rightarrow> [spec_PolicyServer (caps_PolicySpec (cap_Spec policy))] | _ \<Rightarrow> [])"

definition indexAdmissionPolicy :: "client_object \<Rightarrow> string list" where
  "indexAdmissionPolicy object =
     (case object of ObjPolicy (AP policy) \<Rightarrow> [spec_PolicyServer (aps_PolicySpec (ap_Spec policy))] | _ \<Rightarrow> [])"

definition indexAdmissionPolicyGroup :: "client_object \<Rightarrow> string list" where
  "indexAdmissionPolicyGroup object =
     (case object of
        ObjPolicy (APG policy) \<Rightarrow> [gspec_PolicyServer (pgs_GroupSpec (apgs_PolicyGroupSpec (apg_Spec policy)))]
      | _ \<Rightarrow> [])"

definition indexClusterAdmissionPolicyGroup :: "client_object \<Rightarrow> string list" where
  "indexClusterAdmissionPolicyGroup object =
     (case object of
        ObjPolicy (CAPG policy) \<Rightarrow> [gspec_PolicyServer (cpgs_GroupSpec (capgs_ClusterPolicyGroupSpec (capg_Spec policy)))]
      | _ \<Rightarrow> [])"

definition policyServerController :: "'w PolicyServerReconciler \<Rightarrow> 'w controller" where
  "policyServerController r = \<lparr>ctl_For = KPolicyServer,
     ctl_Watches =
       [(KAdmissionPolicy, \<lambda>object. ret (enqueueAdmissionPolicy object)),
        (KAdmissionPolicyGroup, \<lambda>object. ret (enqueueAdmissionPolicyGroup object)),
        (KClusterAdmissionPolicy, \<lambda>object. ret (enqueueClusterAdmissionPolicy object)),
        (KClusterAdmissionPolicyGroup, \<lambda>object. ret (enqueueClusterAdmissionPolicyGroup object))],
     ctl_Reconcile = PolicyServerReconciler_Reconcile r\<rparr>"

definition PolicyServerReconciler_SetupWithManager ::
  "'w PolicyServerReconciler \<Rightarrow> 'w manager \<Rightarrow> ('w, unit) op" where
  "PolicyServerReconciler_SetupWithManager r mgr =
     orWrap (mgr_IndexField mgr KClusterAdmissionPolicy PolicyServerIndexKey indexClusterAdmissionPolicy)
       ''failed enrolling controller with manager'' (\<lambda>_.
     orWrap (mgr_IndexField mgr KAdmissionPolicy PolicyServerIndexKey indexAdmissionPolicy)
       ''failed enrolling controller with manager'' (\<lambda>_.
     orWrap (mgr_IndexField mgr KAdmissionPolicyGroup PolicyServerIndexKey indexAdmissionPolicyGroup)
       ''failed enrolling controller with manager'' (\<lambda>_.
     orWrap (mgr_IndexField mgr KClusterAdmissionPolicyGroup PolicyServerIndexKey indexClusterAdmissionPolicyGroup)
       ''failed enrolling controller with manager'' (\<lambda>_.
     orJoin (mgr_AddController mgr (policyServerController r))
       ''failed enrolling controller with manager'' ok))))"

section \<open>The policy controllers\<close>

definition admissionPolicyController :: "'w policySubReconciler \<Rightarrow> 'w controller" where
  "admissionPolicyController r = \<lparr>ctl_For = KAdmissionPolicy,
     ctl_Watches =
       [(KPod, findPoliciesForPod (sub_Client r)),
        (KValidatingWebhookConfiguration,
           \<lambda>object. ret (AdmissionPolicyReconciler_findAdmissionPolicyForWebhookConfiguration object)),
        (KMutatingWebhookConfiguration,
           \<lambda>object. ret (AdmissionPolicyReconciler_findAdmissionPolicyForWebhookConfiguration object))],
     ctl_Reconcile = AdmissionPolicyReconciler_Reconcile r\<rparr>"

definition clusterAdmissionPolicyController :: "'w policySubReconciler \<Rightarrow> 'w controller" where
  "clusterAdmissionPolicyController r = \<lparr>ctl_For = KClusterAdmissionPolicy,
     ctl_Watches =
       [(KPod, findClusterPoliciesForPod (sub_Client r)),
        (KValidatingWebhookConfiguration,
           \<lambda>object. ret (ClusterAdmissionPolicyReconciler_findClusterAdmissionPolicyForWebhookConfiguration object)),
        (KMutatingWebhookConfiguration,
           \<lambda>object. ret (ClusterAdmissionPolicyReconciler_findClusterAdmissionPolicyForWebhookConfiguration object))],
     ctl_Reconcile = ClusterAdmissionPolicyReconciler_Reconcile r\<rparr>"

definition admissionPolicyGroupController :: "'w policySubReconciler \<Rightarrow> 'w controller" where
  "admissionPolicyGroupController r = \<lparr>ctl_For = KAdmissionPolicyGroup,
     ctl_Watches =
       [(KPod, findPoliciesForPod (sub_Client r)),
        (KValidatingWebhookConfiguration,
           \<lambda>object. ret (AdmissionPolicyGroupReconciler_findAdmissionPolicyForWebhookConfiguration object))],
     ctl_Reconcile = AdmissionPolicyGroupReconciler_Reconcile r\<rparr>"

definition clusterAdmissionPolicyGroupController :: "'w policySubReconciler \<Rightarrow> 'w controller" where
  "clusterAdmissionPolicyGroupController r = \<lparr>ctl_For = KClusterAdmissionPolicyGroup,
     ctl_Watches =
       [(KPod, findClusterPoliciesForPod (sub_Client r)),
        (KValidatingWebhookConfiguration,
           \<lambda>object. ret (ClusterAdmissionPolicyGroupReconciler_findClusterAdmissionPolicyForWebhookConfiguration object))],
     ctl_Reconcile = ClusterAdmissionPolicyGroupReconciler_Reconcile r\<rparr>"

definition AdmissionPolicyReconciler_SetupWithManager :: "'w policySubReconciler \<Rightarrow> 'w manager \<Rightarrow> ('w, unit) op" where
  "AdmissionPolicyReconciler_SetupWithManager r mgr =
     orJoin (mgr_AddController mgr (admissionPolicyController r)) ''failed enrolling controller with manager'' ok"

definition ClusterAdmissionPolicyReconciler_SetupWithManager :: "'w policySubReconciler \<Rightarrow> 'w manager \<Rightarrow> ('w, unit) op" where
  "ClusterAdmissionPolicyReconciler_SetupWithManager r mgr =
     orJoin (mgr_AddController mgr (clusterAdmissionPolicyController r)) ''failed enrolling controller with manager'' ok"

definition AdmissionPolicyGroupReconciler_SetupWithManager :: "'w policySubReconciler \<Rightarrow> 'w manager \<Rightarrow> ('w, unit) op" where
  "AdmissionPolicyGroupReconciler_SetupWithManager r mgr =
     orJoin (mgr_AddController mgr (admissionPolicyGroupController r)) ''failed enrolling controller with manager'' ok"

definition ClusterAdmissionPolicyGroupReconciler_SetupWithManager :: "'w policySubReconciler \<Rightarrow> 'w manager \<Rightarrow> ('w, unit) op" where
  "ClusterAdmissionPolicyGroupReconciler_SetupWithManager r mgr =
     orJoin (mgr_AddController mgr (clusterAdmissionPolicyGroupController r)) ''failed enrolling controller with manager'' ok"

definition CertReconciler_SetupWithManager :: "'w CertReconciler \<Rightarrow> 'w manager \<Rightarrow> ('w, unit) op" where
  "CertReconciler_SetupWithManager r mgr =
     orWrap (mgr_Add mgr r) ''failed enrolling controller with manager'' ok"

section \<open>The webhooks\<close>

definition PolicyServer_SetupWebhookWithManager ::
  "kube_lib \<Rightarrow> quantity_lib \<Rightarrow> 'w manager \<Rightarrow> string \<Rightarrow> ('w, unit) op" where
  "PolicyServer_SetupWebhookWithManager lib q mgr deploymentsNamespace =
     orWrap (mgr_AddWebhook mgr \<lparr>adm_For = KPolicyServer, adm_Default = policyServerDefaulter_Default lib,
         adm_ValidateCreate = policyServerValidator_ValidateCreate q (mgr_Client mgr) deploymentsNamespace,
         adm_ValidateUpdate = policyServerValidator_ValidateUpdate q (mgr_Client mgr) deploymentsNamespace,
         adm_ValidateDelete = policyServerValidator_ValidateDelete\<rparr>)
       ''failed enrolling webhook with manager'' ok"

definition AdmissionPolicy_SetupWebhookWithManager ::
  "kube_lib \<Rightarrow> validation_lib \<Rightarrow> 'w manager \<Rightarrow> ('w, unit) op" where
  "AdmissionPolicy_SetupWebhookWithManager lib v mgr =
     orWrap (mgr_AddWebhook mgr \<lparr>adm_For = KAdmissionPolicy, adm_Default = admissionPolicyDefaulter_Default lib,
         adm_ValidateCreate = (\<lambda>obj. ret (admissionPolicyValidator_ValidateCreate v obj)),
         adm_ValidateUpdate = (\<lambda>old new. ret (admissionPolicyValidator_ValidateUpdate v old new)),
         adm_ValidateDelete = admissionPolicyValidator_ValidateDelete\<rparr>)
       ''failed enrolling webhook with manager'' ok"

definition ClusterAdmissionPolicy_SetupWebhookWithManager ::
  "kube_lib \<Rightarrow> validation_lib \<Rightarrow> 'w manager \<Rightarrow> ('w, unit) op" where
  "ClusterAdmissionPolicy_SetupWebhookWithManager lib v mgr =
     orWrap (mgr_AddWebhook mgr \<lparr>adm_For = KClusterAdmissionPolicy, adm_Default = clusterAdmissionPolicyDefaulter_Default lib,
         adm_ValidateCreate = (\<lambda>obj. ret (clusterAdmissionPolicyValidator_ValidateCreate v obj)),
         adm_ValidateUpdate = (\<lambda>old new. ret (clusterAdmissionPolicyValidator_ValidateUpdate v old new)),
         adm_ValidateDelete = clusterAdmissionPolicyValidator_ValidateDelete\<rparr>)
       ''failed enrolling webhook with manager'' ok"

definition AdmissionPolicyGroup_SetupWebhookWithManager ::
  "kube_lib \<Rightarrow> validation_lib \<Rightarrow> 'w manager \<Rightarrow> ('w, unit) op" where
  "AdmissionPolicyGroup_SetupWebhookWithManager lib v mgr =
     orWrap (mgr_AddWebhook mgr \<lparr>adm_For = KAdmissionPolicyGroup, adm_Default = admissionPolicyGroupDefaulter_Default lib,
         adm_ValidateCreate = (\<lambda>obj. ret (admissionPolicyGroupValidator_ValidateCreate v obj)),
         adm_ValidateUpdate = (\<lambda>old new. ret (admissionPolicyGroupValidator_ValidateUpdate v old new)),
         adm_ValidateDelete = admissionPolicyGroupValidator_ValidateDelete\<rparr>)
       ''failed enrolling webhook with manager'' ok"

definition ClusterAdmissionPolicyGroup_SetupWebhookWithManager ::
  "kube_lib \<Rightarrow> validation_lib \<Rightarrow> 'w manager \<Rightarrow> ('w, unit) op" where
  "ClusterAdmissionPolicyGroup_SetupWebhookWithManager lib v mgr =
     orWrap (mgr_AddWebhook mgr \<lparr>adm_For = KClusterAdmissionPolicyGroup, adm_Default = clusterAdmissionPolicyGroupDefaulter_Default lib,
         adm_ValidateCreate = (\<lambda>obj. ret (clusterAdmissionPolicyGroupValidator_ValidateCreate v obj)),
         adm_ValidateUpdate = (\<lambda>old new. ret (clusterAdmissionPolicyGroupValidator_ValidateUpdate v old new)),
         adm_ValidateDelete = clusterAdmissionPolicyGroupValidator_ValidateDelete\<rparr>)
       ''failed enrolling webhook with manager'' ok"

section \<open>What is registered\<close>

datatype 'w registration =
    IndexReg object_kind string "client_object \<Rightarrow> string list"
  | ControllerReg "'w controller"
  | WebhookReg "'w admission"
  | RunnableReg "'w CertReconciler"
  | HealthzReg string
  | ReadyzReg string

text \<open>
  What the code relies on of a manager: a registration that succeeds is kept, after those
  made before it.
\<close>

locale manager_registry =
  fixes mgr :: "'w manager" and registered :: "'w \<Rightarrow> 'w registration list"
  assumes index_ok: "run_state (mgr_IndexField mgr k key f) w = (Inr u, w') \<Longrightarrow> registered w' = registered w @ [IndexReg k key f]"
    and controller_ok: "run_state (mgr_AddController mgr c) w = (Inr u, w') \<Longrightarrow> registered w' = registered w @ [ControllerReg c]"
    and webhook_ok: "run_state (mgr_AddWebhook mgr a) w = (Inr u, w') \<Longrightarrow> registered w' = registered w @ [WebhookReg a]"
    and add_ok: "run_state (mgr_Add mgr r) w = (Inr u, w') \<Longrightarrow> registered w' = registered w @ [RunnableReg r]"
    and healthz_ok: "run_state (mgr_AddHealthzCheck mgr n) w = (Inr u, w') \<Longrightarrow> registered w' = registered w @ [HealthzReg n]"
    and readyz_ok: "run_state (mgr_AddReadyzCheck mgr n) w = (Inr u, w') \<Longrightarrow> registered w' = registered w @ [ReadyzReg n]"

text \<open>
  The operations that the setup functions are made of: registrations in sequence, the first
  error ends the setup. The list is what the operation registers when it succeeds.
\<close>

inductive setup_op :: "'w manager \<Rightarrow> ('w, unit) op \<Rightarrow> 'w registration list \<Rightarrow> bool" for mgr :: "'w manager" where
  index: "setup_op mgr (mgr_IndexField mgr k key f) [IndexReg k key f]"
| controller: "setup_op mgr (mgr_AddController mgr c) [ControllerReg c]"
| webhook: "setup_op mgr (mgr_AddWebhook mgr a) [WebhookReg a]"
| add: "setup_op mgr (mgr_Add mgr r) [RunnableReg r]"
| healthz: "setup_op mgr (mgr_AddHealthzCheck mgr n) [HealthzReg n]"
| readyz: "setup_op mgr (mgr_AddReadyzCheck mgr n) [ReadyzReg n]"
| final: "setup_op mgr m xs \<Longrightarrow> setup_op mgr (andThen m (\<lambda>e. fail (h e)) ok) xs"
| seq: "setup_op mgr m xs \<Longrightarrow> setup_op mgr m' ys \<Longrightarrow> setup_op mgr (andThen m (\<lambda>e. fail (h e)) (\<lambda>_. m')) (xs @ ys)"

named_theorems setup_intros

lemmas [setup_intros] = setup_op.index setup_op.controller setup_op.webhook setup_op.add setup_op.healthz setup_op.readyz

lemma setup_op_last [setup_intros]:
  "setup_op mgr m xs \<Longrightarrow> setup_op mgr (orWrap m msg ok) xs" "setup_op mgr m xs \<Longrightarrow> setup_op mgr (orJoin m msg ok) xs"
  unfolding orWrap_def orJoin_def by (rule setup_op.final, assumption)+

lemma setup_op_seq [setup_intros]:
  assumes "setup_op mgr m xs" and "setup_op mgr m' ys"
  shows "setup_op mgr (orWrap m msg (\<lambda>_. m')) (xs @ ys)" "setup_op mgr (orJoin m msg (\<lambda>_. m')) (xs @ ys)"
  unfolding orWrap_def orJoin_def by (rule setup_op.seq [OF assms])+

lemma setup_policyServer:
  "setup_op mgr (PolicyServerReconciler_SetupWithManager r mgr)
     ([IndexReg KClusterAdmissionPolicy PolicyServerIndexKey indexClusterAdmissionPolicy] @
      [IndexReg KAdmissionPolicy PolicyServerIndexKey indexAdmissionPolicy] @
      [IndexReg KAdmissionPolicyGroup PolicyServerIndexKey indexAdmissionPolicyGroup] @
      [IndexReg KClusterAdmissionPolicyGroup PolicyServerIndexKey indexClusterAdmissionPolicyGroup] @
      [ControllerReg (policyServerController r)])"
  unfolding PolicyServerReconciler_SetupWithManager_def by (intro setup_intros)

lemma setup_controllers:
  "setup_op mgr (AdmissionPolicyReconciler_SetupWithManager r mgr) [ControllerReg (admissionPolicyController r)]"
  "setup_op mgr (ClusterAdmissionPolicyReconciler_SetupWithManager r mgr) [ControllerReg (clusterAdmissionPolicyController r)]"
  "setup_op mgr (AdmissionPolicyGroupReconciler_SetupWithManager r mgr) [ControllerReg (admissionPolicyGroupController r)]"
  "setup_op mgr (ClusterAdmissionPolicyGroupReconciler_SetupWithManager r mgr) [ControllerReg (clusterAdmissionPolicyGroupController r)]"
  "setup_op mgr (CertReconciler_SetupWithManager cr mgr) [RunnableReg cr]"
  unfolding AdmissionPolicyReconciler_SetupWithManager_def ClusterAdmissionPolicyReconciler_SetupWithManager_def
    AdmissionPolicyGroupReconciler_SetupWithManager_def ClusterAdmissionPolicyGroupReconciler_SetupWithManager_def
    CertReconciler_SetupWithManager_def
  by (intro setup_intros)+

context manager_registry
begin

lemma setup_op_registers:
  "setup_op mgr m xs \<Longrightarrow> run_state m w = (Inr u, w') \<Longrightarrow> registered w' = registered w @ xs"
proof (induction arbitrary: w u w' rule: setup_op.induct)
  case (final m xs h)
  then show ?case by (auto simp: run_andThen split: prod.splits sum.splits)
next
  case (seq m xs m' ys h)
  then obtain w1 v where "run_state m w = (Inr v, w1)" "run_state m' w1 = (Inr u, w')"
    by (auto simp: run_andThen split: prod.splits sum.splits)
  with seq.IH show ?case by (metis append.assoc)
qed (simp_all add: index_ok controller_ok webhook_ok add_ok healthz_ok readyz_ok)

end

text \<open>
  A manager that works through a given list of registrations: the world is the number of those
  made, and a registration succeeds when it is the next one.
\<close>

definition expects :: "nat registration list \<Rightarrow> nat registration \<Rightarrow> (nat, unit) op" where
  "expects script reg = State (\<lambda>n. if n < length script \<and> script ! n = reg then (Inr (), Suc n)
     else (Inl (NewError ''unexpected''), n))"

definition scriptedManager :: "nat client \<Rightarrow> nat registration list \<Rightarrow> nat manager" where
  "scriptedManager c script = \<lparr>mgr_Client = c, mgr_IndexField = (\<lambda>k key f. expects script (IndexReg k key f)),
     mgr_AddController = (\<lambda>x. expects script (ControllerReg x)), mgr_AddWebhook = (\<lambda>x. expects script (WebhookReg x)),
     mgr_Add = (\<lambda>x. expects script (RunnableReg x)), mgr_AddHealthzCheck = (\<lambda>x. expects script (HealthzReg x)),
     mgr_AddReadyzCheck = (\<lambda>x. expects script (ReadyzReg x)), mgr_Start = ok ()\<rparr>"

interpretation scripted: manager_registry "scriptedManager c script" "\<lambda>n. take n script" for c script
  by unfold_locales (auto simp: scriptedManager_def expects_def take_Suc_conv_app_nth split: if_splits)

lemma scripted_setup:
  assumes "setup_op (scriptedManager c script) m xs" and "script = pre @ xs @ post"
  shows "run_state m (length pre) = (Inr (), length (pre @ xs))"
  using assms
proof (induction arbitrary: pre post rule: setup_op.induct)
  case (final m xs h)
  then show ?case by (simp add: run_andThen)
next
  case (seq m xs m' ys h)
  have "run_state m (length pre) = (Inr (), length (pre @ xs))" by (rule seq.IH(1)) (simp add: seq.prems)
  moreover have "run_state m' (length (pre @ xs)) = (Inr (), length ((pre @ xs) @ ys))" by (rule seq.IH(2)) (simp add: seq.prems)
  ultimately show ?case by (simp add: run_andThen)
qed (simp_all add: scriptedManager_def expects_def)

end
