(* ===== verification/Program_Start.thy ===== *)
theory Program_Start
  imports Manager_Setup Feature_Gates
begin

text \<open>
  The start of the program (\<open>cmd/main.go\<close>, and \<open>New\<close> of \<open>internal/metrics\<close>): from the
  values of the command line to the exit status. What the process finds around it is
  the record \<open>environment\<close>: the constructor of managers, the OpenAPI client, OpenTelemetry, and the
  libraries that the reconcilers and the webhooks use. Loading the configuration of the
  client and parsing the command line come before. \<open>mgr_Start\<close> returns when the manager stops.
\<close>

section \<open>The command line and the environment\<close>

record flags =
  fl_metricsAddr :: string
  fl_enableLeaderElection :: bool
  fl_deploymentsNamespace :: string
  fl_webhookServiceName :: string
  fl_alwaysAcceptAdmissionReviewsOnDeploymentsNamespace :: bool
  fl_probeAddr :: string
  fl_enableMetrics :: bool
  fl_enableTracing :: bool
  fl_enableOtelSidecar :: bool
  fl_openTelemetryClientCertificateSecret :: string
  fl_openTelemetryCertificateSecret :: string
  fl_clientCAConfigMapName :: string

definition defaultFlags :: flags where
  "defaultFlags = \<lparr>fl_metricsAddr = '':8088'', fl_enableLeaderElection = False, fl_deploymentsNamespace = '''',
     fl_webhookServiceName = ''kubewarden-controller-webhook-service'',
     fl_alwaysAcceptAdmissionReviewsOnDeploymentsNamespace = False, fl_probeAddr = '':8081'', fl_enableMetrics = False,
     fl_enableTracing = False, fl_enableOtelSidecar = False, fl_openTelemetryClientCertificateSecret = '''',
     fl_openTelemetryCertificateSecret = '''', fl_clientCAConfigMapName = ''''\<rparr>"

record manager_options =
  mgo_MetricsBindAddress :: string
  mgo_HealthProbeBindAddress :: string
  mgo_LeaderElection :: bool
  mgo_LeaderElectionID :: string
  mgo_CacheByObject :: "(object_kind \<times> string) list"
  mgo_ClientCAName :: string

text \<open>Exporters and meter providers of OpenTelemetry are handles; a context is its timeout, in seconds.\<close>

record 'w otel =
  otel_NewExporter :: "('w, nat) op"
  otel_NewMeterProvider :: "nat \<Rightarrow> int \<Rightarrow> ('w, nat) state"
  otel_SetMeterProvider :: "nat \<Rightarrow> ('w, unit) state"
  otel_Shutdown :: "nat \<Rightarrow> int \<Rightarrow> ('w, unit) op"

record 'w environment =
  env_NewManager :: "manager_options \<Rightarrow> ('w, 'w manager) op"
  env_OpenAPI :: "'w openapi_client"
  env_Otel :: "'w otel"
  env_Lib :: kube_lib
  env_Meter :: "'w meter"
  env_Validation :: validation_lib
  env_Quantities :: quantity_lib
  env_Crypto :: "'w crypto_lib"
  env_RetryOnConflict :: "('w, unit) op \<Rightarrow> ('w, unit) op"
  env_Error :: "go_error \<Rightarrow> string"
  env_Getenv :: "string \<Rightarrow> string"

section \<open>Setup\<close>

definition timeBetweenExports :: int where
  "timeBetweenExports = 2"

definition metrics_New :: "'w otel \<Rightarrow> ('w, int \<Rightarrow> ('w, unit) op) op" where
  "metrics_New otel =
     orWrap (otel_NewExporter otel) ''cannot start metric exporter'' (\<lambda>exporter.
       State_Monad.bind (otel_NewMeterProvider otel exporter timeBetweenExports) (\<lambda>meterProvider.
       State_Monad.bind (otel_SetMeterProvider otel meterProvider) (\<lambda>_.
         ok (otel_Shutdown otel meterProvider))))"

definition setupManager :: "'w environment \<Rightarrow> string \<Rightarrow> string \<Rightarrow> string \<Rightarrow> bool \<Rightarrow> bool \<Rightarrow> ('w, 'w manager) op" where
  "setupManager env deploymentsNamespace metricsAddr probeAddr enableLeaderElection enableMutualTLS =
     (let namespaceSelector = ''metadata.namespace='' @ deploymentsNamespace;
          clientCAName = (if enableMutualTLS then ClientCACert else '''')
      in env_NewManager env \<lparr>mgo_MetricsBindAddress = metricsAddr, mgo_HealthProbeBindAddress = probeAddr,
           mgo_LeaderElection = enableLeaderElection, mgo_LeaderElectionID = ''a4ddbf36.kubewarden.io'',
           mgo_CacheByObject = [(KReplicaSet, namespaceSelector), (KSecret, namespaceSelector), (KPod, namespaceSelector),
             (KService, namespaceSelector), (KPodDisruptionBudget, namespaceSelector), (KConfigMap, namespaceSelector),
             (KDeployment, namespaceSelector)],
           mgo_ClientCAName = clientCAName\<rparr>)"

definition setupProbes :: "'w manager \<Rightarrow> ('w, unit) op" where
  "setupProbes mgr =
     orJoin (mgr_AddHealthzCheck mgr ''healthz'') ''unable to set up health check'' (\<lambda>_.
     orJoin (mgr_AddReadyzCheck mgr ''readyz'') ''unable to set up ready check'' ok)"

text \<open>The sub-reconciler that every policy controller builds from its fields in \<open>SetupWithManager\<close>.\<close>

definition newPolicySubReconciler :: "'w environment \<Rightarrow> 'w manager \<Rightarrow> string \<Rightarrow> bool \<Rightarrow> 'w policySubReconciler" where
  "newPolicySubReconciler env mgr deploymentsNamespace featureGate =
     \<lparr>sub_Client = mgr_Client mgr, sub_Lib = env_Lib env, sub_Meter = env_Meter env,
      sub_deploymentsNamespace = deploymentsNamespace,
      sub_featureGateAdmissionWebhookMatchConditions = featureGate\<rparr>"

definition setupReconcilers ::
  "'w environment \<Rightarrow> 'w manager \<Rightarrow> string \<Rightarrow> string \<Rightarrow> bool \<Rightarrow> bool \<Rightarrow> TelemetryConfiguration \<Rightarrow> string \<Rightarrow> ('w, unit) op" where
  "setupReconcilers env mgr deploymentsNamespace webhookServiceName alwaysAccept featureGate otelConfiguration clientCAConfigMapName =
     (let policyReconciler = newPolicySubReconciler env mgr deploymentsNamespace featureGate in
     orJoin (PolicyServerReconciler_SetupWithManager
         \<lparr>psr_Client = mgr_Client mgr, psr_Lib = env_Lib env, psr_Telemetry = otelConfiguration,
          psr_DeploymentsNamespace = deploymentsNamespace,
          psr_AlwaysAcceptAdmissionReviewsInDeploymentsNamespace = alwaysAccept,
          psr_ClientCAConfigMapName = clientCAConfigMapName,
          psr_Error = env_Error env, psr_Getenv = env_Getenv env, psr_Crypto = env_Crypto env\<rparr> mgr)
       ''unable to create PolicyServer controller'' (\<lambda>_.
     orJoin (AdmissionPolicyReconciler_SetupWithManager policyReconciler mgr)
       ''unable to create AdmissionPolicy controller'' (\<lambda>_.
     orJoin (ClusterAdmissionPolicyReconciler_SetupWithManager policyReconciler mgr)
       ''unable to create ClusterAdmissionPolicy controller'' (\<lambda>_.
     orJoin (CertReconciler_SetupWithManager
         \<lparr>certr_Client = mgr_Client mgr, certr_Crypto = env_Crypto env, certr_RetryOnConflict = env_RetryOnConflict env,
          certr_DeploymentsNamespace = deploymentsNamespace, certr_WebhookServiceName = webhookServiceName,
          certr_CARootSecretName = CARootSecretName,
          certr_WebhookServerCertSecretName = WebhookServerCertSecretName\<rparr> mgr)
       ''unable to create Cert controller'' (\<lambda>_.
     orJoin (AdmissionPolicyGroupReconciler_SetupWithManager policyReconciler mgr)
       ''unable to create AdmissionPolicyGroup controller'' (\<lambda>_.
     orJoin (ClusterAdmissionPolicyGroupReconciler_SetupWithManager policyReconciler mgr)
       ''unable to create ClusterAdmissionPolicyGroup controller'' ok))))))"

definition setupWebhooks :: "'w environment \<Rightarrow> 'w manager \<Rightarrow> string \<Rightarrow> ('w, unit) op" where
  "setupWebhooks env mgr deploymentsNamespace =
     orJoin (PolicyServer_SetupWebhookWithManager (env_Lib env) (env_Quantities env) mgr deploymentsNamespace)
       ''unable to create webhook for policy servers'' (\<lambda>_.
     orJoin (ClusterAdmissionPolicy_SetupWebhookWithManager (env_Lib env) (env_Validation env) mgr)
       ''unable to create webhook for cluster admission policies'' (\<lambda>_.
     orJoin (AdmissionPolicy_SetupWebhookWithManager (env_Lib env) (env_Validation env) mgr)
       ''unable to create webhook for admission policies'' (\<lambda>_.
     orJoin (AdmissionPolicyGroup_SetupWebhookWithManager (env_Lib env) (env_Validation env) mgr)
       ''unable to create webhook for admission policies groups'' (\<lambda>_.
     orJoin (ClusterAdmissionPolicyGroup_SetupWebhookWithManager (env_Lib env) (env_Validation env) mgr)
       ''unable to create webhook for cluster admission policies groups'' ok))))"

section \<open>main\<close>

text \<open>Everything after the feature gate is known, up to the exit status.\<close>

definition startWithGate :: "'w environment \<Rightarrow> flags \<Rightarrow> 'w manager \<Rightarrow> bool \<Rightarrow> ('w, int) state" where
  "startWithGate env f mgr featureGate =
     (let otelConfiguration = \<lparr>tc_MetricsEnabled = fl_enableMetrics f, tc_TracingEnabled = fl_enableTracing f,
            tc_OtelSidecarEnabled = fl_enableOtelSidecar f, tc_OtelCertificateSecret = fl_openTelemetryCertificateSecret f,
            tc_OtelClientCertificateSecret = fl_openTelemetryClientCertificateSecret f\<rparr> in
     andThen (setupReconcilers env mgr (fl_deploymentsNamespace f) (fl_webhookServiceName f)
         (fl_alwaysAcceptAdmissionReviewsOnDeploymentsNamespace f) featureGate otelConfiguration (fl_clientCAConfigMapName f))
       (\<lambda>_. ret 1) (\<lambda>_.
     andThen (setupWebhooks env mgr (fl_deploymentsNamespace f)) (\<lambda>_. ret 1) (\<lambda>_.
     andThen (setupProbes mgr) (\<lambda>_. ret 1) (\<lambda>_.
     andThen (mgr_Start mgr) (\<lambda>_. ret 1) (\<lambda>_. ret 0)))))"

text \<open>Everything after the metrics are set up. A failed check of the feature gate is logged and counts as off.\<close>

definition runManager :: "'w environment \<Rightarrow> flags \<Rightarrow> ('w, int) state" where
  "runManager env f =
     andThen (setupManager env (fl_deploymentsNamespace f) (fl_metricsAddr f) (fl_probeAddr f) (fl_enableLeaderElection f)
         (fl_clientCAConfigMapName f \<noteq> ''''))
       (\<lambda>_. ret 1) (\<lambda>mgr.
     andThen (CheckAdmissionWebhookMatchConditions (env_OpenAPI env))
       (\<lambda>_. startWithGate env f mgr False) (\<lambda>featureGate. startWithGate env f mgr featureGate))"

definition main :: "'w environment \<Rightarrow> flags \<Rightarrow> ('w, int) state" where
  "main env f =
     (if fl_enableMetrics f then
        andThen (metrics_New (env_Otel env)) (\<lambda>_. ret 1) (\<lambda>shutdown.
          State_Monad.bind (runManager env f) (\<lambda>retcode.
            andThen (shutdown MetricsShutdownTimeout) (\<lambda>_. ret 1) (\<lambda>_. ret retcode)))
      else runManager env f)"

section \<open>What runs when the manager runs\<close>

text \<open>The registrations of a successful setup, in order.\<close>

definition policyServerReconcilerOf :: "'w environment \<Rightarrow> flags \<Rightarrow> 'w client \<Rightarrow> 'w PolicyServerReconciler" where
  "policyServerReconcilerOf env f c =
     \<lparr>psr_Client = c, psr_Lib = env_Lib env,
      psr_Telemetry = \<lparr>tc_MetricsEnabled = fl_enableMetrics f, tc_TracingEnabled = fl_enableTracing f,
        tc_OtelSidecarEnabled = fl_enableOtelSidecar f, tc_OtelCertificateSecret = fl_openTelemetryCertificateSecret f,
        tc_OtelClientCertificateSecret = fl_openTelemetryClientCertificateSecret f\<rparr>,
      psr_DeploymentsNamespace = fl_deploymentsNamespace f,
      psr_AlwaysAcceptAdmissionReviewsInDeploymentsNamespace = fl_alwaysAcceptAdmissionReviewsOnDeploymentsNamespace f,
      psr_ClientCAConfigMapName = fl_clientCAConfigMapName f,
      psr_Error = env_Error env, psr_Getenv = env_Getenv env, psr_Crypto = env_Crypto env\<rparr>"

definition certReconcilerOf :: "'w environment \<Rightarrow> flags \<Rightarrow> 'w client \<Rightarrow> 'w CertReconciler" where
  "certReconcilerOf env f c =
     \<lparr>certr_Client = c, certr_Crypto = env_Crypto env, certr_RetryOnConflict = env_RetryOnConflict env,
      certr_DeploymentsNamespace = fl_deploymentsNamespace f, certr_WebhookServiceName = fl_webhookServiceName f,
      certr_CARootSecretName = CARootSecretName, certr_WebhookServerCertSecretName = WebhookServerCertSecretName\<rparr>"

definition reconcilerRegs :: "'w environment \<Rightarrow> flags \<Rightarrow> 'w manager \<Rightarrow> bool \<Rightarrow> 'w registration list" where
  "reconcilerRegs env f mgr gate =
     (let sub = newPolicySubReconciler env mgr (fl_deploymentsNamespace f) gate in
      ([IndexReg KClusterAdmissionPolicy PolicyServerIndexKey indexClusterAdmissionPolicy] @
       [IndexReg KAdmissionPolicy PolicyServerIndexKey indexAdmissionPolicy] @
       [IndexReg KAdmissionPolicyGroup PolicyServerIndexKey indexAdmissionPolicyGroup] @
       [IndexReg KClusterAdmissionPolicyGroup PolicyServerIndexKey indexClusterAdmissionPolicyGroup] @
       [ControllerReg (policyServerController (policyServerReconcilerOf env f (mgr_Client mgr)))]) @
      [ControllerReg (admissionPolicyController sub)] @ [ControllerReg (clusterAdmissionPolicyController sub)] @
      [RunnableReg (certReconcilerOf env f (mgr_Client mgr))] @
      [ControllerReg (admissionPolicyGroupController sub)] @ [ControllerReg (clusterAdmissionPolicyGroupController sub)])"

definition policyAdmissions :: "kube_lib \<Rightarrow> validation_lib \<Rightarrow> 'w admission list" where
  "policyAdmissions lib v =
     [\<lparr>adm_For = KClusterAdmissionPolicy, adm_Default = clusterAdmissionPolicyDefaulter_Default lib,
         adm_ValidateCreate = (\<lambda>obj. ret (clusterAdmissionPolicyValidator_ValidateCreate v obj)),
         adm_ValidateUpdate = (\<lambda>old new. ret (clusterAdmissionPolicyValidator_ValidateUpdate v old new)),
         adm_ValidateDelete = clusterAdmissionPolicyValidator_ValidateDelete\<rparr>,
      \<lparr>adm_For = KAdmissionPolicy, adm_Default = admissionPolicyDefaulter_Default lib,
         adm_ValidateCreate = (\<lambda>obj. ret (admissionPolicyValidator_ValidateCreate v obj)),
         adm_ValidateUpdate = (\<lambda>old new. ret (admissionPolicyValidator_ValidateUpdate v old new)),
         adm_ValidateDelete = admissionPolicyValidator_ValidateDelete\<rparr>,
      \<lparr>adm_For = KAdmissionPolicyGroup, adm_Default = admissionPolicyGroupDefaulter_Default lib,
         adm_ValidateCreate = (\<lambda>obj. ret (admissionPolicyGroupValidator_ValidateCreate v obj)),
         adm_ValidateUpdate = (\<lambda>old new. ret (admissionPolicyGroupValidator_ValidateUpdate v old new)),
         adm_ValidateDelete = admissionPolicyGroupValidator_ValidateDelete\<rparr>,
      \<lparr>adm_For = KClusterAdmissionPolicyGroup, adm_Default = clusterAdmissionPolicyGroupDefaulter_Default lib,
         adm_ValidateCreate = (\<lambda>obj. ret (clusterAdmissionPolicyGroupValidator_ValidateCreate v obj)),
         adm_ValidateUpdate = (\<lambda>old new. ret (clusterAdmissionPolicyGroupValidator_ValidateUpdate v old new)),
         adm_ValidateDelete = clusterAdmissionPolicyGroupValidator_ValidateDelete\<rparr>]"

definition webhookRegs :: "'w environment \<Rightarrow> flags \<Rightarrow> 'w manager \<Rightarrow> 'w registration list" where
  "webhookRegs env f mgr =
     WebhookReg \<lparr>adm_For = KPolicyServer, adm_Default = policyServerDefaulter_Default (env_Lib env),
       adm_ValidateCreate = policyServerValidator_ValidateCreate (env_Quantities env) (mgr_Client mgr) (fl_deploymentsNamespace f),
       adm_ValidateUpdate = policyServerValidator_ValidateUpdate (env_Quantities env) (mgr_Client mgr) (fl_deploymentsNamespace f),
       adm_ValidateDelete = policyServerValidator_ValidateDelete\<rparr> #
     map WebhookReg (policyAdmissions (env_Lib env) (env_Validation env))"

lemma setup_reconcilers:
  "setup_op mgr (setupReconcilers env mgr (fl_deploymentsNamespace f) (fl_webhookServiceName f)
       (fl_alwaysAcceptAdmissionReviewsOnDeploymentsNamespace f) gate (psr_Telemetry (policyServerReconcilerOf env f c))
       (fl_clientCAConfigMapName f)) (reconcilerRegs env f mgr gate)"
  unfolding setupReconcilers_def reconcilerRegs_def Let_def policyServerReconcilerOf_def certReconcilerOf_def
    PolicyServerReconciler.select_convs
  by (intro setup_intros setup_policyServer setup_controllers)

lemma setup_webhooks:
  "setup_op mgr (setupWebhooks env mgr (fl_deploymentsNamespace f)) (webhookRegs env f mgr)"
proof -
  have one: "setup_op mgr (orWrap (mgr_AddWebhook mgr a) msg ok) [WebhookReg a]" for a msg
    by (intro setup_intros)
  have cons: "setup_op mgr (orJoin m msg (\<lambda>_. k)) (x # xs)"
    if "setup_op mgr m [x]" "setup_op mgr k xs" for m msg k x xs
    using setup_op_seq(2) [OF that] by simp
  show ?thesis
    unfolding setupWebhooks_def webhookRegs_def policyAdmissions_def list.map
      PolicyServer_SetupWebhookWithManager_def AdmissionPolicy_SetupWebhookWithManager_def
      ClusterAdmissionPolicy_SetupWebhookWithManager_def AdmissionPolicyGroup_SetupWebhookWithManager_def
      ClusterAdmissionPolicyGroup_SetupWebhookWithManager_def
    by (intro cons one setup_op_last(2))
qed

lemma setup_probes: "setup_op mgr (setupProbes mgr) ([HealthzReg ''healthz''] @ [ReadyzReg ''readyz''])"
  unfolding setupProbes_def by (intro setup_intros)

lemma startWithGate_steps:
  "startWithGate env f mgr gate =
     andThen (setupReconcilers env mgr (fl_deploymentsNamespace f) (fl_webhookServiceName f)
       (fl_alwaysAcceptAdmissionReviewsOnDeploymentsNamespace f) gate (psr_Telemetry (policyServerReconcilerOf env f (mgr_Client mgr)))
       (fl_clientCAConfigMapName f)) (\<lambda>_. ret 1) (\<lambda>_.
     andThen (setupWebhooks env mgr (fl_deploymentsNamespace f)) (\<lambda>_. ret 1) (\<lambda>_.
     andThen (setupProbes mgr) (\<lambda>_. ret 1) (\<lambda>_.
     andThen (mgr_Start mgr) (\<lambda>_. ret 1) (\<lambda>_. ret 0))))"
  by (simp add: startWithGate_def policyServerReconcilerOf_def Let_def)

context manager_registry
begin

lemma startWithGate_registers:
  assumes "run_state (startWithGate env f mgr gate) w = (0, w')"
  shows "\<exists>w1. run_state (mgr_Start mgr) w1 = (Inr (), w') \<and>
    registered w1 = registered w @ reconcilerRegs env f mgr gate @ webhookRegs env f mgr @ [HealthzReg ''healthz'', ReadyzReg ''readyz'']"
proof -
  from assms obtain w1 w2 w3 where steps: "run_state (setupReconcilers env mgr (fl_deploymentsNamespace f) (fl_webhookServiceName f)
       (fl_alwaysAcceptAdmissionReviewsOnDeploymentsNamespace f) gate (psr_Telemetry (policyServerReconcilerOf env f (mgr_Client mgr)))
       (fl_clientCAConfigMapName f)) w = (Inr (), w1)"
    "run_state (setupWebhooks env mgr (fl_deploymentsNamespace f)) w1 = (Inr (), w2)"
    "run_state (setupProbes mgr) w2 = (Inr (), w3)" "run_state (mgr_Start mgr) w3 = (Inr (), w')"
    unfolding startWithGate_steps by (auto simp: run_andThen split: prod.splits sum.splits)
  have "registered w3 = registered w @ reconcilerRegs env f mgr gate @ webhookRegs env f mgr @ [HealthzReg ''healthz'', ReadyzReg ''readyz'']"
    using setup_op_registers [OF setup_reconcilers steps(1)] setup_op_registers [OF setup_webhooks steps(2)]
      setup_op_registers [OF setup_probes steps(3)] by simp
  with steps(4) show ?thesis by blast
qed

end

definition policyKind :: "Policy \<Rightarrow> object_kind" where
  "policyKind p = (case p of AP _ \<Rightarrow> KAdmissionPolicy | CAP _ \<Rightarrow> KClusterAdmissionPolicy
     | APG _ \<Rightarrow> KAdmissionPolicyGroup | CAPG _ \<Rightarrow> KClusterAdmissionPolicyGroup)"

text \<open>
  A policy is covered: its kind has a controller and a webhook whose defaulter takes it, the policy server
  controller is woken for its server when it changes, and the index finds it under its server.
\<close>

definition covered :: "Policy \<Rightarrow> 'w registration list \<Rightarrow> bool" where
  "covered p regs \<longleftrightarrow>
     (\<exists>c. ControllerReg c \<in> set regs \<and> ctl_For c = policyKind p) \<and>
     (\<exists>a p'. WebhookReg a \<in> set regs \<and> adm_For a = policyKind p \<and> adm_Default a (PolicyObj p) = Inr (PolicyObj p')) \<and>
     (\<exists>c g. ControllerReg c \<in> set regs \<and> ctl_For c = KPolicyServer \<and> (policyKind p, g) \<in> set (ctl_Watches c) \<and>
        g (ObjPolicy p) = ret [('''', GetPolicyServer p)]) \<and>
     (\<exists>g. IndexReg (policyKind p) PolicyServerIndexKey g \<in> set regs \<and> g (ObjPolicy p) = [GetPolicyServer p])"

lemma covered_start: "covered p (rs @ reconcilerRegs env f mgr gate @ webhookRegs env f mgr @ ps)"
proof -
  let ?regs = "rs @ reconcilerRegs env f mgr gate @ webhookRegs env f mgr @ ps"
  let ?sub = "newPolicySubReconciler env mgr (fl_deploymentsNamespace f) gate"
  let ?psc = "policyServerController (policyServerReconcilerOf env f (mgr_Client mgr))"
  note regs = reconcilerRegs_def Let_def
  note getters = AdmissionPolicy_GetPolicyServer_def ClusterAdmissionPolicy_GetPolicyServer_def
    AdmissionPolicyGroup_GetPolicyServer_def ClusterAdmissionPolicyGroup_GetPolicyServer_def
  have ctl: "\<exists>c. ControllerReg c \<in> set ?regs \<and> ctl_For c = policyKind p"
  proof (cases p)
    case (AP _) then show ?thesis by (intro exI [of _ "admissionPolicyController ?sub"]) (simp add: regs policyKind_def admissionPolicyController_def)
  next
    case (CAP _) then show ?thesis by (intro exI [of _ "clusterAdmissionPolicyController ?sub"]) (simp add: regs policyKind_def clusterAdmissionPolicyController_def)
  next
    case (APG _) then show ?thesis by (intro exI [of _ "admissionPolicyGroupController ?sub"]) (simp add: regs policyKind_def admissionPolicyGroupController_def)
  next
    case (CAPG _) then show ?thesis by (intro exI [of _ "clusterAdmissionPolicyGroupController ?sub"]) (simp add: regs policyKind_def clusterAdmissionPolicyGroupController_def)
  qed
  have "\<exists>a\<in>set (policyAdmissions (env_Lib env) (env_Validation env)).
      adm_For a = policyKind p \<and> (\<exists>p'. adm_Default a (PolicyObj p) = Inr (PolicyObj p'))"
    by (cases p) (simp_all add: policyAdmissions_def policyKind_def Let_def admissionPolicyDefaulter_Default_def
      clusterAdmissionPolicyDefaulter_Default_def admissionPolicyGroupDefaulter_Default_def clusterAdmissionPolicyGroupDefaulter_Default_def)
  then have adm: "\<exists>a p'. WebhookReg a \<in> set ?regs \<and> adm_For a = policyKind p \<and> adm_Default a (PolicyObj p) = Inr (PolicyObj p')"
    unfolding webhookRegs_def by auto
  have "\<exists>g. (policyKind p, g) \<in> set (ctl_Watches ?psc) \<and> g (ObjPolicy p) = ret [('''', GetPolicyServer p)]"
    by (cases p) (auto simp: getters policyServerController_def policyKind_def enqueueAdmissionPolicy_def enqueueClusterAdmissionPolicy_def
      enqueueAdmissionPolicyGroup_def enqueueClusterAdmissionPolicyGroup_def)
  moreover have "ControllerReg ?psc \<in> set ?regs" "ctl_For ?psc = KPolicyServer"
    by (simp_all add: regs policyServerController_def)
  ultimately have watch: "\<exists>c g. ControllerReg c \<in> set ?regs \<and> ctl_For c = KPolicyServer \<and> (policyKind p, g) \<in> set (ctl_Watches c) \<and>
      g (ObjPolicy p) = ret [('''', GetPolicyServer p)]"
    by blast
  have "\<exists>g. IndexReg (policyKind p) PolicyServerIndexKey g \<in> set ?regs \<and> g (ObjPolicy p) = [GetPolicyServer p]"
    by (cases p) (auto simp: regs getters policyKind_def indexAdmissionPolicy_def indexClusterAdmissionPolicy_def
      indexAdmissionPolicyGroup_def indexClusterAdmissionPolicyGroup_def)
  with ctl adm watch show ?thesis unfolding covered_def by blast
qed


definition startScript :: "nat environment \<Rightarrow> nat client \<Rightarrow> nat registration list" where
  "startScript env c = (let mgr = scriptedManager c [] in
     reconcilerRegs env defaultFlags mgr False @ webhookRegs env defaultFlags mgr @ [HealthzReg ''healthz''] @ [ReadyzReg ''readyz''])"

definition scriptedEnv :: "nat environment \<Rightarrow> nat client \<Rightarrow> nat environment" where
  "scriptedEnv env c = env\<lparr>env_NewManager := (\<lambda>_. ok (scriptedManager c (startScript env c))),
     env_OpenAPI := \<lparr>oa_Paths = ok []\<rparr>\<rparr>"

lemma scripted_start: "run_state (main (scriptedEnv env c) defaultFlags) 0 = (0, length (startScript env c))"
proof -
  let ?mgr = "scriptedManager c (startScript env c)" and ?env = "scriptedEnv env c"
  have regs: "reconcilerRegs ?env f ?mgr gate = reconcilerRegs env f (scriptedManager c []) gate"
    "webhookRegs ?env f ?mgr = webhookRegs env f (scriptedManager c [])" for f gate
    by (simp_all add: reconcilerRegs_def webhookRegs_def newPolicySubReconciler_def policyServerReconcilerOf_def certReconcilerOf_def
        scriptedEnv_def scriptedManager_def)
  have "run_state (main ?env defaultFlags) 0 = run_state (startWithGate ?env defaultFlags ?mgr False) 0"
    by (simp add: main_def defaultFlags_def runManager_def setupManager_def scriptedEnv_def run_andThen CheckAdmissionWebhookMatchConditions_def
        run_orWrap orError_def)
  also have "\<dots> = (0, length (startScript env c))"
  proof -
    let ?a = "reconcilerRegs ?env defaultFlags ?mgr False" and ?b = "webhookRegs ?env defaultFlags ?mgr"
    have script: "startScript env c = ?a @ ?b @ [HealthzReg ''healthz''] @ [ReadyzReg ''readyz'']"
      unfolding regs by (simp add: startScript_def Let_def)
    have "run_state (setupReconcilers ?env ?mgr (fl_deploymentsNamespace defaultFlags) (fl_webhookServiceName defaultFlags)
       (fl_alwaysAcceptAdmissionReviewsOnDeploymentsNamespace defaultFlags) False
       (psr_Telemetry (policyServerReconcilerOf ?env defaultFlags (mgr_Client ?mgr))) (fl_clientCAConfigMapName defaultFlags)) (length ([] :: nat registration list)) =
       (Inr (), length ([] @ ?a))"
      by (rule scripted_setup [OF setup_reconcilers]) (subst script, simp)
    moreover have "run_state (setupWebhooks ?env ?mgr (fl_deploymentsNamespace defaultFlags)) (length ?a) = (Inr (), length (?a @ ?b))"
      by (rule scripted_setup [OF setup_webhooks]) (subst script, simp)
    moreover have "run_state (setupProbes ?mgr) (length (?a @ ?b)) = (Inr (), length ((?a @ ?b) @ ([HealthzReg ''healthz''] @ [ReadyzReg ''readyz''])))"
      by (rule scripted_setup [OF setup_probes, where post = "[]"]) (subst script, simp)
    moreover have "mgr_Start ?mgr = ok ()" by (simp add: scriptedManager_def)
    moreover have "length ((?a @ ?b) @ ([HealthzReg ''healthz''] @ [ReadyzReg ''readyz''])) = length (startScript env c)"
      by (subst script) simp
    ultimately show ?thesis unfolding startWithGate_steps by (simp add: run_andThen)
  qed
  finally show ?thesis .
qed


text \<open>
  A failed check of the feature gate does not stop the program: it goes on as on a cluster
  without the feature. Whatever the cluster supports, the webhooks it then writes have no
  match conditions, so that the policy is evaluated for requests that its spec excludes; with the gate on they have those of the policy.\<close>

theorem failed_gate_drops_conditions:
  assumes mgr: "run_state (setupManager env (fl_deploymentsNamespace f) (fl_metricsAddr f) (fl_probeAddr f) (fl_enableLeaderElection f)
      (fl_clientCAConfigMapName f \<noteq> '''')) w = (Inr mgr, w1)"
    and check: "run_state (CheckAdmissionWebhookMatchConditions (env_OpenAPI env)) w1 = (Inl e, w2)"
  shows "run_state (runManager env f) w = run_state (startWithGate env f mgr False) w2 \<and>
    wh_MatchConditions (policyWebhook (newPolicySubReconciler env mgr ns gate) p caSecret name) =
      (if gate then GetMatchConditions p else [])"
  using mgr check by (simp add: runManager_def run_andThen policyWebhook_def newPolicySubReconciler_def)

theorem failed_gate_drops_conditions_witness:
  "\<forall>env c. run_state (runManager (scriptedEnv env c) defaultFlags) 0 =
       run_state (startWithGate (scriptedEnv env c) defaultFlags (scriptedManager c (startScript env c)) False) 0 \<and>
     wh_MatchConditions (policyWebhook (newPolicySubReconciler (scriptedEnv env c) (scriptedManager c (startScript env c)) ''kubewarden'' False)
       (CAP (sampleCAP ''p'')) sampleCASecret ''w'') = []"
proof (intro allI)
  fix env :: "nat environment" and c
  let ?mgr = "scriptedManager c (startScript env c)"
  have mgr: "run_state (setupManager (scriptedEnv env c) (fl_deploymentsNamespace defaultFlags) (fl_metricsAddr defaultFlags)
      (fl_probeAddr defaultFlags) (fl_enableLeaderElection defaultFlags) (fl_clientCAConfigMapName defaultFlags \<noteq> '''')) 0 = (Inr ?mgr, 0)"
    by (simp add: setupManager_def scriptedEnv_def)
  obtain e where check: "run_state (CheckAdmissionWebhookMatchConditions (env_OpenAPI (scriptedEnv env c))) 0 = (Inl e, 0)"
    by (simp add: scriptedEnv_def CheckAdmissionWebhookMatchConditions_def run_orWrap orError_def)
  show "run_state (runManager (scriptedEnv env c) defaultFlags) 0 =
       run_state (startWithGate (scriptedEnv env c) defaultFlags ?mgr False) 0 \<and>
     wh_MatchConditions (policyWebhook (newPolicySubReconciler (scriptedEnv env c) ?mgr ''kubewarden'' False)
       (CAP (sampleCAP ''p'')) sampleCASecret ''w'') = []"
    using failed_gate_drops_conditions [OF mgr check, of "''kubewarden''" False "CAP (sampleCAP ''p'')" sampleCASecret "''w''"]
    unfolding if_False .
qed

end
