(* ===== verification/Teardown.thy ===== *)
theory Teardown
  imports Program_Start
begin

text \<open>
  The deletion of a policy server as the controllers carry it out together: the policy server
  controller asks for the deletion of the bound policies and waits, each policy controller removes
  the webhook configuration and then the finalizers of its policy, and at last the policy server loses
  its own finalizers. The cluster is closed (nobody creates policies meanwhile) and answers
  every call; these laws are the locale \<open>closed_cluster\<close>.
\<close>

section \<open>Policies of all kinds\<close>

type_synonym policy_ref = "object_kind \<times> nsname"

definition policyRef :: "Policy \<Rightarrow> policy_ref" where
  "policyRef p = (policyKind p, metaKey (GetObjectMeta p))"

definition policyGet :: "'w client \<Rightarrow> object_kind \<Rightarrow> nsname \<Rightarrow> ('w, Policy) op" where
  "policyGet c k key =
     (case k of
        KAdmissionPolicy \<Rightarrow> mapOp AP (r_Get (cl_AdmissionPolicies c) key)
      | KClusterAdmissionPolicy \<Rightarrow> mapOp CAP (r_Get (cl_ClusterAdmissionPolicies c) key)
      | KAdmissionPolicyGroup \<Rightarrow> mapOp APG (r_Get (cl_AdmissionPolicyGroups c) key)
      | KClusterAdmissionPolicyGroup \<Rightarrow> mapOp CAPG (r_Get (cl_ClusterAdmissionPolicyGroups c) key)
      | _ \<Rightarrow> fail (ApiError NotFound))"

text \<open>The controller that the manager runs for a request, by kind.\<close>

datatype action = ServerAction Request | PolicyAction object_kind Request

fun runAction :: "'w PolicyServerReconciler \<Rightarrow> 'w policySubReconciler \<Rightarrow> action \<Rightarrow> ('w, Result) op" where
  "runAction r sub (ServerAction req) = PolicyServerReconciler_Reconcile r req"
| "runAction r sub (PolicyAction k req) =
     (case k of
        KAdmissionPolicy \<Rightarrow> AdmissionPolicyReconciler_Reconcile sub req
      | KClusterAdmissionPolicy \<Rightarrow> ClusterAdmissionPolicyReconciler_Reconcile sub req
      | KAdmissionPolicyGroup \<Rightarrow> AdmissionPolicyGroupReconciler_Reconcile sub req
      | KClusterAdmissionPolicyGroup \<Rightarrow> ClusterAdmissionPolicyGroupReconciler_Reconcile sub req
      | _ \<Rightarrow> ok emptyResult)"

fun runActions :: "'w PolicyServerReconciler \<Rightarrow> 'w policySubReconciler \<Rightarrow> action list \<Rightarrow> 'w \<Rightarrow> 'w" where
  "runActions r sub [] w = w"
| "runActions r sub (a # as) w = runActions r sub as (snd (run_state (runAction r sub a) w))"

lemma runActions_append: "runActions r sub (as @ as') w = runActions r sub as' (runActions r sub as w)"
  by (induction as arbitrary: w) simp_all

definition policyKinds :: "object_kind set" where
  "policyKinds = {KAdmissionPolicy, KClusterAdmissionPolicy, KAdmissionPolicyGroup, KClusterAdmissionPolicyGroup}"

lemma runAction_policy:
  "k \<in> policyKinds \<Longrightarrow>
   run_state (runAction r sub (PolicyAction k req)) w =
     run_state (andThen (policyGet (sub_Client sub) k req) ignoreNotFoundResult (reconcile sub)) w"
  by (auto simp: policyKinds_def policyGet_def run_andThen run_mapOp AdmissionPolicyReconciler_Reconcile_def
      ClusterAdmissionPolicyReconciler_Reconcile_def AdmissionPolicyGroupReconciler_Reconcile_def
      ClusterAdmissionPolicyGroupReconciler_Reconcile_def split: prod.split sum.split)

lemma policyKind_in [simp]: "policyKind p \<in> policyKinds"
  by (cases p) (simp_all add: policyKind_def policyKinds_def)

section \<open>A closed cluster\<close>

definition dying :: "Policy \<Rightarrow> bool" where
  "dying p \<longleftrightarrow> GetDeletionTimestamp p \<noteq> None"

text \<open>What is left of a policy after its deletion was asked for: nothing, or the policy marked.\<close>

definition condemned :: "Policy \<Rightarrow> Policy option \<Rightarrow> bool" where
  "condemned q v \<longleftrightarrow> (case v of None \<Rightarrow> True | Some z \<Rightarrow> dying z \<and> GetPolicyServer z = GetPolicyServer q \<and>
     om_Finalizers (GetObjectMeta z) = om_Finalizers (GetObjectMeta q))"

definition ownFinalizers :: "string set" where
  "ownFinalizers = {KubewardenFinalizer, KubewardenFinalizerPre114}"

text \<open>A call that leaves the policies and the policy servers as they are.\<close>

definition untouched :: "('w \<Rightarrow> bool) \<Rightarrow> ('w \<Rightarrow> 'a) \<Rightarrow> ('w \<Rightarrow> 'b) \<Rightarrow> 'w \<Rightarrow> 'w \<Rightarrow> bool" where
  "untouched ready pview sview w w' \<longleftrightarrow> ready w' \<and> pview w' = pview w \<and> sview w' = sview w"

locale closed_cluster =
  fixes c :: "'w client"
    and ready :: "'w \<Rightarrow> bool"
    and pview :: "'w \<Rightarrow> policy_ref \<Rightarrow> Policy option"
    and sview :: "'w \<Rightarrow> nsname \<Rightarrow> PolicyServer option"
  assumes pview_ref: "pview w ref = Some p \<Longrightarrow> policyRef p = ref"
    and sview_ref: "sview w key = Some s \<Longrightarrow> metaKey (ps_Meta s) = key"
    and policy_get: "ready w \<Longrightarrow> \<exists>res w'. run_state (policyGet c k key) w = (res, w') \<and> untouched ready pview sview w w' \<and>
      (case pview w (k, key) of Some p \<Rightarrow> res = Inr p | None \<Rightarrow> \<exists>e. res = Inl e \<and> IsNotFound e)"
    and list_AP: "ready w \<Longrightarrow> \<exists>xs w'. run_state (r_List (cl_AdmissionPolicies c) (matchingFields [(PolicyServerIndexKey, n)])) w = (Inr xs, w') \<and>
      untouched ready pview sview w w' \<and> distinct (map (\<lambda>x. policyRef (AP x)) xs) \<and> (\<forall>x. x \<in> set xs \<longleftrightarrow> pview w (policyRef (AP x)) = Some (AP x) \<and> GetPolicyServer (AP x) = n)"
    and list_CAP: "ready w \<Longrightarrow> \<exists>xs w'. run_state (r_List (cl_ClusterAdmissionPolicies c) (matchingFields [(PolicyServerIndexKey, n)])) w = (Inr xs, w') \<and>
      untouched ready pview sview w w' \<and> distinct (map (\<lambda>x. policyRef (CAP x)) xs) \<and> (\<forall>x. x \<in> set xs \<longleftrightarrow> pview w (policyRef (CAP x)) = Some (CAP x) \<and> GetPolicyServer (CAP x) = n)"
    and list_APG: "ready w \<Longrightarrow> \<exists>xs w'. run_state (r_List (cl_AdmissionPolicyGroups c) (matchingFields [(PolicyServerIndexKey, n)])) w = (Inr xs, w') \<and>
      untouched ready pview sview w w' \<and> distinct (map (\<lambda>x. policyRef (APG x)) xs) \<and> (\<forall>x. x \<in> set xs \<longleftrightarrow> pview w (policyRef (APG x)) = Some (APG x) \<and> GetPolicyServer (APG x) = n)"
    and list_CAPG: "ready w \<Longrightarrow> \<exists>xs w'. run_state (r_List (cl_ClusterAdmissionPolicyGroups c) (matchingFields [(PolicyServerIndexKey, n)])) w = (Inr xs, w') \<and>
      untouched ready pview sview w w' \<and> distinct (map (\<lambda>x. policyRef (CAPG x)) xs) \<and> (\<forall>x. x \<in> set xs \<longleftrightarrow> pview w (policyRef (CAPG x)) = Some (CAPG x) \<and> GetPolicyServer (CAPG x) = n)"
    and policy_delete: "ready w \<Longrightarrow> pview w (policyRef p) = Some q \<Longrightarrow>
      \<exists>w' v. run_state (policyDelete c p) w = (Inr (), w') \<and> ready w' \<and> sview w' = sview w \<and> pview w' = (pview w)(policyRef p := v) \<and>
        condemned q v"
    and policy_release: "ready w \<Longrightarrow> pview w (policyRef p) = Some q \<Longrightarrow> dying q \<Longrightarrow>
      om_ResourceVersion (GetObjectMeta p) = om_ResourceVersion (GetObjectMeta q) \<Longrightarrow> om_Finalizers (GetObjectMeta p) = [] \<Longrightarrow>
      \<exists>p' w'. run_state (policyUpdate c p) w = (Inr p', w') \<and> ready w' \<and> sview w' = sview w \<and> pview w' = (pview w)(policyRef p := None)"
    and server_get: "ready w \<Longrightarrow> \<exists>res w'. run_state (r_Get (cl_PolicyServers c) key) w = (res, w') \<and> untouched ready pview sview w w' \<and>
      (case sview w key of Some s \<Rightarrow> res = Inr s | None \<Rightarrow> \<exists>e. res = Inl e \<and> IsNotFound e)"
    and server_release: "ready w \<Longrightarrow> sview w (metaKey (ps_Meta s)) = Some t \<Longrightarrow> om_DeletionTimestamp (ps_Meta t) \<noteq> None \<Longrightarrow>
      om_ResourceVersion (ps_Meta s) = om_ResourceVersion (ps_Meta t) \<Longrightarrow> om_Finalizers (ps_Meta s) = [] \<Longrightarrow>
      \<exists>s' w'. run_state (r_Update (cl_PolicyServers c) s) w = (Inr s', w') \<and> ready w' \<and> pview w' = pview w \<and>
        sview w' = (sview w)(metaKey (ps_Meta s) := None)"
    and hook_get: "ready w \<Longrightarrow> res = cl_ValidatingWebhooks c \<or> res = cl_MutatingWebhooks c \<Longrightarrow>
      \<exists>x w'. run_state (r_Get res key) w = (x, w') \<and> untouched ready pview sview w w' \<and> (\<forall>e. x = Inl e \<longrightarrow> IsNotFound e)"
    and hook_delete: "ready w \<Longrightarrow> res = cl_ValidatingWebhooks c \<or> res = cl_MutatingWebhooks c \<Longrightarrow>
      \<exists>x w'. run_state (r_Delete res hook) w = (x, w') \<and> untouched ready pview sview w w' \<and> (\<forall>e. x = Inl e \<longrightarrow> IsNotFound e)"

definition bound :: "('w \<Rightarrow> policy_ref \<Rightarrow> Policy option) \<Rightarrow> string \<Rightarrow> 'w \<Rightarrow> policy_ref set" where
  "bound pview n w = {ref. \<exists>p. pview w ref = Some p \<and> GetPolicyServer p = n}"

context closed_cluster
begin

abbreviation same :: "'w \<Rightarrow> 'w \<Rightarrow> bool" where
  "same w w' \<equiv> untouched ready pview sview w w'"

lemma same_trans: "same w w1 \<Longrightarrow> same w1 w2 \<Longrightarrow> same w w2"
  by (simp add: untouched_def)

lemma listPolicies_run:
  assumes "run_state (r_List res (matchingFields [(PolicyServerIndexKey, ps_Name s)])) w = (Inr xs, w1)"
  shows "run_state (listPolicies res what s f) w = run_state (f xs) w1"
  using assms by (simp add: listPolicies_def run_andThen)

lemma getPolicies_run:
  assumes r: "psr_Client r = c" and ready: "ready w"
  obtains ps w' where "run_state (getPolicies r s) w = (Inr ps, w')" "same w w'" "distinct (map policyRef ps)"
    "\<And>p. p \<in> set ps \<longleftrightarrow> pview w (policyRef p) = Some p \<and> GetPolicyServer p = ps_Name s"
proof -
  obtain caps w1 where 1: "run_state (r_List (cl_ClusterAdmissionPolicies c) (matchingFields [(PolicyServerIndexKey, ps_Name s)])) w = (Inr caps, w1)"
    "same w w1" "distinct (map (\<lambda>x. policyRef (CAP x)) caps)"
    "\<And>x. x \<in> set caps \<longleftrightarrow> pview w (policyRef (CAP x)) = Some (CAP x) \<and> GetPolicyServer (CAP x) = ps_Name s"
    using list_CAP [OF ready, of "ps_Name s"] by blast
  obtain aps w2 where 2: "run_state (r_List (cl_AdmissionPolicies c) (matchingFields [(PolicyServerIndexKey, ps_Name s)])) w1 = (Inr aps, w2)"
    "same w1 w2" "distinct (map (\<lambda>x. policyRef (AP x)) aps)"
    "\<And>x. x \<in> set aps \<longleftrightarrow> pview w1 (policyRef (AP x)) = Some (AP x) \<and> GetPolicyServer (AP x) = ps_Name s"
    using list_AP [of w1 "ps_Name s"] 1(2) unfolding untouched_def by blast
  obtain apgs w3 where 3: "run_state (r_List (cl_AdmissionPolicyGroups c) (matchingFields [(PolicyServerIndexKey, ps_Name s)])) w2 = (Inr apgs, w3)"
    "same w2 w3" "distinct (map (\<lambda>x. policyRef (APG x)) apgs)"
    "\<And>x. x \<in> set apgs \<longleftrightarrow> pview w2 (policyRef (APG x)) = Some (APG x) \<and> GetPolicyServer (APG x) = ps_Name s"
    using list_APG [of w2 "ps_Name s"] 2(2) unfolding untouched_def by blast
  obtain capgs w4 where 4: "run_state (r_List (cl_ClusterAdmissionPolicyGroups c) (matchingFields [(PolicyServerIndexKey, ps_Name s)])) w3 = (Inr capgs, w4)"
    "same w3 w4" "distinct (map (\<lambda>x. policyRef (CAPG x)) capgs)"
    "\<And>x. x \<in> set capgs \<longleftrightarrow> pview w3 (policyRef (CAPG x)) = Some (CAPG x) \<and> GetPolicyServer (CAPG x) = ps_Name s"
    using list_CAPG [of w3 "ps_Name s"] 3(2) unfolding untouched_def by blast
  let ?ps = "map CAP caps @ map AP aps @ map APG apgs @ map CAPG capgs"
  have views: "pview w1 = pview w" "pview w2 = pview w" "pview w3 = pview w" using 1(2) 2(2) 3(2) by (simp_all add: untouched_def)
  show thesis
  proof (rule that [of ?ps w4])
    show "run_state (getPolicies r s) w = (Inr ?ps, w4)"
      unfolding getPolicies_def r listPolicies_run [OF 1(1)] listPolicies_run [OF 2(1)] listPolicies_run [OF 3(1)] listPolicies_run [OF 4(1)]
      by simp
    show "same w w4" using 1(2) 2(2) 3(2) 4(2) by (metis same_trans)
    have apart: "policyRef (CAP x1) \<noteq> policyRef (AP x2)" "policyRef (CAP x1) \<noteq> policyRef (APG x3)" "policyRef (CAP x1) \<noteq> policyRef (CAPG x4)"
      "policyRef (AP x2) \<noteq> policyRef (APG x3)" "policyRef (AP x2) \<noteq> policyRef (CAPG x4)" "policyRef (APG x3) \<noteq> policyRef (CAPG x4)" for x1 x2 x3 x4
      by (simp_all add: policyRef_def policyKind_def)
    show "distinct (map policyRef ?ps)"
      using 1(3) 2(3) 3(3) 4(3) apart by (auto simp: comp_def) metis+
    show "p \<in> set ?ps \<longleftrightarrow> pview w (policyRef p) = Some p \<and> GetPolicyServer p = ps_Name s" for p
      by (cases p) (auto simp: 1(4) 2(4) 3(4) 4(4) views simp del: GetPolicyServer.simps)
  qed
qed

lemma hook_deletion_run:
  assumes sub: "sub_Client sub = c" and ready: "ready w"
  obtains w' where "run_state (if IsMutating p then reconcileMutatingWebhookConfigurationDeletion sub p
      else reconcileValidatingWebhookConfigurationDeletion sub p) w = (Inr (), w')" "same w w'"
proof -
  have del: "\<exists>w'. run_state (andThen (r_Get res key) (\<lambda>err. if \<not> IsNotFound err then fail (f err) else ok ())
       (\<lambda>webhook. andThen (r_Delete res webhook) (\<lambda>err. if \<not> IsNotFound err then fail (g err) else ok ()) (\<lambda>_. ok ()))) w = (Inr (), w') \<and> same w w'"
    if res: "res = cl_ValidatingWebhooks c \<or> res = cl_MutatingWebhooks c" for res key f g
  proof -
    obtain x w1 where get: "run_state (r_Get res key) w = (x, w1)" "same w w1" "\<forall>e. x = Inl e \<longrightarrow> IsNotFound e"
      using hook_get [OF ready res] by blast
    show ?thesis
    proof (cases x)
      case (Inl e)
      with get show ?thesis by (simp add: run_andThen)
    next
      case (Inr hook)
      obtain y w2 where "run_state (r_Delete res hook) w1 = (y, w2)" "same w1 w2" "\<forall>e. y = Inl e \<longrightarrow> IsNotFound e"
        using hook_delete [OF _ res, of w1 hook] get(2) unfolding untouched_def by blast
      with Inr get show ?thesis by (cases y) (auto simp: run_andThen intro: same_trans)
    qed
  qed
  have "\<exists>w'. run_state (reconcileMutatingWebhookConfigurationDeletion sub p) w = (Inr (), w') \<and> same w w'"
    unfolding reconcileMutatingWebhookConfigurationDeletion_def sub by (rule del) simp
  moreover have "\<exists>w'. run_state (reconcileValidatingWebhookConfigurationDeletion sub p) w = (Inr (), w') \<and> same w w'"
    unfolding reconcileValidatingWebhookConfigurationDeletion_def sub by (rule del) simp
  ultimately show thesis using that by (cases "IsMutating p") auto
qed

end

definition doomed ::
  "('w \<Rightarrow> bool) \<Rightarrow> ('w \<Rightarrow> policy_ref \<Rightarrow> Policy option) \<Rightarrow> ('w \<Rightarrow> nsname \<Rightarrow> PolicyServer option) \<Rightarrow> string \<Rightarrow> 'w \<Rightarrow> bool" where
  "doomed ready pview sview n w \<longleftrightarrow> ready w \<and>
     (\<forall>ref p. pview w ref = Some p \<and> GetPolicyServer p = n \<longrightarrow> dying p \<and> set (om_Finalizers (GetObjectMeta p)) \<subseteq> ownFinalizers) \<and>
     (\<forall>s. sview w ('''', n) = Some s \<longrightarrow> om_DeletionTimestamp (ps_Meta s) \<noteq> None \<and> set (om_Finalizers (ps_Meta s)) \<subseteq> ownFinalizers)"

lemma removeFinalizers_own:
  assumes "finalizer_ops (lib_AddFinalizer lib) (lib_RemoveFinalizer lib)" and "set (om_Finalizers m) \<subseteq> ownFinalizers"
  shows "om_Finalizers (removeFinalizers lib m) = []"
proof -
  have "set (om_Finalizers (removeFinalizers lib m)) = {}"
    using assms(2) by (auto simp: removeFinalizers_def finalizer_ops.set_rem [OF assms(1)] ownFinalizers_def)
  then show ?thesis by simp
qed

context closed_cluster
begin

lemma policy_action_run:
  assumes sub: "sub_Client sub = c" and lib: "finalizer_ops (lib_AddFinalizer (sub_Lib sub)) (lib_RemoveFinalizer (sub_Lib sub))"
    and ready: "ready w" and p: "pview w (k, key) = Some p" "dying p" "set (om_Finalizers (GetObjectMeta p)) \<subseteq> ownFinalizers"
  obtains w' where "run_state (runAction r sub (PolicyAction k key)) w = (Inr emptyResult, w')"
    "ready w'" "sview w' = sview w" "pview w' = (pview w)((k, key) := None)"
proof -
  have k: "k \<in> policyKinds" using pview_ref [OF p(1)] policyKind_in [of p] by (simp add: policyRef_def)
  obtain w1 where get: "run_state (policyGet c k key) w = (Inr p, w1)" "same w w1"
    using policy_get [OF ready, of k key] p(1) by auto
  then obtain w2 where hook: "run_state (if IsMutating p then reconcileMutatingWebhookConfigurationDeletion sub p
      else reconcileValidatingWebhookConfigurationDeletion sub p) w1 = (Inr (), w2)" "same w1 w2"
    using hook_deletion_run [OF sub, of w1 p] unfolding untouched_def by blast
  let ?q = "mapMeta (removeFinalizers (sub_Lib sub)) p"
  have q: "policyRef ?q = (k, key)" "om_ResourceVersion (GetObjectMeta ?q) = om_ResourceVersion (GetObjectMeta p)"
      "om_Finalizers (GetObjectMeta ?q) = []"
    using pview_ref [OF p(1)] removeFinalizers_own [OF lib p(3)]
    by (cases p; simp add: policyRef_def policyKind_def getter_simps removeFinalizers_def metaKey_def)+
  have views: "ready w2" "pview w2 = pview w" "sview w2 = sview w" using get(2) hook(2) by (simp_all add: untouched_def)
  obtain p' w3 where upd: "run_state (policyUpdate c ?q) w2 = (Inr p', w3)" "ready w3" "sview w3 = sview w2"
      "pview w3 = (pview w2)(policyRef ?q := None)"
    using policy_release [OF views(1), of ?q p] p(1,2) q views(2) by auto
  have "run_state (runAction r sub (PolicyAction k key)) w = (Inr emptyResult, w3)"
    unfolding runAction_policy [OF k] sub
    using get(1) hook(1) upd(1) p(2) by (simp add: run_andThen run_orWrap reconcile_def dying_def reconcilePolicyDeletion_def sub)
  with upd q(1) views show thesis using that by simp
qed

lemma policy_action_gone:
  assumes sub: "sub_Client sub = c" and ready: "ready w" and p: "pview w (k, key) = None"
  shows "same w (snd (run_state (runAction r sub (PolicyAction k key)) w))"
proof (cases "k \<in> policyKinds")
  case True
  obtain e w1 where get: "run_state (policyGet c k key) w = (Inl e, w1)" "same w w1" "IsNotFound e"
    using policy_get [OF ready, of k key] p by auto
  then show ?thesis
    unfolding runAction_policy [OF True] sub by (simp add: run_andThen ignoreNotFoundResult_def IgnoreNotFound_def)
next
  case False
  then have "run_state (runAction r sub (PolicyAction k key)) w = (Inr emptyResult, w)"
    by (cases k) (simp_all add: policyKinds_def)
  then show ?thesis using ready by (simp add: untouched_def)
qed

text \<open>After the loop of deletions every policy of the list is gone or being deleted.\<close>

lemma deletePolicies_run:
  assumes "ready w" "distinct (map policyRef ps)" "\<forall>p\<in>set ps. pview w (policyRef p) = Some p"
  shows "\<exists>w'. run_state (deletePolicies c ps []) w = ([], w') \<and> ready w' \<and> sview w' = sview w \<and>
    (\<forall>ref. ref \<notin> policyRef ` set ps \<longrightarrow> pview w' ref = pview w ref) \<and>
    (\<forall>p\<in>set ps. condemned p (pview w' (policyRef p)))"
  using assms
proof (induction ps arbitrary: w)
  case Nil
  then show ?case by simp
next
  case (Cons p ps)
  show ?case
  proof (cases "dying p")
    case True
    obtain w' where "run_state (deletePolicies c ps []) w = ([], w')" "ready w'" "sview w' = sview w"
      "\<forall>ref. ref \<notin> policyRef ` set ps \<longrightarrow> pview w' ref = pview w ref"
      "\<forall>p\<in>set ps. condemned p (pview w' (policyRef p))"
      using Cons.IH [of w] Cons.prems by auto
    moreover from this(4) have "pview w' (policyRef p) = Some p" using Cons.prems(2,3) by (metis list.set_intros(1) distinct.simps(2) list.simps(9) set_map)
    ultimately show ?thesis using True by (intro exI [of _ w']) (simp add: dying_def condemned_def)
  next
    case False
    obtain w1 v where del: "run_state (policyDelete c p) w = (Inr (), w1)" "ready w1" "sview w1 = sview w"
      "pview w1 = (pview w)(policyRef p := v)"
      "condemned p v"
      using policy_delete [OF Cons.prems(1), of p p] Cons.prems(3) by (metis list.set_intros(1))
    have "policyRef q \<noteq> policyRef p" if "q \<in> set ps" for q using Cons.prems(2) that by (auto simp: rev_image_eqI)
    then have "\<forall>q\<in>set ps. pview w1 (policyRef q) = Some q" using Cons.prems(3) unfolding del(4) by simp
    then obtain w' where rest: "run_state (deletePolicies c ps []) w1 = ([], w')" "ready w'" "sview w' = sview w1"
      "\<forall>ref. ref \<notin> policyRef ` set ps \<longrightarrow> pview w' ref = pview w1 ref"
      "\<forall>p\<in>set ps. condemned p (pview w' (policyRef p))"
      using Cons.IH [OF del(2)] Cons.prems(2) by auto
    have "pview w' (policyRef p) = v" using rest(4) del(4) Cons.prems(2) by (metis distinct.simps(2) fun_upd_same list.simps(9) set_map)
    with rest del False show ?thesis by (intro exI [of _ w']) (simp add: dying_def run_andThen)
  qed
qed

end

text \<open>
  A run of the policy server controller while its server is being deleted: it marks the bound policies; when
  there are none left, the server goes.
\<close>

context closed_cluster
begin

lemma server_action_run:
  assumes r: "psr_Client r = c" and lib: "finalizer_ops (lib_AddFinalizer (psr_Lib r)) (lib_RemoveFinalizer (psr_Lib r))"
    and ready: "ready w"
    and s: "sview w ('''', n) = Some s" "om_DeletionTimestamp (ps_Meta s) \<noteq> None" "set (om_Finalizers (ps_Meta s)) \<subseteq> ownFinalizers"
  obtains w' where "snd (run_state (runAction r sub (ServerAction ('''', n))) w) = w'" "ready w'"
    "\<And>ref. ref \<notin> bound pview n w \<Longrightarrow> pview w' ref = pview w ref"
    "\<And>ref p. pview w ref = Some p \<Longrightarrow> GetPolicyServer p = n \<Longrightarrow> condemned p (pview w' ref)"
    "sview w' = (if bound pview n w = {} then (sview w)(('''', n) := None) else sview w)"
proof -
  have name: "ps_Name s = n" using sview_ref [OF s(1)] by (simp add: metaKey_def)
  obtain w1 where get: "run_state (r_Get (cl_PolicyServers c) ('''', n)) w = (Inr s, w1)" "same w w1"
    using server_get [OF ready, of "('''', n)"] s(1) by auto
  then have ready1: "ready w1" by (simp add: untouched_def)
  obtain ps w2 where pol: "run_state (getPolicies r s) w1 = (Inr ps, w2)" "same w1 w2" "distinct (map policyRef ps)"
    "\<And>p. p \<in> set ps \<longleftrightarrow> pview w1 (policyRef p) = Some p \<and> GetPolicyServer p = n"
    using getPolicies_run [OF r ready1, of s] unfolding name by blast
  have views: "ready w2" "pview w2 = pview w" "sview w2 = sview w" "pview w1 = pview w" using get(2) pol(2) by (simp_all add: untouched_def)
  have refs: "policyRef ` set ps = bound pview n w"
    using pol(4) pview_ref unfolding views bound_def by (auto simp: image_iff) metis
  have del: "run_state (runAction r sub (ServerAction ('''', n))) w = run_state (reconcileDeletion r s ps) w2"
    using Reconcile_deletion [of r "('''', n)" w s w1 ps w2] get(1) pol(1) s(2) r by simp
  show thesis
  proof (cases "ps = []")
    case True
    let ?s = "s\<lparr>ps_Meta := removeFinalizers (psr_Lib r) (ps_Meta s)\<rparr>"
    have meta: "metaKey (ps_Meta ?s) = ('''', n)" "om_ResourceVersion (ps_Meta ?s) = om_ResourceVersion (ps_Meta s)"
      "om_Finalizers (ps_Meta ?s) = []"
      using sview_ref [OF s(1)] removeFinalizers_own [OF lib s(3)] by (simp_all add: removeFinalizers_def metaKey_def)
    obtain s' w' where upd: "run_state (r_Update (cl_PolicyServers c) ?s) w2 = (Inr s', w')" "ready w'" "pview w' = pview w2"
      "sview w' = (sview w2)(('''', n) := None)"
      using server_release [OF views(1), of ?s s] s(1,2) meta views(3) by auto
    have "snd (run_state (runAction r sub (ServerAction ('''', n))) w) = w'"
      unfolding del using True upd(1) r by (simp add: reconcileDeletion_def run_andThen)
    moreover have none: "bound pview n w = {}" using refs True by simp
    moreover have "condemned p (pview w' ref)" if "pview w ref = Some p" "GetPolicyServer p = n" for ref p
      using none that unfolding bound_def by blast
    ultimately show thesis
      using that [of w'] upd(2-4) views by simp
  next
    case False
    have "\<forall>p\<in>set ps. pview w2 (policyRef p) = Some p" using pol(4) views by simp
    from deletePolicies_run [OF views(1) pol(3) this] obtain w' where
      run: "run_state (deletePolicies c ps []) w2 = ([], w')" "ready w'" "sview w' = sview w2"
      "\<forall>ref. ref \<notin> policyRef ` set ps \<longrightarrow> pview w' ref = pview w2 ref" "\<forall>p\<in>set ps. condemned p (pview w' (policyRef p))"
      by blast
    have "snd (run_state (runAction r sub (ServerAction ('''', n))) w) = w'"
      unfolding del using False run(1) r by (simp add: reconcileDeletion_def deletePoliciesAndRequeue_def)
    moreover have "bound pview n w \<noteq> {}" using refs False by auto
    moreover have "condemned p (pview w' ref)" if "pview w ref = Some p" "GetPolicyServer p = n" for ref p
      using run(5) pol(4) that pview_ref [OF that(1)] views(4) by auto
    ultimately show thesis using that [of w'] run(2-4) refs views by metis
  qed
qed

lemma server_action_gone:
  assumes r: "psr_Client r = c" and ready: "ready w" and s: "sview w ('''', n) = None"
  shows "same w (snd (run_state (runAction r sub (ServerAction ('''', n))) w))"
proof -
  obtain e w1 where "run_state (r_Get (cl_PolicyServers c) ('''', n)) w = (Inl e, w1)" "same w w1" "IsNotFound e"
    using server_get [OF ready, of "('''', n)"] s by auto
  then show ?thesis
    by (simp add: PolicyServerReconciler_Reconcile_def r run_andThen ignoreNotFoundResult_def IgnoreNotFound_def)
qed

end

text \<open>Before the first run the bound policies need not be marked yet.\<close>

definition deletable ::
  "('w \<Rightarrow> bool) \<Rightarrow> ('w \<Rightarrow> policy_ref \<Rightarrow> Policy option) \<Rightarrow> ('w \<Rightarrow> nsname \<Rightarrow> PolicyServer option) \<Rightarrow> string \<Rightarrow> 'w \<Rightarrow> bool" where
  "deletable ready pview sview n w \<longleftrightarrow> ready w \<and>
     (\<forall>ref p. pview w ref = Some p \<and> GetPolicyServer p = n \<longrightarrow> set (om_Finalizers (GetObjectMeta p)) \<subseteq> ownFinalizers) \<and>
     (\<forall>s. sview w ('''', n) = Some s \<longrightarrow> om_DeletionTimestamp (ps_Meta s) \<noteq> None \<and> set (om_Finalizers (ps_Meta s)) \<subseteq> ownFinalizers)"

lemma doomed_iff:
  "doomed ready pview sview n w \<longleftrightarrow> deletable ready pview sview n w \<and> (\<forall>ref p. pview w ref = Some p \<and> GetPolicyServer p = n \<longrightarrow> dying p)"
  unfolding doomed_def deletable_def by blast

text \<open>The references in a set are either free or taken by a policy of this server.\<close>

definition accounted :: "('w \<Rightarrow> policy_ref \<Rightarrow> Policy option) \<Rightarrow> string \<Rightarrow> policy_ref set \<Rightarrow> 'w \<Rightarrow> bool" where
  "accounted pview n B w \<longleftrightarrow> (\<forall>ref\<in>B. pview w ref = None \<or> ref \<in> bound pview n w)"

lemma accounted_bound: "accounted pview n (bound pview n w) w"
  by (simp add: accounted_def)

context closed_cluster
begin

lemma server_step:
  assumes r: "psr_Client r = c" and lib: "finalizer_ops (lib_AddFinalizer (psr_Lib r)) (lib_RemoveFinalizer (psr_Lib r))"
    and del: "deletable ready pview sview n w" and step: "snd (run_state (runAction r sub (ServerAction ('''', n))) w) = w'"
    and marked: "(\<forall>ref p. pview w ref = Some p \<and> GetPolicyServer p = n \<longrightarrow> dying p) \<or> sview w ('''', n) \<noteq> None"
  shows "doomed ready pview sview n w' \<and> bound pview n w' \<subseteq> bound pview n w \<and>
    (bound pview n w = {} \<longrightarrow> sview w' ('''', n) = None) \<and> (accounted pview n B w \<longrightarrow> accounted pview n B w')"
proof (cases "sview w ('''', n)")
  case None
  have ready: "ready w" using del by (simp add: deletable_def)
  have "same w w'" using server_action_gone [OF r ready None, of sub] unfolding step .
  then have eq: "ready w'" "pview w' = pview w" "sview w' = sview w" by (simp_all add: untouched_def)
  have "doomed ready pview sview n w'"
    using del marked None eq(1) unfolding doomed_iff deletable_def eq by blast
  with None show ?thesis by (simp add: eq bound_def accounted_def)
next
  case (Some s)
  have s: "om_DeletionTimestamp (ps_Meta s) \<noteq> None" "set (om_Finalizers (ps_Meta s)) \<subseteq> ownFinalizers" and ready: "ready w"
    and fin: "\<And>ref p. pview w ref = Some p \<Longrightarrow> GetPolicyServer p = n \<Longrightarrow> set (om_Finalizers (GetObjectMeta p)) \<subseteq> ownFinalizers"
    using del Some unfolding deletable_def by blast+
  obtain w1 where "snd (run_state (runAction r sub (ServerAction ('''', n))) w) = w1" and w1: "ready w1"
    "\<And>ref. ref \<notin> bound pview n w \<Longrightarrow> pview w1 ref = pview w ref"
    "\<And>ref p. pview w ref = Some p \<Longrightarrow> GetPolicyServer p = n \<Longrightarrow> condemned p (pview w1 ref)"
    "sview w1 = (if bound pview n w = {} then (sview w)(('''', n) := None) else sview w)"
    by (rule server_action_run [OF r lib ready Some s, of sub]) (rule that)
  then have w': "w1 = w'" using step by simp
  have old: "\<exists>q. pview w ref = Some q \<and> GetPolicyServer q = n \<and> dying p \<and> om_Finalizers (GetObjectMeta p) = om_Finalizers (GetObjectMeta q)"
    if p: "pview w' ref = Some p" "GetPolicyServer p = n" for ref p
  proof -
    have "ref \<in> bound pview n w"
    proof (rule ccontr)
      assume no: "ref \<notin> bound pview n w"
      with w1(2) p have "pview w ref = Some p" unfolding w' by simp
      with p(2) no show False unfolding bound_def by blast
    qed
    then obtain q where q: "pview w ref = Some q" "GetPolicyServer q = n" unfolding bound_def by blast
    with w1(3) [OF q] p show ?thesis unfolding w' condemned_def by auto
  qed
  have "doomed ready pview sview n w'"
  proof -
    have "dying p \<and> set (om_Finalizers (GetObjectMeta p)) \<subseteq> ownFinalizers" if "pview w' ref = Some p \<and> GetPolicyServer p = n" for ref p
      using old [of ref p] that fin by metis
    moreover have "om_DeletionTimestamp (ps_Meta t) \<noteq> None \<and> set (om_Finalizers (ps_Meta t)) \<subseteq> ownFinalizers" if "sview w' ('''', n) = Some t" for t
      using w1(4) that Some s unfolding w' by (simp split: if_splits)
    ultimately show ?thesis unfolding doomed_def using w1(1) unfolding w' by blast
  qed
  moreover have "bound pview n w' \<subseteq> bound pview n w" using old unfolding bound_def by blast
  moreover have "sview w' ('''', n) = None" if "bound pview n w = {}" using w1(4) that unfolding w' by simp
  moreover have "accounted pview n B w'" if "accounted pview n B w"
    unfolding accounted_def
  proof
    fix ref assume "ref \<in> B"
    with that have "pview w ref = None \<or> ref \<in> bound pview n w" unfolding accounted_def by blast
    then show "pview w' ref = None \<or> ref \<in> bound pview n w'"
    proof
      assume "pview w ref = None"
      then have "ref \<notin> bound pview n w" by (simp add: bound_def)
      with w1(2) \<open>pview w ref = None\<close> show ?thesis unfolding w' by simp
    next
      assume "ref \<in> bound pview n w"
      then obtain q where "pview w ref = Some q" "GetPolicyServer q = n" unfolding bound_def by blast
      with w1(3) have "condemned q (pview w' ref)" unfolding w' by blast
      with \<open>GetPolicyServer q = n\<close> show ?thesis by (cases "pview w' ref") (simp_all add: condemned_def bound_def)
    qed
  qed
  ultimately show ?thesis by blast
qed

lemma policy_step:
  assumes sub: "sub_Client sub = c" and lib: "finalizer_ops (lib_AddFinalizer (sub_Lib sub)) (lib_RemoveFinalizer (sub_Lib sub))"
    and doomed: "doomed ready pview sview n w" and acc: "accounted pview n B w" and ref: "(k, key) \<in> B"
    and step: "snd (run_state (runAction r sub (PolicyAction k key)) w) = w'"
  shows "doomed ready pview sview n w' \<and> bound pview n w' \<subseteq> bound pview n w - {(k, key)} \<and> accounted pview n B w'"
proof (cases "pview w (k, key)")
  case None
  have ready: "ready w" using doomed by (simp add: doomed_def)
  have "same w w'" using policy_action_gone [OF sub ready None, of r] unfolding step .
  then have eq: "ready w'" "pview w' = pview w" "sview w' = sview w" by (simp_all add: untouched_def)
  have "doomed ready pview sview n w'" using doomed eq(1) unfolding doomed_def eq by blast
  moreover have "(k, key) \<notin> bound pview n w" using None by (simp add: bound_def)
  ultimately show ?thesis using acc by (simp add: eq bound_def accounted_def)
next
  case (Some p)
  then have "GetPolicyServer p = n" using acc ref unfolding accounted_def bound_def by auto
  then have p: "ready w" "dying p" "set (om_Finalizers (GetObjectMeta p)) \<subseteq> ownFinalizers"
    using doomed Some unfolding doomed_def by blast+
  obtain w1 where "run_state (runAction r sub (PolicyAction k key)) w = (Inr emptyResult, w1)"
    "ready w1" "sview w1 = sview w" "pview w1 = (pview w)((k, key) := None)"
    by (rule policy_action_run [OF sub lib p(1) Some p(2,3), of r])
  then have eq: "ready w'" "sview w' = sview w" "pview w' = (pview w)((k, key) := None)" using step by simp_all
  have less: "pview w' ref = Some q \<longleftrightarrow> ref \<noteq> (k, key) \<and> pview w ref = Some q" for ref q by (simp add: eq)
  have "doomed ready pview sview n w'" using doomed eq(1) unfolding doomed_def less eq(2) by blast
  moreover have "bound pview n w' = bound pview n w - {(k, key)}" unfolding bound_def less by blast
  moreover have "accounted pview n B w'" using acc unfolding accounted_def bound_def less by (auto simp: eq)
  ultimately show ?thesis by simp
qed

end

context closed_cluster
begin

lemma actions_run:
  assumes r: "psr_Client r = c" "finalizer_ops (lib_AddFinalizer (psr_Lib r)) (lib_RemoveFinalizer (psr_Lib r))"
    and sub: "sub_Client sub = c" "finalizer_ops (lib_AddFinalizer (sub_Lib sub)) (lib_RemoveFinalizer (sub_Lib sub))"
  shows "doomed ready pview sview n w \<Longrightarrow> accounted pview n B w \<Longrightarrow>
    \<forall>a\<in>set as. a = ServerAction ('''', n) \<or> (\<exists>(k, key)\<in>B. a = PolicyAction k key) \<Longrightarrow>
    doomed ready pview sview n (runActions r sub as w) \<and>
    bound pview n (runActions r sub as w) \<subseteq> bound pview n w - {(k, key). PolicyAction k key \<in> set as}"
proof (induction as arbitrary: w)
  case Nil
  then show ?case by simp
next
  case (Cons a as)
  let ?w = "snd (run_state (runAction r sub a) w)"
  have "doomed ready pview sview n ?w \<and> bound pview n ?w \<subseteq> bound pview n w - {(k, key). PolicyAction k key = a} \<and> accounted pview n B ?w"
  proof (cases a)
    case (ServerAction req)
    then have a: "a = ServerAction ('''', n)" using Cons.prems(3) by auto
    have del: "deletable ready pview sview n w" "\<forall>ref p. pview w ref = Some p \<and> GetPolicyServer p = n \<longrightarrow> dying p"
      using Cons.prems(1) unfolding doomed_iff by blast+
    from server_step [OF r del(1) refl disjI1, OF del(2), of sub B] Cons.prems(2) show ?thesis unfolding a by simp
  next
    case (PolicyAction k key)
    then have "(k, key) \<in> B" using Cons.prems(3) by auto
    from policy_step [OF sub Cons.prems(1,2) this refl, of r] show ?thesis unfolding PolicyAction by auto
  qed
  moreover from this have "doomed ready pview sview n (runActions r sub as ?w) \<and>
    bound pview n (runActions r sub as ?w) \<subseteq> bound pview n ?w - {(k, key). PolicyAction k key \<in> set as}"
    using Cons.IH [of ?w] Cons.prems(3) by simp
  ultimately show ?case by auto
qed

text \<open>
  Whatever the order in which the controllers run in between, and however often: when the policy
  server controller has run, then each bound policy's controller, and then the policy server controller again, all is gone.
\<close>

lemma teardown:
  assumes r: "psr_Client r = c" "finalizer_ops (lib_AddFinalizer (psr_Lib r)) (lib_RemoveFinalizer (psr_Lib r))"
    and sub: "sub_Client sub = c" "finalizer_ops (lib_AddFinalizer (sub_Lib sub)) (lib_RemoveFinalizer (sub_Lib sub))"
    and start: "deletable ready pview sview n w" "sview w ('''', n) \<noteq> None"
    and actions: "\<forall>a\<in>set as. a = ServerAction ('''', n) \<or> (\<exists>(k, key)\<in>bound pview n w. a = PolicyAction k key)"
    and all: "\<forall>(k, key)\<in>bound pview n w. PolicyAction k key \<in> set as"
  shows "sview (runActions r sub (ServerAction ('''', n) # as @ [ServerAction ('''', n)]) w) ('''', n) = None \<and>
    bound pview n (runActions r sub (ServerAction ('''', n) # as @ [ServerAction ('''', n)]) w) = {}"
proof -
  let ?w1 = "snd (run_state (runAction r sub (ServerAction ('''', n))) w)"
  let ?w2 = "runActions r sub as ?w1"
  let ?w3 = "snd (run_state (runAction r sub (ServerAction ('''', n))) ?w2)"
  have 1: "doomed ready pview sview n ?w1" "bound pview n ?w1 \<subseteq> bound pview n w" "accounted pview n (bound pview n w) ?w1"
    using server_step [OF r start(1) refl disjI2, OF start(2), of sub "bound pview n w"] accounted_bound [of pview n w] by blast+
  have 2: "doomed ready pview sview n ?w2" "bound pview n ?w2 \<subseteq> bound pview n ?w1 - {(k, key). PolicyAction k key \<in> set as}"
    using actions_run [OF r sub 1(1,3) actions] by blast+
  have "bound pview n w \<subseteq> {(k, key). PolicyAction k key \<in> set as}" using all by blast
  then have none: "bound pview n ?w2 = {}" using 1(2) 2(2) by blast
  have del: "deletable ready pview sview n ?w2" "\<forall>ref p. pview ?w2 ref = Some p \<and> GetPolicyServer p = n \<longrightarrow> dying p"
    using 2(1) unfolding doomed_iff by blast+
  have "sview ?w3 ('''', n) = None" "bound pview n ?w3 = {}"
    using server_step [OF r del(1) refl disjI1, OF del(2), of sub "{}"] none by auto
  then show ?thesis by (simp add: runActions_append)
qed

end

section \<open>The reference cluster is such a cluster\<close>

definition refReady :: "cluster \<Rightarrow> bool" where
  "refReady w \<longleftrightarrow> st_faults w = []"

definition refPolicies :: "cluster \<Rightarrow> policy_ref \<Rightarrow> Policy option" where
  "refPolicies w ref =
     (case fst ref of
        KAdmissionPolicy \<Rightarrow> map_option AP (refView kind_AdmissionPolicies w (snd ref))
      | KClusterAdmissionPolicy \<Rightarrow> map_option CAP (refView kind_ClusterAdmissionPolicies w (snd ref))
      | KAdmissionPolicyGroup \<Rightarrow> map_option APG (refView kind_AdmissionPolicyGroups w (snd ref))
      | KClusterAdmissionPolicyGroup \<Rightarrow> map_option CAPG (refView kind_ClusterAdmissionPolicyGroups w (snd ref))
      | _ \<Rightarrow> None)"

definition refServers :: "cluster \<Rightarrow> nsname \<Rightarrow> PolicyServer option" where
  "refServers w = refView kind_PolicyServers w"

lemmas policy_kind_defs = kind_AdmissionPolicies_def kind_ClusterAdmissionPolicies_def kind_AdmissionPolicyGroups_def
  kind_ClusterAdmissionPolicyGroups_def

lemma policy_kinds_good:
  "good_kind kind_AdmissionPolicies (\<lambda>x. ())" "good_kind kind_ClusterAdmissionPolicies (\<lambda>x. ())"
  "good_kind kind_AdmissionPolicyGroups (\<lambda>x. ())" "good_kind kind_ClusterAdmissionPolicyGroups (\<lambda>x. ())"
  "good_kind kind_PolicyServers (\<lambda>x. ())"
  by (simp_all add: good_kind_def policy_kind_defs kind_PolicyServers_def)

text \<open>Calls of a cluster without faults.\<close>

lemma ref_delete_run:
  assumes good: "good_kind kd payload" and comp: "\<And>f g x. k_mapMeta kd f (k_mapMeta kd g x) = k_mapMeta kd (f \<circ> g) x"
    and ready: "st_faults w = []" and q: "refView kd w (metaKey (k_meta kd x)) = Some q"
  shows "\<exists>g n v. run_state (r_Delete (refResource kd) x) w = (Inr (), k_map kd g (w\<lparr>st_version := n\<rparr>)) \<and>
    refView kd (k_map kd g (w\<lparr>st_version := n\<rparr>)) = (refView kd w)(metaKey (k_meta kd x) := v) \<and>
    (v = None \<or> (\<exists>h. v = Some (k_mapMeta kd h q) \<and> (\<forall>m. om_DeletionTimestamp (h m) \<noteq> None \<and> om_Finalizers (h m) = om_Finalizers m)))"
proof (cases "om_Finalizers (k_meta kd q) = []")
  case True
  then have "run_state (r_Delete (refResource kd) x) w = (Inr (), k_map kd (delObj (k_meta kd) (metaKey (k_meta kd x))) (w\<lparr>st_version := st_version w\<rparr>))"
    using ready q by (simp add: run_refDelete)
  moreover have "refView kd (k_map kd (delObj (k_meta kd) (metaKey (k_meta kd x))) (w\<lparr>st_version := st_version w\<rparr>)) = (refView kd w)(metaKey (k_meta kd x) := None)"
    using refView_delObj [OF good] by simp
  ultimately show ?thesis by blast
next
  case False
  let ?y = "k_mapMeta kd (\<lambda>m. m\<lparr>om_DeletionTimestamp := Some 0\<rparr>) q"
  let ?h = "\<lambda>m. m\<lparr>om_DeletionTimestamp := Some 0, om_ResourceVersion := Itoa (int (st_version w))\<rparr>"
  have z: "fst (writeObj kd ?y w) = k_mapMeta kd ?h q"
    by (simp add: writeObj_def Let_def comp comp_def)
  have run: "run_state (r_Delete (refResource kd) x) w = (Inr (), snd (writeObj kd ?y w))"
    using ready q False by (simp add: run_refDelete)
  have w': "snd (writeObj kd ?y w) = k_map kd (putObj (k_meta kd) (k_mapMeta kd ?h q)) (w\<lparr>st_version := Suc (st_version w)\<rparr>)"
    using z by (simp add: writeObj_def Let_def)
  have "metaKey (k_meta kd q) = metaKey (k_meta kd x)" using q findObj_key by (fastforce simp: refView_def)
  then have key: "metaKey (k_meta kd ?y) = metaKey (k_meta kd x)" using good by (simp add: good_kind_def metaKey_def)
  have "refView kd (snd (writeObj kd ?y w)) = (refView kd w)(metaKey (k_meta kd x) \<mapsto> k_mapMeta kd ?h q)"
    using refView_write(1) [OF good, of ?y w] unfolding key z .
  with run w' show ?thesis
    by (intro exI [of _ "putObj (k_meta kd) (k_mapMeta kd ?h q)"] exI [of _ "Suc (st_version w)"] exI [of _ "Some (k_mapMeta kd ?h q)"])
      (auto intro!: exI [of _ ?h])
qed

lemma ref_release_run:
  assumes good: "good_kind kd payload" and ready: "st_faults w = []"
    and q: "refView kd w (metaKey (k_meta kd x)) = Some q" "om_DeletionTimestamp (k_meta kd q) \<noteq> None"
    and x: "om_ResourceVersion (k_meta kd x) = om_ResourceVersion (k_meta kd q)" "om_Finalizers (k_meta kd x) = []"
  shows "run_state (r_Update (refResource kd) x) w = (Inr x, k_map kd (delObj (k_meta kd) (metaKey (k_meta kd x))) w) \<and>
    refView kd (k_map kd (delObj (k_meta kd) (metaKey (k_meta kd x))) w) = (refView kd w)(metaKey (k_meta kd x) := None)"
  using assms refView_delObj [OF good] by (simp add: refResource_simps refUpdate_def refView_def)

lemma ref_list_run:
  assumes "st_faults w = []"
  shows "\<exists>xs. run_state (r_List (refResource kd) (matchingFields [(f, n)])) w = (Inr xs, w) \<and>
    distinct (map (\<lambda>x. metaKey (k_meta kd x)) xs) \<and>
    (\<forall>x. x \<in> set xs \<longleftrightarrow> refView kd w (metaKey (k_meta kd x)) = Some x \<and> goget (k_fields kd x) f = Some n)"
proof -
  have "distinct (map g (filter P ys))" if "distinct (map g ys)" for g :: "'a \<Rightarrow> nsname" and P ys
    using that by (induction ys) auto
  then show ?thesis
    using assms distinct_visible [of "k_meta kd" "k_get kd w"]
    by (auto simp: run_refList selects_def matchingFields_def visible_iff refView_def)
qed

text \<open>Which part of the cluster a call changes.\<close>

lemma ref_frames:
  "refPolicies (k_map kind_PolicyServers ss w) = refPolicies w"
  "refPolicies (k_map kind_ValidatingWebhooks hs w) = refPolicies w" "refPolicies (k_map kind_MutatingWebhooks hs w) = refPolicies w"
  "refPolicies (w\<lparr>st_version := n\<rparr>) = refPolicies w"
  "refServers (k_map kind_AdmissionPolicies g1 w) = refServers w" "refServers (k_map kind_ClusterAdmissionPolicies g2 w) = refServers w"
  "refServers (k_map kind_AdmissionPolicyGroups g3 w) = refServers w" "refServers (k_map kind_ClusterAdmissionPolicyGroups g4 w) = refServers w"
  "refServers (k_map kind_ValidatingWebhooks hs w) = refServers w" "refServers (k_map kind_MutatingWebhooks hs w) = refServers w"
  "refServers (w\<lparr>st_version := n\<rparr>) = refServers w"
  by (auto simp: fun_eq_iff refPolicies_def refServers_def refView_def policy_kind_defs kind_PolicyServers_def
      kind_ValidatingWebhooks_def kind_MutatingWebhooks_def split: object_kind.split)

lemma ref_ready_frames:
  "refReady (k_map kind_AdmissionPolicies g1 w) = refReady w" "refReady (k_map kind_ClusterAdmissionPolicies g2 w) = refReady w"
  "refReady (k_map kind_AdmissionPolicyGroups g3 w) = refReady w" "refReady (k_map kind_ClusterAdmissionPolicyGroups g4 w) = refReady w"
  "refReady (k_map kind_PolicyServers ss w) = refReady w"
  "refReady (k_map kind_ValidatingWebhooks hs w) = refReady w" "refReady (k_map kind_MutatingWebhooks hs w) = refReady w"
  "refReady (w\<lparr>st_version := n\<rparr>) = refReady w"
  by (simp_all add: refReady_def policy_kind_defs kind_PolicyServers_def kind_ValidatingWebhooks_def kind_MutatingWebhooks_def)

text \<open>One of the four kinds of policies in the reference cluster.\<close>

locale ref_policy_kind =
  fixes kd :: "'o kind" and K :: object_kind and wrap :: "'o \<Rightarrow> Policy"
  assumes good: "good_kind kd (\<lambda>_. ())"
    and comp: "k_mapMeta kd h (k_mapMeta kd h2 x) = k_mapMeta kd (h \<circ> h2) x"
    and view: "refPolicies w (K, key) = map_option wrap (refView kd w key)"
    and upd: "refView kd (k_map kd g (w\<lparr>st_version := n\<rparr>)) = (refView kd w)(key := v) \<Longrightarrow>
      refPolicies (k_map kd g (w\<lparr>st_version := n\<rparr>)) = (refPolicies w)((K, key) := map_option wrap v)"
    and frames: "refReady (k_map kd g w) = refReady w" "refServers (k_map kd g w) = refServers w"
    and server: "goget (k_fields kd x) PolicyServerIndexKey = Some (GetPolicyServer (wrap x))"
      "GetPolicyServer (wrap (k_mapMeta kd h x)) = GetPolicyServer (wrap x)"
    and meta: "GetObjectMeta (wrap x) = k_meta kd x" "policyKind (wrap x) = K"
    and inj: "wrap x = wrap y \<Longrightarrow> x = y"
begin

lemma ref: "policyRef (wrap x) = (K, metaKey (k_meta kd x))"
  by (simp add: policyRef_def meta)

lemma mapped_meta: "k_meta kd (k_mapMeta kd h x) = h (k_meta kd x)"
  using good by (simp add: good_kind_def)

lemma delete:
  assumes "refReady w" "refPolicies w (policyRef (wrap x)) = Some q"
  shows "\<exists>w' v. run_state (r_Delete (refResource kd) x) w = (Inr (), w') \<and> refReady w' \<and> refServers w' = refServers w \<and>
    refPolicies w' = (refPolicies w)(policyRef (wrap x) := v) \<and> condemned q v"
proof -
  obtain y where y: "refView kd w (metaKey (k_meta kd x)) = Some y" "q = wrap y" using assms(2) by (auto simp: ref view)
  obtain g n v where run: "run_state (r_Delete (refResource kd) x) w = (Inr (), k_map kd g (w\<lparr>st_version := n\<rparr>))"
    "refView kd (k_map kd g (w\<lparr>st_version := n\<rparr>)) = (refView kd w)(metaKey (k_meta kd x) := v)"
    "v = None \<or> (\<exists>h. v = Some (k_mapMeta kd h y) \<and> (\<forall>m. om_DeletionTimestamp (h m) \<noteq> None \<and> om_Finalizers (h m) = om_Finalizers m))"
    using ref_delete_run [OF good comp _ y(1)] assms(1) unfolding refReady_def by blast
  have "condemned q (map_option wrap v)"
    using run(3) by (auto simp: condemned_def dying_def y(2) meta mapped_meta server(2))
  moreover have "refReady (k_map kd g (w\<lparr>st_version := n\<rparr>))" "refServers (k_map kd g (w\<lparr>st_version := n\<rparr>)) = refServers w"
    using assms(1) by (simp_all add: frames ref_ready_frames ref_frames)
  ultimately show ?thesis using run(1) upd [OF run(2)] unfolding ref by blast
qed

lemma release:
  assumes "refReady w" "refPolicies w (policyRef (wrap x)) = Some q" "dying q"
    "om_ResourceVersion (GetObjectMeta (wrap x)) = om_ResourceVersion (GetObjectMeta q)" "om_Finalizers (GetObjectMeta (wrap x)) = []"
  shows "\<exists>p' w'. run_state (mapOp wrap (r_Update (refResource kd) x)) w = (Inr p', w') \<and> refReady w' \<and> refServers w' = refServers w \<and>
    refPolicies w' = (refPolicies w)(policyRef (wrap x) := None)"
proof -
  obtain y where y: "refView kd w (metaKey (k_meta kd x)) = Some y" "q = wrap y" using assms(2) by (auto simp: ref view)
  let ?g = "delObj (k_meta kd) (metaKey (k_meta kd x))"
  have run: "run_state (r_Update (refResource kd) x) w = (Inr x, k_map kd ?g w)"
    "refView kd (k_map kd ?g w) = (refView kd w)(metaKey (k_meta kd x) := None)"
    using ref_release_run [OF good _ y(1)] assms(1,3-5) by (simp_all add: refReady_def dying_def y(2) meta)
  have "refPolicies (k_map kd ?g w) = (refPolicies w)((K, metaKey (k_meta kd x)) := None)"
    using upd [where g = ?g and w = w and n = "st_version w" and v = None] run(2) by simp
  with run(1) assms(1) show ?thesis by (simp add: frames ref run_mapOp)
qed

lemma get:
  assumes "refReady w"
  shows "\<exists>res. run_state (mapOp wrap (r_Get (refResource kd) key)) w = (res, w) \<and>
    (case refPolicies w (K, key) of Some p \<Rightarrow> res = Inr p | None \<Rightarrow> \<exists>e. res = Inl e \<and> IsNotFound e)"
  using assms by (cases "refView kd w key") (simp_all add: run_mapOp run_refGet refReady_def view)

lemma list:
  assumes "refReady w"
  shows "\<exists>xs. run_state (r_List (refResource kd) (matchingFields [(PolicyServerIndexKey, n)])) w = (Inr xs, w) \<and>
    distinct (map (\<lambda>x. policyRef (wrap x)) xs) \<and>
    (\<forall>x. x \<in> set xs \<longleftrightarrow> refPolicies w (policyRef (wrap x)) = Some (wrap x) \<and> GetPolicyServer (wrap x) = n)"
proof -
  obtain xs where xs: "run_state (r_List (refResource kd) (matchingFields [(PolicyServerIndexKey, n)])) w = (Inr xs, w)"
    "distinct (map (\<lambda>x. metaKey (k_meta kd x)) xs)"
    "\<forall>x. x \<in> set xs \<longleftrightarrow> refView kd w (metaKey (k_meta kd x)) = Some x \<and> goget (k_fields kd x) PolicyServerIndexKey = Some n"
    using ref_list_run [of w kd PolicyServerIndexKey n] assms unfolding refReady_def by blast
  have "map (\<lambda>x. policyRef (wrap x)) xs = map (Pair K) (map (\<lambda>x. metaKey (k_meta kd x)) xs)" by (simp add: ref)
  then have "distinct (map (\<lambda>x. policyRef (wrap x)) xs)" using xs(2) by (simp add: distinct_map inj_on_def)
  moreover have "x \<in> set xs \<longleftrightarrow> refPolicies w (policyRef (wrap x)) = Some (wrap x) \<and> GetPolicyServer (wrap x) = n" for x
    using xs(3) by (auto simp: ref view server(1) dest: inj)
  ultimately show ?thesis using xs(1) by blast
qed

end

interpretation ref_ap: ref_policy_kind kind_AdmissionPolicies KAdmissionPolicy AP
  using policy_kinds_good(1) ref_frames ref_ready_frames
  by unfold_locales (auto simp: fun_eq_iff refPolicies_def refView_def policy_kind_defs getter_simps policyKind_def comp_def
      split: object_kind.split)

interpretation ref_cap: ref_policy_kind kind_ClusterAdmissionPolicies KClusterAdmissionPolicy CAP
  using policy_kinds_good(2) ref_frames ref_ready_frames
  by unfold_locales (auto simp: fun_eq_iff refPolicies_def refView_def policy_kind_defs getter_simps policyKind_def comp_def
      split: object_kind.split)

interpretation ref_apg: ref_policy_kind kind_AdmissionPolicyGroups KAdmissionPolicyGroup APG
  using policy_kinds_good(3) ref_frames ref_ready_frames
  by unfold_locales (auto simp: fun_eq_iff refPolicies_def refView_def policy_kind_defs getter_simps policyKind_def comp_def
      split: object_kind.split)

interpretation ref_capg: ref_policy_kind kind_ClusterAdmissionPolicyGroups KClusterAdmissionPolicyGroup CAPG
  using policy_kinds_good(4) ref_frames ref_ready_frames
  by unfold_locales (auto simp: fun_eq_iff refPolicies_def refView_def policy_kind_defs getter_simps policyKind_def comp_def
      split: object_kind.split)

lemma ref_hook_calls:
  assumes "refReady w" and "res = cl_ValidatingWebhooks refClient \<or> res = cl_MutatingWebhooks refClient"
  shows "\<exists>x w'. run_state (r_Get res key) w = (x, w') \<and> untouched refReady refPolicies refServers w w' \<and> (\<forall>e. x = Inl e \<longrightarrow> IsNotFound e)"
    and "\<exists>x w'. run_state (r_Delete res hook) w = (x, w') \<and> untouched refReady refPolicies refServers w w' \<and> (\<forall>e. x = Inl e \<longrightarrow> IsNotFound e)"
proof -
  have res: "res = refResource kind_ValidatingWebhooks \<or> res = refResource kind_MutatingWebhooks"
    using assms(2) by (simp add: refClient_def)
  have faults: "st_faults w = []" using assms(1) by (simp add: refReady_def)
  show "\<exists>x w'. run_state (r_Get res key) w = (x, w') \<and> untouched refReady refPolicies refServers w w' \<and> (\<forall>e. x = Inl e \<longrightarrow> IsNotFound e)"
    using res assms(1) faults by (auto simp: run_refGet untouched_def split: option.split)
  show "\<exists>x w'. run_state (r_Delete res hook) w = (x, w') \<and> untouched refReady refPolicies refServers w w' \<and> (\<forall>e. x = Inl e \<longrightarrow> IsNotFound e)"
    using res assms(1) faults
    by (auto simp: run_refDelete untouched_def writeObj_def Let_def ref_frames ref_ready_frames split: option.split)
qed

interpretation ref_closed: closed_cluster refClient refReady refPolicies refServers
proof (unfold_locales, goal_cases)
  case (1 w ref p)
  then show ?case
    by (cases ref) (auto simp: refPolicies_def refView_def ref_ap.ref ref_cap.ref ref_apg.ref ref_capg.ref findObj_key split: object_kind.splits)
next
  case (2 w key s)
  then show ?case by (auto simp: refServers_def refView_def kind_PolicyServers_def dest: findObj_key)
next
  case (3 w k key)
  have none: "refPolicies w (k, key) = None" if "k \<notin> policyKinds"
    using that by (cases k) (simp_all add: refPolicies_def policyKinds_def)
  have "\<exists>res. run_state (policyGet refClient k key) w = (res, w) \<and>
      (case refPolicies w (k, key) of Some p \<Rightarrow> res = Inr p | None \<Rightarrow> \<exists>e. res = Inl e \<and> IsNotFound e)"
    using ref_ap.get [OF 3, of key] ref_cap.get [OF 3, of key] ref_apg.get [OF 3, of key] ref_capg.get [OF 3, of key] none
    by (cases k) (simp_all add: policyGet_def refClient_def policyKinds_def)
  with 3 show ?case by (auto simp: untouched_def)
next
  case (4 w n)
  show ?case using ref_ap.list [OF 4, of n] 4 by (auto simp: refClient_def untouched_def)
next
  case (5 w n)
  show ?case using ref_cap.list [OF 5, of n] 5 by (auto simp: refClient_def untouched_def)
next
  case (6 w n)
  show ?case using ref_apg.list [OF 6, of n] 6 by (auto simp: refClient_def untouched_def)
next
  case (7 w n)
  show ?case using ref_capg.list [OF 7, of n] 7 by (auto simp: refClient_def untouched_def)
next
  case (8 w p q)
  then show ?case
    using ref_ap.delete [OF 8(1)] ref_cap.delete [OF 8(1)] ref_apg.delete [OF 8(1)] ref_capg.delete [OF 8(1)]
    by (cases p) (simp_all add: refClient_def)
next
  case (9 w p q)
  then show ?case
    using ref_ap.release [OF 9(1)] ref_cap.release [OF 9(1)] ref_apg.release [OF 9(1)] ref_capg.release [OF 9(1)]
    by (cases p) (simp_all add: refClient_def del: GetObjectMeta.simps)
next
  case (10 w key)
  then show ?case
    by (cases "refServers w key") (simp_all add: refClient_def run_refGet refReady_def refServers_def untouched_def)
next
  case (11 w s t)
  have meta: "k_meta kind_PolicyServers = ps_Meta" by (simp add: kind_PolicyServers_def)
  have "cl_PolicyServers refClient = refResource kind_PolicyServers" by (simp add: refClient_def)
  with 11 ref_release_run [OF policy_kinds_good(5), of w s t, unfolded meta]
  show ?case
    using ref_frames(1) [of "delObj ps_Meta (metaKey (ps_Meta s))" w] ref_ready_frames(5) [of "delObj ps_Meta (metaKey (ps_Meta s))" w]
    by (simp add: refServers_def refReady_def)
next
  case (12 w res key)
  then show ?case by (rule ref_hook_calls(1))
next
  case (13 w res hook)
  then show ?case by (rule ref_hook_calls(2))
qed

section \<open>The deletion completes\<close>

text \<open>C4.
  The deletion of a policy server completes in a cluster that answers every call and in which nobody
  creates policies meanwhile: from any state in which the server is marked for deletion, run its controller, then the controllers
  of the bound policies (each at least once, in any order, with more runs of either kind in
  between), then its controller again, and the policy server is gone and no policy is bound to it any more. The server and the bound policies may
  carry the finalizers of Kubewarden only.\<close>

theorem server_deletion_completes:
  assumes cluster: "closed_cluster (psr_Client r) ready pview sview" and same_client: "sub_Client sub = psr_Client r"
    and lib: "finalizer_ops (lib_AddFinalizer (psr_Lib r)) (lib_RemoveFinalizer (psr_Lib r))"
      "finalizer_ops (lib_AddFinalizer (sub_Lib sub)) (lib_RemoveFinalizer (sub_Lib sub))"
    and start: "deletable ready pview sview n w" "sview w ('''', n) \<noteq> None"
    and actions: "\<forall>a\<in>set as. a = ServerAction ('''', n) \<or> (\<exists>(k, key)\<in>bound pview n w. a = PolicyAction k key)"
    and all: "\<forall>(k, key)\<in>bound pview n w. PolicyAction k key \<in> set as"
  shows "sview (runActions r sub (ServerAction ('''', n) # as @ [ServerAction ('''', n)]) w) ('''', n) = None \<and>
    bound pview n (runActions r sub (ServerAction ('''', n) # as @ [ServerAction ('''', n)]) w) = {}"
  by (rule closed_cluster.teardown [OF cluster refl lib(1) same_client lib(2) start actions all])

definition boundCAP :: ClusterAdmissionPolicy where
  "boundCAP = (sampleCAP ''p'')\<lparr>cap_Meta := (namedMeta '''' ''p'')\<lparr>om_Finalizers := [KubewardenFinalizer]\<rparr>\<rparr>"

definition deletedServer :: PolicyServer where
  "deletedServer = (samplePolicyServer ''default'')\<lparr>ps_Meta := (namedMeta '''' ''default'')
     \<lparr>om_DeletionTimestamp := Some 1, om_Finalizers := [KubewardenFinalizer]\<rparr>\<rparr>"

definition teardownCluster :: cluster where
  "teardownCluster = emptyCluster\<lparr>st_PolicyServers := [deletedServer], st_ClusterAdmissionPolicies := [boundCAP]\<rparr>"

lemmas teardown_defs = refPolicies_def refServers_def refView_def teardownCluster_def emptyCluster_def policy_kind_defs
  kind_PolicyServers_def findObj_def boundCAP_def deletedServer_def namedMeta_def metaKey_def

lemma teardownCluster_policies:
  "refPolicies teardownCluster ref = (if ref = (KClusterAdmissionPolicy, '''', ''p'') then Some (CAP boundCAP) else None)"
  by (cases ref) (auto simp: teardown_defs split: object_kind.split)

lemma teardownCluster_server: "refServers teardownCluster ('''', ''default'') = Some deletedServer"
  by (simp add: teardown_defs)

lemmas teardownCluster_views = teardownCluster_policies teardownCluster_server

theorem server_deletion_completes_witness:
  "bound refPolicies ''default'' teardownCluster = {(KClusterAdmissionPolicy, '''', ''p'')} \<and>
   refServers (runActions refPSR refSub [ServerAction ('''', ''default''), PolicyAction KClusterAdmissionPolicy ('''', ''p''),
     ServerAction ('''', ''default'')] teardownCluster) ('''', ''default'') = None"
proof -
  let ?as = "[PolicyAction KClusterAdmissionPolicy ('''', ''p'')]"
  have server: "GetPolicyServer (CAP boundCAP) = ''default''"
    by (simp add: boundCAP_def sampleCAP_def samplePolicySpec_def getter_simps)
  have bound: "bound refPolicies ''default'' teardownCluster = {(KClusterAdmissionPolicy, '''', ''p'')}"
    using server unfolding bound_def teardownCluster_views by auto
  have client: "psr_Client refPSR = refClient" "sub_Client refSub = refClient" "psr_Lib refPSR = refLib" "sub_Lib refSub = refLib"
    by (simp_all add: refPSR_def refSub_def)
  have lib: "finalizer_ops (lib_AddFinalizer refLib) (lib_RemoveFinalizer refLib)"
    by (simp add: refLib_def ref_finalizers.finalizer_ops_axioms)
  have start: "deletable refReady refPolicies refServers ''default'' teardownCluster"
    unfolding deletable_def teardownCluster_views
    by (auto simp: refReady_def teardownCluster_def emptyCluster_def boundCAP_def deletedServer_def ownFinalizers_def getter_simps)
  have actions: "\<forall>a\<in>set ?as. a = ServerAction ('''', ''default'') \<or> (\<exists>(k, key)\<in>bound refPolicies ''default'' teardownCluster. a = PolicyAction k key)"
    "\<forall>(k, key)\<in>bound refPolicies ''default'' teardownCluster. PolicyAction k key \<in> set ?as"
    unfolding bound by simp_all
  have "refServers (runActions refPSR refSub (ServerAction ('''', ''default'') # ?as @ [ServerAction ('''', ''default'')]) teardownCluster)
      ('''', ''default'') = None"
    using server_deletion_completes [OF _ _ _ _ start _ actions, of refPSR refSub] ref_closed.closed_cluster_axioms
    by (simp add: client lib teardownCluster_views(2))
  with bound show ?thesis by simp
qed

end
