(* ===== verification/Policy_Lifecycle.thy ===== *)
theory Policy_Lifecycle
  imports Teardown
begin

text \<open>
  The life of a policy as its status tells it, and that the reconciliation refines it. The abstract
  machine knows the status of a policy and two of its conditions and moves by what a
  reconciliation found in the cluster. The code computes the same moves on whole objects
  through a client that can fail at every call.
\<close>

section \<open>The abstract machine\<close>

record life =
  lf_status :: string
  lf_active :: bool
  lf_reachable :: bool

datatype life_event = Unbound | ServerMissing | DeploymentMissing | NotServed | WebhookFailed | WebhookWritten

definition waiting :: "life \<Rightarrow> life" where
  "waiting l = l\<lparr>lf_status := if lf_status l = ''active'' then ''active'' else ''pending'', lf_active := False\<rparr>"

fun advance :: "life_event \<Rightarrow> life \<Rightarrow> life" where
  "advance Unbound l = l\<lparr>lf_status := ''unscheduled'', lf_active := False\<rparr>"
| "advance ServerMissing l = l\<lparr>lf_status := ''scheduled'', lf_active := False\<rparr>"
| "advance DeploymentMissing l = waiting l"
| "advance NotServed l = (waiting l)\<lparr>lf_reachable := False\<rparr>"
| "advance WebhookFailed l = (waiting l)\<lparr>lf_reachable := True\<rparr>"
| "advance WebhookWritten l = \<lparr>lf_status = ''active'', lf_active = True, lf_reachable = True\<rparr>"

text \<open>The answer to the work queue that goes with an event: done, try again, or an error.\<close>

fun answers :: "life_event \<Rightarrow> go_error + Result \<Rightarrow> bool" where
  "answers Unbound res \<longleftrightarrow> res = Inr emptyResult"
| "answers ServerMissing res \<longleftrightarrow> res = Inr emptyResult"
| "answers DeploymentMissing res \<longleftrightarrow> isl res \<or> res = Inr \<lparr>Requeue = True, RequeueAfter = 0\<rparr>"
| "answers NotServed res \<longleftrightarrow> res = Inr \<lparr>Requeue = True, RequeueAfter = 2\<rparr>"
| "answers WebhookFailed res \<longleftrightarrow> isl res"
| "answers WebhookWritten res \<longleftrightarrow> res = Inr emptyResult"

text \<open>What holds of the abstract machine at every moment, by induction on the events.\<close>

lemma advance_active:
  assumes "lf_active (advance e l)"
  shows "e = WebhookWritten" "lf_status (advance e l) = ''active''" "lf_reachable (advance e l)"
  using assms by (cases e; simp add: waiting_def)+

lemma advance_status:
  "lf_status (advance e l) = ''active'' \<longleftrightarrow>
     e = WebhookWritten \<or> e \<in> {DeploymentMissing, NotServed, WebhookFailed} \<and> lf_status l = ''active''"
  by (cases e) (simp_all add: waiting_def)

text \<open>A status is active from a written webhook on, until the policy or its server is unbound.\<close>

lemma advances_status:
  assumes "lf_status (fold advance es l) = ''active''" "lf_status l \<noteq> ''active''"
  shows "\<exists>es1 es2. es = es1 @ WebhookWritten # es2 \<and> set es2 \<subseteq> {DeploymentMissing, NotServed, WebhookFailed}"
  using assms(1)
proof (induction es rule: rev_induct)
  case Nil
  with assms(2) show ?case by simp
next
  case (snoc e es)
  then consider "e = WebhookWritten" | "e \<in> {DeploymentMissing, NotServed, WebhookFailed}" "lf_status (fold advance es l) = ''active''"
    by (auto simp: advance_status)
  then show ?case
  proof cases
    case 1
    then show ?thesis by force
  next
    case 2
    from snoc.IH [OF 2(2)] obtain es1 es2 where
      "es = es1 @ WebhookWritten # es2" "set es2 \<subseteq> {DeploymentMissing, NotServed, WebhookFailed}" by blast
    with 2(1) show ?thesis by (intro exI [of _ es1] exI [of _ "es2 @ [e]"]) simp
  qed
qed

lemma advances_active:
  assumes "lf_active (fold advance es l)" "\<not> lf_active l"
  shows "lf_status (fold advance es l) = ''active'' \<and> lf_reachable (fold advance es l) \<and>
    (\<exists>es1. es = es1 @ [WebhookWritten])"
  using assms by (cases es rule: rev_cases) (auto dest: advance_active)

section \<open>The abstraction\<close>

definition holds :: "string \<Rightarrow> Policy \<Rightarrow> bool" where
  "holds t p \<longleftrightarrow> map_option cond_Status (conditionOf t p) = Some ConditionTrue"

definition lifeOf :: "Policy \<Rightarrow> life" where
  "lifeOf p = \<lparr>lf_status = st_PolicyStatus (GetStatus p), lf_active = holds PolicyActive p,
     lf_reachable = holds PolicyUniquelyReachable p\<rparr>"

lemma lifeOf_status: "GetStatus p = GetStatus q \<Longrightarrow> lifeOf p = lifeOf q"
  by (simp add: lifeOf_def holds_def)

text \<open>The steps on objects and the moves of the machine.\<close>

lemma lifeOf_steps:
  assumes "status_conditions (lib_SetStatusCondition lib)"
  shows "lifeOf (SetStatus PolicyStatusUnscheduled (inactive lib p)) = advance Unbound (lifeOf p)"
    "lifeOf (SetStatus PolicyStatusScheduled (inactive lib p)) = advance ServerMissing (lifeOf p)"
    "lifeOf (pending lib p) = advance DeploymentMissing (lifeOf p)"
    "lifeOf (unreachable lib p) = advance NotServed (lifeOf p)"
    "lifeOf (reachable lib p) = advance WebhookFailed (lifeOf p)"
    "lifeOf (setPolicyAsActive lib (reachable lib p)) = advance WebhookWritten (lifeOf p)"
  by (simp_all add: lifeOf_def holds_def inactive_def pending_def unreachable_def reachable_def setPolicyAsActive_def
      waiting_def conditionOf_setCondition [OF assms] const_defs)

text \<open>
  What a reconciliation that starts in \<open>w\<close> goes through to make the last move: the policy server and its Deployment
  are read, the policy is uniquely reachable, the CA secret is read, and the webhook of the policy is written.
\<close>

definition served :: "'w policySubReconciler \<Rightarrow> Policy \<Rightarrow> 'w \<Rightarrow> bool" where
  "served r p w \<longleftrightarrow> (\<exists>ps dep secret q w1 w2 w3 w4 w5.
     run_state (r_Get (cl_PolicyServers (sub_Client r)) ([], GetPolicyServer p)) w = (Inr ps, w1) \<and>
     run_state (r_Get (cl_Deployments (sub_Client r)) (sub_deploymentsNamespace r, policyServerDeploymentName (GetPolicyServer p))) w1 = (Inr dep, w2) \<and>
     run_state (isPolicyUniquelyReachable r dep (GetUniqueName p)) w2 = (True, w3) \<and>
     run_state (r_Get (cl_Secrets (sub_Client r)) (sub_deploymentsNamespace r, CARootSecretName)) w3 = (Inr secret, w4) \<and>
     policyFrame q = policyFrame p \<and>
     run_state (if IsMutating q then reconcileMutatingWebhookConfiguration r q secret (NameWithPrefix ps)
       else reconcileValidatingWebhookConfiguration r q secret (NameWithPrefix ps)) w4 = (Inr (), w5))"

lemma reconcilePolicy_life:
  assumes cond: "status_conditions (lib_SetStatusCondition (sub_Lib r))"
    and run: "run_state (reconcilePolicy r p) w = ((res, q), w')"
  shows "\<exists>e. lifeOf q = advance e (lifeOf p) \<and> answers e res \<and> (e = Unbound \<longleftrightarrow> GetPolicyServer p = '''') \<and>
      (e = WebhookWritten \<longrightarrow> served r p w)"
  using run
proof (cases rule: reconcilePolicy_cases)
  case unscheduled
  then show ?thesis by (intro exI [of _ Unbound]) (simp add: lifeOf_steps [OF cond] del: advance.simps)
next
  case scheduled
  then show ?thesis by (intro exI [of _ ServerMissing]) (simp add: lifeOf_steps [OF cond] del: advance.simps)
next
  case (no_deployment err)
  then show ?thesis by (intro exI [of _ DeploymentMissing]) (auto simp: lifeOf_steps [OF cond] emptyResult_def simp del: advance.simps)
next
  case unreachable
  then show ?thesis by (intro exI [of _ NotServed]) (simp add: lifeOf_steps [OF cond] const_defs del: advance.simps)
next
  case (configured ps dep w1 w2 w3)
  from configured(4) show ?thesis
  proof (cases rule: configurePolicy_cases)
    case (failed err)
    with configured(5) show ?thesis by (intro exI [of _ WebhookFailed]) (simp add: lifeOf_steps [OF cond] del: advance.simps)
  next
    case hook: (configured secret w4)
    have "served r p w"
      unfolding served_def using configured(1-3) hook(1,2) policyFrame_statuses(4) by metis
    with hook configured(5) show ?thesis
      by (intro exI [of _ WebhookWritten]) (simp add: lifeOf_steps [OF cond] del: advance.simps)
  qed
qed

text \<open>The mode and the version of the configuration are no part of the life of a policy.\<close>

lemma setPolicyModeStatus_life:
  assumes cond: "status_conditions (lib_SetStatusCondition (sub_Lib r))"
    and run: "run_state (setPolicyModeStatus r p) w = (Inr q, w')"
  shows "lifeOf q = lifeOf p"
proof -
  have "findCondition t (setPolicyConfigurationCondition (sub_Lib r) cm d cs) = findCondition t cs"
    if "t \<noteq> PolicyServerConfigurationUpToDate" for t cm d cs
    using that by (simp add: setPolicyConfigurationCondition_def conditionOf_setCondition [OF cond] split: option.split)
  then show ?thesis
    using run by (auto simp: setPolicyModeStatus_def Let_def run_andThen lifeOf_def holds_def const_defs
        split: prod.splits sum.splits option.splits if_splits)
qed

section \<open>Stored policies\<close>

text \<open>
  The status subresource: after a successful update of the status, a policy that is still stored has the
  status that was written. The meter does not touch policies.
\<close>

locale policy_status_store =
  fixes c :: "'w client" and meter :: "'w meter" and pview :: "'w \<Rightarrow> policy_ref \<Rightarrow> Policy option"
  assumes status_stored: "run_state (policyStatusUpdate c p) w = (Inr p', w') \<Longrightarrow> pview w' (policyRef p) = Some z \<Longrightarrow>
      GetStatus z = GetStatus p"
    and counter_frame: "run_state (mt_Int64Counter meter name description) w = (x, w') \<Longrightarrow> pview w' = pview w"
    and add_frame: "run_state (mt_Add meter name n attrs) w = (u, w') \<Longrightarrow> pview w' = pview w"
begin

lemma record_frame: "run_state (RecordPolicyCount meter p) w = (x, w') \<Longrightarrow> pview w' = pview w"
  by (auto simp: RecordPolicyCount_def Let_def run_orWrap split: prod.splits sum.splits dest!: counter_frame add_frame)

end

definition statusFailures :: "string set" where
  "statusFailures = {''error setting policy status'', ''update admission policy status error'', ''failed to record policy mestrics''}"

lemma policyRef_frame: "policyFrame p = policyFrame q \<Longrightarrow> policyRef p = policyRef q"
proof -
  have "policyRef (policyFrame x) = policyRef x" for x
    by (cases x) (simp_all add: policyRef_def policyKind_def getter_simps)
  then show "policyFrame p = policyFrame q \<Longrightarrow> policyRef p = policyRef q" by metis
qed

lemma reconcile_life:
  assumes cond: "status_conditions (lib_SetStatusCondition (sub_Lib r))"
    and store: "policy_status_store (sub_Client r) (sub_Meter r) pview"
    and live: "GetDeletionTimestamp p = None"
    and run: "run_state (reconcile r p) w = (res, w')" and z: "pview w' (policyRef p) = Some z"
  shows "(\<exists>e. lifeOf z = advance e (lifeOf p) \<and> answers e res \<and> (e = Unbound \<longleftrightarrow> GetPolicyServer p = '''') \<and>
      (e = WebhookWritten \<longrightarrow> served r p w)) \<or>
    (\<exists>msg err. res = Inl (Wrap msg err) \<and> msg \<in> statusFailures)"
proof -
  obtain res1 q w1 where policy: "run_state (reconcilePolicy r p) w = ((res1, q), w1)" by (metis surj_pair)
  consider (failed) msg err where "res = Inl (Wrap msg err)" "msg \<in> statusFailures"
    | (stored) q1 w2 q2 w3 x where "run_state (setPolicyModeStatus r q) w1 = (Inr q1, w2)"
        "run_state (policyStatusUpdate (sub_Client r) q1) w2 = (Inr q2, w3)"
        "run_state (RecordPolicyCount (sub_Meter r) q2) w3 = (x, w')" "res = res1"
    using run live policy by (auto simp: reconcile_def run_orWrap statusFailures_def split: prod.splits sum.splits)
  then show ?thesis
  proof cases
    case failed
    then show ?thesis by blast
  next
    case stored
    have "policyRef q1 = policyRef p"
      using setPolicyModeStatus_frame [OF stored(1)] reconcilePolicy_frame [OF policy] by (intro policyRef_frame) simp
    then have "pview w3 (policyRef q1) = Some z"
      using z policy_status_store.record_frame [OF store stored(3)] by simp
    then have "lifeOf z = lifeOf q"
      using lifeOf_status policy_status_store.status_stored [OF store stored(2)] setPolicyModeStatus_life [OF cond stored(1)] by metis
    with reconcilePolicy_life [OF cond policy] stored(4) show ?thesis by simp
  qed
qed

section \<open>The reference cluster\<close>

locale ref_status_kind = ref_policy_kind kd K wrap for kd :: "'o kind" and K :: object_kind and wrap :: "'o \<Rightarrow> Policy" +
  assumes with_status: "GetStatus (wrap (k_withStatus kd old x)) = GetStatus (wrap x)" "k_meta kd (k_withStatus kd old x) = k_meta kd old"
    and map_status: "GetStatus (wrap (k_mapMeta kd h x)) = GetStatus (wrap x)"
begin

lemma status_update:
  assumes run: "run_state (mapOp wrap (r_StatusUpdate (refResource kd) x)) w = (Inr p', w')"
    and z: "refPolicies w' (policyRef (wrap x)) = Some z"
  shows "GetStatus z = GetStatus (wrap x)"
proof -
  obtain old where old: "findObj (k_meta kd) (metaKey (k_meta kd x)) (k_get kd w) = Some old" and
    w': "w' = k_map kd (delObj (k_meta kd) (metaKey (k_meta kd x))) w \<or> w' = snd (writeObj kd (k_withStatus kd old x) w)"
    using run by (auto simp: run_mapOp refResource_def withFault_def refUpdate_def apfst_def map_prod_def
        split: option.splits sum.splits prod.splits if_splits)
  obtain y where y: "refView kd w' (metaKey (k_meta kd x)) = Some y" "z = wrap y" using z by (auto simp: ref view)
  have key: "metaKey (k_meta kd (k_withStatus kd old x)) = metaKey (k_meta kd x)" using findObj_key [OF old] by (simp add: with_status)
  from w' show ?thesis
  proof
    assume "w' = k_map kd (delObj (k_meta kd) (metaKey (k_meta kd x))) w"
    with y refView_delObj [OF good] show ?thesis by simp
  next
    assume "w' = snd (writeObj kd (k_withStatus kd old x) w)"
    with y refView_write(1) [OF good, of "k_withStatus kd old x" w] key have "y = fst (writeObj kd (k_withStatus kd old x) w)" by simp
    then show ?thesis by (simp add: y(2) writeObj_def Let_def map_status with_status)
  qed
qed

lemma status_update_succeeds:
  assumes "st_faults w = []" "refView kd w (metaKey (k_meta kd x)) = Some old" "om_DeletionTimestamp (k_meta kd old) = None"
    "om_ResourceVersion (k_meta kd x) = ''''"
  shows "\<exists>p' w' z. run_state (mapOp wrap (r_StatusUpdate (refResource kd) x)) w = (Inr p', w') \<and>
    refPolicies w' (policyRef (wrap x)) = Some z"
proof -
  let ?y = "k_withStatus kd old x"
  have key: "metaKey (k_meta kd ?y) = metaKey (k_meta kd x)" using assms(2) findObj_key by (fastforce simp: with_status refView_def)
  have "run_state (mapOp wrap (r_StatusUpdate (refResource kd) x)) w = (Inr (wrap (fst (writeObj kd ?y w))), snd (writeObj kd ?y w))"
    using assms by (simp add: run_mapOp refResource_def withFault_def refUpdate_def refView_def apfst_def map_prod_def split: prod.split)
  moreover have "refPolicies (snd (writeObj kd ?y w)) (policyRef (wrap x)) = Some (wrap (fst (writeObj kd ?y w)))"
    using refView_write(1) [OF good, of ?y w] key by (simp add: ref view)
  ultimately show ?thesis by blast
qed

end

interpretation status_ap: ref_status_kind kind_AdmissionPolicies KAdmissionPolicy AP
  by unfold_locales (simp_all add: policy_kind_defs getter_simps)

interpretation status_cap: ref_status_kind kind_ClusterAdmissionPolicies KClusterAdmissionPolicy CAP
  by unfold_locales (simp_all add: policy_kind_defs getter_simps)

interpretation status_apg: ref_status_kind kind_AdmissionPolicyGroups KAdmissionPolicyGroup APG
  by unfold_locales (simp_all add: policy_kind_defs getter_simps)

interpretation status_capg: ref_status_kind kind_ClusterAdmissionPolicyGroups KClusterAdmissionPolicyGroup CAPG
  by unfold_locales (simp_all add: policy_kind_defs getter_simps)

interpretation ref_status: policy_status_store refClient refMeter refPolicies
proof
  fix p w p' w' z
  assume "run_state (policyStatusUpdate refClient p) w = (Inr p', w')" "refPolicies w' (policyRef p) = Some z"
  then show "GetStatus z = GetStatus p"
    using status_ap.status_update status_cap.status_update status_apg.status_update status_capg.status_update
    by (cases p) (simp_all add: refClient_def)
qed (simp_all add: refMeter_def)

text \<open>The sample policy in the cluster that serves it, and its reconciliation.\<close>

lemma run_serving_reconcile:
  fixes c defines "c \<equiv> sampleCAP ''p''"
  shows "\<exists>w' z. run_state (reconcile refSub (CAP c)) (servingCluster [CAP c]) = (Inr emptyResult, w') \<and>
    refPolicies w' (policyRef (CAP c)) = Some z \<and> lifeOf z = advance WebhookWritten (lifeOf (CAP c))"
proof -
  have p: "GetPolicyServer (CAP c) = ''default''" "\<not> IsMutating (CAP c)" "GetDeletionTimestamp (CAP c) = None"
    by (simp_all add: c_def sampleCAP_def samplePolicySpec_def namedMeta_def emptyMeta_def getter_simps)
  let ?q = "setPolicyAsActive refLib (reachable refLib (CAP c))"
  obtain hooks n where policy: "run_state (reconcilePolicy refSub (CAP c)) (servingCluster [CAP c]) =
      ((Inr emptyResult, ?q), (servingCluster [CAP c])\<lparr>st_ValidatingWebhooks := hooks, st_version := n\<rparr>)" (is "_ = (_, ?w)")
    using run_serving_configure [of "[CAP c]"] servable_samples p by (auto simp: c_def)
  have gets: "run_state (r_Get (cl_Deployments (sub_Client refSub)) (''kubewarden'', ''policy-server-default'')) ?w = (Inr sampleDeployment, ?w)"
    "run_state (r_Get (cl_ConfigMaps (sub_Client refSub)) (''kubewarden'', ''policy-server-default'')) ?w = (Inr (servedConfigMap [CAP c]), ?w)"
    by (simp_all add: ref_defs sampleDeployment_def servedConfigMap_def)
  have ns: "sub_deploymentsNamespace refSub = ''kubewarden''" by (simp add: refSub_def)
  have server: "GetPolicyServer ?q = ''default''"
    using p(1) getters_frame_eq(1) [of ?q "CAP c"] by (simp del: GetPolicyServer.simps)
  obtain q1 where mode: "run_state (setPolicyModeStatus refSub ?q) ?w = (Inr q1, ?w)"
    by (simp add: setPolicyModeStatus_def Let_def run_andThen policyServerDeploymentName_def server ns gets)
  have "policyFrame q1 = policyFrame (CAP c)" using setPolicyModeStatus_frame [OF mode] by simp
  then obtain c1 where c1: "q1 = CAP c1" "cap_Meta c1 = cap_Meta c"
    by (cases q1) (auto dest: arg_cong [of _ _ cap_Meta])
  obtain p' w' where status: "run_state (policyStatusUpdate (sub_Client refSub) q1) ?w = (Inr p', w')"
    and z: "\<exists>z. refPolicies w' (policyRef q1) = Some z"
  proof -
    have old: "st_faults ?w = []" "refView kind_ClusterAdmissionPolicies ?w (metaKey (k_meta kind_ClusterAdmissionPolicies c1)) = Some c"
      "om_DeletionTimestamp (k_meta kind_ClusterAdmissionPolicies c) = None" "om_ResourceVersion (k_meta kind_ClusterAdmissionPolicies c1) = ''''"
      using c1 p(3) by (simp_all add: servingCluster_def emptyCluster_def refView_def findObj_def kind_ClusterAdmissionPolicies_def
          c_def sampleCAP_def namedMeta_def emptyMeta_def map_filter_simps)
    from status_cap.status_update_succeeds [OF old] that show ?thesis by (auto simp: c1 refSub_def refClient_def)
  qed
  then obtain z where z: "refPolicies w' (policyRef q1) = Some z" by blast
  have laws: "status_conditions (lib_SetStatusCondition refLib)" "sub_Lib refSub = refLib" "sub_Client refSub = refClient"
    using ref_conditions.status_conditions_axioms by (simp_all add: refSub_def refLib_def)
  have "policyRef q1 = policyRef (CAP c)" using c1 by (simp add: policyRef_def policyKind_def getter_simps)
  moreover have "lifeOf z = lifeOf q1"
    using lifeOf_status ref_status.status_stored [OF status [unfolded laws] z] .
  moreover have "lifeOf q1 = lifeOf ?q" using setPolicyModeStatus_life [OF _ mode] laws by simp
  moreover have "lifeOf ?q = advance WebhookWritten (lifeOf (CAP c))" by (rule lifeOf_steps(6) [OF laws(1)])
  ultimately have z: "refPolicies w' (policyRef (CAP c)) = Some z" "lifeOf z = advance WebhookWritten (lifeOf (CAP c))"
    using z by simp_all
  show ?thesis using policy mode status z p(3)
    by (simp add: reconcile_def run_orWrap RecordPolicyCount_def Let_def) (simp add: refSub_def refMeter_def)
qed


section \<open>Properties\<close>

text \<open>C5.
  The reconciliation of a policy refines the life cycle machine. After every reconciliation that got as far as
  storing the status, the stored policy has made one move of the machine; the move is the one for an
  unbound policy exactly when the spec names no policy server, and the one for a written webhook only when the
  reconciliation found the policy served and wrote its webhook; and the answer to the work queue fits the
  move, so that a policy waiting for its server is tried again and one that is served is not. A
  reconciliation that did not get so far reports one of the three errors of that last part.\<close>

theorem reconcile_refines_life:
  assumes "status_conditions (lib_SetStatusCondition (sub_Lib r))"
    and "policy_status_store (sub_Client r) (sub_Meter r) pview"
    and "GetDeletionTimestamp p = None"
    and "run_state (reconcile r p) w = (res, w')" and "pview w' (policyRef p) = Some z"
  shows "(\<exists>e. lifeOf z = advance e (lifeOf p) \<and> answers e res \<and> (e = Unbound \<longleftrightarrow> GetPolicyServer p = '''') \<and>
      (e = WebhookWritten \<longrightarrow> served r p w)) \<or>
    (\<exists>msg err. res = Inl (Wrap msg err) \<and> msg \<in> statusFailures)"
  using assms by (rule reconcile_life)

lemmas ref_life_laws =
  ref_conditions.status_conditions_axioms ref_status.policy_status_store_axioms

lemma refSub_laws:
  "status_conditions (lib_SetStatusCondition (sub_Lib refSub))"
  "policy_status_store (sub_Client refSub) (sub_Meter refSub) refPolicies"
  using ref_life_laws by (simp_all add: refSub_def refLib_def)

lemma sample_live: "GetDeletionTimestamp (CAP (sampleCAP n)) = None"
  by (simp add: sampleCAP_def namedMeta_def emptyMeta_def getter_simps)

lemma sample_bound: "GetPolicyServer (CAP (sampleCAP n)) \<noteq> ''''"
  by (simp add: sampleCAP_def samplePolicySpec_def getter_simps)

theorem reconcile_refines_life_witness:
  "\<exists>w' z e. run_state (reconcile refSub (CAP (sampleCAP ''p''))) (servingCluster [CAP (sampleCAP ''p'')]) = (Inr emptyResult, w') \<and>
     refPolicies w' (policyRef (CAP (sampleCAP ''p''))) = Some z \<and> lifeOf z = advance e (lifeOf (CAP (sampleCAP ''p''))) \<and>
     e = WebhookWritten \<and> served refSub (CAP (sampleCAP ''p'')) (servingCluster [CAP (sampleCAP ''p'')])"
proof -
  obtain w' z where run: "run_state (reconcile refSub (CAP (sampleCAP ''p''))) (servingCluster [CAP (sampleCAP ''p'')]) = (Inr emptyResult, w')"
    and z: "refPolicies w' (policyRef (CAP (sampleCAP ''p''))) = Some z"
      "lifeOf z = advance WebhookWritten (lifeOf (CAP (sampleCAP ''p'')))"
    using run_serving_reconcile by blast
  obtain e where e: "lifeOf z = advance e (lifeOf (CAP (sampleCAP ''p'')))" "answers e (Inr emptyResult)" "e \<noteq> Unbound"
      "e = WebhookWritten \<longrightarrow> served refSub (CAP (sampleCAP ''p'')) (servingCluster [CAP (sampleCAP ''p'')])"
    using reconcile_refines_life [OF refSub_laws sample_live run z(1)] sample_bound by blast
  moreover have "lf_active (advance e (lifeOf (CAP (sampleCAP ''p''))))" unfolding e(1) [symmetric] by (simp add: z(2))
  then have "e = WebhookWritten" by (rule advance_active)
  ultimately show ?thesis using run z(1) by blast
qed

text \<open>
  The life of one policy: anybody may change its metadata and spec, which leaves the status alone, and the
  controller reconciles it, in whatever world it finds at that moment, with success or with an error. Only
  the errors by which the status was not written are left out.
\<close>

inductive lifetime :: "'w policySubReconciler \<Rightarrow> ('w \<Rightarrow> policy_ref \<Rightarrow> Policy option) \<Rightarrow> Policy \<Rightarrow> Policy \<Rightarrow> bool"
  for r pview p where
  created: "lifetime r pview p p"
| edited: "lifetime r pview p q \<Longrightarrow> GetStatus q' = GetStatus q \<Longrightarrow> lifetime r pview p q'"
| reconciled: "lifetime r pview p q \<Longrightarrow> GetDeletionTimestamp q = None \<Longrightarrow> run_state (reconcile r q) w = (res, w') \<Longrightarrow>
    \<forall>msg err. res = Inl (Wrap msg err) \<longrightarrow> msg \<notin> statusFailures \<Longrightarrow>
    pview w' (policyRef q) = Some q' \<Longrightarrow> lifetime r pview p q'"

lemma lifetime_simulated:
  assumes laws: "status_conditions (lib_SetStatusCondition (sub_Lib r))" "policy_status_store (sub_Client r) (sub_Meter r) pview"
    and "lifetime r pview p q"
  shows "\<exists>es. lifeOf q = fold advance es (lifeOf p)"
  using assms(3)
proof induction
  case created
  show ?case by (intro exI [of _ "[]"]) simp
next
  case (edited q q')
  then show ?case using lifeOf_status by metis
next
  case (reconciled q w res w' q')
  then obtain es e where "lifeOf q = fold advance es (lifeOf p)" "lifeOf q' = advance e (lifeOf q)"
    using reconcile_life [OF laws reconciled.hyps(2,3,5)] by blast
  then show ?case by (intro exI [of _ "es @ [e]"]) simp
qed



end
