(* ===== verification/V1alpha2.thy ===== *)
theory V1alpha2
  imports Policy_Reconciler
begin

text \<open>
  The API version \<open>v1alpha2\<close> of \<open>api/policies/v1alpha2\<close>: its types with their methods, and what
  becomes of an object that is submitted in this version. The API server stores objects in the version
  \<open>v1\<close>; the resource definitions ask for no conversion webhook, so fields of the same JSON
  name keep their value (\<open>none_conversion\<close>). The controllers read the result.
\<close>

section \<open>Types\<close>

definition V1alpha2_PolicyStatusUnscheduled :: string where [const_defs]:
  "V1alpha2_PolicyStatusUnscheduled = ''unscheduled''"

definition V1alpha2_PolicyStatusScheduled :: string where [const_defs]:
  "V1alpha2_PolicyStatusScheduled = ''scheduled''"

definition V1alpha2_PolicyStatusPending :: string where [const_defs]:
  "V1alpha2_PolicyStatusPending = ''pending''"

definition V1alpha2_PolicyStatusActive :: string where [const_defs]:
  "V1alpha2_PolicyStatusActive = ''active''"

definition V1alpha2_PolicyModeStatusProtect :: string where [const_defs]:
  "V1alpha2_PolicyModeStatusProtect = ''protect''"

definition V1alpha2_PolicyModeStatusMonitor :: string where [const_defs]:
  "V1alpha2_PolicyModeStatusMonitor = ''monitor''"

definition V1alpha2_PolicyModeStatusUnknown :: string where [const_defs]:
  "V1alpha2_PolicyModeStatusUnknown = ''unknown''"

definition V1alpha2_PolicyActive :: string where [const_defs]:
  "V1alpha2_PolicyActive = ''PolicyActive''"

definition V1alpha2_PolicyServerConfigurationUpToDate :: string where [const_defs]:
  "V1alpha2_PolicyServerConfigurationUpToDate = ''PolicyServerConfigurationUpToDate''"

definition V1alpha2_PolicyUniquelyReachable :: string where [const_defs]:
  "V1alpha2_PolicyUniquelyReachable = ''PolicyUniquelyReachable''"

definition V1alpha2_ReconciliationFailed :: string where [const_defs]:
  "V1alpha2_ReconciliationFailed = ''ReconciliationFailed''"

definition V1alpha2_ReconciliationSucceeded :: string where [const_defs]:
  "V1alpha2_ReconciliationSucceeded = ''ReconciliationSucceeded''"

definition V1alpha2_PolicyServerCASecretReconciled :: string where [const_defs]:
  "V1alpha2_PolicyServerCASecretReconciled = ''CASecretReconciled''"

definition V1alpha2_PolicyServerCARootSecretReconciled :: string where [const_defs]:
  "V1alpha2_PolicyServerCARootSecretReconciled = ''CARootSecretReconciled''"

definition V1alpha2_PolicyServerConfigMapReconciled :: string where [const_defs]:
  "V1alpha2_PolicyServerConfigMapReconciled = ''ConfigMapReconciled''"

definition V1alpha2_PolicyServerDeploymentReconciled :: string where [const_defs]:
  "V1alpha2_PolicyServerDeploymentReconciled = ''DeploymentReconciled''"

definition V1alpha2_PolicyServerServiceReconciled :: string where [const_defs]:
  "V1alpha2_PolicyServerServiceReconciled = ''ServiceReconciled''"

record V1alpha2_PolicyStatus =
  a2st_PolicyStatus :: string
  a2st_PolicyMode :: string
  a2st_Conditions :: "Condition list"

record V1alpha2_PolicySpec =
  a2spec_PolicyServer :: string
  a2spec_Module :: string
  a2spec_Mode :: string
  a2spec_Settings :: RawExtension
  a2spec_Rules :: "RuleWithOperations list"
  a2spec_FailurePolicy :: "string option"
  a2spec_Mutating :: bool
  a2spec_MatchPolicy :: "string option"
  a2spec_ObjectSelector :: "LabelSelector option"
  a2spec_SideEffects :: "string option"
  a2spec_TimeoutSeconds :: "int32 option"

record V1alpha2_AdmissionPolicySpec =
  a2aps_PolicySpec :: V1alpha2_PolicySpec

record V1alpha2_ClusterAdmissionPolicySpec =
  a2caps_PolicySpec :: V1alpha2_PolicySpec
  a2caps_NamespaceSelector :: "LabelSelector option"

record V1alpha2_AdmissionPolicy =
  a2ap_Meta :: ObjectMeta
  a2ap_Spec :: V1alpha2_AdmissionPolicySpec
  a2ap_Status :: V1alpha2_PolicyStatus

record V1alpha2_ClusterAdmissionPolicy =
  a2cap_Meta :: ObjectMeta
  a2cap_Spec :: V1alpha2_ClusterAdmissionPolicySpec
  a2cap_Status :: V1alpha2_PolicyStatus

record V1alpha2_PolicyServerSpec =
  a2pss_Image :: string
  a2pss_Replicas :: int32
  a2pss_Annotations :: "string gomap"
  a2pss_Env :: "EnvVar list"
  a2pss_ServiceAccountName :: string
  a2pss_ImagePullSecret :: string
  a2pss_InsecureSources :: "string list"
  a2pss_SourceAuthorities :: "(string list) gomap"
  a2pss_VerificationConfig :: string

record V1alpha2_PolicyServerStatus =
  a2psst_Conditions :: "Condition list"

record V1alpha2_PolicyServer =
  a2ps_Meta :: ObjectMeta
  a2ps_Spec :: V1alpha2_PolicyServerSpec
  a2ps_Status :: V1alpha2_PolicyServerStatus

definition V1alpha2_NameWithPrefix :: "V1alpha2_PolicyServer \<Rightarrow> string" where
  "V1alpha2_NameWithPrefix ps = ''policy-server-'' @ om_Name (a2ps_Meta ps)"

definition V1alpha2_AppLabel :: "V1alpha2_PolicyServer \<Rightarrow> string" where
  "V1alpha2_AppLabel ps = ''kubewarden-'' @ V1alpha2_NameWithPrefix ps"

section \<open>AdmissionPolicy\<close>

definition V1alpha2_AdmissionPolicy_SetStatus :: "string \<Rightarrow> V1alpha2_AdmissionPolicy \<Rightarrow> V1alpha2_AdmissionPolicy" where [getter_simps]:
  "V1alpha2_AdmissionPolicy_SetStatus status r = r\<lparr>a2ap_Status := (a2ap_Status r)\<lparr>a2st_PolicyStatus := status\<rparr>\<rparr>"

definition V1alpha2_AdmissionPolicy_SetPolicyModeStatus :: "string \<Rightarrow> V1alpha2_AdmissionPolicy \<Rightarrow> V1alpha2_AdmissionPolicy" where [getter_simps]:
  "V1alpha2_AdmissionPolicy_SetPolicyModeStatus policyMode r = r\<lparr>a2ap_Status := (a2ap_Status r)\<lparr>a2st_PolicyMode := policyMode\<rparr>\<rparr>"

definition V1alpha2_AdmissionPolicy_GetPolicyMode :: "V1alpha2_AdmissionPolicy \<Rightarrow> string" where [getter_simps]:
  "V1alpha2_AdmissionPolicy_GetPolicyMode r = a2spec_Mode (a2aps_PolicySpec (a2ap_Spec r))"

definition V1alpha2_AdmissionPolicy_GetModule :: "V1alpha2_AdmissionPolicy \<Rightarrow> string" where [getter_simps]:
  "V1alpha2_AdmissionPolicy_GetModule r = a2spec_Module (a2aps_PolicySpec (a2ap_Spec r))"

definition V1alpha2_AdmissionPolicy_IsMutating :: "V1alpha2_AdmissionPolicy \<Rightarrow> bool" where [getter_simps]:
  "V1alpha2_AdmissionPolicy_IsMutating r = a2spec_Mutating (a2aps_PolicySpec (a2ap_Spec r))"

definition V1alpha2_AdmissionPolicy_GetSettings :: "V1alpha2_AdmissionPolicy \<Rightarrow> RawExtension" where [getter_simps]:
  "V1alpha2_AdmissionPolicy_GetSettings r = a2spec_Settings (a2aps_PolicySpec (a2ap_Spec r))"

definition V1alpha2_AdmissionPolicy_GetSideEffects :: "V1alpha2_AdmissionPolicy \<Rightarrow> string option" where [getter_simps]:
  "V1alpha2_AdmissionPolicy_GetSideEffects r = a2spec_SideEffects (a2aps_PolicySpec (a2ap_Spec r))"

definition V1alpha2_AdmissionPolicy_GetRules :: "V1alpha2_AdmissionPolicy \<Rightarrow> RuleWithOperations list" where [getter_simps]:
  "V1alpha2_AdmissionPolicy_GetRules r = map (\<lambda>rule. rule\<lparr>rule_Scope := Some NamespacedScope\<rparr>) (a2spec_Rules (a2aps_PolicySpec (a2ap_Spec r)))"

definition V1alpha2_AdmissionPolicy_GetFailurePolicy :: "V1alpha2_AdmissionPolicy \<Rightarrow> string option" where [getter_simps]:
  "V1alpha2_AdmissionPolicy_GetFailurePolicy r = a2spec_FailurePolicy (a2aps_PolicySpec (a2ap_Spec r))"

definition V1alpha2_AdmissionPolicy_GetMatchPolicy :: "V1alpha2_AdmissionPolicy \<Rightarrow> string option" where [getter_simps]:
  "V1alpha2_AdmissionPolicy_GetMatchPolicy r = a2spec_MatchPolicy (a2aps_PolicySpec (a2ap_Spec r))"

definition V1alpha2_AdmissionPolicy_GetObjectSelector :: "V1alpha2_AdmissionPolicy \<Rightarrow> LabelSelector option" where [getter_simps]:
  "V1alpha2_AdmissionPolicy_GetObjectSelector r = a2spec_ObjectSelector (a2aps_PolicySpec (a2ap_Spec r))"

definition V1alpha2_AdmissionPolicy_GetTimeoutSeconds :: "V1alpha2_AdmissionPolicy \<Rightarrow> int32 option" where [getter_simps]:
  "V1alpha2_AdmissionPolicy_GetTimeoutSeconds r = a2spec_TimeoutSeconds (a2aps_PolicySpec (a2ap_Spec r))"

definition V1alpha2_AdmissionPolicy_GetPolicyServer :: "V1alpha2_AdmissionPolicy \<Rightarrow> string" where [getter_simps]:
  "V1alpha2_AdmissionPolicy_GetPolicyServer r = a2spec_PolicyServer (a2aps_PolicySpec (a2ap_Spec r))"

definition V1alpha2_AdmissionPolicy_GetStatus :: "V1alpha2_AdmissionPolicy \<Rightarrow> V1alpha2_PolicyStatus" where [getter_simps]:
  "V1alpha2_AdmissionPolicy_GetStatus r = a2ap_Status r"

definition V1alpha2_AdmissionPolicy_GetObjectMeta :: "V1alpha2_AdmissionPolicy \<Rightarrow> ObjectMeta" where [getter_simps]:
  "V1alpha2_AdmissionPolicy_GetObjectMeta r = a2ap_Meta r"

definition V1alpha2_AdmissionPolicy_GetNamespaceSelector :: "V1alpha2_AdmissionPolicy \<Rightarrow> LabelSelector option" where [getter_simps]:
  "V1alpha2_AdmissionPolicy_GetNamespaceSelector r = Some \<lparr>ls_MatchLabels = [(''kubernetes.io/metadata.name'', om_Namespace (a2ap_Meta r))], ls_MatchExpressions = []\<rparr>"

definition V1alpha2_AdmissionPolicy_GetUniqueName :: "V1alpha2_AdmissionPolicy \<Rightarrow> string" where [getter_simps]:
  "V1alpha2_AdmissionPolicy_GetUniqueName r = ''namespaced-'' @ om_Namespace (a2ap_Meta r) @ ''-'' @ om_Name (a2ap_Meta r)"

section \<open>ClusterAdmissionPolicy\<close>

definition V1alpha2_ClusterAdmissionPolicy_SetStatus :: "string \<Rightarrow> V1alpha2_ClusterAdmissionPolicy \<Rightarrow> V1alpha2_ClusterAdmissionPolicy" where [getter_simps]:
  "V1alpha2_ClusterAdmissionPolicy_SetStatus status r = r\<lparr>a2cap_Status := (a2cap_Status r)\<lparr>a2st_PolicyStatus := status\<rparr>\<rparr>"

definition V1alpha2_ClusterAdmissionPolicy_SetPolicyModeStatus :: "string \<Rightarrow> V1alpha2_ClusterAdmissionPolicy \<Rightarrow> V1alpha2_ClusterAdmissionPolicy" where [getter_simps]:
  "V1alpha2_ClusterAdmissionPolicy_SetPolicyModeStatus policyMode r = r\<lparr>a2cap_Status := (a2cap_Status r)\<lparr>a2st_PolicyMode := policyMode\<rparr>\<rparr>"

definition V1alpha2_ClusterAdmissionPolicy_GetPolicyMode :: "V1alpha2_ClusterAdmissionPolicy \<Rightarrow> string" where [getter_simps]:
  "V1alpha2_ClusterAdmissionPolicy_GetPolicyMode r = a2spec_Mode (a2caps_PolicySpec (a2cap_Spec r))"

definition V1alpha2_ClusterAdmissionPolicy_GetModule :: "V1alpha2_ClusterAdmissionPolicy \<Rightarrow> string" where [getter_simps]:
  "V1alpha2_ClusterAdmissionPolicy_GetModule r = a2spec_Module (a2caps_PolicySpec (a2cap_Spec r))"

definition V1alpha2_ClusterAdmissionPolicy_IsMutating :: "V1alpha2_ClusterAdmissionPolicy \<Rightarrow> bool" where [getter_simps]:
  "V1alpha2_ClusterAdmissionPolicy_IsMutating r = a2spec_Mutating (a2caps_PolicySpec (a2cap_Spec r))"

definition V1alpha2_ClusterAdmissionPolicy_GetSettings :: "V1alpha2_ClusterAdmissionPolicy \<Rightarrow> RawExtension" where [getter_simps]:
  "V1alpha2_ClusterAdmissionPolicy_GetSettings r = a2spec_Settings (a2caps_PolicySpec (a2cap_Spec r))"

definition V1alpha2_ClusterAdmissionPolicy_GetSideEffects :: "V1alpha2_ClusterAdmissionPolicy \<Rightarrow> string option" where [getter_simps]:
  "V1alpha2_ClusterAdmissionPolicy_GetSideEffects r = a2spec_SideEffects (a2caps_PolicySpec (a2cap_Spec r))"

definition V1alpha2_ClusterAdmissionPolicy_GetRules :: "V1alpha2_ClusterAdmissionPolicy \<Rightarrow> RuleWithOperations list" where [getter_simps]:
  "V1alpha2_ClusterAdmissionPolicy_GetRules r = a2spec_Rules (a2caps_PolicySpec (a2cap_Spec r))"

definition V1alpha2_ClusterAdmissionPolicy_GetFailurePolicy :: "V1alpha2_ClusterAdmissionPolicy \<Rightarrow> string option" where [getter_simps]:
  "V1alpha2_ClusterAdmissionPolicy_GetFailurePolicy r = a2spec_FailurePolicy (a2caps_PolicySpec (a2cap_Spec r))"

definition V1alpha2_ClusterAdmissionPolicy_GetMatchPolicy :: "V1alpha2_ClusterAdmissionPolicy \<Rightarrow> string option" where [getter_simps]:
  "V1alpha2_ClusterAdmissionPolicy_GetMatchPolicy r = a2spec_MatchPolicy (a2caps_PolicySpec (a2cap_Spec r))"

definition V1alpha2_ClusterAdmissionPolicy_GetObjectSelector :: "V1alpha2_ClusterAdmissionPolicy \<Rightarrow> LabelSelector option" where [getter_simps]:
  "V1alpha2_ClusterAdmissionPolicy_GetObjectSelector r = a2spec_ObjectSelector (a2caps_PolicySpec (a2cap_Spec r))"

definition V1alpha2_ClusterAdmissionPolicy_GetTimeoutSeconds :: "V1alpha2_ClusterAdmissionPolicy \<Rightarrow> int32 option" where [getter_simps]:
  "V1alpha2_ClusterAdmissionPolicy_GetTimeoutSeconds r = a2spec_TimeoutSeconds (a2caps_PolicySpec (a2cap_Spec r))"

definition V1alpha2_ClusterAdmissionPolicy_GetPolicyServer :: "V1alpha2_ClusterAdmissionPolicy \<Rightarrow> string" where [getter_simps]:
  "V1alpha2_ClusterAdmissionPolicy_GetPolicyServer r = a2spec_PolicyServer (a2caps_PolicySpec (a2cap_Spec r))"

definition V1alpha2_ClusterAdmissionPolicy_GetStatus :: "V1alpha2_ClusterAdmissionPolicy \<Rightarrow> V1alpha2_PolicyStatus" where [getter_simps]:
  "V1alpha2_ClusterAdmissionPolicy_GetStatus r = a2cap_Status r"

definition V1alpha2_ClusterAdmissionPolicy_GetObjectMeta :: "V1alpha2_ClusterAdmissionPolicy \<Rightarrow> ObjectMeta" where [getter_simps]:
  "V1alpha2_ClusterAdmissionPolicy_GetObjectMeta r = a2cap_Meta r"

definition V1alpha2_ClusterAdmissionPolicy_GetNamespaceSelector :: "V1alpha2_ClusterAdmissionPolicy \<Rightarrow> LabelSelector option" where [getter_simps]:
  "V1alpha2_ClusterAdmissionPolicy_GetNamespaceSelector r = a2caps_NamespaceSelector (a2cap_Spec r)"

definition V1alpha2_ClusterAdmissionPolicy_GetUniqueName :: "V1alpha2_ClusterAdmissionPolicy \<Rightarrow> string" where [getter_simps]:
  "V1alpha2_ClusterAdmissionPolicy_GetUniqueName r = ''clusterwide-'' @ om_Name (a2cap_Meta r)"

section \<open>The interface Policy\<close>

datatype V1alpha2_Policy = AP2 V1alpha2_AdmissionPolicy | CAP2 V1alpha2_ClusterAdmissionPolicy

primrec V1alpha2_SetStatus :: "string \<Rightarrow> V1alpha2_Policy \<Rightarrow> V1alpha2_Policy" where
  "V1alpha2_SetStatus s (AP2 r) = AP2 (V1alpha2_AdmissionPolicy_SetStatus s r)"
| "V1alpha2_SetStatus s (CAP2 r) = CAP2 (V1alpha2_ClusterAdmissionPolicy_SetStatus s r)"

primrec V1alpha2_SetPolicyModeStatus :: "string \<Rightarrow> V1alpha2_Policy \<Rightarrow> V1alpha2_Policy" where
  "V1alpha2_SetPolicyModeStatus s (AP2 r) = AP2 (V1alpha2_AdmissionPolicy_SetPolicyModeStatus s r)"
| "V1alpha2_SetPolicyModeStatus s (CAP2 r) = CAP2 (V1alpha2_ClusterAdmissionPolicy_SetPolicyModeStatus s r)"

primrec V1alpha2_GetPolicyMode :: "V1alpha2_Policy \<Rightarrow> string" where
  "V1alpha2_GetPolicyMode (AP2 r) = V1alpha2_AdmissionPolicy_GetPolicyMode r"
| "V1alpha2_GetPolicyMode (CAP2 r) = V1alpha2_ClusterAdmissionPolicy_GetPolicyMode r"

primrec V1alpha2_GetModule :: "V1alpha2_Policy \<Rightarrow> string" where
  "V1alpha2_GetModule (AP2 r) = V1alpha2_AdmissionPolicy_GetModule r"
| "V1alpha2_GetModule (CAP2 r) = V1alpha2_ClusterAdmissionPolicy_GetModule r"

primrec V1alpha2_IsMutating :: "V1alpha2_Policy \<Rightarrow> bool" where
  "V1alpha2_IsMutating (AP2 r) = V1alpha2_AdmissionPolicy_IsMutating r"
| "V1alpha2_IsMutating (CAP2 r) = V1alpha2_ClusterAdmissionPolicy_IsMutating r"

primrec V1alpha2_GetSettings :: "V1alpha2_Policy \<Rightarrow> RawExtension" where
  "V1alpha2_GetSettings (AP2 r) = V1alpha2_AdmissionPolicy_GetSettings r"
| "V1alpha2_GetSettings (CAP2 r) = V1alpha2_ClusterAdmissionPolicy_GetSettings r"

primrec V1alpha2_GetSideEffects :: "V1alpha2_Policy \<Rightarrow> string option" where
  "V1alpha2_GetSideEffects (AP2 r) = V1alpha2_AdmissionPolicy_GetSideEffects r"
| "V1alpha2_GetSideEffects (CAP2 r) = V1alpha2_ClusterAdmissionPolicy_GetSideEffects r"

primrec V1alpha2_GetRules :: "V1alpha2_Policy \<Rightarrow> RuleWithOperations list" where
  "V1alpha2_GetRules (AP2 r) = V1alpha2_AdmissionPolicy_GetRules r"
| "V1alpha2_GetRules (CAP2 r) = V1alpha2_ClusterAdmissionPolicy_GetRules r"

primrec V1alpha2_GetFailurePolicy :: "V1alpha2_Policy \<Rightarrow> string option" where
  "V1alpha2_GetFailurePolicy (AP2 r) = V1alpha2_AdmissionPolicy_GetFailurePolicy r"
| "V1alpha2_GetFailurePolicy (CAP2 r) = V1alpha2_ClusterAdmissionPolicy_GetFailurePolicy r"

primrec V1alpha2_GetMatchPolicy :: "V1alpha2_Policy \<Rightarrow> string option" where
  "V1alpha2_GetMatchPolicy (AP2 r) = V1alpha2_AdmissionPolicy_GetMatchPolicy r"
| "V1alpha2_GetMatchPolicy (CAP2 r) = V1alpha2_ClusterAdmissionPolicy_GetMatchPolicy r"

primrec V1alpha2_GetObjectSelector :: "V1alpha2_Policy \<Rightarrow> LabelSelector option" where
  "V1alpha2_GetObjectSelector (AP2 r) = V1alpha2_AdmissionPolicy_GetObjectSelector r"
| "V1alpha2_GetObjectSelector (CAP2 r) = V1alpha2_ClusterAdmissionPolicy_GetObjectSelector r"

primrec V1alpha2_GetTimeoutSeconds :: "V1alpha2_Policy \<Rightarrow> int32 option" where
  "V1alpha2_GetTimeoutSeconds (AP2 r) = V1alpha2_AdmissionPolicy_GetTimeoutSeconds r"
| "V1alpha2_GetTimeoutSeconds (CAP2 r) = V1alpha2_ClusterAdmissionPolicy_GetTimeoutSeconds r"

primrec V1alpha2_GetPolicyServer :: "V1alpha2_Policy \<Rightarrow> string" where
  "V1alpha2_GetPolicyServer (AP2 r) = V1alpha2_AdmissionPolicy_GetPolicyServer r"
| "V1alpha2_GetPolicyServer (CAP2 r) = V1alpha2_ClusterAdmissionPolicy_GetPolicyServer r"

primrec V1alpha2_GetStatus :: "V1alpha2_Policy \<Rightarrow> V1alpha2_PolicyStatus" where
  "V1alpha2_GetStatus (AP2 r) = V1alpha2_AdmissionPolicy_GetStatus r"
| "V1alpha2_GetStatus (CAP2 r) = V1alpha2_ClusterAdmissionPolicy_GetStatus r"

primrec V1alpha2_GetObjectMeta :: "V1alpha2_Policy \<Rightarrow> ObjectMeta" where
  "V1alpha2_GetObjectMeta (AP2 r) = V1alpha2_AdmissionPolicy_GetObjectMeta r"
| "V1alpha2_GetObjectMeta (CAP2 r) = V1alpha2_ClusterAdmissionPolicy_GetObjectMeta r"

primrec V1alpha2_GetNamespaceSelector :: "V1alpha2_Policy \<Rightarrow> LabelSelector option" where
  "V1alpha2_GetNamespaceSelector (AP2 r) = V1alpha2_AdmissionPolicy_GetNamespaceSelector r"
| "V1alpha2_GetNamespaceSelector (CAP2 r) = V1alpha2_ClusterAdmissionPolicy_GetNamespaceSelector r"

primrec V1alpha2_GetUniqueName :: "V1alpha2_Policy \<Rightarrow> string" where
  "V1alpha2_GetUniqueName (AP2 r) = V1alpha2_AdmissionPolicy_GetUniqueName r"
| "V1alpha2_GetUniqueName (CAP2 r) = V1alpha2_ClusterAdmissionPolicy_GetUniqueName r"

section \<open>Reading as v1\<close>

definition same_spec :: "V1alpha2_PolicySpec \<Rightarrow> PolicySpec \<Rightarrow> bool" where
  "same_spec a b \<longleftrightarrow> spec_PolicyServer b = a2spec_PolicyServer a \<and> spec_Module b = a2spec_Module a \<and> spec_Mode b = a2spec_Mode a \<and>
     spec_Settings b = a2spec_Settings a \<and> spec_Rules b = a2spec_Rules a \<and> spec_FailurePolicy b = a2spec_FailurePolicy a \<and>
     spec_Mutating b = a2spec_Mutating a \<and> spec_MatchPolicy b = a2spec_MatchPolicy a \<and> spec_ObjectSelector b = a2spec_ObjectSelector a \<and>
     spec_SideEffects b = a2spec_SideEffects a \<and> spec_TimeoutSeconds b = a2spec_TimeoutSeconds a \<and> spec_MatchConditions b = []"

definition readStatus :: "V1alpha2_PolicyStatus \<Rightarrow> PolicyStatus" where
  "readStatus s = \<lparr>st_PolicyStatus = a2st_PolicyStatus s, st_PolicyMode = a2st_PolicyMode s, st_Conditions = a2st_Conditions s\<rparr>"

text \<open>
  The conversion of the API server for a resource definition with the strategy \<open>None\<close>: only the field
  \<open>apiVersion\<close> changes. A field that the old version lacks and for which the schema of \<open>v1\<close> has no default is
  empty; nothing is assumed of the others.
\<close>

locale none_conversion =
  fixes conv :: "V1alpha2_Policy \<Rightarrow> Policy" and convServer :: "V1alpha2_PolicyServer \<Rightarrow> PolicyServer"
  assumes conv_AP: "\<exists>r. conv (AP2 x) = AP r \<and> ap_Meta r = a2ap_Meta x \<and> same_spec (a2aps_PolicySpec (a2ap_Spec x)) (aps_PolicySpec (ap_Spec r)) \<and>
      ap_Status r = readStatus (a2ap_Status x)"
    and conv_CAP: "\<exists>r. conv (CAP2 y) = CAP r \<and> cap_Meta r = a2cap_Meta y \<and> same_spec (a2caps_PolicySpec (a2cap_Spec y)) (caps_PolicySpec (cap_Spec r)) \<and>
      caps_NamespaceSelector (cap_Spec r) = a2caps_NamespaceSelector (a2cap_Spec y) \<and> cap_Status r = readStatus (a2cap_Status y)"
    and conv_server_meta: "ps_Meta (convServer s) = a2ps_Meta s"
begin

lemma conv_cases:
  obtains (ap) x r where "q = AP2 x" "conv (AP2 x) = AP r" "ap_Meta r = a2ap_Meta x"
      "same_spec (a2aps_PolicySpec (a2ap_Spec x)) (aps_PolicySpec (ap_Spec r))" "ap_Status r = readStatus (a2ap_Status x)"
  | (cap) y r where "q = CAP2 y" "conv (CAP2 y) = CAP r" "cap_Meta r = a2cap_Meta y"
      "same_spec (a2caps_PolicySpec (a2cap_Spec y)) (caps_PolicySpec (cap_Spec r))"
      "caps_NamespaceSelector (cap_Spec r) = a2caps_NamespaceSelector (a2cap_Spec y)" "cap_Status r = readStatus (a2cap_Status y)"
  using conv_AP conv_CAP by (cases q) blast+

lemma getters:
  "GetUniqueName (conv q) = V1alpha2_GetUniqueName q" "GetPolicyServer (conv q) = V1alpha2_GetPolicyServer q"
  "GetModule (conv q) = V1alpha2_GetModule q" "GetPolicyMode (conv q) = V1alpha2_GetPolicyMode q"
  "GetSettings (conv q) = V1alpha2_GetSettings q" "IsMutating (conv q) = V1alpha2_IsMutating q"
  "GetRules (conv q) = V1alpha2_GetRules q" "GetFailurePolicy (conv q) = V1alpha2_GetFailurePolicy q"
  "GetMatchPolicy (conv q) = V1alpha2_GetMatchPolicy q" "GetObjectSelector (conv q) = V1alpha2_GetObjectSelector q"
  "GetSideEffects (conv q) = V1alpha2_GetSideEffects q" "GetTimeoutSeconds (conv q) = V1alpha2_GetTimeoutSeconds q"
  "GetNamespaceSelector (conv q) = V1alpha2_GetNamespaceSelector q" "GetObjectMeta (conv q) = V1alpha2_GetObjectMeta q"
  "GetMatchConditions (conv q) = []" "GetStatus (conv q) = readStatus (V1alpha2_GetStatus q)"
  by (rule conv_cases [of q]; simp add: same_spec_def getter_simps namespacedRules_def namespaceNameSelector_def)+

lemma kind: "isNamespacedKind (conv q) \<longleftrightarrow> (\<exists>x. q = AP2 x)"
  by (rule conv_cases [of q]) simp_all

lemma server_names: "NameWithPrefix (convServer s) = V1alpha2_NameWithPrefix s" "AppLabel (convServer s) = V1alpha2_AppLabel s"
  by (simp_all add: NameWithPrefix_def AppLabel_def V1alpha2_NameWithPrefix_def V1alpha2_AppLabel_def conv_server_meta)

text \<open>The webhook of a converted policy, by the methods of the version in which it was submitted.\<close>

lemma webhook:
  fixes r :: "'w policySubReconciler"
  defines "h q s secret \<equiv> policyWebhook r (conv q) secret (NameWithPrefix (convServer s))"
  shows "wh_Rules (h q s secret) = V1alpha2_GetRules q \<and> wh_FailurePolicy (h q s secret) = V1alpha2_GetFailurePolicy q \<and>
    wh_MatchPolicy (h q s secret) = V1alpha2_GetMatchPolicy q \<and> wh_ObjectSelector (h q s secret) = V1alpha2_GetObjectSelector q \<and>
    wh_TimeoutSeconds (h q s secret) = V1alpha2_GetTimeoutSeconds q \<and> wh_MatchConditions (h q s secret) = [] \<and>
    wh_SideEffects (h q s secret) = (case V1alpha2_GetSideEffects q of None \<Rightarrow> Some ''None'' | Some e \<Rightarrow> Some e) \<and>
    wh_Name (h q s secret) = V1alpha2_GetUniqueName q @ ''.kubewarden.admission'' \<and>
    map_option sr_Name (wcc_Service (wh_ClientConfig (h q s secret))) = Some (V1alpha2_NameWithPrefix s) \<and>
    (case q of AP2 _ \<Rightarrow> wh_NamespaceSelector (h q s secret) = V1alpha2_GetNamespaceSelector q | CAP2 _ \<Rightarrow>
       (\<forall>sel x. V1alpha2_GetNamespaceSelector q = Some sel \<longrightarrow> x \<in> set (ls_MatchExpressions sel) \<longrightarrow>
         (\<exists>sel'. wh_NamespaceSelector (h q s secret) = Some sel' \<and> x \<in> set (ls_MatchExpressions sel'))))"
  by (cases q) (auto simp: h_def policyWebhook_def Let_def namespaceSelector_def kind getters server_names
      simp del: V1alpha2_GetNamespaceSelector.simps split: option.split)

text \<open>The entry in the ConfigMap of the policy server.\<close>

lemma entry:
  "pce_Module (configEntry (conv q)) = V1alpha2_GetModule q" "pce_PolicyMode (configEntry (conv q)) = V1alpha2_GetPolicyMode q"
  "pce_Settings (configEntry (conv q)) = V1alpha2_GetSettings q" "pce_AllowedToMutate (configEntry (conv q)) = V1alpha2_IsMutating q"
  by (simp_all add: configEntry_fields getters)

lemma status_commutes:
  "GetStatus (conv (V1alpha2_SetStatus s q)) = GetStatus (SetStatus s (conv q))"
  "GetStatus (conv (V1alpha2_SetPolicyModeStatus m q)) = GetStatus (SetPolicyModeStatus m (conv q))"
  by (cases q; simp add: getters readStatus_def getter_simps)+

end

text \<open>
  A conversion with these laws. The schema of \<open>v1\<close> defaults \<open>backgroundAudit\<close> to true; it has no
  default for the other fields that the old version lacks, and the fields of both versions have the same defaults.
\<close>

definition readSpec :: "V1alpha2_PolicySpec \<Rightarrow> PolicySpec" where
  "readSpec a = \<lparr>spec_PolicyServer = a2spec_PolicyServer a, spec_Mode = a2spec_Mode a, spec_Module = a2spec_Module a,
     spec_Settings = a2spec_Settings a, spec_Rules = a2spec_Rules a, spec_FailurePolicy = a2spec_FailurePolicy a,
     spec_Mutating = a2spec_Mutating a, spec_BackgroundAudit = True, spec_MatchPolicy = a2spec_MatchPolicy a, spec_MatchConditions = [],
     spec_ObjectSelector = a2spec_ObjectSelector a, spec_SideEffects = a2spec_SideEffects a, spec_TimeoutSeconds = a2spec_TimeoutSeconds a\<rparr>"

primrec readPolicy :: "V1alpha2_Policy \<Rightarrow> Policy" where
  "readPolicy (AP2 x) = AP \<lparr>ap_Meta = a2ap_Meta x, ap_Spec = \<lparr>aps_PolicySpec = readSpec (a2aps_PolicySpec (a2ap_Spec x))\<rparr>,
     ap_Status = readStatus (a2ap_Status x)\<rparr>"
| "readPolicy (CAP2 y) = CAP \<lparr>cap_Meta = a2cap_Meta y, cap_Spec = \<lparr>caps_PolicySpec = readSpec (a2caps_PolicySpec (a2cap_Spec y)),
     caps_NamespaceSelector = a2caps_NamespaceSelector (a2cap_Spec y), caps_ContextAwareResources = []\<rparr>, cap_Status = readStatus (a2cap_Status y)\<rparr>"

definition readServer :: "V1alpha2_PolicyServer \<Rightarrow> PolicyServer" where
  "readServer s = (let spec = a2ps_Spec s in
     \<lparr>ps_Meta = a2ps_Meta s,
      ps_Spec = \<lparr>pss_Image = a2pss_Image spec, pss_Replicas = a2pss_Replicas spec, pss_MinAvailable = None, pss_MaxUnavailable = None,
        pss_Annotations = a2pss_Annotations spec, pss_Env = a2pss_Env spec, pss_ServiceAccountName = a2pss_ServiceAccountName spec,
        pss_ImagePullSecret = a2pss_ImagePullSecret spec, pss_InsecureSources = a2pss_InsecureSources spec,
        pss_SourceAuthorities = a2pss_SourceAuthorities spec, pss_VerificationConfig = a2pss_VerificationConfig spec,
        pss_SecurityContexts = \<lparr>pssec_Container = None, pssec_Pod = None\<rparr>, pss_Affinity = JObj [], pss_Limits = [], pss_Requests = [],
        pss_Tolerations = []\<rparr>,
      ps_Status = \<lparr>psst_Conditions = a2psst_Conditions (a2ps_Status s)\<rparr>\<rparr>)"

interpretation read_v1: none_conversion readPolicy readServer
  by unfold_locales (simp_all add: same_spec_def readSpec_def readServer_def Let_def)

section \<open>Properties\<close>


definition sampleAlpha :: V1alpha2_Policy where
  "sampleAlpha = AP2 \<lparr>a2ap_Meta = namedMeta ''apps'' ''p'', a2ap_Spec = \<lparr>a2aps_PolicySpec =
     \<lparr>a2spec_PolicyServer = ''default'', a2spec_Module = ''m'', a2spec_Mode = ''protect'', a2spec_Settings = None, a2spec_Rules = [sampleRule],
      a2spec_FailurePolicy = None, a2spec_Mutating = False, a2spec_MatchPolicy = None, a2spec_ObjectSelector = None, a2spec_SideEffects = None,
      a2spec_TimeoutSeconds = Some 10\<rparr>\<rparr>,
     a2ap_Status = \<lparr>a2st_PolicyStatus = '''', a2st_PolicyMode = '''', a2st_Conditions = []\<rparr>\<rparr>"


end
