(* ===== verification/Factories.thy ===== *)
theory Factories
  imports PolicyServer_Reconciler Policy_Reconciler PolicyServer_Webhook
begin

text \<open>
  \<open>api/policies/v1/factories.go\<close>: the builders that the tests of the program use for their objects. A
  method \<open>WithX\<close> returns the updated builder. Random numbers come from \<open>rand.Intn\<close> and the environment from
  \<open>os.LookupEnv\<close>, both parameters here.
\<close>

named_theorems factory_simps \<open>the setters of the factories\<close>

section \<open>Names\<close>

definition integrationTestsFinalizer :: string where
  "integrationTestsFinalizer = ''integration-tests-safety-net-finalizer''"

definition defaultKubewardenRepository :: string where
  "defaultKubewardenRepository = ''ghcr.io/kubewarden/policy-server''"

definition maxNameSuffixLength :: nat where
  "maxNameSuffixLength = 8"

definition letterRunes :: string where
  "letterRunes = ''abcdefghijklmnopqrstuvwxyz1234567890''"

text \<open>\<open>intn n\<close> is \<open>rand.Intn(n)\<close>, which moves the random source on.\<close>

fun randStringRunes :: "(nat \<Rightarrow> ('w, nat) state) \<Rightarrow> nat \<Rightarrow> ('w, string) state" where
  "randStringRunes intn 0 = State_Monad.return []"
| "randStringRunes intn (Suc n) = State_Monad.bind (intn (length letterRunes))
     (\<lambda>i. State_Monad.bind (randStringRunes intn n) (\<lambda>s. State_Monad.return (letterRunes ! i # s)))"

definition newName :: "(nat \<Rightarrow> ('w, nat) state) \<Rightarrow> string \<Rightarrow> ('w, string) state" where
  "newName intn pre = State_Monad.bind (randStringRunes intn maxNameSuffixLength)
     (\<lambda>s. State_Monad.return (pre @ ''-'' @ s))"

definition policyServerRepository :: "(string \<Rightarrow> string option) \<Rightarrow> string" where
  "policyServerRepository LookupEnv =
     (case LookupEnv ''POLICY_SERVER_REPOSITORY'' of None \<Rightarrow> defaultKubewardenRepository | Some repository \<Rightarrow> repository)"

definition policyServerVersion :: "(string \<Rightarrow> string option) \<Rightarrow> string" where
  "policyServerVersion LookupEnv = (case LookupEnv ''POLICY_SERVER_VERSION'' of None \<Rightarrow> ''latest'' | Some version \<Rightarrow> version)"

text \<open>The rules, match conditions and finalizers that all the factories write out.\<close>

abbreviation factoryRules :: "RuleWithOperations list" where
  "factoryRules \<equiv> [\<lparr>rule_Operations = [''CREATE'', ''UPDATE''], rule_APIGroups = [''''], rule_APIVersions = [''v1''],
     rule_Resources = [''Pods''], rule_Scope = None\<rparr>]"

abbreviation factoryMatchConds :: "MatchCondition list" where
  "factoryMatchConds \<equiv> [\<lparr>mc_Name = ''noop'', mc_Expression = ''true''\<rparr>]"

abbreviation factoryMeta :: "string \<Rightarrow> string \<Rightarrow> ObjectMeta" where
  "factoryMeta namespace name \<equiv> emptyMeta\<lparr>om_Name := name, om_Namespace := namespace,
     om_Finalizers := [KubewardenFinalizer, integrationTestsFinalizer]\<rparr>"

abbreviation podPrivileged :: string where
  "podPrivileged \<equiv> ''registry://ghcr.io/kubewarden/tests/pod-privileged:v0.2.5''"

section \<open>AdmissionPolicyFactory\<close>

record AdmissionPolicyFactory =
  apf_name :: string
  apf_namespace :: string
  apf_policyServer :: string
  apf_mutating :: bool
  apf_rules :: "RuleWithOperations list"
  apf_module :: string
  apf_matchConds :: "MatchCondition list"
  apf_mode :: string

definition NewAdmissionPolicyFactory :: "(nat \<Rightarrow> ('w, nat) state) \<Rightarrow> ('w, AdmissionPolicyFactory) state" where
  "NewAdmissionPolicyFactory intn = State_Monad.bind (newName intn ''admission-policy'') (\<lambda>name. State_Monad.return
     \<lparr>apf_name = name, apf_namespace = ''default'', apf_policyServer = '''', apf_mutating = False, apf_rules = factoryRules, apf_module = podPrivileged, apf_matchConds = factoryMatchConds, apf_mode = ''protect''\<rparr>)"

definition AdmissionPolicyFactory_WithName :: "string \<Rightarrow> AdmissionPolicyFactory \<Rightarrow> AdmissionPolicyFactory" where [factory_simps]:
  "AdmissionPolicyFactory_WithName name f = f\<lparr>apf_name := name\<rparr>"

definition AdmissionPolicyFactory_WithNamespace :: "string \<Rightarrow> AdmissionPolicyFactory \<Rightarrow> AdmissionPolicyFactory" where [factory_simps]:
  "AdmissionPolicyFactory_WithNamespace namespace f = f\<lparr>apf_namespace := namespace\<rparr>"

definition AdmissionPolicyFactory_WithPolicyServer :: "string \<Rightarrow> AdmissionPolicyFactory \<Rightarrow> AdmissionPolicyFactory" where [factory_simps]:
  "AdmissionPolicyFactory_WithPolicyServer policyServer f = f\<lparr>apf_policyServer := policyServer\<rparr>"

definition AdmissionPolicyFactory_WithMutating :: "bool \<Rightarrow> AdmissionPolicyFactory \<Rightarrow> AdmissionPolicyFactory" where [factory_simps]:
  "AdmissionPolicyFactory_WithMutating mutating f = f\<lparr>apf_mutating := mutating\<rparr>"

definition AdmissionPolicyFactory_WithRules :: "RuleWithOperations list \<Rightarrow> AdmissionPolicyFactory \<Rightarrow> AdmissionPolicyFactory" where [factory_simps]:
  "AdmissionPolicyFactory_WithRules rules f = f\<lparr>apf_rules := rules\<rparr>"

definition AdmissionPolicyFactory_WithMatchConditions :: "MatchCondition list \<Rightarrow> AdmissionPolicyFactory \<Rightarrow> AdmissionPolicyFactory" where [factory_simps]:
  "AdmissionPolicyFactory_WithMatchConditions matchConditions f = f\<lparr>apf_matchConds := matchConditions\<rparr>"

definition AdmissionPolicyFactory_WithMode :: "string \<Rightarrow> AdmissionPolicyFactory \<Rightarrow> AdmissionPolicyFactory" where [factory_simps]:
  "AdmissionPolicyFactory_WithMode mode f = f\<lparr>apf_mode := mode\<rparr>"

definition AdmissionPolicyFactory_Build :: "AdmissionPolicyFactory \<Rightarrow> AdmissionPolicy" where
  "AdmissionPolicyFactory_Build f =
     \<lparr>ap_Meta = factoryMeta (apf_namespace f) (apf_name f), ap_Spec = \<lparr>aps_PolicySpec =
      \<lparr>spec_PolicyServer = apf_policyServer f, spec_Mode = apf_mode f, spec_Module = apf_module f, spec_Settings = None, spec_Rules = apf_rules f,
       spec_FailurePolicy = None, spec_Mutating = apf_mutating f, spec_BackgroundAudit = False, spec_MatchPolicy = None,
       spec_MatchConditions = apf_matchConds f, spec_ObjectSelector = None, spec_SideEffects = None, spec_TimeoutSeconds = None\<rparr>\<rparr>,
      ap_Status = emptyPolicyStatus\<rparr>"

section \<open>ClusterAdmissionPolicyFactory\<close>

record ClusterAdmissionPolicyFactory =
  capf_name :: string
  capf_policyServer :: string
  capf_mutating :: bool
  capf_rules :: "RuleWithOperations list"
  capf_module :: string
  capf_contextAwareResources :: "ContextAwareResource list"
  capf_matchConds :: "MatchCondition list"
  capf_mode :: string

definition NewClusterAdmissionPolicyFactory :: "(nat \<Rightarrow> ('w, nat) state) \<Rightarrow> ('w, ClusterAdmissionPolicyFactory) state" where
  "NewClusterAdmissionPolicyFactory intn = State_Monad.bind (newName intn ''cluster-admission'') (\<lambda>name. State_Monad.return
     \<lparr>capf_name = name, capf_policyServer = '''', capf_mutating = False, capf_rules = factoryRules, capf_module = podPrivileged, capf_contextAwareResources = [], capf_matchConds = factoryMatchConds, capf_mode = ''protect''\<rparr>)"

definition ClusterAdmissionPolicyFactory_WithName :: "string \<Rightarrow> ClusterAdmissionPolicyFactory \<Rightarrow> ClusterAdmissionPolicyFactory" where [factory_simps]:
  "ClusterAdmissionPolicyFactory_WithName name f = f\<lparr>capf_name := name\<rparr>"

definition ClusterAdmissionPolicyFactory_WithPolicyServer :: "string \<Rightarrow> ClusterAdmissionPolicyFactory \<Rightarrow> ClusterAdmissionPolicyFactory" where [factory_simps]:
  "ClusterAdmissionPolicyFactory_WithPolicyServer policyServer f = f\<lparr>capf_policyServer := policyServer\<rparr>"

definition ClusterAdmissionPolicyFactory_WithMutating :: "bool \<Rightarrow> ClusterAdmissionPolicyFactory \<Rightarrow> ClusterAdmissionPolicyFactory" where [factory_simps]:
  "ClusterAdmissionPolicyFactory_WithMutating mutating f = f\<lparr>capf_mutating := mutating\<rparr>"

definition ClusterAdmissionPolicyFactory_WithContextAwareResources :: "ContextAwareResource list \<Rightarrow> ClusterAdmissionPolicyFactory \<Rightarrow> ClusterAdmissionPolicyFactory" where [factory_simps]:
  "ClusterAdmissionPolicyFactory_WithContextAwareResources resources f = f\<lparr>capf_contextAwareResources := resources\<rparr>"

definition ClusterAdmissionPolicyFactory_WithRules :: "RuleWithOperations list \<Rightarrow> ClusterAdmissionPolicyFactory \<Rightarrow> ClusterAdmissionPolicyFactory" where [factory_simps]:
  "ClusterAdmissionPolicyFactory_WithRules rules f = f\<lparr>capf_rules := rules\<rparr>"

definition ClusterAdmissionPolicyFactory_WithMatchConditions :: "MatchCondition list \<Rightarrow> ClusterAdmissionPolicyFactory \<Rightarrow> ClusterAdmissionPolicyFactory" where [factory_simps]:
  "ClusterAdmissionPolicyFactory_WithMatchConditions matchConditions f = f\<lparr>capf_matchConds := matchConditions\<rparr>"

definition ClusterAdmissionPolicyFactory_WithMode :: "string \<Rightarrow> ClusterAdmissionPolicyFactory \<Rightarrow> ClusterAdmissionPolicyFactory" where [factory_simps]:
  "ClusterAdmissionPolicyFactory_WithMode mode f = f\<lparr>capf_mode := mode\<rparr>"

definition ClusterAdmissionPolicyFactory_Build :: "ClusterAdmissionPolicyFactory \<Rightarrow> ClusterAdmissionPolicy" where
  "ClusterAdmissionPolicyFactory_Build f =
     \<lparr>cap_Meta = factoryMeta [] (capf_name f), cap_Spec = \<lparr>caps_PolicySpec =
      \<lparr>spec_PolicyServer = capf_policyServer f, spec_Mode = capf_mode f, spec_Module = capf_module f, spec_Settings = None, spec_Rules = capf_rules f,
       spec_FailurePolicy = None, spec_Mutating = capf_mutating f, spec_BackgroundAudit = False, spec_MatchPolicy = None,
       spec_MatchConditions = capf_matchConds f, spec_ObjectSelector = None, spec_SideEffects = None, spec_TimeoutSeconds = None\<rparr>,
      caps_NamespaceSelector = None, caps_ContextAwareResources = capf_contextAwareResources f\<rparr>,
      cap_Status = emptyPolicyStatus\<rparr>"

section \<open>AdmissionPolicyGroupFactory\<close>

record AdmissionPolicyGroupFactory =
  apgf_name :: string
  apgf_namespace :: string
  apgf_policyServer :: string
  apgf_rules :: "RuleWithOperations list"
  apgf_expression :: string
  apgf_policyMembers :: "PolicyGroupMember gomap"
  apgf_matchConds :: "MatchCondition list"
  apgf_mode :: string

definition NewAdmissionPolicyGroupFactory :: "(nat \<Rightarrow> ('w, nat) state) \<Rightarrow> ('w, AdmissionPolicyGroupFactory) state" where
  "NewAdmissionPolicyGroupFactory intn = State_Monad.bind (newName intn ''admissing-policy-group'') (\<lambda>name. State_Monad.return
     \<lparr>apgf_name = name, apgf_namespace = ''default'', apgf_policyServer = '''', apgf_rules = factoryRules, apgf_expression = ''pod_privileged()'', apgf_policyMembers = [(''pod_privileged'', \<lparr>pgm_Module = podPrivileged, pgm_Settings = None\<rparr>)], apgf_matchConds = factoryMatchConds, apgf_mode = ''protect''\<rparr>)"

definition AdmissionPolicyGroupFactory_WithName :: "string \<Rightarrow> AdmissionPolicyGroupFactory \<Rightarrow> AdmissionPolicyGroupFactory" where [factory_simps]:
  "AdmissionPolicyGroupFactory_WithName name f = f\<lparr>apgf_name := name\<rparr>"

definition AdmissionPolicyGroupFactory_WithNamespace :: "string \<Rightarrow> AdmissionPolicyGroupFactory \<Rightarrow> AdmissionPolicyGroupFactory" where [factory_simps]:
  "AdmissionPolicyGroupFactory_WithNamespace namespace f = f\<lparr>apgf_namespace := namespace\<rparr>"

definition AdmissionPolicyGroupFactory_WithPolicyServer :: "string \<Rightarrow> AdmissionPolicyGroupFactory \<Rightarrow> AdmissionPolicyGroupFactory" where [factory_simps]:
  "AdmissionPolicyGroupFactory_WithPolicyServer policyServer f = f\<lparr>apgf_policyServer := policyServer\<rparr>"

definition AdmissionPolicyGroupFactory_WithRules :: "RuleWithOperations list \<Rightarrow> AdmissionPolicyGroupFactory \<Rightarrow> AdmissionPolicyGroupFactory" where [factory_simps]:
  "AdmissionPolicyGroupFactory_WithRules rules f = f\<lparr>apgf_rules := rules\<rparr>"

definition AdmissionPolicyGroupFactory_WithMatchConditions :: "MatchCondition list \<Rightarrow> AdmissionPolicyGroupFactory \<Rightarrow> AdmissionPolicyGroupFactory" where [factory_simps]:
  "AdmissionPolicyGroupFactory_WithMatchConditions matchConditions f = f\<lparr>apgf_matchConds := matchConditions\<rparr>"

definition AdmissionPolicyGroupFactory_WithMode :: "string \<Rightarrow> AdmissionPolicyGroupFactory \<Rightarrow> AdmissionPolicyGroupFactory" where [factory_simps]:
  "AdmissionPolicyGroupFactory_WithMode mode f = f\<lparr>apgf_mode := mode\<rparr>"

definition AdmissionPolicyGroupFactory_Build :: "AdmissionPolicyGroupFactory \<Rightarrow> AdmissionPolicyGroup" where
  "AdmissionPolicyGroupFactory_Build f =
     \<lparr>apg_Meta = factoryMeta (apgf_namespace f) (apgf_name f), apg_Spec = \<lparr>apgs_PolicyGroupSpec = \<lparr>pgs_GroupSpec =
      \<lparr>gspec_PolicyServer = apgf_policyServer f, gspec_Mode = apgf_mode f, gspec_Rules = apgf_rules f, gspec_FailurePolicy = None,
       gspec_BackgroundAudit = False, gspec_MatchPolicy = None, gspec_MatchConditions = apgf_matchConds f, gspec_ObjectSelector = None,
       gspec_SideEffects = None, gspec_TimeoutSeconds = None, gspec_Expression = apgf_expression f, gspec_Message = []\<rparr>,
      pgs_Policies = apgf_policyMembers f\<rparr>\<rparr>,
      apg_Status = emptyPolicyStatus\<rparr>"

section \<open>ClusterAdmissionPolicyGroupFactory\<close>

record ClusterAdmissionPolicyGroupFactory =
  capgf_name :: string
  capgf_policyServer :: string
  capgf_rules :: "RuleWithOperations list"
  capgf_expression :: string
  capgf_policyMembers :: PolicyGroupMembersWithContext
  capgf_matchConds :: "MatchCondition list"
  capgf_mode :: string

definition NewClusterAdmissionPolicyGroupFactory :: "(nat \<Rightarrow> ('w, nat) state) \<Rightarrow> ('w, ClusterAdmissionPolicyGroupFactory) state" where
  "NewClusterAdmissionPolicyGroupFactory intn = State_Monad.bind (newName intn ''cluster-admission-policy-group'') (\<lambda>name. State_Monad.return
     \<lparr>capgf_name = name, capgf_policyServer = '''', capgf_rules = factoryRules, capgf_expression = ''pod_privileged() && user_group_psp()'', capgf_policyMembers = [(''pod_privileged'', \<lparr>pgmc_Member = \<lparr>pgm_Module = podPrivileged, pgm_Settings = None\<rparr>, pgmc_ContextAwareResources = []\<rparr>),
       (''user_group_psp'', \<lparr>pgmc_Member = \<lparr>pgm_Module = ''registry://ghcr.io/kubewarden/tests/user-group-psp:v0.4.9'', pgm_Settings = None\<rparr>, pgmc_ContextAwareResources = []\<rparr>)], capgf_matchConds = factoryMatchConds, capgf_mode = ''protect''\<rparr>)"

definition ClusterAdmissionPolicyGroupFactory_WithName :: "string \<Rightarrow> ClusterAdmissionPolicyGroupFactory \<Rightarrow> ClusterAdmissionPolicyGroupFactory" where [factory_simps]:
  "ClusterAdmissionPolicyGroupFactory_WithName name f = f\<lparr>capgf_name := name\<rparr>"

definition ClusterAdmissionPolicyGroupFactory_WithPolicyServer :: "string \<Rightarrow> ClusterAdmissionPolicyGroupFactory \<Rightarrow> ClusterAdmissionPolicyGroupFactory" where [factory_simps]:
  "ClusterAdmissionPolicyGroupFactory_WithPolicyServer policyServer f = f\<lparr>capgf_policyServer := policyServer\<rparr>"

definition ClusterAdmissionPolicyGroupFactory_WithMembers :: "PolicyGroupMembersWithContext \<Rightarrow> ClusterAdmissionPolicyGroupFactory \<Rightarrow> ClusterAdmissionPolicyGroupFactory" where [factory_simps]:
  "ClusterAdmissionPolicyGroupFactory_WithMembers members f = f\<lparr>capgf_policyMembers := members\<rparr>"

definition ClusterAdmissionPolicyGroupFactory_WithRules :: "RuleWithOperations list \<Rightarrow> ClusterAdmissionPolicyGroupFactory \<Rightarrow> ClusterAdmissionPolicyGroupFactory" where [factory_simps]:
  "ClusterAdmissionPolicyGroupFactory_WithRules rules f = f\<lparr>capgf_rules := rules\<rparr>"

definition ClusterAdmissionPolicyGroupFactory_WithMatchConditions :: "MatchCondition list \<Rightarrow> ClusterAdmissionPolicyGroupFactory \<Rightarrow> ClusterAdmissionPolicyGroupFactory" where [factory_simps]:
  "ClusterAdmissionPolicyGroupFactory_WithMatchConditions matchConditions f = f\<lparr>capgf_matchConds := matchConditions\<rparr>"

definition ClusterAdmissionPolicyGroupFactory_WithMode :: "string \<Rightarrow> ClusterAdmissionPolicyGroupFactory \<Rightarrow> ClusterAdmissionPolicyGroupFactory" where [factory_simps]:
  "ClusterAdmissionPolicyGroupFactory_WithMode mode f = f\<lparr>capgf_mode := mode\<rparr>"

definition ClusterAdmissionPolicyGroupFactory_Build :: "ClusterAdmissionPolicyGroupFactory \<Rightarrow> ClusterAdmissionPolicyGroup" where
  "ClusterAdmissionPolicyGroupFactory_Build f =
     \<lparr>capg_Meta = factoryMeta [] (capgf_name f), capg_Spec = \<lparr>capgs_ClusterPolicyGroupSpec = \<lparr>cpgs_GroupSpec =
      \<lparr>gspec_PolicyServer = capgf_policyServer f, gspec_Mode = capgf_mode f, gspec_Rules = capgf_rules f, gspec_FailurePolicy = None,
       gspec_BackgroundAudit = False, gspec_MatchPolicy = None, gspec_MatchConditions = capgf_matchConds f, gspec_ObjectSelector = None,
       gspec_SideEffects = None, gspec_TimeoutSeconds = None, gspec_Expression = capgf_expression f, gspec_Message = []\<rparr>,
      cpgs_Policies = capgf_policyMembers f\<rparr>, capgs_NamespaceSelector = None\<rparr>,
      capg_Status = emptyPolicyStatus\<rparr>"

section \<open>PolicyServerBuilder\<close>

record PolicyServerBuilder =
  psb_name :: string
  psb_minAvailable :: "IntOrString option"
  psb_maxUnavailable :: "IntOrString option"
  psb_imagePullSecret :: string
  psb_limits :: ResourceList
  psb_requests :: ResourceList

definition NewPolicyServerFactory :: "(nat \<Rightarrow> ('w, nat) state) \<Rightarrow> ('w, PolicyServerBuilder) state" where
  "NewPolicyServerFactory intn = State_Monad.bind (newName intn ''policy-server'') (\<lambda>name. State_Monad.return
     \<lparr>psb_name = name, psb_minAvailable = None, psb_maxUnavailable = None, psb_imagePullSecret = '''', psb_limits = [], psb_requests = []\<rparr>)"

definition PolicyServerBuilder_WithName :: "string \<Rightarrow> PolicyServerBuilder \<Rightarrow> PolicyServerBuilder" where [factory_simps]:
  "PolicyServerBuilder_WithName name f = f\<lparr>psb_name := name\<rparr>"

definition PolicyServerBuilder_WithMinAvailable :: "IntOrString option \<Rightarrow> PolicyServerBuilder \<Rightarrow> PolicyServerBuilder" where [factory_simps]:
  "PolicyServerBuilder_WithMinAvailable minAvailable f = f\<lparr>psb_minAvailable := minAvailable\<rparr>"

definition PolicyServerBuilder_WithMaxUnavailable :: "IntOrString option \<Rightarrow> PolicyServerBuilder \<Rightarrow> PolicyServerBuilder" where [factory_simps]:
  "PolicyServerBuilder_WithMaxUnavailable maxUnavailable f = f\<lparr>psb_maxUnavailable := maxUnavailable\<rparr>"

definition PolicyServerBuilder_WithImagePullSecret :: "string \<Rightarrow> PolicyServerBuilder \<Rightarrow> PolicyServerBuilder" where [factory_simps]:
  "PolicyServerBuilder_WithImagePullSecret secret f = f\<lparr>psb_imagePullSecret := secret\<rparr>"

definition PolicyServerBuilder_WithLimits :: "ResourceList \<Rightarrow> PolicyServerBuilder \<Rightarrow> PolicyServerBuilder" where [factory_simps]:
  "PolicyServerBuilder_WithLimits limits f = f\<lparr>psb_limits := limits\<rparr>"

definition PolicyServerBuilder_WithRequests :: "ResourceList \<Rightarrow> PolicyServerBuilder \<Rightarrow> PolicyServerBuilder" where [factory_simps]:
  "PolicyServerBuilder_WithRequests requests f = f\<lparr>psb_requests := requests\<rparr>"

definition PolicyServerBuilder_Build :: "(string \<Rightarrow> string option) \<Rightarrow> PolicyServerBuilder \<Rightarrow> PolicyServer" where
  "PolicyServerBuilder_Build LookupEnv f =
     \<lparr>ps_Meta = factoryMeta [] (psb_name f),
      ps_Spec = \<lparr>pss_Image = policyServerRepository LookupEnv @ '':'' @ policyServerVersion LookupEnv, pss_Replicas = 1,
        pss_MinAvailable = psb_minAvailable f, pss_MaxUnavailable = psb_maxUnavailable f, pss_Annotations = [], pss_Env = [],
        pss_ServiceAccountName = [], pss_ImagePullSecret = psb_imagePullSecret f, pss_InsecureSources = [], pss_SourceAuthorities = [],
        pss_VerificationConfig = [], pss_SecurityContexts = \<lparr>pssec_Container = None, pssec_Pod = None\<rparr>, pss_Affinity = JObj [],
        pss_Limits = psb_limits f, pss_Requests = psb_requests f, pss_Tolerations = []\<rparr>,
      ps_Status = \<lparr>psst_Conditions = []\<rparr>\<rparr>"

section \<open>The names\<close>

text \<open>A DNS label of RFC 1123, which Kubernetes requires of most names.\<close>

definition labelChar :: "char \<Rightarrow> bool" where
  "labelChar ch \<longleftrightarrow> ch \<in> set letterRunes"

definition dns_label :: "string \<Rightarrow> bool" where
  "dns_label s \<longleftrightarrow> s \<noteq> [] \<and> length s \<le> 63 \<and> labelChar (hd s) \<and> labelChar (last s) \<and> (\<forall>ch\<in>set s. labelChar ch \<or> ch = CHR ''-'')"

text \<open>The contract of \<open>rand.Intn\<close>: a number below its argument.\<close>

locale random_source =
  fixes intn :: "nat \<Rightarrow> ('w, nat) state"
  assumes intn_less: "0 < n \<Longrightarrow> run_state (intn n) w = (i, w') \<Longrightarrow> i < n"
begin

lemma randStringRunes:
  "run_state (randStringRunes intn n) w = (s, w') \<Longrightarrow> length s = n \<and> set s \<subseteq> set letterRunes"
proof (induction n arbitrary: w s w')
  case (Suc n)
  obtain i w1 where i: "run_state (intn (length letterRunes)) w = (i, w1)" by fastforce
  obtain t w2 where t: "run_state (randStringRunes intn n) w1 = (t, w2)" by fastforce
  have "i < length letterRunes" using intn_less [OF _ i] by (simp add: letterRunes_def)
  moreover have "s = letterRunes ! i # t" using Suc.prems i t by simp
  ultimately show ?case using Suc.IH [OF t] by simp
qed simp

lemma newName:
  assumes "run_state (newName intn pre) w = (name, w')" "pre \<noteq> []" "labelChar (hd pre)" "\<forall>ch\<in>set pre. labelChar ch \<or> ch = CHR ''-''" "length pre \<le> 54"
  shows "dns_label name \<and> length name = length pre + 9"
proof -
  obtain s w1 where s: "run_state (randStringRunes intn 8) w = (s, w1)" by fastforce
  have name: "name = pre @ ''-'' @ s" using assms(1) s by (simp add: newName_def maxNameSuffixLength_def)
  have "length s = 8" "set s \<subseteq> set letterRunes" using randStringRunes [OF s] by simp_all
  moreover from this have "labelChar (last s)" by (metis labelChar_def last_in_set list.size(3) subsetD zero_neq_numeral)
  moreover have "s \<noteq> []" using \<open>length s = 8\<close> by auto
  ultimately show ?thesis using assms(2-) name by (auto simp: dns_label_def labelChar_def)
qed

end

text \<open>A source that counts.\<close>

definition countingIntn :: "nat \<Rightarrow> (nat, nat) state" where
  "countingIntn n = State (\<lambda>w. (w mod n, Suc w))"

interpretation counting: random_source countingIntn
  by unfold_locales (auto simp: countingIntn_def)

lemma prefixes:
  "pre \<in> {''admission-policy'', ''cluster-admission'', ''admissing-policy-group'', ''cluster-admission-policy-group'', ''policy-server''} \<Longrightarrow>
   pre \<noteq> [] \<and> labelChar (hd pre) \<and> (\<forall>ch\<in>set pre. labelChar ch \<or> ch = CHR ''-'') \<and> length pre \<le> 54"
  by (auto simp: labelChar_def letterRunes_def)

lemma fresh_name:
  assumes "random_source intn" "run_state (newName intn pre) w = (name, w')"
    "pre \<in> {''admission-policy'', ''cluster-admission'', ''admissing-policy-group'', ''cluster-admission-policy-group'', ''policy-server''}"
  shows "dns_label name \<and> length name = length pre + 9"
  using random_source.newName [OF assms(1,2)] prefixes [OF assms(3)] by blast

lemma run_new:
  assumes "run_state (State_Monad.bind (newName intn pre) (\<lambda>name. State_Monad.return (mk name))) w = (f, w')"
  obtains name where "run_state (newName intn pre) w = (name, w')" "f = mk name"
  using assms by (cases "run_state (newName intn pre) w") auto

lemmas new_defs = NewAdmissionPolicyFactory_def NewClusterAdmissionPolicyFactory_def NewAdmissionPolicyGroupFactory_def
  NewClusterAdmissionPolicyGroupFactory_def NewPolicyServerFactory_def

lemma build_names:
  "om_Name (ap_Meta (AdmissionPolicyFactory_Build f1)) = apf_name f1"
  "om_Name (cap_Meta (ClusterAdmissionPolicyFactory_Build f2)) = capf_name f2"
  "om_Name (apg_Meta (AdmissionPolicyGroupFactory_Build f3)) = apgf_name f3"
  "om_Name (capg_Meta (ClusterAdmissionPolicyGroupFactory_Build f4)) = capgf_name f4"
  "ps_Name (PolicyServerBuilder_Build env f5) = psb_name f5"
  by (simp_all add: AdmissionPolicyFactory_Build_def ClusterAdmissionPolicyFactory_Build_def AdmissionPolicyGroupFactory_Build_def
      ClusterAdmissionPolicyGroupFactory_Build_def PolicyServerBuilder_Build_def)

section \<open>Properties\<close>



definition compilesFactories :: "validation_lib \<Rightarrow> bool" where
  "compilesFactories lib \<longleftrightarrow>
     lib_CompileCELExpression lib ''true'' = None \<and> lib_IsQualifiedName lib ''noop'' = [] \<and>
     lib_NewCustomEnv lib [''pod_privileged''] (groupOperators lib) = None \<and>
     lib_NewCustomEnv lib [''pod_privileged'', ''user_group_psp''] (groupOperators lib) = None \<and>
     lib_Compile lib [''pod_privileged''] (groupOperators lib) ''pod_privileged()'' = Inr ''bool'' \<and>
     lib_Compile lib [''pod_privileged'', ''user_group_psp''] (groupOperators lib) ''pod_privileged() && user_group_psp()'' = Inr ''bool''"

text \<open>C29.
  The objects of the factories are what a real cluster would admit. With any namespace, policy server, kind of effect and mode,
  a policy or group of a fresh factory passes the validating webhook of its kind, given that the CEL library accepts the
  expressions written in the factories; a policy server passes its own. All carry the finalizer that the
  defaulter would add, and another one that stays when the controllers release the object, so that the tests can look at it.\<close>

theorem factory_objects_admitted:
  assumes source: "random_source intn" and fin: "finalizer_ops (lib_AddFinalizer k) (lib_RemoveFinalizer k)"
    and lib: "compilesFactories lib"
    and new: "run_state (NewAdmissionPolicyFactory intn) w = (ap, w1)" "run_state (NewClusterAdmissionPolicyFactory intn) w = (cap, w2)"
      "run_state (NewAdmissionPolicyGroupFactory intn) w = (apg, w3)" "run_state (NewClusterAdmissionPolicyGroupFactory intn) w = (capg, w4)"
      "run_state (NewPolicyServerFactory intn) w = (ps, w5)"
    and ap': "ap' = AdmissionPolicyFactory_Build (AdmissionPolicyFactory_WithMode mode (AdmissionPolicyFactory_WithMutating mutating
      (AdmissionPolicyFactory_WithPolicyServer server (AdmissionPolicyFactory_WithNamespace ns ap))))"
    and cap': "cap' = ClusterAdmissionPolicyFactory_Build (ClusterAdmissionPolicyFactory_WithMode mode (ClusterAdmissionPolicyFactory_WithMutating mutating
      (ClusterAdmissionPolicyFactory_WithPolicyServer server cap)))"
    and apg': "apg' = AdmissionPolicyGroupFactory_Build (AdmissionPolicyGroupFactory_WithMode mode
      (AdmissionPolicyGroupFactory_WithPolicyServer server (AdmissionPolicyGroupFactory_WithNamespace ns apg)))"
    and capg': "capg' = ClusterAdmissionPolicyGroupFactory_Build (ClusterAdmissionPolicyGroupFactory_WithMode mode
      (ClusterAdmissionPolicyGroupFactory_WithPolicyServer server capg))"
  shows "admissionPolicyValidator_ValidateCreate lib (PolicyObj (AP ap')) = None \<and>
    clusterAdmissionPolicyValidator_ValidateCreate lib (PolicyObj (CAP cap')) = None \<and>
    admissionPolicyGroupValidator_ValidateCreate lib (PolicyObj (APG apg')) = None \<and>
    clusterAdmissionPolicyGroupValidator_ValidateCreate lib (PolicyObj (CAPG capg')) = None \<and>
    run_state (policyServerValidator_ValidateCreate q c dns (PolicyServerObj (PolicyServerBuilder_Build le ps))) x = (None, x) \<and>
    (\<forall>m\<in>{ap_Meta ap', cap_Meta cap', apg_Meta apg', capg_Meta capg', ps_Meta (PolicyServerBuilder_Build le ps)}.
       KubewardenFinalizer \<in> set (om_Finalizers m) \<and> set (om_Finalizers (removeFinalizers k m)) = {integrationTestsFinalizer})"
proof -
  have trim: "TrimSpace ''true'' = ''true''" by code_simp
  have cond: "match_conditions_ok lib factoryMatchConds"
    using lib by (simp add: compilesFactories_def match_conditions_ok_def match_condition_ok_def trim)
  have rule: "rule_ok b \<lparr>rule_Operations = [''CREATE'', ''UPDATE''], rule_APIGroups = g, rule_APIVersions = [''v1''],
     rule_Resources = [''Pods''], rule_Scope = sc\<rparr>" for b g sc
    by (simp add: rule_ok_def reaches_resource_def)
  have names: "member_name_ok ''pod_privileged''" "member_name_ok ''user_group_psp''"
    by (simp_all add: member_name_ok_def idenRegex_MatchString_def celReservedSymbols_def) code_simp+
  note parts = factory_simps getter_simps namespacedRules_def
  note valid = validatePolicyCreate_def validatePolicyGroupCreate_def validatePolicyGroupMembers_Nil validation_Nil
    validatePolicyGroupExpressionField_None groupMembers_def groupExpression_def groupFunctions_def
  have ap: "validatePolicyCreate lib (AP ap') = []"
    using new(1) unfolding new_defs ap' by (elim run_new) (simp add: AdmissionPolicyFactory_Build_def parts valid cond rule)
  have cap: "validatePolicyCreate lib (CAP cap') = []"
    using new(2) unfolding new_defs cap' by (elim run_new) (simp add: ClusterAdmissionPolicyFactory_Build_def parts valid cond rule)
  have apg: "validatePolicyGroupCreate lib (APG apg') = []"
    using new(3) lib unfolding new_defs apg' compilesFactories_def
    by (elim run_new) (simp add: AdmissionPolicyGroupFactory_Build_def parts valid cond rule names)
  have capg: "validatePolicyGroupCreate lib (CAPG capg') = []"
    using new(4) lib unfolding new_defs capg' compilesFactories_def
    by (elim run_new) (simp add: ClusterAdmissionPolicyGroupFactory_Build_def parts valid cond rule names)
  have ps: "run_state (policyServerValidator_validate q c dns (PolicyServerBuilder_Build le ps)) x = (None, x)"
    using new(5) unfolding new_defs validate_admits
    by (elim run_new) (auto simp: PolicyServerBuilder_Build_def validateLimitsAndRequests_def dest!: fresh_name [OF source])
  have fins: "om_Finalizers m = [KubewardenFinalizer, integrationTestsFinalizer]"
    if "m \<in> {ap_Meta ap', cap_Meta cap', apg_Meta apg', capg_Meta capg', ps_Meta (PolicyServerBuilder_Build le ps)}" for m
    using that by (auto simp: ap' cap' apg' capg' AdmissionPolicyFactory_Build_def ClusterAdmissionPolicyFactory_Build_def
        AdmissionPolicyGroupFactory_Build_def ClusterAdmissionPolicyGroupFactory_Build_def PolicyServerBuilder_Build_def)
  have "KubewardenFinalizer \<in> set (om_Finalizers m) \<and> set (om_Finalizers (removeFinalizers k m)) = {integrationTestsFinalizer}"
    if "om_Finalizers m = [KubewardenFinalizer, integrationTestsFinalizer]" for m
    using that by (auto simp: removeFinalizers_def finalizer_ops.set_rem [OF fin] integrationTestsFinalizer_def const_defs)
  with fins ap cap apg capg ps show ?thesis
    by (simp add: admissionPolicyValidator_ValidateCreate_def clusterAdmissionPolicyValidator_ValidateCreate_def
        admissionPolicyGroupValidator_ValidateCreate_def clusterAdmissionPolicyGroupValidator_ValidateCreate_def
        policyServerValidator_ValidateCreate_def)
qed

text \<open>A library that knows calls of members and their conjunctions.\<close>

definition conjunction_lib :: validation_lib where
  "conjunction_lib = acceptAll_lib\<lparr>lib_Compile := (\<lambda>fns ops e.
     if e \<in> set (map (\<lambda>f. f @ ''()'') fns) \<or>
        ''_&&_'' \<in> set ops \<and> e \<in> set (concat (map (\<lambda>f. map (\<lambda>g. f @ ''() && '' @ g @ ''()'') fns) fns))
     then Inr ''bool'' else Inl ''undeclared'')\<rparr>"

theorem factory_objects_admitted_witness:
  "\<exists>f w'. run_state (NewClusterAdmissionPolicyGroupFactory countingIntn) 0 = (f, w') \<and>
     clusterAdmissionPolicyGroupValidator_ValidateCreate conjunction_lib (PolicyObj (CAPG (ClusterAdmissionPolicyGroupFactory_Build
       (ClusterAdmissionPolicyGroupFactory_WithMode ''monitor'' (ClusterAdmissionPolicyGroupFactory_WithPolicyServer ''default'' f))))) = None"
proof -
  obtain ap w1 cap w2 apg w3 capg w4 ps w5 where new:
    "run_state (NewAdmissionPolicyFactory countingIntn) 0 = (ap, w1)" "run_state (NewClusterAdmissionPolicyFactory countingIntn) 0 = (cap, w2)"
    "run_state (NewAdmissionPolicyGroupFactory countingIntn) 0 = (apg, w3)" "run_state (NewClusterAdmissionPolicyGroupFactory countingIntn) 0 = (capg, w4)"
    "run_state (NewPolicyServerFactory countingIntn) 0 = (ps, w5)" by (meson surj_pair)
  have lib: "compilesFactories conjunction_lib"
    by (simp add: compilesFactories_def conjunction_lib_def acceptAll_lib_def groupOperators_def)
  have fin: "finalizer_ops (lib_AddFinalizer refLib) (lib_RemoveFinalizer refLib)"
    by (simp add: refLib_def ref_finalizers.finalizer_ops_axioms)
  note admitted = factory_objects_admitted [OF counting.random_source_axioms fin lib new refl refl refl refl,
      THEN conjunct2, THEN conjunct2, THEN conjunct2, THEN conjunct1]
  show ?thesis by (intro exI conjI, rule new(4), rule admitted)
qed

end
