(* ===== verification/Spec2Isabelle.thy ===== *)
theory Spec2Isabelle
  imports Policy_Webhooks PolicyServer_Webhook Webhook_Scope Server_Objects Cert_Reconciler Feature_Gates Policy_Lifecycle V1alpha2 Factories
begin

text \<open>
  \<^bold>\<open>The Kubewarden controller.\<close>

  The program turns custom resources of a Kubernetes cluster into admission control. A \<open>PolicyServer\<close>
  is served by a Deployment with a Service, a ConfigMap that lists the policies it evaluates, a
  certificate secret and a PodDisruptionBudget. The four kinds of policies (\<open>AdmissionPolicy\<close>,
  \<open>ClusterAdmissionPolicy\<close> and the two groups) are bound to a policy server by name, and each
  becomes a validating or mutating webhook configuration that sends requests to that server. The parts meet in
  the cluster only: the controllers are woken by events, read and write objects through a client, and
  the admission webhooks of the program itself default and validate the custom resources first.

  \<^bold>\<open>Foundations.\<close>
  \<^item> \<open>Kube_Prelude\<close>: Go maps as association lists, Go errors as a datatype, and operations on a
    world (\<open>op\<close>, a state transformer with an error or a value), with \<open>andThen\<close>, \<open>orWrap\<close> and
    \<open>forEach\<close> for the three shapes in which the code handles errors.
  \<^item> \<open>Go_Std\<close>, \<open>Go_Json\<close>, \<open>Go_Marshal\<close>: what the code uses of Go's library: \<open>strings\<close>, \<open>filepath\<close>,
    \<open>strconv\<close>, and \<open>encoding/json\<close> down to the text, with the round trip of printer and parser.
  \<^item> \<open>K8s_Types\<close>, \<open>Policy_Types\<close>, \<open>PolicyServer_Types\<close>, \<open>Constants\<close>: the fields of the API objects that the
    code reads or writes, the types of \<open>api/policies/v1\<close> with their methods (the interface \<open>Policy\<close> is
    a datatype over the four kinds), and \<open>internal/constants\<close>.
  \<^item> \<open>Kube_Client\<close>: the client of controller-runtime as a record of operations over an arbitrary
    world, so that it also covers what other actors do between two calls. What the code relies on
    is stated by locales: \<open>resource_store\<close> and \<open>patch_store\<close> (reading, deleting and
    patching one kind of object), \<open>status_conditions\<close>, \<open>finalizer_ops\<close>, \<open>owner_references\<close>,
    \<open>conflict_retry\<close>. \<open>Ref_Cluster\<close> interprets all of them on an executable cluster with
    injectable faults, which also serves the witnesses.

  \<^bold>\<open>Components.\<close>
  \<^item> \<open>Policy_Validation\<close>, \<open>Policy_Webhooks\<close>, \<open>PolicyServer_Webhook\<close>: \<open>policy_validation.go\<close>,
    \<open>policygroup_validation.go\<close> and the \<open>*_webhook.go\<close> files. The validators are characterised
    by what they accept; the defaulters and validators of the four kinds interpret one contract
    each (\<open>policy_defaulter\<close>, \<open>policy_validator\<close>), and every history of admitted updates keeps
    mode and policy server (\<open>stored\<close>, an inductive relation).
  \<^item> \<open>Policy_Reconciler\<close>, \<open>Webhook_Scope\<close>, \<open>Metrics\<close>: \<open>policy_subreconciler*.go\<close> and the four policy
    controllers: when a policy is active, in which order its deletion takes effect, what its status
    says, and in which namespaces its webhook applies.
  \<^item> \<open>Config_Map\<close>, \<open>Deployment_Spec\<close>, \<open>PolicyServer_Reconciler\<close>, \<open>Server_Objects\<close>:
    \<open>policyserver_controller*.go\<close>: the text of the ConfigMap and its reading, the pod, the
    reconciliation with its conditions, the deletion that waits for the policies, and the
    agreement of the stored objects with each other.
  \<^item> \<open>Certs\<close>, \<open>Cert_Reconciler\<close>: \<open>internal/certs\<close> and \<open>cert_controller.go\<close>: issuing, verification and
    rotation. Cryptography is a parameter (\<open>crypto_lib\<close>) with the laws \<open>x509_laws\<close>; the
    clock is part of it and may advance between two readings.
  \<^item> \<open>Feature_Gates\<close>, \<open>Manager_Setup\<close>, \<open>Program_Start\<close>: \<open>featuregates.go\<close>, the \<open>SetupWithManager\<close>
    methods and \<open>cmd/main.go\<close>: from the flags to the exit status; what is registered with the
    manager (\<open>manager_registry\<close>) when it is started.
  \<^item> \<open>Teardown\<close>: the controllers together. The deletion of a policy server as a sequence of
    reconciliations of all controllers in any order (\<open>runActions\<close>) on a cluster that answers every call
    (\<open>closed_cluster\<close>, interpreted on the reference cluster): the server and its policies do go away.
  \<^item> \<open>Policy_Lifecycle\<close>: an abstract machine of the status of a policy (\<open>advance\<close>), that every
    reconciliation refines (\<open>lifeOf\<close> is the abstraction), and what follows for the whole life of
    a policy (\<open>lifetime\<close>, an inductive relation).
  \<^item> \<open>V1alpha2\<close>: \<open>api/policies/v1alpha2\<close>, the deprecated version of the API, with the conversion of the API server
    as a parameter (\<open>none_conversion\<close>): the controllers enforce what that version describes.
  \<^item> \<open>Factories\<close>: \<open>factories.go\<close>, the builders that the tests use: the objects they build are the ones that the
    webhooks admit.
  \<^item> \<^bold>\<open>This theory\<close>: properties that span several components.

  \<^bold>\<open>Fuel and bounds.\<close> The JSON parser has fuel of one more than the length of its input, and the round
  trip shows that it is enough for every printed tree. The loop of \<open>NewCertPool\<close> has fuel of one more than the length of the
  bundle, and never runs out because \<open>pem.Decode\<close> consumes input, as is proved in \<open>Certs\<close>.
  Ports are 32-bit words; Go's \<open>int\<close> counters here cannot get near their bounds and are integers.
  Durations and instants are seconds.

  \<^bold>\<open>Not modelled.\<close> Log calls; the parsing of command line flags and the registration of Go types in a scheme; the
  texts of errors of libraries. Generated deep copies have no counterpart, since values of the
  model are not shared; \<open>CopyInto\<close>, which only makes one, is left out with them.
\<close>

section \<open>Names that components share\<close>


definition refEnv :: "cluster environment \<Rightarrow> cluster environment" where
  "refEnv env = env\<lparr>env_Lib := refLib, env_Crypto := refCrypto\<rparr>"

definition startFlags :: flags where
  "startFlags = defaultFlags\<lparr>fl_deploymentsNamespace := ''kubewarden''\<rparr>"


text \<open>C32.
  The two writers of the CA bundle disagree. After the rotation has put the new and the old CA into a
  webhook configuration, the next reconciliation of its policy leaves the new one alone, although the secret
  still keeps the old one and the policy server may still serve a certificate signed by it.\<close>

theorem policy_reconcile_drops_old_ca:
  assumes "goget (sec_Data secret) CARootCert = Some new" and "goget (sec_Data secret) OldCARootCert = Some old" and "old \<noteq> ''''"
    and "c = injectCABundle (new @ old) c0" and "wc_Webhooks c0 \<noteq> []"
  shows "caBundles c = {new @ old} \<and> caBundles (setPolicyWebhook r p secret server c) = {new} \<and> new \<noteq> new @ old"
proof -
  have "caBundles c = {new @ old}"
    using assms(4,5) by (cases "wc_Webhooks c0") (auto simp: caBundles_def injectCABundle_def)
  then show ?thesis
    using assms(1,3) by (simp add: caBundles_def setPolicyWebhook_def policyWebhook_def Let_def gostr_def)
qed

theorem policy_reconcile_drops_old_ca_witness:
  "caBundles (setPolicyWebhook refSub (CAP (sampleCAP ''p'')) (caSecretWith ''Ca'' [(OldCARootCert, ''Co'')]) ''policy-server-s''
     (injectCABundle (''Ca'' @ [newline] @ ''Co'') ownWebhook)) = {''Ca'' @ [newline]}"
  using policy_reconcile_drops_old_ca [of "caSecretWith ''Ca'' [(OldCARootCert, ''Co'')]" "''Ca'' @ [newline]" "''Co''", OF _ _ _ refl,
      of ownWebhook refSub "CAP (sampleCAP ''p'')" "''policy-server-s''"]
  by (simp add: caSecretWith_def const_defs ownWebhook_def setPolicyWebhook_def)

end
